(* ===== verification/Prelude.thy ===== *)
theory Prelude
  imports Main "HOL-Library.AList"
begin

text \<open>
  What every component of the development shares: the results of JavaScript operations that may
  throw, the interface of a keyed container (the contract of a plain object used as a dictionary)
  with the container of the model that provides it, and the reachable states of a step relation
  with the proof rule for their invariants.
\<close>

named_theorems res_simps \<open>evaluation of results that may throw\<close>
named_theorems dict_simps \<open>lookups after updates of keyed containers\<close>

section \<open>Results that may throw\<close>

text \<open>
  A thrown exception is the left summand. \<open>TypeError\<close> is what the language throws when a member
  of \<open>null\<close> or \<open>undefined\<close> is read or something that is no function is called, \<open>SyntaxError\<close> is
  what \<open>JSON.parse\<close> throws, and \<open>Thrown\<close> is a value rejected by code outside the repository.
\<close>

datatype js_error = TypeError | SyntaxError | Thrown string

type_synonym 'a res = "js_error + 'a"

fun res_bind :: "'a res \<Rightarrow> ('a \<Rightarrow> 'b res) \<Rightarrow> 'b res" where
  "res_bind (Inl e) f = Inl e"
| "res_bind (Inr x) f = f x"

declare res_bind.simps [res_simps]

lemma res_bind_cong [fundef_cong]:
  assumes "m = m'" and "\<And>x. m' = Inr x \<Longrightarrow> f x = f' x"
  shows "res_bind m f = res_bind m' f'"
  using assms by (cases m') auto

lemma res_bind_eq_Inr [res_simps]:
  "res_bind m f = Inr y \<longleftrightarrow> (\<exists>x. m = Inr x \<and> f x = Inr y)"
  by (cases m) auto

lemma res_bind_eq_Inl:
  "res_bind m f = Inl e \<longleftrightarrow> m = Inl e \<or> (\<exists>x. m = Inr x \<and> f x = Inl e)"
  by (cases m) auto

text \<open>A \<open>try\<close> block whose \<open>catch\<close> gives a fallback value.\<close>

fun res_or :: "'a res \<Rightarrow> 'a \<Rightarrow> 'a" where
  "res_or (Inl e) d = d"
| "res_or (Inr x) d = x"

section \<open>Keyed containers\<close>

text \<open>
  The contract the code relies on whenever it uses a plain object as a dictionary: a key that was
  assigned reads back, a deleted key is gone, other keys are untouched, and the keys listed are
  the keys present.
\<close>

locale keyed_container =
  fixes lookup :: "'m \<Rightarrow> 'k \<Rightarrow> 'v option"
    and put :: "'k \<Rightarrow> 'v \<Rightarrow> 'm \<Rightarrow> 'm"
    and del :: "'k \<Rightarrow> 'm \<Rightarrow> 'm"
    and keys :: "'m \<Rightarrow> 'k list"
    and empty :: "'m"
  assumes lookup_empty: "lookup empty k = None"
    and lookup_put: "lookup (put k v m) k' = (if k' = k then Some v else lookup m k')"
    and lookup_del: "lookup (del k m) k' = (if k' = k then None else lookup m k')"
    and keys_lookup: "k \<in> set (keys m) \<longleftrightarrow> lookup m k \<noteq> None"
begin

lemma lookup_put_same: "lookup (put k v m) k = Some v"
  by (simp add: lookup_put)

lemma lookup_put_other: "k' \<noteq> k \<Longrightarrow> lookup (put k v m) k' = lookup m k'"
  by (simp add: lookup_put)

lemma lookup_del_other: "k' \<noteq> k \<Longrightarrow> lookup (del k m) k' = lookup m k'"
  by (simp add: lookup_del)

lemma keys_put: "set (keys (put k v m)) = insert k (set (keys m))"
  by (auto simp: keys_lookup lookup_put split: if_splits)

lemma keys_del: "set (keys (del k m)) = set (keys m) - {k}"
  by (auto simp: keys_lookup lookup_del split: if_splits)

lemma keys_empty: "k \<notin> set (keys empty)"
  by (simp add: keys_lookup lookup_empty)

lemma lookup_fold_put:
  "lookup (fold (\<lambda>k. put k (f k)) ks m) k' = (if k' \<in> set ks then Some (f k') else lookup m k')"
  by (induction ks arbitrary: m) (auto simp: lookup_put)

end

text \<open>
  The container of the model: the entries of a plain object in insertion order. Assigning an
  existing key keeps its place, a new key is appended, as the language does for names that are
  not array indices. An object has each key once, which \<open>wf_obj\<close> states and every operation
  keeps.
\<close>

type_synonym 'v obj = "(string \<times> 'v) list"

definition olookup :: "'v obj \<Rightarrow> string \<Rightarrow> 'v option" where
  "olookup m k = map_of m k"

definition oput :: "string \<Rightarrow> 'v \<Rightarrow> 'v obj \<Rightarrow> 'v obj" where
  "oput k v m = AList.update k v m"

definition odel :: "string \<Rightarrow> 'v obj \<Rightarrow> 'v obj" where
  "odel k m = AList.delete k m"

definition okeys :: "'v obj \<Rightarrow> string list" where
  "okeys m = map fst m"

definition wf_obj :: "'v obj \<Rightarrow> bool" where
  "wf_obj m \<longleftrightarrow> distinct (map fst m)"

interpretation obj: keyed_container olookup oput odel okeys "[]"
proof unfold_locales
  show "olookup (oput k v m) k' = (if k' = k then Some v else olookup m k')"
    for k k' and v :: 'a and m
    by (simp add: olookup_def oput_def update_conv')
  show "olookup (odel k m) k' = (if k' = k then None else olookup m k')"
    for k k' and m :: "'a obj"
    by (simp add: olookup_def odel_def delete_conv')
  show "k \<in> set (okeys m) \<longleftrightarrow> olookup m k \<noteq> None" for k and m :: "'a obj"
    by (auto simp: olookup_def okeys_def map_of_eq_None_iff dom_map_of_conv_image_fst)
qed (simp add: olookup_def)

lemmas olookup_updates [dict_simps] = obj.lookup_put obj.lookup_del obj.lookup_empty

lemma olookup_Nil [simp]: "olookup [] k = None"
  by (simp add: olookup_def)

lemma olookup_Cons [simp]: "olookup ((a, v) # m) k = (if k = a then Some v else olookup m k)"
  by (simp add: olookup_def)

lemma oput_Nil [simp]: "oput k v [] = [(k, v)]"
  by (simp add: oput_def)

lemma oput_Cons [simp]:
  "oput k v ((a, w) # m) = (if a = k then (k, v) # m else (a, w) # oput k v m)"
  by (simp add: oput_def)

lemma oput_not_Nil [simp]: "oput k v m \<noteq> []"
  by (cases m) (auto simp: oput_def)

lemma wf_obj_Nil [simp]: "wf_obj []"
  by (simp add: wf_obj_def)

lemma wf_obj_oput [simp]: "wf_obj m \<Longrightarrow> wf_obj (oput k v m)"
  by (simp add: wf_obj_def oput_def distinct_update)

lemma wf_obj_odel [simp]: "wf_obj m \<Longrightarrow> wf_obj (odel k m)"
  by (simp add: wf_obj_def odel_def distinct_delete)

lemma wf_obj_filter [simp]: "wf_obj m \<Longrightarrow> wf_obj (filter P m)"
  by (simp add: wf_obj_def distinct_map_filter)

lemma olookup_filter:
  assumes "wf_obj m"
  shows "olookup (filter P m) k =
    (case olookup m k of None \<Rightarrow> None | Some v \<Rightarrow> if P (k, v) then Some v else None)"
  using assms
proof (induction m)
  case (Cons p m)
  obtain a v where p: "p = (a, v)" by (cases p)
  have "olookup (filter P m) a = None" if "a \<notin> fst ` set m"
    using that by (force simp: olookup_def map_of_eq_None_iff)
  with Cons p show ?case by (auto simp: wf_obj_def split: option.splits)
qed simp

lemma olookup_SomeD: "olookup m k = Some v \<Longrightarrow> (k, v) \<in> set m"
  by (simp add: olookup_def map_of_SomeD)

lemma wf_obj_lookup: "wf_obj m \<Longrightarrow> olookup m k = Some v \<longleftrightarrow> (k, v) \<in> set m"
  by (simp add: wf_obj_def olookup_def)

lemma wf_obj_Ball:
  "wf_obj m \<Longrightarrow> (\<forall>(k, v)\<in>set m. P k v) \<longleftrightarrow> (\<forall>k v. olookup m k = Some v \<longrightarrow> P k v)"
  by (auto simp: wf_obj_lookup)

lemma olookup_map:
  "olookup (map (\<lambda>(k, v). (k, f v)) m) k = map_option f (olookup m k)"
  by (simp add: olookup_def map_of_map)

section \<open>Reachable states\<close>

inductive reach :: "('s \<Rightarrow> bool) \<Rightarrow> ('s \<Rightarrow> 's \<Rightarrow> bool) \<Rightarrow> 's \<Rightarrow> bool"
  for init :: "'s \<Rightarrow> bool" and step :: "'s \<Rightarrow> 's \<Rightarrow> bool"
where
  start: "init s \<Longrightarrow> reach init step s"
| step: "reach init step s \<Longrightarrow> step s t \<Longrightarrow> reach init step t"

text \<open>The proof rule: what holds at the start and is kept by every step holds everywhere.\<close>

locale step_invariant =
  fixes init :: "'s \<Rightarrow> bool"
    and step :: "'s \<Rightarrow> 's \<Rightarrow> bool"
    and inv :: "'s \<Rightarrow> bool"
  assumes inv_init: "init s \<Longrightarrow> inv s"
    and inv_step: "inv s \<Longrightarrow> step s t \<Longrightarrow> inv t"
begin

lemma reach_inv: "reach init step s \<Longrightarrow> inv s"
  by (induction rule: reach.induct) (auto intro: inv_init inv_step)

lemma steps_inv: "step\<^sup>*\<^sup>* s t \<Longrightarrow> inv s \<Longrightarrow> inv t"
  by (induction rule: rtranclp_induct) (auto intro: inv_step)

end

lemma steps_reach: "step\<^sup>*\<^sup>* s t \<Longrightarrow> reach init step s \<Longrightarrow> reach init step t"
  by (induction rule: rtranclp_induct) (auto intro: reach.step)

text \<open>
  Simulation through a view: a detailed system whose view starts where an abstract system can be, and
  each of whose steps is some steps of the abstract one, only ever shows what the abstract system can
  reach. So what is invariant there holds of the view.
\<close>

locale simulation =
  fixes start :: "'s \<Rightarrow> bool"
    and step :: "'s \<Rightarrow> 's \<Rightarrow> bool"
    and astart :: "'a \<Rightarrow> bool"
    and astep :: "'a \<Rightarrow> 'a \<Rightarrow> bool"
    and seen :: "'s \<Rightarrow> 'a"
  assumes sim_start: "start s \<Longrightarrow> reach astart astep (seen s)"
    and sim_step: "reach astart astep (seen s) \<Longrightarrow> step s t \<Longrightarrow> astep\<^sup>*\<^sup>* (seen s) (seen t)"
begin

lemma reach_seen: "reach start step s \<Longrightarrow> reach astart astep (seen s)"
proof (induction rule: reach.induct)
  case (step s t)
  then show ?case using sim_step steps_reach by metis
qed (rule sim_start)

lemma reach_moves: "reach start step s \<Longrightarrow> step s t \<Longrightarrow> astep\<^sup>*\<^sup>* (seen s) (seen t)"
  using sim_step reach_seen by blast

end

text \<open>With an invariant of the abstract system, the detailed system has it of its view.\<close>

locale safe_simulation = simulation start step astart astep seen + abstract: step_invariant astart astep safe
  for start :: "'s \<Rightarrow> bool" and step :: "'s \<Rightarrow> 's \<Rightarrow> bool" and astart :: "'a \<Rightarrow> bool"
    and astep :: "'a \<Rightarrow> 'a \<Rightarrow> bool" and seen :: "'s \<Rightarrow> 'a" and safe :: "'a \<Rightarrow> bool"
begin

lemma seen_safe: "reach start step s \<Longrightarrow> safe (seen s)"
  by (rule abstract.reach_inv [OF reach_seen])

end

sublocale safe_simulation \<subseteq> detailed: step_invariant start step "\<lambda>s. reach astart astep (seen s)"
  by unfold_locales (auto intro: sim_start steps_reach [OF sim_step])

end
