(* ===== verification/JsValue.thy ===== *)
theory JsValue
  imports Prelude
begin

text \<open>
  The values the web client computes with: the JavaScript value type, its type tests, truthiness,
  member access, enumeration of own keys, conversion to a string, and the effect of a JSON round
  trip (\<open>JSON.parse(JSON.stringify(v))\<close>) on a value. These are the parts of the language the
  source uses; they model no line of the repository by themselves.

  Numbers are a type parameter, so that everything proved of shadow documents holds for any type
  of finite numbers compared by value; where the code computes with numbers they are integers
  (ports, QoS levels, versions, sizes). Strings are lists of characters. An object is the list of
  its own enumerable entries in insertion order; members inherited from \<open>Object.prototype\<close> and the
  separate order of array-index keys are not modelled.
\<close>

datatype 'n jsval =
    JUndef
  | JNull
  | JBool bool
  | JNum 'n
  | JStr string
  | JArr "'n jsval list"
  | JObj "(string \<times> 'n jsval) list"

type_synonym js = "int jsval"

section \<open>Type tests and truthiness\<close>

datatype js_type = TUndefined | TBoolean | TNumber | TString | TObject

fun typeof :: "'n jsval \<Rightarrow> js_type" where
  "typeof JUndef = TUndefined"
| "typeof JNull = TObject"
| "typeof (JBool _) = TBoolean"
| "typeof (JNum _) = TNumber"
| "typeof (JStr _) = TString"
| "typeof (JArr _) = TObject"
| "typeof (JObj _) = TObject"

fun truthy :: "'n::zero jsval \<Rightarrow> bool" where
  "truthy JUndef = False"
| "truthy JNull = False"
| "truthy (JBool b) = b"
| "truthy (JNum n) = (n \<noteq> 0)"
| "truthy (JStr s) = (s \<noteq> '''')"
| "truthy (JArr _) = True"
| "truthy (JObj _) = True"

text \<open>\<open>a || b\<close> and \<open>a === undefined || a === null\<close>.\<close>

definition js_or :: "'n::zero jsval \<Rightarrow> 'n jsval \<Rightarrow> 'n jsval" where
  "js_or a b = (if truthy a then a else b)"

definition nullish :: "'n jsval \<Rightarrow> bool" where
  "nullish v \<longleftrightarrow> v = JUndef \<or> v = JNull"

lemma nullish_simps [simp]:
  "nullish JUndef" "nullish JNull" "\<not> nullish (JBool b)" "\<not> nullish (JNum n)"
  "\<not> nullish (JStr s)" "\<not> nullish (JArr xs)" "\<not> nullish (JObj m)"
  by (simp_all add: nullish_def)

section \<open>Decimal numerals\<close>

definition digit_char :: "nat \<Rightarrow> char" where
  "digit_char d = char_of (48 + d)"

fun nat_str :: "nat \<Rightarrow> string" where
  "nat_str n = (if n < 10 then [digit_char n] else nat_str (n div 10) @ [digit_char (n mod 10)])"

declare nat_str.simps [simp del]

definition int_str :: "int \<Rightarrow> string" where
  "int_str i = (if i < 0 then ''-'' @ nat_str (nat (- i)) else nat_str (nat i))"

lemma digit_char_eq [simp]: "d < 10 \<Longrightarrow> e < 10 \<Longrightarrow> digit_char d = digit_char e \<longleftrightarrow> d = e"
  by (simp add: digit_char_def char_of_eq_iff of_char_of take_bit_eq_mod)

lemma nat_str_small: "n < 10 \<Longrightarrow> nat_str n = [digit_char n]"
  by (simp add: nat_str.simps)

lemma nat_str_not_Nil [simp]: "nat_str n \<noteq> []" "[] \<noteq> nat_str n"
  by (subst nat_str.simps, simp)+

lemma nat_str_inj: "nat_str m = nat_str n \<Longrightarrow> m = n"
proof (induction m arbitrary: n rule: nat_str.induct)
  case (1 m)
  show ?case
  proof (cases "m < 10")
    case True
    with "1.prems" show ?thesis
      by (cases "n < 10") (auto simp: nat_str.simps [of m] nat_str.simps [of n])
  next
    case False
    with "1.prems" have big: "\<not> n < 10"
      by (auto simp: nat_str.simps [of m] nat_str.simps [of n])
    with "1.prems" False have "nat_str (m div 10) = nat_str (n div 10)" and "m mod 10 = n mod 10"
      by (auto simp: nat_str.simps [of m] nat_str.simps [of n])
    with "1.IH" [OF False] show ?thesis
      by (metis div_mult_mod_eq)
  qed
qed

section \<open>Members and keys\<close>

text \<open>
  The own enumerable keys: the indices of an array or a string, the names of an object, none of
  any other value; \<open>null\<close> and \<open>undefined\<close> throw.
\<close>

fun js_keys :: "'n jsval \<Rightarrow> string list res" where
  "js_keys JUndef = Inl TypeError"
| "js_keys JNull = Inl TypeError"
| "js_keys (JBool _) = Inr []"
| "js_keys (JNum _) = Inr []"
| "js_keys (JStr s) = Inr (map nat_str [0..<length s])"
| "js_keys (JArr xs) = Inr (map nat_str [0..<length xs])"
| "js_keys (JObj m) = Inr (okeys m)"

definition index_at :: "'a list \<Rightarrow> string \<Rightarrow> 'a option" where
  "index_at xs k = map_option (\<lambda>i. xs ! i) (List.find (\<lambda>i. nat_str i = k) [0..<length xs])"

fun js_get :: "'n::semiring_1 jsval \<Rightarrow> string \<Rightarrow> 'n jsval res" where
  "js_get JUndef k = Inl TypeError"
| "js_get JNull k = Inl TypeError"
| "js_get (JBool _) k = Inr JUndef"
| "js_get (JNum _) k = Inr JUndef"
| "js_get (JStr s) k = Inr (case index_at s k of Some c \<Rightarrow> JStr [c]
     | None \<Rightarrow> if k = ''length'' then JNum (of_nat (length s)) else JUndef)"
| "js_get (JArr xs) k = Inr (case index_at xs k of Some v \<Rightarrow> v
     | None \<Rightarrow> if k = ''length'' then JNum (of_nat (length xs)) else JUndef)"
| "js_get (JObj m) k = Inr (case olookup m k of Some v \<Rightarrow> v | None \<Rightarrow> JUndef)"

text \<open>Member access on a value known to be an object (\<open>undefined\<close> where the member is missing).\<close>

definition oget :: "(string \<times> 'n jsval) list \<Rightarrow> string \<Rightarrow> 'n jsval" where
  "oget m k = (case olookup m k of Some v \<Rightarrow> v | None \<Rightarrow> JUndef)"

text \<open>\<open>a?.k\<close>: \<open>undefined\<close> where \<open>a\<close> is \<open>null\<close> or \<open>undefined\<close>.\<close>

definition opt_get :: "'n::semiring_1 jsval \<Rightarrow> string \<Rightarrow> 'n jsval" where
  "opt_get v k = res_or (js_get v k) JUndef"

lemma oget_oput [dict_simps]: "oget (oput k v m) k' = (if k' = k then v else oget m k')"
  by (simp add: oget_def obj.lookup_put)

lemma oget_odel [dict_simps]: "oget (odel k m) k' = (if k' = k then JUndef else oget m k')"
  by (simp add: oget_def obj.lookup_del)

lemma oget_Nil [simp]: "oget [] k = JUndef"
  by (simp add: oget_def)

lemma oget_Cons [simp]: "oget ((a, v) # m) k = (if k = a then v else oget m k)"
  by (simp add: oget_def)

lemma js_get_JObj [simp]: "js_get (JObj m) k = Inr (oget m k)"
  by (simp add: oget_def)

declare js_get.simps(7) [simp del]

lemma opt_get_simps [simp]:
  "opt_get (JObj m) k = oget m k" "opt_get JUndef k = JUndef" "opt_get JNull k = JUndef"
  by (simp_all add: opt_get_def)

lemma js_get_not_nullish: "\<not> nullish v \<Longrightarrow> \<exists>w. js_get v k = Inr w"
  by (cases v) auto

lemma js_keys_not_nullish: "\<not> nullish v \<Longrightarrow> \<exists>ks. js_keys v = Inr ks"
  by (cases v) auto

lemma index_at_SomeD: "index_at xs k = Some v \<Longrightarrow> v \<in> set xs"
  by (auto simp: index_at_def find_Some_iff)

text \<open>Fields of a value known to be an object.\<close>

definition is_obj :: "'n jsval \<Rightarrow> bool" where
  "is_obj v \<longleftrightarrow> (\<exists>m. v = JObj m)"

definition fld :: "'n jsval \<Rightarrow> string \<Rightarrow> 'n jsval" where
  "fld v k = (case v of JObj m \<Rightarrow> oget m k | _ \<Rightarrow> JUndef)"

lemma js_get_fld: "is_obj v \<Longrightarrow> js_get v k = Inr (fld v k)"
  by (auto simp: is_obj_def fld_def)

lemma fld_JObj [simp]: "fld (JObj m) k = oget m k"
  by (simp add: fld_def)

lemma is_obj_JObj [simp]: "is_obj (JObj m)"
  by (simp add: is_obj_def)

section \<open>Conversion to a string\<close>

text \<open>\<open>String(v)\<close>, which template literals and property keys apply.\<close>

fun js_str :: "js \<Rightarrow> string" where
  "js_str JUndef = ''undefined''"
| "js_str JNull = ''null''"
| "js_str (JBool b) = (if b then ''true'' else ''false'')"
| "js_str (JNum n) = int_str n"
| "js_str (JStr s) = s"
| "js_str (JArr xs) = concat (case map (\<lambda>x. if nullish x then '''' else js_str x) xs of
     [] \<Rightarrow> [] | s # ss \<Rightarrow> s # map (\<lambda>t. '','' @ t) ss)"
| "js_str (JObj m) = ''[object Object]''"

section \<open>The JSON round trip\<close>

text \<open>
  \<open>JSON.parse(JSON.stringify(v))\<close> on a value other than \<open>undefined\<close>: members that are
  \<open>undefined\<close> are dropped, elements that are \<open>undefined\<close> become \<open>null\<close>.
\<close>

fun json_clean :: "'n jsval \<Rightarrow> 'n jsval" where
  "json_clean (JArr xs) = JArr (map (\<lambda>x. if x = JUndef then JNull else json_clean x) xs)"
| "json_clean (JObj m) =
     JObj (map (\<lambda>(k, v). (k, json_clean v)) (filter (\<lambda>(k, v). v \<noteq> JUndef) m))"
| "json_clean v = v"

text \<open>Values that JSON can carry, with each key of an object once.\<close>

fun json_ok :: "'n jsval \<Rightarrow> bool" where
  "json_ok JUndef = False"
| "json_ok (JArr xs) = (\<forall>x\<in>set xs. json_ok x)"
| "json_ok (JObj m) = (wf_obj m \<and> (\<forall>(k, v)\<in>set m. json_ok v))"
| "json_ok v = True"

text \<open>Values without a repeated key, \<open>undefined\<close> members allowed: what the code builds.\<close>

fun wf_js :: "'n jsval \<Rightarrow> bool" where
  "wf_js (JArr xs) = (\<forall>x\<in>set xs. wf_js x)"
| "wf_js (JObj m) = (wf_obj m \<and> (\<forall>(k, v)\<in>set m. wf_js v))"
| "wf_js v = True"

lemma json_clean_eq_JUndef [simp]: "json_clean v = JUndef \<longleftrightarrow> v = JUndef"
  by (cases v) auto

lemma json_clean_ok: "json_ok v \<Longrightarrow> json_clean v = v"
proof (induction v rule: json_clean.induct)
  case (1 xs)
  have "(if x = JUndef then JNull else json_clean x) = x" if "x \<in> set xs" for x
    using 1 that by (cases "x = JUndef") auto
  then show ?case by (simp add: map_idI)
next
  case (2 m)
  have not_undef: "v \<noteq> JUndef" if "(k, v) \<in> set m" for k v
    using "2.prems" that by (cases v) force+
  then have "filter (\<lambda>(k, v). v \<noteq> JUndef) m = m"
    by (auto simp: filter_id_conv)
  moreover have "(case p of (k, v) \<Rightarrow> (k, json_clean v)) = p" if "p \<in> set m" for p
    using 2 that calculation by (cases p) force
  ultimately show ?case by (simp add: map_idI)
qed auto

lemma wf_obj_clean:
  assumes "wf_obj m"
  shows "wf_obj (map (\<lambda>(k, v). (k, f v)) (filter P m))"
  using assms by (simp add: wf_obj_def distinct_map_filter comp_def case_prod_unfold)

lemma json_ok_clean: "wf_js v \<Longrightarrow> v \<noteq> JUndef \<Longrightarrow> json_ok (json_clean v)"
proof (induction v rule: json_clean.induct)
  case (2 m)
  from "2.prems" have "wf_obj (map (\<lambda>(k, v). (k, json_clean v)) (filter (\<lambda>(k, v). v \<noteq> JUndef) m))"
    by (intro wf_obj_clean) simp
  with 2 show ?case by fastforce
qed auto

lemma json_clean_idem: "wf_js v \<Longrightarrow> v \<noteq> JUndef \<Longrightarrow> json_clean (json_clean v) = json_clean v"
  by (simp add: json_clean_ok json_ok_clean)

lemma olookup_json_clean:
  assumes "wf_obj m"
  shows "olookup (map (\<lambda>(k, v). (k, json_clean v)) (filter (\<lambda>(k, v). v \<noteq> JUndef) m)) k =
    (case olookup m k of None \<Rightarrow> None
     | Some v \<Rightarrow> if v = JUndef then None else Some (json_clean v))"
  using assms by (simp add: olookup_map olookup_filter split: option.split)

text \<open>Size facts for recursions that descend through member access.\<close>

lemma size_index_at: "index_at xs k = Some v \<Longrightarrow> size v < size (JArr xs)"
  by (drule index_at_SomeD) (auto dest: size_list_estimation' [where f = size, OF _ order_refl])

lemma size_olookup: "olookup m k = Some v \<Longrightarrow> size v < size (JObj m)"
proof (induction m)
  case (Cons p m)
  then show ?case by (cases p) (auto split: if_splits)
qed simp

lemma size_js_get:
  assumes "js_get v k = Inr w" and "typeof w = TObject"
  shows "size w < size v"
  using assms
  by (cases v) (auto simp: oget_def dest: size_index_at size_olookup split: option.splits if_splits)

end
