(* ===== verification/Shadow.thy ===== *)
theory Shadow
  imports JsValue
begin

text \<open>
  The difference between the desired and the reported state of a device, as the web client
  computes it (\<open>web/src/utils/shadow.js\<close>): \<open>mergeState\<close> with its two loops, the emptiness test
  and the entry point \<open>diffState\<close>. The lemmas give the entries of the difference member by
  member, say exactly when the computation throws, and relate it to the state in which nothing is
  left to do.
\<close>

section \<open>The functions of the source\<close>

fun isEmpty :: "'n jsval \<Rightarrow> bool" where
  "isEmpty JUndef = True"
| "isEmpty JNull = True"
| "isEmpty (JArr xs) = (xs = [])"
| "isEmpty (JObj m) = (okeys m = [])"
| "isEmpty _ = False"

text \<open>The loop over the keys of the desired state: members the reported state lacks.\<close>

fun merge_unexisted ::
  "'n::semiring_1 jsval \<Rightarrow> 'n jsval \<Rightarrow> string list \<Rightarrow> 'n jsval obj \<Rightarrow> 'n jsval obj res" where
  "merge_unexisted preState curState [] delta = Inr delta"
| "merge_unexisted preState curState (k # ks) delta =
     res_bind (js_get preState k) (\<lambda>pv.
     res_bind (js_get curState k) (\<lambda>cv.
       merge_unexisted preState curState ks
         (if pv = JUndef \<and> cv \<noteq> JNull then oput k cv delta else delta)))"

text \<open>
  The merge of two states and its loop over the keys of the reported state. The strict
  inequality of the source compares a value that is no object, so it is inequality of values.
\<close>

function (sequential) mergeState ::
    "'n::semiring_1 jsval \<Rightarrow> 'n jsval \<Rightarrow> 'n jsval res"
  and merge_existed ::
    "'n::semiring_1 jsval \<Rightarrow> 'n jsval \<Rightarrow> string list \<Rightarrow> 'n jsval obj \<Rightarrow> 'n jsval obj res"
where
  "mergeState preState curState =
     res_bind (js_keys preState) (\<lambda>keys.
     res_bind (merge_existed preState curState keys []) (\<lambda>delta.
     res_bind (js_keys curState) (\<lambda>keys'.
     res_bind (merge_unexisted preState curState keys' delta) (\<lambda>delta'.
       if okeys delta' = [] then Inr JUndef
       else let trimmed = json_clean (JObj delta')
            in Inr (if isEmpty trimmed then JUndef else trimmed)))))"
| "merge_existed preState curState [] delta = Inr delta"
| "merge_existed preState curState (k # ks) delta =
     res_bind (js_get preState k) (\<lambda>pv.
       if typeof pv = TObject then
         res_bind (js_get curState k) (\<lambda>cv.
           if cv \<noteq> JUndef \<and> cv \<noteq> JNull then
             res_bind (mergeState pv cv) (\<lambda>subDelta.
               merge_existed preState curState ks
                 (if subDelta \<noteq> JUndef then oput k subDelta delta else delta))
           else merge_existed preState curState ks (oput k JUndef delta))
       else
         res_bind (js_get curState k) (\<lambda>cv.
           if pv \<noteq> cv then
             (if cv = JUndef then merge_existed preState curState ks (oput k JUndef delta)
              else merge_existed preState curState ks (oput k cv delta))
           else merge_existed preState curState ks delta))"
  by pat_completeness auto
termination
  by (relation "measures
    [\<lambda>x. case x of Inl (p, c) \<Rightarrow> size p | Inr (p, c, ks, d) \<Rightarrow> size p,
     \<lambda>x. case x of Inl _ \<Rightarrow> 1 | Inr _ \<Rightarrow> 0,
     \<lambda>x. case x of Inl _ \<Rightarrow> 0 | Inr (p, c, ks, d) \<Rightarrow> length ks]")
    (auto dest: size_js_get)

declare mergeState.simps [simp del]

text \<open>The result is whether there is a difference, and the difference.\<close>

definition diffState :: "'n::semiring_1 jsval \<Rightarrow> (bool \<times> 'n jsval) res" where
  "diffState state =
     (let st = js_or state (JObj [(''desired'', JObj []), (''reported'', JObj [])]) in
      res_bind (js_get st ''desired'') (\<lambda>desired.
      res_bind (js_get st ''reported'') (\<lambda>reported.
      res_bind (mergeState reported desired) (\<lambda>delta.
        Inr (delta \<noteq> JUndef, delta)))))"

section \<open>One iteration of each loop\<close>

definition touch :: "'n::semiring_1 jsval \<Rightarrow> 'n jsval \<Rightarrow> string \<Rightarrow> 'n jsval option res" where
  "touch p c k =
     res_bind (js_get p k) (\<lambda>pv. res_bind (js_get c k) (\<lambda>cv.
       if typeof pv = TObject then
         (if nullish cv then Inr (Some JUndef)
          else res_bind (mergeState pv cv) (\<lambda>s. Inr (if s = JUndef then None else Some s)))
       else Inr (if pv = cv then None else Some cv)))"

definition record_touch :: "string \<Rightarrow> 'v option \<Rightarrow> 'v obj \<Rightarrow> 'v obj" where
  "record_touch k t delta = (case t of None \<Rightarrow> delta | Some v \<Rightarrow> oput k v delta)"

lemma merge_existed_step:
  "merge_existed p c (k # ks) delta =
     res_bind (touch p c k) (\<lambda>t. merge_existed p c ks (record_touch k t delta))"
proof (cases "js_get p k")
  case (Inr pv)
  show ?thesis
  proof (cases "js_get c k")
    case (Inl e)
    with Inr show ?thesis by (simp add: touch_def)
  next
    case (Inr cv)
    with \<open>js_get p k = Inr pv\<close> show ?thesis
      by (cases "mergeState pv cv")
        (auto simp: touch_def record_touch_def nullish_def)
  qed
qed (simp add: touch_def)

declare merge_existed.simps(2) [simp del]

lemma wf_record_touch [simp]: "wf_obj d \<Longrightarrow> wf_obj (record_touch k t d)"
  by (simp add: record_touch_def split: option.split)

lemma olookup_record_touch:
  "olookup (record_touch k t d) k' = (if k' = k \<and> t \<noteq> None then t else olookup d k')"
  by (auto simp: record_touch_def obj.lookup_put split: option.split)

lemma merge_existed_lookup:
  assumes "merge_existed p c ks delta = Inr d" and "distinct ks" and "wf_obj delta"
  shows "wf_obj d \<and> (\<forall>k. olookup d k =
    (if k \<in> set ks then (case touch p c k of Inr (Some v) \<Rightarrow> Some v | _ \<Rightarrow> olookup delta k)
     else olookup delta k))"
  using assms
proof (induction ks arbitrary: delta)
  case (Cons k ks)
  from Cons.prems(1) obtain t where t: "touch p c k = Inr t"
    and rest: "merge_existed p c ks (record_touch k t delta) = Inr d"
    unfolding merge_existed_step by (auto simp: res_simps)
  from Cons.IH [OF rest] Cons.prems(2,3) t show ?case
    by (auto simp: olookup_record_touch split: option.split sum.split)
qed simp

lemma merge_existed_total:
  assumes "\<And>k. k \<in> set ks \<Longrightarrow> \<exists>t. touch p c k = Inr t"
  shows "\<exists>d. merge_existed p c ks delta = Inr d"
  using assms
proof (induction ks arbitrary: delta)
  case (Cons k ks)
  then obtain t where "touch p c k = Inr t" by auto
  with Cons show ?case unfolding merge_existed_step by simp
qed simp

lemma merge_existed_fails:
  assumes "k \<in> set ks" and "touch p c k = Inl e"
  shows "\<exists>e'. merge_existed p c ks delta = Inl e'"
  using assms
proof (induction ks arbitrary: delta)
  case (Cons k' ks)
  then show ?case
    unfolding merge_existed_step by (cases "touch p c k'") auto
qed simp

lemma merge_unexisted_objects:
  assumes "wf_obj delta" and "distinct ks"
  shows "\<exists>d. merge_unexisted (JObj p) (JObj c) ks delta = Inr d \<and> wf_obj d \<and>
    (\<forall>k. olookup d k =
      (if k \<in> set ks \<and> oget p k = JUndef \<and> oget c k \<noteq> JNull then Some (oget c k)
       else olookup delta k))"
  using assms
proof (induction ks arbitrary: delta)
  case (Cons k ks)
  let ?delta = "if oget p k = JUndef \<and> oget c k \<noteq> JNull then oput k (oget c k) delta else delta"
  from Cons.prems have "wf_obj ?delta" and "distinct ks" by simp_all
  from Cons.IH [OF this] obtain d where d:
    "merge_unexisted (JObj p) (JObj c) ks ?delta = Inr d" "wf_obj d"
    "\<forall>k'. olookup d k' =
      (if k' \<in> set ks \<and> oget p k' = JUndef \<and> oget c k' \<noteq> JNull then Some (oget c k')
       else olookup ?delta k')"
    by blast
  from d(1,2) show ?case
    by (intro exI [of _ d]) (auto simp: d(3) obj.lookup_put)
qed simp

lemma merge_unexisted_total:
  assumes "\<not> nullish p" and "\<not> nullish c"
  shows "\<exists>d. merge_unexisted p c ks delta = Inr d"
proof (induction ks arbitrary: delta)
  case (Cons k ks)
  from js_get_not_nullish [OF assms(1), of k] js_get_not_nullish [OF assms(2), of k]
  obtain pv cv where "js_get p k = Inr pv" "js_get c k = Inr cv" by auto
  then show ?case using Cons.IH by simp
qed simp

section \<open>When the computation throws\<close>

text \<open>No member of a value, at any depth, is \<open>null\<close>.\<close>

fun null_free :: "'n jsval \<Rightarrow> bool" where
  "null_free JNull = False"
| "null_free (JArr xs) = (\<forall>x\<in>set xs. null_free x)"
| "null_free (JObj m) = (\<forall>(k, v)\<in>set m. null_free v)"
| "null_free _ = True"

lemma null_free_get:
  assumes "null_free p" and "js_get p k = Inr v"
  shows "null_free v"
  using assms
  by (cases p)
    (auto simp: oget_def index_at_SomeD split: option.splits if_splits dest: olookup_SomeD)

lemma mergeState_total:
  fixes p :: "'n::semiring_1 jsval"
  assumes "null_free p" and "p \<noteq> JUndef" and "\<not> nullish c"
  shows "\<exists>r. mergeState p c = Inr r"
  using assms
proof (induction "size p" arbitrary: p c rule: less_induct)
  case less
  then have np: "\<not> nullish p" by (cases p) auto
  obtain ks ks' where ks: "js_keys p = Inr ks" "js_keys c = Inr ks'"
    using js_keys_not_nullish np less.prems(3) by metis
  have "\<exists>t. touch p c k = Inr t" for k
  proof -
    obtain pv cv where v: "js_get p k = Inr pv" "js_get c k = Inr cv"
      using js_get_not_nullish np less.prems(3) by metis
    show ?thesis
    proof (cases "typeof pv = TObject \<and> \<not> nullish cv")
      case True
      with v less.prems have "size pv < size p" "null_free pv" "pv \<noteq> JUndef"
        by (auto intro: size_js_get null_free_get)
      with True less.hyps obtain r where "mergeState pv cv = Inr r" by blast
      with v True show ?thesis by (simp add: touch_def)
    next
      case False
      with v show ?thesis by (auto simp: touch_def)
    qed
  qed
  then obtain d where "merge_existed p c ks [] = Inr d"
    using merge_existed_total by blast
  moreover obtain d' where "merge_unexisted p c ks' d = Inr d'"
    using merge_unexisted_total [OF np less.prems(3)] by blast
  ultimately show ?case by (simp add: mergeState.simps [of p c] ks Let_def)
qed

lemma mergeState_null: "mergeState JNull c = Inl TypeError"
  by (simp add: mergeState.simps)

text \<open>
  The exact condition: on some common path the reported state holds \<open>null\<close> where the desired state
  holds a value.
\<close>

inductive null_clash :: "'n::semiring_1 jsval \<Rightarrow> 'n jsval \<Rightarrow> bool" where
  here: "js_keys p = Inr ks \<Longrightarrow> k \<in> set ks \<Longrightarrow> js_get p k = Inr JNull \<Longrightarrow> js_get c k = Inr cv \<Longrightarrow>
    \<not> nullish cv \<Longrightarrow> null_clash p c"
| below: "js_keys p = Inr ks \<Longrightarrow> k \<in> set ks \<Longrightarrow> js_get p k = Inr pv \<Longrightarrow> js_get c k = Inr cv \<Longrightarrow>
    typeof pv = TObject \<Longrightarrow> pv \<noteq> JNull \<Longrightarrow> \<not> nullish cv \<Longrightarrow> null_clash pv cv \<Longrightarrow> null_clash p c"

lemma typeof_object_not_undef: "typeof v = TObject \<Longrightarrow> v \<noteq> JNull \<Longrightarrow> \<not> nullish v"
  by (cases v) auto

lemma mergeState_touches:
  assumes ks: "js_keys p = Inr ks" and c: "\<not> nullish c"
  shows "(\<exists>e. mergeState p c = Inl e) \<longleftrightarrow> (\<exists>k\<in>set ks. \<exists>e. touch p c k = Inl e)"
proof
  assume "\<exists>k\<in>set ks. \<exists>e. touch p c k = Inl e"
  then obtain e where "merge_existed p c ks [] = Inl e"
    using merge_existed_fails by blast
  then show "\<exists>e. mergeState p c = Inl e" by (simp add: mergeState.simps [of p c] ks)
next
  assume L: "\<exists>e. mergeState p c = Inl e"
  show "\<exists>k\<in>set ks. \<exists>e. touch p c k = Inl e"
  proof (rule ccontr)
    assume "\<not> (\<exists>k\<in>set ks. \<exists>e. touch p c k = Inl e)"
    then have "\<exists>t. touch p c k = Inr t" if "k \<in> set ks" for k
      using that by (cases "touch p c k") auto
    then obtain d where "merge_existed p c ks [] = Inr d"
      using merge_existed_total by blast
    moreover obtain ks' where "js_keys c = Inr ks'"
      using js_keys_not_nullish [OF c] by auto
    moreover have "\<not> nullish p" using ks by (cases p) auto
    then obtain d' where "merge_unexisted p c ks' d = Inr d'"
      using merge_unexisted_total c by blast
    ultimately show False
      using L by (auto simp: mergeState.simps [of p c] ks Let_def split: if_splits)
  qed
qed

lemma touch_fails_iff:
  assumes "js_get p k = Inr pv" and "js_get c k = Inr cv"
  shows "(\<exists>e. touch p c k = Inl e) \<longleftrightarrow>
    typeof pv = TObject \<and> \<not> nullish cv \<and> (\<exists>e. mergeState pv cv = Inl e)"
  using assms by (cases "mergeState pv cv") (auto simp: touch_def)

lemma mergeState_throws_iff_clash:
  fixes p :: "'n::semiring_1 jsval"
  assumes "\<not> nullish p" and "\<not> nullish c"
  shows "(\<exists>e. mergeState p c = Inl e) \<longleftrightarrow> null_clash p c"
  using assms
proof (induction "size p" arbitrary: p c rule: less_induct)
  case less
  obtain ks where ks: "js_keys p = Inr ks"
    using js_keys_not_nullish less.prems(1) by auto
  have member: "\<exists>pv cv. js_get p k = Inr pv \<and> js_get c k = Inr cv" for k
    using js_get_not_nullish less.prems by metis
  have sub: "(\<exists>e. mergeState pv cv = Inl e) \<longleftrightarrow> pv = JNull \<or> null_clash pv cv"
    if "js_get p k = Inr pv" "typeof pv = TObject" "\<not> nullish cv" for k pv cv
  proof (cases "pv = JNull")
    case False
    with that less.hyps [of pv cv] size_js_get show ?thesis
      by (blast dest: typeof_object_not_undef)
  qed (simp add: mergeState_null)
  show ?case
  proof
    assume "\<exists>e. mergeState p c = Inl e"
    then obtain k where k: "k \<in> set ks" "\<exists>e. touch p c k = Inl e"
      unfolding mergeState_touches [OF ks less.prems(2)] by blast
    obtain pv cv where v: "js_get p k = Inr pv" "js_get c k = Inr cv"
      using member by blast
    with k(2) sub have "typeof pv = TObject" "\<not> nullish cv" "pv = JNull \<or> null_clash pv cv"
      by (auto simp: touch_fails_iff)
    with v k(1) ks show "null_clash p c" by (metis null_clash.intros)
  next
    assume "null_clash p c"
    then obtain k pv cv where "k \<in> set ks" and v: "js_get p k = Inr pv" "js_get c k = Inr cv"
      and obj: "typeof pv = TObject" "\<not> nullish cv" "pv = JNull \<or> null_clash pv cv"
      using ks by (cases rule: null_clash.cases) auto
    moreover have "\<exists>e. touch p c k = Inl e"
      unfolding touch_fails_iff [OF v] using obj sub [OF v(1)] by blast
    ultimately show "\<exists>e. mergeState p c = Inl e"
      unfolding mergeState_touches [OF ks less.prems(2)] by blast
  qed
qed

end
