(* ===== verification/ShadowSync.thy ===== *)
theory ShadowSync
  imports Shadow
begin

text \<open>
  What the difference of two shadow states means. Shadow documents without arrays and without
  \<open>null\<close> are nested dictionaries of scalars (\<open>plain\<close>); for these the result of \<open>mergeState\<close> is
  described member by member (\<open>delta_at\<close>), and the difference is compared with the relation
  \<open>covers\<close>: the reported state has everything the desired state asks for.
\<close>

fun plain :: "'n jsval \<Rightarrow> bool" where
  "plain JUndef = False"
| "plain JNull = False"
| "plain (JArr xs) = False"
| "plain (JObj m) = (wf_obj m \<and> (\<forall>(k, v)\<in>set m. plain v))"
| "plain _ = True"

lemma plain_json_ok: "plain v \<Longrightarrow> json_ok v"
  by (induction v rule: plain.induct) auto

lemma plain_clean [simp]: "plain v \<Longrightarrow> json_clean v = v"
  by (simp add: json_clean_ok plain_json_ok)

lemma plain_null_free: "plain v \<Longrightarrow> null_free v"
  by (induction v rule: plain.induct) auto

lemma plain_not_nullish: "plain v \<Longrightarrow> \<not> nullish v"
  by (cases v) auto

lemma plain_object_cases: "plain v \<Longrightarrow> typeof v = TObject \<Longrightarrow> \<exists>m. v = JObj m"
  by (cases v) auto

lemma plain_lookup: "plain (JObj m) \<Longrightarrow> olookup m k = Some v \<Longrightarrow> plain v"
  by (auto dest: olookup_SomeD)

lemma plain_oget: "plain (JObj m) \<Longrightarrow> oget m k = JUndef \<or> plain (oget m k)"
  by (auto simp: oget_def plain_lookup split: option.split dest: plain_lookup)

lemma plain_get: "plain p \<Longrightarrow> js_get p k = Inr v \<Longrightarrow> v = JUndef \<or> plain v"
  by (cases p) (use plain_oget in \<open>auto split: option.splits if_splits\<close>)

section \<open>The difference of plain documents is plain\<close>

definition plain_entries :: "'n jsval obj \<Rightarrow> bool" where
  "plain_entries m \<longleftrightarrow> (\<forall>k v. olookup m k = Some v \<longrightarrow> v = JUndef \<or> plain v)"

lemma plain_entries_Nil [simp]: "plain_entries []"
  by (simp add: plain_entries_def)

lemma plain_entries_oput:
  "plain_entries m \<Longrightarrow> v = JUndef \<or> plain v \<Longrightarrow> plain_entries (oput k v m)"
  by (auto simp: plain_entries_def obj.lookup_put)

lemma plain_merge_unexisted:
  assumes "merge_unexisted p c ks delta = Inr d" and "plain c" and "plain_entries delta"
    and "wf_obj delta"
  shows "plain_entries d \<and> wf_obj d"
  using assms
  by (induction p c ks delta rule: merge_unexisted.induct)
    (auto simp: res_simps plain_entries_oput dest: plain_get split: if_splits)

lemma clean_plain_entries:
  assumes "plain_entries m" and "wf_obj m"
  shows "plain (json_clean (JObj m))"
  using assms
  by (fastforce simp: plain_entries_def wf_obj_lookup intro: wf_obj_clean)

lemma mergeState_plain:
  assumes "mergeState p c = Inr s" and "plain p" and "plain c"
  shows "s = JUndef \<or> (plain s \<and> (\<exists>m. s = JObj m \<and> m \<noteq> []))"
  using assms
proof (induction "size p" arbitrary: p c s rule: less_induct)
  case less
  have touched: "v = JUndef \<or> plain v" if "touch p c k = Inr (Some v)" for k v
  proof -
    from that obtain pv cv where g: "js_get p k = Inr pv" "js_get c k = Inr cv"
      by (auto simp: touch_def res_simps)
    with less.prems(2,3) have "pv = JUndef \<or> plain pv" and cv: "cv = JUndef \<or> plain cv"
      by (blast dest: plain_get)+
    show ?thesis
    proof (cases "typeof pv = TObject \<and> \<not> nullish cv")
      case True
      with g that obtain s' where "mergeState pv cv = Inr s'" "v = s'"
        by (auto simp: touch_def res_simps split: if_splits)
      moreover have "size pv < size p" "plain pv" "plain cv"
        using True g \<open>pv = JUndef \<or> plain pv\<close> cv by (auto intro: size_js_get)
      ultimately show ?thesis using less.hyps by blast
    next
      case False
      with g that cv show ?thesis by (auto simp: touch_def split: if_splits)
    qed
  qed
  have entries: "plain_entries d \<and> wf_obj d"
    if "merge_existed p c ks delta = Inr d" "plain_entries delta" "wf_obj delta" for ks delta d
    using that
  proof (induction ks arbitrary: delta)
    case (Cons k ks)
    then obtain t where "touch p c k = Inr t"
      "merge_existed p c ks (record_touch k t delta) = Inr d"
      by (auto simp: merge_existed_step res_simps)
    with Cons touched show ?case
      by (auto simp: record_touch_def plain_entries_oput split: option.splits)
  qed simp
  from less.prems(1) obtain ks ks' delta delta' where
    "merge_existed p c ks [] = Inr delta" "merge_unexisted p c ks' delta = Inr delta'"
    and s: "s = (if okeys delta' = [] then JUndef else
      if isEmpty (json_clean (JObj delta')) then JUndef else json_clean (JObj delta'))"
    by (auto simp: mergeState.simps [of p c] res_simps Let_def split: if_splits)
  with entries plain_merge_unexisted less.prems(3)
  have "plain (json_clean (JObj delta'))"
    by (metis clean_plain_entries plain_entries_Nil wf_obj_Nil)
  with s show ?case by (auto simp: okeys_def)
qed

section \<open>The entries of the difference\<close>

definition delta_at :: "'n::semiring_1 jsval obj \<Rightarrow> 'n jsval obj \<Rightarrow> string \<Rightarrow> 'n jsval option" where
  "delta_at r d k =
     (case olookup d k of None \<Rightarrow> None
      | Some dv \<Rightarrow> (case olookup r k of None \<Rightarrow> Some dv
        | Some rv \<Rightarrow>
            if typeof rv = TObject then
              (case mergeState rv dv of Inr s \<Rightarrow> if s = JUndef then None else Some s | Inl e \<Rightarrow> None)
            else if rv = dv then None else Some dv))"

lemma okeys_iff: "k \<in> set (okeys m) \<longleftrightarrow> (\<exists>v. olookup m k = Some v)"
  by (simp add: obj.keys_lookup)

lemma distinct_okeys [simp]: "wf_obj m \<Longrightarrow> distinct (okeys m)"
  by (simp add: wf_obj_def okeys_def)

lemma plain_lookup_not_undef: "plain (JObj m) \<Longrightarrow> olookup m k \<noteq> Some JUndef"
  by (metis plain.simps(1) plain_lookup)

lemma plain_lookup_not_null: "plain (JObj m) \<Longrightarrow> olookup m k \<noteq> Some JNull"
  by (metis plain.simps(2) plain_lookup)

lemma oget_plain_undef: "plain (JObj m) \<Longrightarrow> oget m k = JUndef \<longleftrightarrow> olookup m k = None"
  using plain_lookup_not_undef [of m k] by (auto simp: oget_def split: option.splits)

lemma oget_plain_not_null: "plain (JObj m) \<Longrightarrow> oget m k \<noteq> JNull"
  using plain_oget [of m k] by auto

lemma clean_lookup_plain:
  assumes "plain_entries m" and "wf_obj m"
  shows "json_clean (JObj m) = JObj m' \<Longrightarrow>
    olookup m' k = (case olookup m k of None \<Rightarrow> None | Some v \<Rightarrow> if v = JUndef then None else Some v)"
  using assms unfolding plain_entries_def
  by (auto simp: olookup_json_clean split: option.split) (metis plain_clean)

lemma touch_plain_objects:
  assumes r: "plain (JObj r)" and d: "plain (JObj d)" and k: "olookup r k = Some rv"
  shows "touch (JObj r) (JObj d) k = Inr
    (case olookup d k of None \<Rightarrow> Some JUndef | Some dv \<Rightarrow> delta_at r d k)"
proof -
  have rv: "plain rv" "oget r k = rv" using r k by (auto simp: oget_def plain_lookup)
  then have rv_undef: "rv \<noteq> JUndef" by auto
  show ?thesis
  proof (cases "olookup d k")
    case None
    with rv rv_undef show ?thesis by (auto simp: touch_def oget_def k)
  next
    case (Some dv)
    then have dv: "plain dv" "oget d k = dv" using d by (auto simp: oget_def plain_lookup)
    then have "\<exists>s. mergeState rv dv = Inr s"
      using rv rv_undef by (intro mergeState_total plain_null_free plain_not_nullish)
    with rv dv Some k plain_not_nullish [OF dv(1)] show ?thesis
      by (auto simp: touch_def delta_at_def)
  qed
qed

lemma mergeState_entries:
  assumes r: "plain (JObj r)" and d: "plain (JObj d)"
  shows "\<exists>delta. mergeState (JObj r) (JObj d) = Inr (if delta = [] then JUndef else JObj delta) \<and>
    plain (JObj delta) \<and> (\<forall>k. olookup delta k = delta_at r d k)"
proof -
  have "\<exists>d1. merge_existed (JObj r) (JObj d) (okeys r) [] = Inr d1"
  proof (rule merge_existed_total)
    fix k assume "k \<in> set (okeys r)"
    then obtain rv where "olookup r k = Some rv" by (auto simp: okeys_iff)
    from touch_plain_objects [OF r d this] show "\<exists>t. touch (JObj r) (JObj d) k = Inr t" by simp
  qed
  then obtain d1 where m1: "merge_existed (JObj r) (JObj d) (okeys r) [] = Inr d1" ..
  have d1: "wf_obj d1" "\<And>k. olookup d1 k = (if k \<in> set (okeys r)
      then (case touch (JObj r) (JObj d) k of Inr (Some v) \<Rightarrow> Some v | _ \<Rightarrow> None) else None)"
    using merge_existed_lookup [OF m1 _ wf_obj_Nil] r
    by (simp_all split: sum.split option.split)
  obtain d2 where m2: "merge_unexisted (JObj r) (JObj d) (okeys d) d1 = Inr d2"
    and d2: "wf_obj d2" "\<And>k. olookup d2 k =
      (if k \<in> set (okeys d) \<and> oget r k = JUndef \<and> oget d k \<noteq> JNull then Some (oget d k)
       else olookup d1 k)"
    using merge_unexisted_objects [OF d1(1), of "okeys d" r d] d by auto
  have merged: "olookup d2 k = (case olookup d k of None \<Rightarrow>
      (case olookup r k of None \<Rightarrow> None | Some _ \<Rightarrow> Some JUndef) | Some dv \<Rightarrow> delta_at r d k)" for k
    using touch_plain_objects [OF r d, of k] plain_lookup_not_null [OF d, of k]
      plain_lookup_not_undef [OF r, of k]
    by (auto simp: d2(2) d1(2) okeys_iff delta_at_def oget_def split: option.splits)
  have "plain_entries d2"
  proof -
    have "v = JUndef \<or> plain v" if "olookup d2 k = Some v" for k v
      using that r d plain_lookup [OF r, of k] plain_lookup [OF d, of k] mergeState_plain
      unfolding merged delta_at_def
      by (fastforce split: option.splits if_splits sum.splits)
    then show ?thesis by (simp add: plain_entries_def)
  qed
  with d2(1) have pl: "plain (json_clean (JObj d2))" by (rule clean_plain_entries [rotated])
  obtain delta where delta: "json_clean (JObj d2) = JObj delta" by simp
  have none: "delta_at r d k = None" if "olookup d k = None" for k
    using that by (simp add: delta_at_def)
  have not_undef: "delta_at r d k \<noteq> Some JUndef" for k
    using plain_lookup [OF d, of k]
    by (auto simp: delta_at_def split: option.splits if_splits sum.splits)
  have "olookup delta k = delta_at r d k" for k
    using clean_lookup_plain [OF \<open>plain_entries d2\<close> d2(1) delta, of k] none not_undef [of k]
    by (auto simp: merged split: option.splits)
  moreover have "mergeState (JObj r) (JObj d) = Inr (if delta = [] then JUndef else JObj delta)"
    using m1 m2 delta by (auto simp: mergeState.simps [of "JObj r"] Let_def okeys_def)
  moreover have "plain (JObj delta)" using pl unfolding delta .
  ultimately show ?thesis by blast
qed

section \<open>Nothing left to do\<close>

text \<open>
  The reported state has every member the desired state asks for, with the desired value;
  members the desired state does not mention are free.
\<close>

fun covers :: "'n jsval \<Rightarrow> 'n jsval \<Rightarrow> bool" where
  "covers (JObj r) (JObj d) =
     (\<forall>(k, dv)\<in>set d. case olookup r k of None \<Rightarrow> False | Some rv \<Rightarrow> covers rv dv)"
| "covers rv dv = (rv = dv \<and> typeof rv \<noteq> TObject)"

text \<open>
  The two states agree on what is a dictionary, as far as the reported one is concerned: where it
  has a dictionary the desired state, if it says anything, has one too.
\<close>

fun compat :: "'n jsval \<Rightarrow> 'n jsval \<Rightarrow> bool" where
  "compat (JObj r) (JObj d) =
     (\<forall>(k, dv)\<in>set d. case olookup r k of None \<Rightarrow> True | Some rv \<Rightarrow> compat rv dv)"
| "compat (JObj r) dv = False"
| "compat rv dv = True"

lemma covers_lookup:
  assumes "wf_obj d"
  shows "covers (JObj r) (JObj d) \<longleftrightarrow>
    (\<forall>k dv. olookup d k = Some dv \<longrightarrow> (\<exists>rv. olookup r k = Some rv \<and> covers rv dv))"
  using assms by (auto simp: wf_obj_lookup split: option.splits) fastforce

lemma compat_lookup:
  assumes "wf_obj d" and "compat (JObj r) (JObj d)"
    and "olookup d k = Some dv" and "olookup r k = Some rv"
  shows "compat rv dv"
  using assms by (auto simp: wf_obj_lookup split: option.splits)

lemma compat_scalar: "typeof rv \<noteq> TObject \<Longrightarrow> compat rv dv"
  by (cases rv; cases dv) auto

lemma covers_scalar: "plain rv \<Longrightarrow> typeof rv \<noteq> TObject \<Longrightarrow> covers rv dv \<longleftrightarrow> rv = dv"
  by (cases rv; cases dv) auto

lemma compat_object: "compat (JObj r) dv \<Longrightarrow> \<exists>d. dv = JObj d"
  by (cases dv) auto

lemma mergeState_none_iff:
  assumes "plain (JObj r)" and "plain (JObj d)"
  shows "mergeState (JObj r) (JObj d) = Inr JUndef \<longleftrightarrow> (\<forall>k. delta_at r d k = None)"
proof -
  obtain delta where "mergeState (JObj r) (JObj d) = Inr (if delta = [] then JUndef else JObj delta)"
    and "\<forall>k. olookup delta k = delta_at r d k"
    using mergeState_entries [OF assms] by blast
  moreover have "delta = [] \<longleftrightarrow> (\<forall>k. olookup delta k = None)"
    by (cases delta) (auto simp: olookup_def)
  ultimately show ?thesis by simp
qed

lemma mergeState_in_sync:
  fixes r :: "'n::semiring_1 jsval obj"
  assumes "plain (JObj r)" and "plain (JObj d)" and "compat (JObj r) (JObj d)"
  shows "mergeState (JObj r) (JObj d) = Inr JUndef \<longleftrightarrow> covers (JObj r) (JObj d)"
  using assms
proof (induction "size (JObj r)" arbitrary: r d rule: less_induct)
  case less
  have wf: "wf_obj d" using less.prems(2) by simp
  have member: "delta_at r d k = None \<longleftrightarrow> (\<exists>rv. olookup r k = Some rv \<and> covers rv dv)"
    if dv: "olookup d k = Some dv" for k dv
  proof (cases "olookup r k")
    case (Some rv)
    have pl: "plain rv" "plain dv" using Some dv less.prems plain_lookup by blast+
    have cm: "compat rv dv" by (rule compat_lookup [OF wf less.prems(3) dv Some])
    show ?thesis
    proof (cases "typeof rv = TObject")
      case True
      then obtain r' where r': "rv = JObj r'" using pl plain_object_cases by blast
      then obtain d' where d': "dv = JObj d'" using cm compat_object by blast
      have "size (JObj r') < size (JObj r)" using Some r' size_olookup by blast
      then have iff: "mergeState rv dv = Inr JUndef \<longleftrightarrow> covers rv dv"
        using less.hyps pl cm r' d' by simp
      obtain s where "mergeState rv dv = Inr s"
        using mergeState_entries pl r' d' by blast
      with iff True Some dv show ?thesis by (auto simp: delta_at_def)
    next
      case False
      with pl Some dv show ?thesis by (simp add: delta_at_def covers_scalar)
    qed
  qed (simp add: delta_at_def dv)
  have "delta_at r d k = None" if "olookup d k = None" for k
    using that by (simp add: delta_at_def)
  then show ?case
    unfolding mergeState_none_iff [OF less.prems(1,2)] covers_lookup [OF wf]
    using member by (metis not_None_eq)
qed

section \<open>Convergence\<close>

text \<open>What a device does with a difference it receives: it takes over every member, at every level.\<close>

fun apply_delta :: "'n jsval \<Rightarrow> 'n jsval \<Rightarrow> 'n jsval" where
  "apply_delta (JObj r) (JObj dl) =
     JObj (fold (\<lambda>(k, v) m.
       oput k (case olookup r k of None \<Rightarrow> v | Some rv \<Rightarrow> apply_delta rv v) m) dl r)"
| "apply_delta rv v = v"

lemma fold_oput_lookup:
  assumes "wf_obj dl"
  shows "olookup (fold (\<lambda>(k, v) m. oput k (f k v) m) dl m) k =
    (case olookup dl k of None \<Rightarrow> olookup m k | Some v \<Rightarrow> Some (f k v))"
  using assms
proof (induction dl arbitrary: m)
  case (Cons p dl)
  obtain a v where p: "p = (a, v)" by (cases p)
  have "olookup dl a = None" using Cons.prems p
    by (simp add: wf_obj_def olookup_def map_of_eq_None_iff)
  with Cons p show ?case by (auto simp: wf_obj_def obj.lookup_put split: option.split)
qed simp

lemma fold_oput_wf: "wf_obj m \<Longrightarrow> wf_obj (fold (\<lambda>(k, v) m. oput k (f k v) m) dl m)"
  by (induction dl arbitrary: m) auto

lemma apply_delta_lookup:
  assumes "wf_obj dl"
  shows "\<exists>m. apply_delta (JObj r) (JObj dl) = JObj m \<and> (wf_obj r \<longrightarrow> wf_obj m) \<and>
    (\<forall>k. olookup m k = (case olookup dl k of None \<Rightarrow> olookup r k
      | Some v \<Rightarrow> Some (case olookup r k of None \<Rightarrow> v | Some rv \<Rightarrow> apply_delta rv v)))"
  using fold_oput_lookup [OF assms, of "\<lambda>k v. case olookup r k of None \<Rightarrow> v | Some rv \<Rightarrow> apply_delta rv v"]
    fold_oput_wf [of r "\<lambda>k v. case olookup r k of None \<Rightarrow> v | Some rv \<Rightarrow> apply_delta rv v" dl]
  by simp

lemma plain_JObj_iff: "plain (JObj m) \<longleftrightarrow> wf_obj m \<and> (\<forall>k v. olookup m k = Some v \<longrightarrow> plain v)"
  by (auto simp: wf_obj_lookup dest: olookup_SomeD)

lemma plain_apply_delta: "plain r \<Longrightarrow> plain dl \<Longrightarrow> plain (apply_delta r dl)"
proof (induction r dl rule: apply_delta.induct)
  case (1 r dl)
  have wf: "wf_obj dl" "wf_obj r" using "1.prems" by simp_all
  obtain m where m: "apply_delta (JObj r) (JObj dl) = JObj m" "wf_obj m"
    "\<And>k. olookup m k = (case olookup dl k of None \<Rightarrow> olookup r k
      | Some v \<Rightarrow> Some (case olookup r k of None \<Rightarrow> v | Some rv \<Rightarrow> apply_delta rv v))"
    using apply_delta_lookup [OF wf(1), of r] wf(2) by blast
  have "plain v" if v: "olookup m k = Some v" for k v
  proof (cases "olookup dl k")
    case None
    with v m(3) "1.prems" show ?thesis by (simp add: plain_lookup)
  next
    case (Some w)
    have mem: "(k, w) \<in> set dl" by (rule olookup_SomeD [OF Some])
    have w: "plain w" by (rule plain_lookup [OF "1.prems"(2) Some])
    show ?thesis
    proof (cases "olookup r k")
      case None
      with v m(3) Some w show ?thesis by simp
    next
      case rv: (Some rv)
      with v m(3) Some have "v = apply_delta rv w" by simp
      with "1.IH" [OF mem refl rv plain_lookup [OF "1.prems"(1) rv] w] show ?thesis by simp
    qed
  qed
  with m(1,2) show ?case by (simp only: plain_JObj_iff) simp
qed auto

lemma covers_refl: "plain v \<Longrightarrow> covers v v"
proof (induction v rule: plain.induct)
  case (4 m)
  then show ?case by (auto simp: wf_obj_lookup [symmetric])
qed auto

lemma covers_compat: "covers r d \<Longrightarrow> compat r d"
  by (induction r d rule: covers.induct) (fastforce split: option.splits)+

lemma apply_delta_covers:
  fixes r :: "'n::semiring_1 jsval obj"
  assumes "plain (JObj r)" and "plain (JObj d)" and "compat (JObj r) (JObj d)"
    and "mergeState (JObj r) (JObj d) = Inr (JObj dl)"
  shows "covers (apply_delta (JObj r) (JObj dl)) (JObj d)"
  using assms
proof (induction "size (JObj r)" arbitrary: r d dl rule: less_induct)
  case less
  have wf: "wf_obj d" using less.prems(2) by simp
  obtain delta where "mergeState (JObj r) (JObj d) = Inr (if delta = [] then JUndef else JObj delta)"
    and "plain (JObj delta)" and "\<forall>k. olookup delta k = delta_at r d k"
    using mergeState_entries [OF less.prems(1,2)] by blast
  with less.prems(4) have dl: "plain (JObj dl)" "\<And>k. olookup dl k = delta_at r d k"
    by (auto split: if_splits)
  obtain m where m: "apply_delta (JObj r) (JObj dl) = JObj m"
    "\<And>k. olookup m k = (case olookup dl k of None \<Rightarrow> olookup r k
      | Some v \<Rightarrow> Some (case olookup r k of None \<Rightarrow> v | Some rv \<Rightarrow> apply_delta rv v))"
    using apply_delta_lookup [of dl r] dl(1) by auto
  have "\<exists>v. olookup m k = Some v \<and> covers v dv" if dv: "olookup d k = Some dv" for k dv
  proof (cases "olookup r k")
    case None
    then show ?thesis
      using covers_refl plain_lookup [OF less.prems(2) dv] by (simp add: m(2) dl(2) delta_at_def dv)
  next
    case (Some rv)
    have pl: "plain rv" "plain dv" using Some dv less.prems plain_lookup by blast+
    have cm: "compat rv dv" by (rule compat_lookup [OF wf less.prems(3) dv Some])
    show ?thesis
    proof (cases "typeof rv = TObject")
      case True
      then obtain r' where r': "rv = JObj r'" using pl plain_object_cases by blast
      then obtain d' where d': "dv = JObj d'" using cm compat_object by blast
      have smaller: "size (JObj r') < size (JObj r)" using Some r' size_olookup by blast
      obtain s where s: "mergeState rv dv = Inr s"
        using mergeState_entries pl r' d' by blast
      show ?thesis
      proof (cases "s = JUndef")
        case True
        with s mergeState_in_sync [of r' d'] pl cm r' d' have "covers rv dv" by simp
        with True Some dv s show ?thesis by (simp add: m(2) dl(2) delta_at_def r')
      next
        case False
        then obtain s' where s': "s = JObj s'" using mergeState_plain [OF s pl] by blast
        then have "covers (apply_delta rv s) dv"
          using less.hyps [OF smaller] pl cm s r' d' by simp
        with False Some dv s show ?thesis by (simp add: m(2) dl(2) delta_at_def r')
      qed
    next
      case False
      moreover have "apply_delta rv dv = dv" using False by (cases rv) auto
      ultimately show ?thesis
        using covers_refl [OF pl(2)] Some dv pl
        by (auto simp: m(2) dl(2) delta_at_def)
    qed
  qed
  then show ?case unfolding m(1) covers_lookup [OF wf] by blast
qed

section \<open>What the web client shows\<close>

text \<open>A state document as the web client gets it: at least these two members.\<close>

definition state_doc :: "'n jsval \<Rightarrow> 'n jsval \<Rightarrow> 'n jsval" where
  "state_doc desired reported = JObj [(''desired'', desired), (''reported'', reported)]"

lemma diffState_members:
  assumes "is_obj st"
  shows "diffState st = res_bind (mergeState (fld st ''reported'') (fld st ''desired''))
    (\<lambda>delta. Inr (delta \<noteq> JUndef, delta))"
  using assms by (auto simp: diffState_def js_or_def is_obj_def)

lemma mergeState_nullish: "nullish p \<or> nullish c \<Longrightarrow> \<exists>e. mergeState p c = Inl e"
proof (cases "js_keys p")
  case (Inr ks)
  assume n: "nullish p \<or> nullish c"
  have "\<not> nullish p" using Inr by (cases p) auto
  then have c: "nullish c" using n by simp
  have "js_get c k = Inl TypeError" "js_keys c = Inl TypeError" for k
    using c by (auto simp: nullish_def)
  then show ?thesis
    by (cases "merge_existed p c ks []") (simp_all add: mergeState.simps [of p c] Inr)
qed (simp add: mergeState.simps [of p c])





text \<open>
  C14. Showing the difference of a state document throws exactly when one of its two states is
  missing or null, or some common path holds null in the reported state and a value in the desired
  state.
\<close>

theorem diffState_throws_iff:
  assumes "is_obj st"
  shows "(\<exists>e. diffState st = Inl e) \<longleftrightarrow>
    nullish (fld st ''reported'') \<or> nullish (fld st ''desired'') \<or>
    null_clash (fld st ''reported'') (fld st ''desired'')"
proof -
  have "(\<exists>e. diffState st = Inl e) \<longleftrightarrow>
    (\<exists>e. mergeState (fld st ''reported'') (fld st ''desired'') = Inl e)"
    unfolding diffState_members [OF assms] by (simp add: res_bind_eq_Inl)
  also have "\<dots> \<longleftrightarrow> nullish (fld st ''reported'') \<or> nullish (fld st ''desired'') \<or>
    null_clash (fld st ''reported'') (fld st ''desired'')"
    using mergeState_throws_iff_clash mergeState_nullish by blast
  finally show ?thesis .
qed

theorem diffState_throws_iff_witness:
  "\<exists>e. diffState (state_doc (JObj [(''a'', JNum (1::int))]) (JObj [(''a'', JNull)])) = Inl e"
proof -
  have "null_clash (JObj [(''a'', JNull)]) (JObj [(''a'', JNum (1::int))])"
    by (rule null_clash.here [of _ "[''a'']" "''a''" _ "JNum 1"]) (simp_all add: okeys_def)
  then show ?thesis
    using diffState_throws_iff [of "state_doc (JObj [(''a'', JNum (1::int))]) (JObj [(''a'', JNull)])"]
    by (simp add: state_doc_def)
qed

text \<open>
  Where a dictionary of scalars is reported and a number is desired, no difference is shown.
\<close>

lemma web_blind_spot:
  fixes r :: "'n::semiring_1 jsval obj"
  assumes "plain (JObj r)" and "\<forall>k v. olookup r k = Some v \<longrightarrow> typeof v \<noteq> TObject"
  shows "diffState (state_doc (JObj [(k, JNum n)]) (JObj [(k, JObj r)])) = Inr (False, JUndef) \<and>
    \<not> covers (JObj [(k, JObj r)]) (JObj [(k, JNum n)])"
proof -
  have cleaned: "json_clean (JObj m) = JObj []" if "\<forall>k v. olookup m k = Some v \<longrightarrow> v = JUndef" "wf_obj m"
    for m :: "'n jsval obj"
    using that by (auto simp: filter_empty_conv wf_obj_lookup)
  have touched: "touch (JObj r) (JNum n) k' = Inr (Some JUndef)" if "k' \<in> set (okeys r)" for k'
  proof -
    from that obtain v where v: "olookup r k' = Some v" by (auto simp: okeys_iff)
    with assms(2) have "typeof v \<noteq> TObject" by blast
    moreover have "v \<noteq> JUndef" using plain_lookup_not_undef [OF assms(1)] v by metis
    ultimately show ?thesis by (simp add: touch_def oget_def v)
  qed
  then obtain m where m: "merge_existed (JObj r) (JNum n) (okeys r) [] = Inr m"
    using merge_existed_total by blast
  have "wf_obj m" "\<forall>k v. olookup m k = Some v \<longrightarrow> v = JUndef"
    using merge_existed_lookup [OF m] assms(1) touched by (auto split: if_splits)
  with cleaned have "json_clean (JObj m) = JObj []" by blast
  then have "mergeState (JObj r) (JNum n) = Inr JUndef"
    using m by (simp add: mergeState.simps [of "JObj r"] Let_def okeys_def)
  then have "mergeState (JObj [(k, JObj r)]) (JObj [(k, JNum n)]) = Inr JUndef"
    by (simp add: mergeState.simps [of "JObj [(k, JObj r)]"] okeys_def merge_existed_step touch_def
      record_touch_def)
  then show ?thesis by (simp add: diffState_members state_doc_def)
qed

end
