(* ===== verification/ServerShadow.thy ===== *)
theory ServerShadow
  imports ShadowSync
begin

text \<open>
  The server's difference of two shadow states (\<open>DeltaState\<close> and \<open>deltaDiff\<close> of
  \<open>shadow/merge.go\<close>), which decides what is sent to a device, and its agreement with the difference
  the web client displays. A Go value of type \<open>any\<close> decoded from JSON is a JSON value, \<open>nil\<close> is
  \<open>JNull\<close>, a map that may be \<open>nil\<close> is an option; a failed type assertion panics (\<open>Inl\<close>). Go
  iterates over a map in no fixed order: the model takes the order of the entries, and results
  are compared as maps (\<open>same_doc\<close>).
\<close>

section \<open>Comparison of documents as maps\<close>

text \<open>\<open>reflect.DeepEqual\<close> on decoded JSON: the order of the members of a map is irrelevant.\<close>

fun same_doc :: "'n jsval \<Rightarrow> 'n jsval \<Rightarrow> bool" where
  "same_doc (JObj a) (JObj b) =
     (set (okeys a) = set (okeys b) \<and>
      (\<forall>(k, v)\<in>set a. case olookup b k of None \<Rightarrow> False | Some w \<Rightarrow> same_doc v w))"
| "same_doc (JArr xs) ys = (case ys of JArr ys' \<Rightarrow>
     length xs = length ys' \<and> list_all2 same_doc xs ys' | _ \<Rightarrow> False)"
| "same_doc (JObj a) w = False"
| "same_doc v w = (v = w)"

section \<open>The functions of the source\<close>

definition meta_at :: "'n jsval obj \<Rightarrow> string \<Rightarrow> 'n jsval" where
  "meta_at meta key = (case olookup meta key of Some m \<Rightarrow> m | None \<Rightarrow> JNull)"

text \<open>Assign a member of an \<open>any\<close> that is \<open>nil\<close> until its first assignment makes it a map.\<close>

fun any_put :: "string \<Rightarrow> 'n jsval \<Rightarrow> 'n jsval \<Rightarrow> 'n jsval" where
  "any_put k v (JObj m) = JObj (oput k v m)"
| "any_put k v _ = JObj [(k, v)]"

fun deltaDiff ::
    "string \<Rightarrow> 'n jsval \<Rightarrow> 'n jsval \<Rightarrow> 'n jsval obj \<Rightarrow> ('n jsval \<times> 'n jsval) res"
  and deltaFields ::
    "'n jsval obj \<Rightarrow> 'n jsval obj \<Rightarrow> 'n jsval obj \<Rightarrow> 'n jsval \<times> 'n jsval \<Rightarrow>
     ('n jsval \<times> 'n jsval) res"
where
  "deltaDiff key (JObj t) source meta =
     (case source of
        JObj s \<Rightarrow>
          res_bind (case olookup meta key of
              Some (JObj tmp) \<Rightarrow> Inr tmp | Some _ \<Rightarrow> Inl TypeError | None \<Rightarrow> Inr [])
            (\<lambda>subMeta. deltaFields t s subMeta (JNull, JNull))
      | _ \<Rightarrow> Inr (JObj t, meta_at meta key))"
| "deltaDiff key (JArr xs) source meta =
     (if same_doc (JArr xs) source then Inr (JNull, JNull) else Inr (JArr xs, meta_at meta key))"
| "deltaDiff key JUndef source meta = Inr (JNull, JNull)"
| "deltaDiff key t source meta =
     (if t = source then Inr (JNull, JNull) else Inr (t, meta_at meta key))"
| "deltaFields [] s subMeta (delta, deltaMeta) = Inr (delta, deltaMeta)"
| "deltaFields ((k, v) # t) s subMeta (delta, deltaMeta) =
     res_bind (deltaDiff k v (case olookup s k of Some w \<Rightarrow> w | None \<Rightarrow> JNull) subMeta) (\<lambda>(sd, sdm).
       deltaFields t s subMeta
         (if sd \<noteq> JNull then any_put k sd delta else delta,
          if sdm \<noteq> JNull then any_put k sdm deltaMeta else deltaMeta))"

text \<open>The loop of \<open>DeltaState\<close> over the desired members; both results start as empty maps.\<close>

fun deltaState_loop ::
  "'n jsval obj \<Rightarrow> 'n jsval obj \<Rightarrow> 'n jsval obj \<Rightarrow> 'n jsval obj \<times> 'n jsval obj \<Rightarrow>
   ('n jsval obj \<times> 'n jsval obj) res" where
  "deltaState_loop [] reported meta (delta, deltaMeta) = Inr (delta, deltaMeta)"
| "deltaState_loop ((k, v) # desired) reported meta (delta, deltaMeta) =
     res_bind (deltaDiff k v (case olookup reported k of Some w \<Rightarrow> w | None \<Rightarrow> JNull) meta) (\<lambda>(d, dm).
       deltaState_loop desired reported meta
         (if d \<noteq> JNull then oput k d delta else delta,
          if dm \<noteq> JNull then oput k dm deltaMeta else deltaMeta))"

definition DeltaState ::
  "'n jsval obj option \<Rightarrow> 'n jsval obj option \<Rightarrow> 'n jsval obj option \<Rightarrow>
   ('n jsval obj option \<times> 'n jsval obj option) res" where
  "DeltaState desired reported meta =
     (case desired of None \<Rightarrow> Inr (None, None)
      | Some des \<Rightarrow> (case reported of None \<Rightarrow> Inr (desired, meta)
        | Some rep \<Rightarrow>
            res_bind (deltaState_loop des rep (case meta of Some m \<Rightarrow> m | None \<Rightarrow> []) ([], []))
              (\<lambda>(delta, deltaMeta). Inr (Some delta, Some deltaMeta))))"

section \<open>The entries of the server's difference\<close>

definition source_at :: "'n jsval obj \<Rightarrow> string \<Rightarrow> 'n jsval" where
  "source_at s k = (case olookup s k of Some w \<Rightarrow> w | None \<Rightarrow> JNull)"

definition entries_of :: "'n jsval \<Rightarrow> 'n jsval obj" where
  "entries_of v = (case v of JObj m \<Rightarrow> m | _ \<Rightarrow> [])"

lemma entries_of_any_put: "entries_of (any_put k v d) = oput k v (entries_of d)"
  by (cases d) (auto simp: entries_of_def)

lemma any_put_shape: "\<exists>m. any_put k v d = JObj m \<and> m \<noteq> []"
  by (cases d) auto

lemma deltaFields_loop:
  assumes "d = JNull \<or> (\<exists>m. d = JObj m \<and> m \<noteq> [])"
  shows "deltaFields t s sm (d, dm) = Inr (d', dm') \<Longrightarrow>
    (\<exists>x. deltaState_loop t s sm (entries_of d, entries_of dm) = Inr (entries_of d', x)) \<and>
    (d' = JNull \<or> (\<exists>m. d' = JObj m \<and> m \<noteq> []))"
  using assms
proof (induction t arbitrary: d dm)
  case (Cons p t)
  obtain k v where p: "p = (k, v)" by (cases p)
  from Cons.prems(1) obtain sd sdm where
    dd: "deltaDiff k v (case olookup s k of Some w \<Rightarrow> w | None \<Rightarrow> JNull) sm = Inr (sd, sdm)"
    and rest: "deltaFields t s sm (if sd \<noteq> JNull then any_put k sd d else d,
      if sdm \<noteq> JNull then any_put k sdm dm else dm) = Inr (d', dm')"
    by (auto simp: p res_simps)
  have "(if sd \<noteq> JNull then any_put k sd d else d) = JNull \<or>
    (\<exists>m. (if sd \<noteq> JNull then any_put k sd d else d) = JObj m \<and> m \<noteq> [])"
    using Cons.prems(2) any_put_shape [of k sd d] by simp
  from Cons.IH [OF rest this] dd show ?case
    by (auto simp: p entries_of_any_put if_distrib cong: if_cong)
qed auto

lemma deltaState_loop_lookup:
  assumes "deltaState_loop t s sm (d, dm) = Inr (d', dm')" and "wf_obj t" and "wf_obj d"
  shows "wf_obj d' \<and> (\<forall>k. olookup d' k =
    (case olookup t k of None \<Rightarrow> olookup d k
     | Some v \<Rightarrow> (case deltaDiff k v (source_at s k) sm of
         Inr (sd, _) \<Rightarrow> if sd \<noteq> JNull then Some sd else olookup d k | Inl _ \<Rightarrow> None))) \<and>
    (\<forall>k v. olookup t k = Some v \<longrightarrow> (\<exists>r. deltaDiff k v (source_at s k) sm = Inr r))"
  using assms
proof (induction t arbitrary: d dm)
  case (Cons p t)
  obtain k v where p: "p = (k, v)" by (cases p)
  then have fresh: "olookup t k = None" and wf: "wf_obj t" using Cons.prems(2)
    by (auto simp: wf_obj_def olookup_def map_of_eq_None_iff)
  from Cons.prems(1) obtain sd sdm where
    dd: "deltaDiff k v (source_at s k) sm = Inr (sd, sdm)"
    and rest: "deltaState_loop t s sm (if sd \<noteq> JNull then oput k sd d else d,
      if sdm \<noteq> JNull then oput k sdm dm else dm) = Inr (d', dm')"
    by (auto simp: p res_simps source_at_def)
  from Cons.IH [OF rest wf] Cons.prems(3) dd fresh show ?case
    by (auto simp: p obj.lookup_put split: option.splits sum.splits)
qed simp

lemma same_doc_lookup:
  assumes "wf_obj a"
  shows "same_doc (JObj a) (JObj b) \<longleftrightarrow>
    (\<forall>k. (olookup a k = None) = (olookup b k = None) \<and>
      (\<forall>v w. olookup a k = Some v \<longrightarrow> olookup b k = Some w \<longrightarrow> same_doc v w))"
proof -
  have keys: "set (okeys a) = set (okeys b) \<longleftrightarrow> (\<forall>k. (olookup a k = None) = (olookup b k = None))"
    by (simp add: set_eq_iff obj.keys_lookup del: not_None_eq)
  show ?thesis
    unfolding same_doc.simps(1) wf_obj_Ball [OF assms] keys
    by (fastforce split: option.splits)
qed

lemma same_doc_refl: "plain v \<Longrightarrow> same_doc v v"
proof (induction v rule: plain.induct)
  case (4 m)
  then show ?case by (auto simp: wf_obj_lookup [symmetric])
qed auto

section \<open>Agreement with the web client\<close>

text \<open>The web client's \<open>undefined\<close> (no difference) is the server's \<open>nil\<close>.\<close>

fun agrees :: "'n jsval \<Rightarrow> 'n jsval \<Rightarrow> bool" where
  "agrees g JUndef = (g = JNull)"
| "agrees g w = same_doc g w"

lemma deltaDiff_scalar:
  "plain t \<Longrightarrow> typeof t \<noteq> TObject \<Longrightarrow>
   deltaDiff k t s m = Inr (if t = s then (JNull, JNull) else (t, meta_at m k))"
  by (cases t) auto

lemma deltaDiff_not_map:
  "plain t \<Longrightarrow> plain s \<or> s = JNull \<Longrightarrow> typeof s \<noteq> TObject \<or> s = JNull \<Longrightarrow> t \<noteq> s \<Longrightarrow>
   deltaDiff k t s m = Inr (t, meta_at m k)"
  by (cases t; cases s) auto

definition agree_at ::
  "'n::semiring_1 jsval obj \<Rightarrow> 'n jsval obj \<Rightarrow> 'n jsval obj \<Rightarrow> string \<Rightarrow> bool" where
  "agree_at r d meta k \<longleftrightarrow> (case delta_at r d k of
      None \<Rightarrow> olookup d k = None \<or>
        (\<exists>dv y. olookup d k = Some dv \<and> deltaDiff k dv (source_at r k) meta = Inr (JNull, y))
    | Some w \<Rightarrow> \<exists>dv x y. olookup d k = Some dv \<and> x \<noteq> JNull \<and>
        deltaDiff k dv (source_at r k) meta = Inr (x, y) \<and> same_doc x w)"

lemma delta_lookups_agree:
  fixes r :: "'n::semiring_1 jsval obj"
  assumes r: "plain (JObj r)" and d: "plain (JObj d)" and cm: "compat (JObj r) (JObj d)"
    and sub: "\<And>k rv dv x. olookup r k = Some (JObj rv) \<Longrightarrow> olookup d k = Some (JObj dv) \<Longrightarrow>
      deltaDiff k (JObj dv) (JObj rv) meta = Inr x \<Longrightarrow>
      \<exists>w. mergeState (JObj rv) (JObj dv) = Inr w \<and> agrees (fst x) w"
    and dd: "\<And>k dv. olookup d k = Some dv \<Longrightarrow> \<exists>x. deltaDiff k dv (source_at r k) meta = Inr x"
  shows "agree_at r d meta k"
proof (cases "olookup d k")
  case None
  then show ?thesis by (simp add: agree_at_def delta_at_def)
next
  case (Some dv)
  have dv: "plain dv" "dv \<noteq> JNull" using plain_lookup [OF d Some] by auto
  show ?thesis
  proof (cases "olookup r k")
    case None
    with Some dv deltaDiff_not_map [OF dv(1), of JNull k meta] show ?thesis
      by (simp add: agree_at_def delta_at_def source_at_def same_doc_refl)
  next
    case rk: (Some rv)
    have rv: "plain rv" by (rule plain_lookup [OF r rk])
    show ?thesis
    proof (cases "typeof rv = TObject")
      case True
      then obtain rv' where rv': "rv = JObj rv'" using plain_object_cases [OF rv] by blast
      moreover have "compat rv dv" using d compat_lookup [OF _ cm Some rk] by simp
      ultimately obtain dv' where dv': "dv = JObj dv'" using compat_object by blast
      obtain x y where x: "deltaDiff k dv (source_at r k) meta = Inr (x, y)"
        using dd [OF Some] by auto
      then have x': "deltaDiff k (JObj dv') (JObj rv') meta = Inr (x, y)"
        by (simp add: source_at_def rk rv' dv')
      obtain w where w: "mergeState rv dv = Inr w" "agrees x w"
        using sub [OF rk [unfolded rv'] Some [unfolded dv'] x'] rv' dv' by auto
      show ?thesis
      proof (cases "w = JUndef")
        case True
        with w x Some rk rv' show ?thesis by (simp add: agree_at_def delta_at_def)
      next
        case False
        then obtain w' where "w = JObj w'" using mergeState_plain [OF w(1) rv dv(1)] by blast
        with w x Some rk rv' show ?thesis by (cases x) (auto simp: agree_at_def delta_at_def)
      qed
    next
      case False
      have "deltaDiff k dv rv meta = Inr (if dv = rv then (JNull, JNull) else (dv, meta_at meta k))"
        using deltaDiff_scalar [OF rv False] deltaDiff_not_map [OF dv(1), of rv] rv False by auto
      with False Some rk dv show ?thesis
        by (auto simp: agree_at_def delta_at_def source_at_def same_doc_refl)
    qed
  qed
qed

lemma loop_agrees:
  fixes r :: "'n::semiring_1 jsval obj"
  assumes r: "plain (JObj r)" and d: "plain (JObj d)" and cm: "compat (JObj r) (JObj d)"
    and sub: "\<And>k rv dv x. olookup r k = Some (JObj rv) \<Longrightarrow> olookup d k = Some (JObj dv) \<Longrightarrow>
      deltaDiff k (JObj dv) (JObj rv) meta = Inr x \<Longrightarrow>
      \<exists>w. mergeState (JObj rv) (JObj dv) = Inr w \<and> agrees (fst x) w"
    and loop: "deltaState_loop d r meta ([], dm) = Inr (g, gm)"
  shows "\<exists>w. mergeState (JObj r) (JObj d) = Inr (if w = [] then JUndef else JObj w) \<and>
    same_doc (JObj g) (JObj w)"
proof -
  obtain w where w: "mergeState (JObj r) (JObj d) = Inr (if w = [] then JUndef else JObj w)"
    "\<And>k. olookup w k = delta_at r d k"
    using mergeState_entries [OF r d] by blast
  have wfd: "wf_obj d" using d by simp
  note L = deltaState_loop_lookup [OF loop wfd wf_obj_Nil]
  have ex: "\<exists>x. deltaDiff k dv (source_at r k) meta = Inr x" if "olookup d k = Some dv" for k dv
    using L that by blast
  have g: "olookup g k = (case olookup d k of None \<Rightarrow> None
     | Some v \<Rightarrow> (case deltaDiff k v (source_at r k) meta of
         Inr (sd, _) \<Rightarrow> if sd \<noteq> JNull then Some sd else None | Inl _ \<Rightarrow> None))" for k
    using L by (auto split: option.split sum.split)
  have at: "(olookup g k = None) = (olookup w k = None) \<and>
      (\<forall>x y. olookup g k = Some x \<longrightarrow> olookup w k = Some y \<longrightarrow> same_doc x y)" for k
  proof -
    have "agree_at r d meta k"
      by (rule delta_lookups_agree [OF r d cm]) (use sub ex in blast)+
    then show ?thesis by (cases "delta_at r d k") (auto simp: agree_at_def g w(2))
  qed
  have "same_doc (JObj g) (JObj w)"
    using L at by (subst same_doc_lookup) auto
  with w(1) show ?thesis by blast
qed

lemma deltaDiff_agrees:
  fixes r :: "'n::semiring_1 jsval obj"
  assumes "plain (JObj r)" and "plain (JObj d)" and "compat (JObj r) (JObj d)"
    and "deltaDiff key (JObj d) (JObj r) meta = Inr x"
  shows "\<exists>w. mergeState (JObj r) (JObj d) = Inr w \<and> agrees (fst x) w"
  using assms
proof (induction "size (JObj r)" arbitrary: r d key meta x rule: less_induct)
  case less
  obtain sm where fields: "deltaFields d r sm (JNull, JNull) = Inr x"
    using less.prems(4) by (auto simp: res_simps)
  obtain g gm where x: "x = (g, gm)" by (cases x)
  obtain y where shape: "deltaState_loop d r sm (entries_of JNull, entries_of JNull) = Inr (entries_of g, y)"
    "g = JNull \<or> (\<exists>m. g = JObj m \<and> m \<noteq> [])"
    using deltaFields_loop [OF _ fields [unfolded x]] by blast
  then have loop: "deltaState_loop d r sm ([], []) = Inr (entries_of g, y)"
    by (simp add: entries_of_def)
  have sub: "\<exists>w. mergeState (JObj rv) (JObj dv) = Inr w \<and> agrees (fst x') w"
    if k: "olookup r k = Some (JObj rv)" "olookup d k = Some (JObj dv)"
      and dd: "deltaDiff k (JObj dv) (JObj rv) sm = Inr x'" for k rv dv x'
  proof (rule less.hyps [OF _ _ _ _ dd])
    show "size (JObj rv) < size (JObj r)" by (rule size_olookup [OF k(1)])
    show "plain (JObj rv)" by (rule plain_lookup [OF less.prems(1) k(1)])
    show "plain (JObj dv)" by (rule plain_lookup [OF less.prems(2) k(2)])
    show "compat (JObj rv) (JObj dv)"
      using less.prems(2) by (intro compat_lookup [OF _ less.prems(3) k(2,1)]) simp
  qed
  have "\<exists>w. mergeState (JObj r) (JObj d) = Inr (if w = [] then JUndef else JObj w) \<and>
    same_doc (JObj (entries_of g)) (JObj w)"
    by (rule loop_agrees [OF less.prems(1-3) _ loop]) (rule sub)
  then obtain w where w: "mergeState (JObj r) (JObj d) = Inr (if w = [] then JUndef else JObj w)"
    "same_doc (JObj (entries_of g)) (JObj w)"
    by blast
  show ?case
  proof (cases "w = []")
    case True
    with w(2) have "entries_of g = []" by (simp add: okeys_def)
    with shape(2) True w(1) show ?thesis by (auto simp: x entries_of_def)
  next
    case False
    with w(2) have "g \<noteq> JNull" by (auto simp: entries_of_def okeys_def)
    then obtain m where "g = JObj m" using shape(2) by auto
    with False w show ?thesis by (simp add: x entries_of_def del: same_doc.simps)
  qed
qed

section \<open>Properties\<close>



text \<open>
  The agreement ends where the device reports a dictionary and a scalar is desired: the server
  sends the desired number, while the web client shows the two states as in sync.
\<close>

theorem diffState_blind_spot:
  fixes r :: "'n::semiring_1 jsval obj"
  assumes "plain (JObj r)" and "\<forall>k v. olookup r k = Some v \<longrightarrow> typeof v \<noteq> TObject"
  shows "diffState (state_doc (JObj [(k, JNum n)]) (JObj [(k, JObj r)])) = Inr (False, JUndef) \<and>
    \<not> covers (JObj [(k, JObj r)]) (JObj [(k, JNum n)]) \<and>
    (\<exists>m. DeltaState (Some [(k, JNum n)]) (Some [(k, JObj r)]) meta = Inr (Some [(k, JNum n)], Some m))"
  using web_blind_spot [OF assms, of k n] by (simp add: DeltaState_def)

theorem diffState_blind_spot_witness:
  "diffState (state_doc (JObj [(''temp'', JNum (20::int))])
     (JObj [(''temp'', JObj [(''in'', JNum 18), (''out'', JNum 5)])])) = Inr (False, JUndef)"
  using diffState_blind_spot [of "[(''in'', JNum (18::int)), (''out'', JNum 5)]" "''temp''" 20]
  by (simp add: wf_obj_def)

end
