(* ===== verification/Effects.thy ===== *)
theory Effects
  imports JsString
begin

text \<open>
  The visible effects of the web client that are no part of its store: the notifications of
  \<open>web/src/utils/layout.js\<close>, the window events of \<open>web/src/utils/event.js\<close>, and the identifiers of
  \<open>web/src/utils/generators.js\<close>, whose random part (the package \<open>uuid\<close> and \<open>Math.random\<close>) is an
  argument.
\<close>

section \<open>Notifications\<close>

record notification =
  title :: string
  message :: string
  ntype :: string

definition notifyFail :: "string \<Rightarrow> notification" where
  "notifyFail msg = \<lparr>title = ''Failure'', message = msg, ntype = ''error''\<rparr>"

definition notifyWarn :: "string \<Rightarrow> notification" where
  "notifyWarn msg = \<lparr>title = ''Warning'', message = msg, ntype = ''warning''\<rparr>"

definition notifyDone :: "string \<Rightarrow> notification" where
  "notifyDone msg = \<lparr>title = ''Success'', message = msg, ntype = ''success''\<rparr>"

section \<open>Events\<close>

definition REQ_ROUTE_CHG_EVT :: string where "REQ_ROUTE_CHG_EVT = ''request-route-change''"
definition TH_STATUS_CHG_EVT :: string where "TH_STATUS_CHG_EVT = ''thing-state-change''"
definition TSCE_HTTP :: string where "TSCE_HTTP = ''http-requested''"
definition TSCE_MSGO :: string where "TSCE_MSGO = ''message-out''"
definition TSCE_MSGI :: string where "TSCE_MSGI = ''message-in''"
definition TSCE_MQTT :: string where "TSCE_MQTT = ''mqtt-connected''"
definition TSCE_MQTO :: string where "TSCE_MQTO = ''mqtt-disconnected''"

text \<open>
  What an event tells about: the configuration object of a connection (by reference) with the
  token of the connect request, the topic of a message, a request, nothing.
\<close>

type_synonym cref = nat

datatype about =
    AboutConn cref string
  | AboutTopic js
  | AboutRequest js js
  | AboutEmpty
  | AboutNull

record thing_event =
  ev_timestamp :: int
  ev_thingId :: js
  ev_about :: about
  ev_type :: string

datatype window_event =
    ThingStateChange thing_event
  | RouteChange string

definition requestLogOut :: window_event where
  "requestLogOut = RouteChange ''Login''"

definition notifyThingStateChange :: "int \<Rightarrow> js \<Rightarrow> string \<Rightarrow> about \<Rightarrow> window_event" where
  "notifyThingStateChange timestamp thingId type abt =
     ThingStateChange \<lparr>ev_timestamp = timestamp, ev_thingId = thingId, ev_about = abt, ev_type = type\<rparr>"

text \<open>The name under which \<open>window.dispatchEvent\<close> delivers each event.\<close>

fun event_name :: "window_event \<Rightarrow> string" where
  "event_name (ThingStateChange e) = TH_STATUS_CHG_EVT"
| "event_name (RouteChange n) = REQ_ROUTE_CHG_EVT"

section \<open>Generated identifiers\<close>

text \<open>The argument is the text of a version 4 UUID, or of a random fraction in base 16.\<close>

definition genClientIdSuffix :: "string \<Rightarrow> string" where
  "genClientIdSuffix random16 = take 8 (drop 2 random16)"

definition genConnectionId :: "string \<Rightarrow> string" where
  "genConnectionId uuid = ''conn-'' @ uuid"

definition genDelegateId :: "string \<Rightarrow> string" where
  "genDelegateId uuid = ''dlgt-'' @ uuid"

definition genSubscriptionId :: "string \<Rightarrow> string" where
  "genSubscriptionId uuid = ''subs_'' @ uuid"

definition genMessageId :: "string \<Rightarrow> string" where
  "genMessageId uuid = ''msg'' @ uuid"

definition genConnectedCallbackToken :: "string \<Rightarrow> string" where
  "genConnectedCallbackToken uuid = ''ccbt-'' @ drop 24 uuid"

definition genClientToken :: "string \<Rightarrow> string" where
  "genClientToken uuid = ''ct-'' @ drop 24 uuid"

lemmas gen_defs = genClientIdSuffix_def genConnectionId_def genDelegateId_def
  genSubscriptionId_def genMessageId_def genConnectedCallbackToken_def genClientToken_def

lemma gen_tokens_differ: "genConnectedCallbackToken u \<noteq> ''''"
  by (simp add: gen_defs)

end
