(* ===== verification/Suggestions.thy ===== *)
theory Suggestions
  imports Effects
begin

text \<open>
  The topic suggestions of the web client (\<open>web/src/configs/tool.js\<close> and the files of
  \<open>web/src/configs/mqtt-suggestions\<close>): names, the documented topic code, for whom a topic is
  meant, the resolver that fills in the device id, and the payload a publish suggestion proposes.
  A resolver gets \<open>params.thingId\<close>; a payload resolver uses the clock (\<open>now\<close>, milliseconds) and a
  generated client token, which are arguments here. The payload is the value the source hands to
  \<open>JSON.stringify\<close>.
\<close>

record pub_suggestion =
  pub_name :: string
  pub_code :: string
  pub_forThing :: bool
  pub_forServer :: bool
  pub_topicResolver :: "js \<Rightarrow> string"
  pub_payloadType :: string
  pub_payloadResolver :: "int \<Rightarrow> string \<Rightarrow> js"

record sub_topic =
  sub_name :: string
  sub_code :: string
  sub_forThing :: bool
  sub_forServer :: bool
  sub_suggested :: bool
  sub_topicResolver :: "js \<Rightarrow> string"

record sub_group =
  group_name :: string
  group_topics :: "sub_topic list"

text \<open>A topic of the shape \<open>$iothub/things/${thingId}/rest\<close>.\<close>

definition things_topic :: "string \<Rightarrow> js \<Rightarrow> string" where
  "things_topic rest thingId = ''$iothub/things/'' @ js_str thingId @ ''/'' @ rest"

definition user_things_topic :: "string \<Rightarrow> js \<Rightarrow> string" where
  "user_things_topic rest thingId = ''$iothub/user/things/'' @ js_str thingId @ ''/'' @ rest"

abbreviation fixed_topic :: "string \<Rightarrow> js \<Rightarrow> string" where
  "fixed_topic t thingId \<equiv> t"

section \<open>Topics to publish to\<close>

definition pubTopicsShadow :: "pub_suggestion list" where
  "pubTopicsShadow = [
   \<lparr>pub_name = ''Get Shadow'',
    pub_code = ''$iothub/things/{thingId}/shadows/name/default/get'',
    pub_forThing = True, pub_forServer = False,
    pub_topicResolver = things_topic ''shadows/name/default/get'',
    pub_payloadType = ''JSON'',
    pub_payloadResolver = (\<lambda>now uuid. JObj [])\<rparr>,
   \<lparr>pub_name = ''Update Shadow'',
    pub_code = ''$iothub/things/{thingId}/shadows/name/default/update'',
    pub_forThing = True, pub_forServer = False,
    pub_topicResolver = things_topic ''shadows/name/default/update'',
    pub_payloadType = ''JSON'',
    pub_payloadResolver = (\<lambda>now uuid. JObj [(''state'', JObj [(''reported'', JObj [])]),
      (''clientToken'', JStr (genClientToken uuid)), (''version'', JNum 0)])\<rparr>]"

definition pubTopicsThing :: "pub_suggestion list" where
  "pubTopicsThing = [
   \<lparr>pub_name = ''Report Property'',
    pub_code = ''$iothub/things/{thingId}/messages/property'',
    pub_forThing = True, pub_forServer = False,
    pub_topicResolver = things_topic ''messages/property'',
    pub_payloadType = ''JSON'',
    pub_payloadResolver = (\<lambda>now uuid. JObj [])\<rparr>,
   \<lparr>pub_name = ''Set Will'',
    pub_code = ''$iothub/things/{thingId}/messages/will/#'',
    pub_forThing = True, pub_forServer = False,
    pub_topicResolver = things_topic ''messages/will/#'',
    pub_payloadType = ''JSON'',
    pub_payloadResolver = (\<lambda>now uuid. JObj [])\<rparr>,
   \<lparr>pub_name = ''Custom Message'',
    pub_code = ''$iothub/user/things/{thingId}/presence'',
    pub_forThing = False, pub_forServer = True,
    pub_topicResolver = things_topic ''presence'',
    pub_payloadType = ''JSON'',
    pub_payloadResolver = (\<lambda>now uuid. JObj [(''thingId'', JStr ''''), (''timestamp'', JNum now),
      (''eventType'', JStr ''connected''), (''disconnectReason'', JStr ''''),
      (''remoteAddr'', JStr ''<ip:port>'')])\<rparr>,
   \<lparr>pub_name = ''Request NTP'',
    pub_code = ''$iothub/things/{thingId}/req'',
    pub_forThing = True, pub_forServer = False,
    pub_topicResolver = things_topic ''req'',
    pub_payloadType = ''JSON'',
    pub_payloadResolver = (\<lambda>now uuid. JObj [(''clientSendTime'', JNum now)])\<rparr>,
   \<lparr>pub_name = ''Response NTP'',
    pub_code = ''$iothub/things/{thingId}/resp'',
    pub_forThing = False, pub_forServer = True,
    pub_topicResolver = fixed_topic ''$iothub/things/+/resp'',
    pub_payloadType = ''JSON'',
    pub_payloadResolver = (\<lambda>now uuid. JObj [(''clientSendTime'', JNum (now - 2)),
      (''serverRecvTime'', JNum (now - 1)), (''serverSendTime'', JNum now)])\<rparr>,
   \<lparr>pub_name = ''OTA Task'',
    pub_code = ''$iothub/things/{thingId}/ota/task'',
    pub_forThing = False, pub_forServer = True,
    pub_topicResolver = fixed_topic ''$iothub/things/+/ota/task'',
    pub_payloadType = ''JSON'',
    pub_payloadResolver = (\<lambda>now uuid. JObj [(''clientToken'', JNum now), (''taskId'', JStr ''''),
      (''type'', JStr ''app''),
      (''meta'', JObj [(''version'', JStr ''''), (''md5'', JStr ''''),
         (''content-type'', JStr ''application/octet-stream''), (''content-length'', JNum 0)]),
      (''fileUrl'', JStr ''http://'')])\<rparr>,
   \<lparr>pub_name = ''OTA Task Result'',
    pub_code = ''$iothub/things/{thingId}/ota/task/result'',
    pub_forThing = True, pub_forServer = False,
    pub_topicResolver = things_topic ''ota/task'',
    pub_payloadType = ''JSON'',
    pub_payloadResolver = (\<lambda>now uuid. JObj [(''clientToken'', JStr ''''), (''taskId'', JStr ''''),
      (''status'', JStr ''ongoing''), (''progress'', JNum 0), (''errCode'', JUndef), (''errMsg'', JUndef),
      (''timestamp'', JNum now)])\<rparr>,
   \<lparr>pub_name = ''Custom Message'',
    pub_code = ''$iothub/user/things/{thingId}/#'',
    pub_forThing = True, pub_forServer = True,
    pub_topicResolver = user_things_topic ''#'',
    pub_payloadType = ''JSON'',
    pub_payloadResolver = (\<lambda>now uuid. JObj [])\<rparr>,
   \<lparr>pub_name = ''Request Direct Method'',
    pub_code = ''$iothub/things/{thingId}/methods/{name}/req'',
    pub_forThing = False, pub_forServer = True,
    pub_topicResolver = things_topic ''methods/+/req'',
    pub_payloadType = ''JSON'',
    pub_payloadResolver = (\<lambda>now uuid. JObj [(''clientToken'', JStr (genClientToken uuid)), (''data'', JObj [])])\<rparr>,
   \<lparr>pub_name = ''Response Direct Method'',
    pub_code = ''$iothub/things/{thingId}/methods/{name}/resp'',
    pub_forThing = True, pub_forServer = False,
    pub_topicResolver = things_topic ''methods/+/resp'',
    pub_payloadType = ''JSON'',
    pub_payloadResolver = (\<lambda>now uuid. JObj [(''clientToken'', JStr ''''), (''code'', JNum 200),
      (''messge'', JStr ''OK''), (''data'', JObj [])])\<rparr>]"

definition suggestedPubTopics :: "pub_suggestion list" where
  "suggestedPubTopics = pubTopicsShadow @ pubTopicsThing"

section \<open>Topics to subscribe to\<close>

definition getShadow :: sub_group where
  "getShadow = \<lparr>group_name = ''Get Shadow'', group_topics = [
   \<lparr>sub_name = ''Get Accepted'',
    sub_code = ''$iothub/things/{thingId}/shadows/name/default/get/accepted'',
    sub_forThing = True, sub_forServer = False, sub_suggested = True,
    sub_topicResolver = things_topic ''shadows/name/default/get/accepted''\<rparr>,
   \<lparr>sub_name = ''Get Rejected'',
    sub_code = ''$iothub/things/{thingId}/shadows/name/default/get/rejected'',
    sub_forThing = True, sub_forServer = False, sub_suggested = True,
    sub_topicResolver = things_topic ''shadows/name/default/get/rejected''\<rparr>]\<rparr>"

definition updateShadow :: sub_group where
  "updateShadow = \<lparr>group_name = ''Update Shadow'', group_topics = [
   \<lparr>sub_name = ''Update Accepted'',
    sub_code = ''$iothub/things/{thingId}/shadows/name/default/update/accepted'',
    sub_forThing = True, sub_forServer = False, sub_suggested = True,
    sub_topicResolver = things_topic ''shadows/name/default/update/accepted''\<rparr>,
   \<lparr>sub_name = ''Update Rejected'',
    sub_code = ''$iothub/things/{thingId}/shadows/name/default/update/rejected'',
    sub_forThing = True, sub_forServer = False, sub_suggested = True,
    sub_topicResolver = things_topic ''shadows/name/default/update/rejected''\<rparr>,
   \<lparr>sub_name = ''Update Documents Notify'',
    sub_code = ''$iothub/things/{thingId}/shadows/name/default/update/documents'',
    sub_forThing = True, sub_forServer = True, sub_suggested = True,
    sub_topicResolver = things_topic ''shadows/name/default/update/documents''\<rparr>,
   \<lparr>sub_name = ''Update Delta Notify'',
    sub_code = ''$iothub/things/{thingId}/shadows/name/default/update/delta'',
    sub_forThing = True, sub_forServer = False, sub_suggested = True,
    sub_topicResolver = things_topic ''shadows/name/default/update/delta''\<rparr>]\<rparr>"

definition common :: sub_group where
  "common = \<lparr>group_name = ''Common'', group_topics = [
   \<lparr>sub_name = ''Property Reported'',
    sub_code = ''$iothub/things/{thingId}/property'',
    sub_forThing = False, sub_forServer = True, sub_suggested = False,
    sub_topicResolver = things_topic ''property''\<rparr>,
   \<lparr>sub_name = (''Thing'' @ [CHR 0x27] @ ''s Will''),
    sub_code = ''$iothub/things/{thingId}/will/#'',
    sub_forThing = False, sub_forServer = True, sub_suggested = False,
    sub_topicResolver = things_topic ''will/#''\<rparr>,
   \<lparr>sub_name = ''Presence'',
    sub_code = ''$iothub/things/{thingId}/presence'',
    sub_forThing = False, sub_forServer = True, sub_suggested = False,
    sub_topicResolver = things_topic ''presence''\<rparr>,
   \<lparr>sub_name = ''Custom Topic'',
    sub_code = ''$iothub/user/things/{thingId}/#'',
    sub_forThing = False, sub_forServer = True, sub_suggested = False,
    sub_topicResolver = user_things_topic ''#''\<rparr>]\<rparr>"

definition ntp :: sub_group where
  "ntp = \<lparr>group_name = ''NTP'', group_topics = [
   \<lparr>sub_name = ''Request NTP'',
    sub_code = ''$iothub/things/{thingId}/req'',
    sub_forThing = False, sub_forServer = True, sub_suggested = False,
    sub_topicResolver = things_topic ''req''\<rparr>,
   \<lparr>sub_name = ''Response NTP'',
    sub_code = ''$iothub/things/{thingId}/ntp/resp'',
    sub_forThing = True, sub_forServer = False, sub_suggested = False,
    sub_topicResolver = things_topic ''ntp/resp''\<rparr>]\<rparr>"

definition invokeDirectMethod :: sub_group where
  "invokeDirectMethod = \<lparr>group_name = ''Direct Method'', group_topics = [
   \<lparr>sub_name = ''Direct Method Request'',
    sub_code = ''$iothub/things/{thingId}/methods/{name}/req'',
    sub_forThing = True, sub_forServer = False, sub_suggested = True,
    sub_topicResolver = things_topic ''methods/+/req''\<rparr>,
   \<lparr>sub_name = ''Direct Method Response'',
    sub_code = ''$iothub/things/{thingId}/methods/{name}/resp'',
    sub_forThing = False, sub_forServer = True, sub_suggested = False,
    sub_topicResolver = things_topic ''methods/{name}/resp''\<rparr>]\<rparr>"

definition suggestedSubTopics :: "sub_group list" where
  "suggestedSubTopics = [common, ntp, invokeDirectMethod, getShadow, updateShadow]"

lemmas sub_group_defs = common_def ntp_def invokeDirectMethod_def getShadow_def updateShadow_def

end
