(* ===== verification/Subs.thy ===== *)
theory Subs
  imports Suggestions
begin

text \<open>
  Subscriptions (\<open>web/src/utils/subs.js\<close>): the lists of suggestions for each role, the map of
  topics of a bulk subscription, subscribing and unsubscribing everything, and the matching of a
  topic against a subscription filter, with the matching relation of the MQTT standard as its
  specification.
\<close>

section \<open>Suggestions by role\<close>

text \<open>The module-level lists that \<open>init\<close> fills; a subscription suggestion carries its group.\<close>

definition serverPubTopics :: "pub_suggestion list" where
  "serverPubTopics = filter pub_forServer suggestedPubTopics"

definition thingPubTopics :: "pub_suggestion list" where
  "thingPubTopics = filter pub_forThing suggestedPubTopics"

definition grouped :: "(sub_topic \<Rightarrow> bool) \<Rightarrow> sub_group \<Rightarrow> (sub_topic \<times> string) list" where
  "grouped P g = map (\<lambda>t. (t, group_name g)) (filter P (group_topics g))"

definition serverSubTopics :: "(sub_topic \<times> string) list" where
  "serverSubTopics = concat (map (grouped sub_forServer) suggestedSubTopics)"

definition thingSubTopics :: "(sub_topic \<times> string) list" where
  "thingSubTopics = concat (map (grouped sub_forThing) suggestedSubTopics)"

definition suggestedTopicsForThing :: "(sub_topic \<times> string) list" where
  "suggestedTopicsForThing =
     concat (map (grouped (\<lambda>t. sub_forThing t \<and> sub_suggested t)) suggestedSubTopics)"

text \<open>The subscriptions a new client of a device starts with; \<open>uuid i\<close> is the i-th fresh UUID.\<close>

definition getSuggestedTopicsForThing :: "(nat \<Rightarrow> string) \<Rightarrow> js \<Rightarrow> js list" where
  "getSuggestedTopicsForThing uuid thingId =
     map (\<lambda>(i, (t, g)). JObj [
         (''id'', JStr (genSubscriptionId (uuid i))),
         (''name'', JStr (sub_name t)),
         (''keep'', JBool True),
         (''opts'', JObj [(''qos'', JNum 0)]),
         (''topic'', JStr (sub_topicResolver t thingId))])
       (List.enumerate 0 suggestedTopicsForThing)"

section \<open>Bulk operations\<close>

fun subs_to_map :: "js list \<Rightarrow> js obj \<Rightarrow> js obj res" where
  "subs_to_map [] mp = Inr mp"
| "subs_to_map (sub # subs) mp =
     res_bind (js_get sub ''topic'') (\<lambda>t.
     res_bind (js_get sub ''opts'') (\<lambda>opts.
       subs_to_map subs (oput (js_str t) opts mp)))"

definition convertSubsConfigSubMap :: "js list \<Rightarrow> js obj res" where
  "convertSubsConfigSubMap subs = subs_to_map subs []"

text \<open>A map of topics to whether they are subscribed; \<open>None\<close> is an absent map.\<close>

type_synonym sub_map = "bool obj"

definition getSubscribedSubs :: "sub_map option \<Rightarrow> string list" where
  "getSubscribedSubs subMap =
     (let m = (case subMap of Some m \<Rightarrow> m | None \<Rightarrow> []) in
      filter (\<lambda>t. olookup m t = Some True) (okeys m))"

text \<open>
  What a bulk operation asks its callback argument \<open>subscribe\<close> or \<open>unsubscribe\<close> to do, or the
  warning it shows instead.
\<close>

datatype bulk =
    BulkSubscribe "js obj" "js list"
  | BulkUnsubscribe "string list"
  | BulkWarn notification

fun unsubscribed_subs :: "sub_map \<Rightarrow> js list \<Rightarrow> js list res" where
  "unsubscribed_subs subMap [] = Inr []"
| "unsubscribed_subs subMap (sub # subs) =
     res_bind (js_get sub ''topic'') (\<lambda>t.
     res_bind (unsubscribed_subs subMap subs) (\<lambda>rest.
       Inr (if olookup subMap (js_str t) = Some True then rest else sub # rest)))"

definition subscribeAll :: "js list \<Rightarrow> sub_map \<Rightarrow> bulk res" where
  "subscribeAll subscriptions subMap =
     res_bind (unsubscribed_subs subMap subscriptions) (\<lambda>subs.
       if subs \<noteq> [] then
         res_bind (convertSubsConfigSubMap subs) (\<lambda>topic. Inr (BulkSubscribe topic subs))
       else Inr (BulkWarn
         (notifyWarn ''All configured subscriptions have already been subscribed.'')))"

definition subscribeAll_done :: "js \<Rightarrow> notification" where
  "subscribeAll_done err =
     (if truthy err then notifyFail ''subscribe topics failed.''
      else notifyDone ''All configured subscriptions have been subscribed.'')"

definition unsubscribeAll :: "sub_map option \<Rightarrow> bulk" where
  "unsubscribeAll subMap =
     (let subs = getSubscribedSubs subMap in
      if subs \<noteq> [] then BulkUnsubscribe subs
      else BulkWarn (notifyWarn ''None of subscriptions need to be unsubscribed.''))"

definition unsubscribeAll_done :: "js \<Rightarrow> notification" where
  "unsubscribeAll_done err =
     (if truthy err then notifyFail ''unsubscribe topics failed.''
      else notifyDone ''All subscriptions have been unsubscribed.'')"

section \<open>Matching a topic\<close>

text \<open>The loop over the levels of the filter; a level past the end of the topic is \<open>undefined\<close>.\<close>

function match_levels :: "string list \<Rightarrow> string list \<Rightarrow> nat \<Rightarrow> bool" where
  "match_levels filterArray topicArray i =
     (if i < length filterArray then
        let left = filterArray ! i;
            right = (if i < length topicArray then Some (topicArray ! i) else None)
        in if left = ''#'' then length topicArray \<ge> length filterArray - 1
           else if right \<noteq> Some left \<and> left \<noteq> ''+'' then False
           else match_levels filterArray topicArray (Suc i)
      else length filterArray = length topicArray)"
  by pat_completeness auto
termination
  by (relation "measure (\<lambda>(f, t, i). length f - i)") auto

declare match_levels.simps [simp del]

definition matchTopicMethod :: "string \<Rightarrow> string \<Rightarrow> bool" where
  "matchTopicMethod flt topic =
     (let flt' = (if str_includes flt ''$share''
                  then join_on CHR ''/'' (drop 2 (split_on CHR ''/'' flt)) else flt)
      in match_levels (split_on CHR ''/'' flt') (split_on CHR ''/'' topic) 0)"

section \<open>The matching relation of the standard\<close>

text \<open>
  Level by level: a plain level matches itself, \<open>+\<close> matches any one level, a final \<open>#\<close> matches
  the parent and any number of levels below it.
\<close>

inductive mqtt_match :: "string list \<Rightarrow> string list \<Rightarrow> bool" where
  both_end: "mqtt_match [] []"
| same: "l \<noteq> ''#'' \<Longrightarrow> mqtt_match fs ts \<Longrightarrow> mqtt_match (l # fs) (l # ts)"
| plus: "mqtt_match fs ts \<Longrightarrow> mqtt_match (''+'' # fs) (t # ts)"
| multi: "mqtt_match [''#''] ts"

inductive_simps mqtt_match_Nil [simp]: "mqtt_match [] ts"
inductive_simps mqtt_match_Cons_Nil: "mqtt_match (f # fs) []"
inductive_simps mqtt_match_Cons_Cons: "mqtt_match (f # fs) (t # ts)"

definition valid_filter :: "string list \<Rightarrow> bool" where
  "valid_filter fs \<longleftrightarrow> ''#'' \<notin> set (butlast fs)"

lemma valid_filter_Suc: "valid_filter (drop i fs) \<Longrightarrow> valid_filter (drop (Suc i) fs)"
  unfolding valid_filter_def
  by (cases "drop i fs") (auto simp: drop_Suc drop_tl tl_drop split: if_splits)

lemma valid_filter_hash:
  assumes "valid_filter (drop i fs)" and "i < length fs" and "fs ! i = ''#''"
  shows "length fs = Suc i"
proof -
  have "drop i fs = fs ! i # drop (Suc i) fs" using assms(2) by (rule Cons_nth_drop_Suc [symmetric])
  with assms(1,3) have "drop (Suc i) fs = []" by (auto simp: valid_filter_def split: if_splits)
  with assms(2) show ?thesis by simp
qed

lemma match_levels_past_end:
  assumes "length ts < i" and "i \<le> length fs" and "valid_filter (drop i fs)"
  shows "\<not> match_levels fs ts i"
  using assms
proof (induction fs ts i rule: match_levels.induct)
  case (1 fs ts i)
  show ?case
  proof (cases "i < length fs \<and> fs ! i \<noteq> ''#''")
    case True
    with "1.IH" "1.prems" show ?thesis
      by (auto simp: match_levels.simps [of fs ts i] Let_def valid_filter_Suc)
  next
    case False
    with "1.prems" show ?thesis
      by (auto simp: match_levels.simps [of fs ts i] dest: valid_filter_hash)
  qed
qed

lemma match_levels_drop:
  assumes "i \<le> length fs" and "i \<le> length ts" and "valid_filter (drop i fs)"
  shows "match_levels fs ts i = mqtt_match (drop i fs) (drop i ts)"
  using assms
proof (induction fs ts i rule: match_levels.induct)
  case (1 fs ts i)
  show ?case
  proof (cases "i < length fs")
    case False
    with "1.prems" show ?thesis by (subst match_levels.simps) auto
  next
    case i: True
    then have fs: "drop i fs = fs ! i # drop (Suc i) fs" by (rule Cons_nth_drop_Suc [symmetric])
    show ?thesis
    proof (cases "fs ! i = ''#''")
      case True
      with valid_filter_hash "1.prems"(3) i have "length fs = Suc i" by blast
      with True i fs "1.prems"(2) show ?thesis
        by (auto simp: match_levels.simps [of fs ts i] intro: mqtt_match.multi)
    next
      case hash: False
      have vf: "valid_filter (drop (Suc i) fs)" by (rule valid_filter_Suc [OF "1.prems"(3)])
      show ?thesis
      proof (cases "i < length ts")
        case True
        then have ts: "drop i ts = ts ! i # drop (Suc i) ts" by (rule Cons_nth_drop_Suc [symmetric])
        have "match_levels fs ts (Suc i) = mqtt_match (drop (Suc i) fs) (drop (Suc i) ts)"
          if "fs ! i = ts ! i \<or> fs ! i = ''+''"
          using "1.IH" [OF i refl refl hash] that True i vf by auto
        with True i hash show ?thesis
          by (auto simp: match_levels.simps [of fs ts i] fs ts mqtt_match_Cons_Cons Let_def)
      next
        case False
        with "1.prems"(2) have "drop i ts = []" and "length ts < Suc i" by auto
        with match_levels_past_end [of ts "Suc i" fs] i vf hash False show ?thesis
          by (auto simp: match_levels.simps [of fs ts i] fs mqtt_match_Cons_Nil Let_def)
      qed
    qed
  qed
qed

text \<open>What the matcher decides on a topic and a filter, both split into levels.\<close>

lemma matchTopicMethod_levels:
  assumes "\<not> str_includes flt ''$share''" and "valid_filter (split_on CHR ''/'' flt)"
  shows "matchTopicMethod flt topic \<longleftrightarrow> mqtt_match (split_on CHR ''/'' flt) (split_on CHR ''/'' topic)"
  using assms match_levels_drop [of 0 "split_on CHR ''/'' flt" "split_on CHR ''/'' topic"]
  by (simp add: matchTopicMethod_def)

lemma matchTopicMethod_shared:
  assumes "CHR ''/'' \<notin> set g" and "valid_filter (split_on CHR ''/'' flt)"
  shows "matchTopicMethod (''$share/'' @ g @ ''/'' @ flt) topic \<longleftrightarrow>
    mqtt_match (split_on CHR ''/'' flt) (split_on CHR ''/'' topic)"
proof -
  have "split_on CHR ''/'' (''$share/'' @ g @ ''/'' @ flt) = ''$share'' # g # split_on CHR ''/'' flt"
    using assms(1) split_on_append_sep [of "CHR ''/''" g flt] by simp
  moreover have "str_includes (''$share/'' @ g @ ''/'' @ flt) ''$share''"
    by (auto simp: str_includes_iff)
  ultimately show ?thesis
    using assms(2) match_levels_drop [of 0 "split_on CHR ''/'' flt" "split_on CHR ''/'' topic"]
    by (simp add: matchTopicMethod_def join_split split_join [OF split_on_not_Nil split_on_no_sep_parts])
qed

text \<open>A topic without wildcard levels used as a filter matches itself only.\<close>

lemma mqtt_match_literal:
  assumes "''+'' \<notin> set fs" and "''#'' \<notin> set fs"
  shows "mqtt_match fs ts \<longleftrightarrow> ts = fs"
  using assms
proof (induction fs arbitrary: ts)
  case (Cons f fs)
  then show ?case
    by (cases ts) (auto simp: mqtt_match_Cons_Nil mqtt_match_Cons_Cons)
qed auto

section \<open>Bulk operations: results\<close>

definition sub_topic_of :: "js \<Rightarrow> string" where
  "sub_topic_of sub = js_str (fld sub ''topic'')"

lemma unsubscribed_subs_eq:
  "\<forall>s\<in>set subs. is_obj s \<Longrightarrow> unsubscribed_subs subMap subs =
    Inr (filter (\<lambda>s. olookup subMap (sub_topic_of s) \<noteq> Some True) subs)"
  by (induction subs) (auto simp: js_get_fld sub_topic_of_def)

lemma subs_to_map_eq:
  "\<forall>s\<in>set subs. is_obj s \<Longrightarrow> subs_to_map subs mp =
    Inr (fold (\<lambda>s. oput (sub_topic_of s) (fld s ''opts'')) subs mp)"
  by (induction subs arbitrary: mp) (auto simp: js_get_fld sub_topic_of_def)

lemma fold_oput_keys:
  "k \<in> set (okeys (fold (\<lambda>s. oput (f s) (g s)) subs mp)) \<longleftrightarrow> k \<in> f ` set subs \<or> k \<in> set (okeys mp)"
  by (induction subs arbitrary: mp) (auto simp: obj.keys_put)

lemma getSubscribedSubs_iff:
  "t \<in> set (getSubscribedSubs (Some m)) \<longleftrightarrow> olookup m t = Some True"
  by (auto simp: getSubscribedSubs_def obj.keys_lookup)

lemma getSubscribedSubs_Nil_iff:
  "getSubscribedSubs (Some m) = [] \<longleftrightarrow> (\<forall>t. olookup m t \<noteq> Some True)"
  using getSubscribedSubs_iff [of _ m] by (metis list.set_intros(1) list.exhaust empty_iff set_empty)

section \<open>Properties\<close>



text \<open>
  The prefix of a shared subscription is looked for anywhere in the filter: an ordinary filter
  that merely contains it loses its first two levels, and matches topics it must not match.
\<close>

theorem matchTopicMethod_share_anywhere:
  "matchTopicMethod ''room/$share/lamp'' ''lamp'' \<and>
   \<not> mqtt_match (split_on CHR ''/'' ''room/$share/lamp'') (split_on CHR ''/'' ''lamp'') \<and>
   \<not> matchTopicMethod ''room/$share/lamp'' ''room/$share/lamp''"
  by (simp add: matchTopicMethod_def match_levels.simps mqtt_match_Cons_Cons)

text \<open>
  C17. Subscribing everything asks for exactly the configured topics that are not subscribed yet, and
  once these are subscribed a second request is answered with a warning.
\<close>

theorem subscribeAll_exact:
  assumes "\<forall>s\<in>set subs. is_obj s" and "subscribeAll subs m = Inr (BulkSubscribe topic todo)"
  shows "set (okeys topic) = sub_topic_of ` set subs - {t. olookup m t = Some True} \<and>
    subscribeAll subs (fold (\<lambda>t. oput t True) (okeys topic) m) = Inr (BulkWarn
      (notifyWarn ''All configured subscriptions have already been subscribed.''))"
proof -
  let ?todo = "filter (\<lambda>s. olookup m (sub_topic_of s) \<noteq> Some True) subs"
  from assms(2) have "topic = fold (\<lambda>s. oput (sub_topic_of s) (fld s ''opts'')) ?todo []"
    unfolding subscribeAll_def unsubscribed_subs_eq [OF assms(1)]
    using subs_to_map_eq [of ?todo "[]"] assms(1)
    by (auto simp: convertSubsConfigSubMap_def split: if_splits)
  then have keys: "set (okeys topic) = sub_topic_of ` set subs - {t. olookup m t = Some True}"
    using fold_oput_keys [of _ sub_topic_of "\<lambda>s. fld s ''opts''" ?todo "[]"] obj.keys_empty by auto
  have "olookup (fold (\<lambda>t. oput t True) (okeys topic) m) (sub_topic_of s) = Some True"
    if "s \<in> set subs" for s
    using that obj.lookup_fold_put [of "\<lambda>_. True" "okeys topic" m "sub_topic_of s"] keys
    by (auto split: if_splits)
  then have "filter (\<lambda>s. olookup (fold (\<lambda>t. oput t True) (okeys topic) m) (sub_topic_of s) \<noteq>
      Some True) subs = []"
    by (simp add: filter_empty_conv)
  with keys show ?thesis
    by (simp add: subscribeAll_def unsubscribed_subs_eq [OF assms(1)])
qed

theorem subscribeAll_exact_witness:
  "set (okeys [(''b'', JObj [] :: js)]) = sub_topic_of ` set [JObj [(''topic'', JStr ''a''), (''opts'', JObj [])],
      JObj [(''topic'', JStr ''b''), (''opts'', JObj [])]] - {t. olookup [(''a'', True)] t = Some True}"
  by (rule conjunct1 [OF subscribeAll_exact [where
      todo = "[JObj [(''topic'', JStr ''b''), (''opts'', JObj [])]]"]])
    (simp_all add: subscribeAll_def convertSubsConfigSubMap_def)

text \<open>
  Unsubscribing everything asks for exactly the topics marked as subscribed, and once these are
  marked as unsubscribed a second request is answered with a warning.
\<close>

theorem unsubscribeAll_exact:
  assumes "unsubscribeAll (Some m) = BulkUnsubscribe ts"
  shows "set ts = {t. olookup m t = Some True} \<and>
    unsubscribeAll (Some (fold (\<lambda>t. oput t False) ts m)) =
      BulkWarn (notifyWarn ''None of subscriptions need to be unsubscribed.'')"
proof -
  have ts: "ts = getSubscribedSubs (Some m)"
    using assms by (simp add: unsubscribeAll_def Let_def split: if_splits)
  then have set_ts: "set ts = {t. olookup m t = Some True}"
    using getSubscribedSubs_iff by auto
  have "olookup (fold (\<lambda>t. oput t False) ts m) t \<noteq> Some True" for t
    using obj.lookup_fold_put [of "\<lambda>_. False" ts m t] set_ts by auto
  then have "getSubscribedSubs (Some (fold (\<lambda>t. oput t False) ts m)) = []"
    by (simp add: getSubscribedSubs_Nil_iff)
  with set_ts show ?thesis
    by (simp add: unsubscribeAll_def)
qed

theorem unsubscribeAll_exact_witness:
  "set [''b''] = {t. olookup [(''a'', False), (''b'', True)] t = Some True}"
  using unsubscribeAll_exact [of "[(''a'', False), (''b'', True)]" "[''b'']"]
  by (simp add: unsubscribeAll_def getSubscribedSubs_def okeys_def)

end
