(* ===== verification/ServerTopics.thy ===== *)
theory ServerTopics
  imports Subs
begin

text \<open>
  The topic names of the server (\<open>shadow/topic.go\<close>, \<open>ntp/ntp.go\<close>) and their agreement with the
  topics the web client suggests: what a device is offered to publish has to be received by the
  server, and what it is offered to subscribe to has to be what the server publishes.
\<close>

section \<open>Names of the server\<close>

text \<open>\<open>strings.Replace(s, p, r, -1)\<close> for a pattern that is not empty.\<close>

function replace_all :: "string \<Rightarrow> string \<Rightarrow> string \<Rightarrow> string" where
  "replace_all p r s =
     (case s of [] \<Rightarrow> [] | c # cs \<Rightarrow>
        if p \<noteq> [] \<and> starts_with s p then r @ replace_all p r (drop (length p) s)
        else c # replace_all p r cs)"
  by pat_completeness auto
termination
  by (relation "measure (\<lambda>(p, r, s). length s)") auto

declare replace_all.simps [simp del]

definition TopicThingsPrefix :: string where "TopicThingsPrefix = ''$iothub/things/''"
definition TopicUserThingsPrefix :: string where "TopicUserThingsPrefix = ''$iothub/user/things/''"
definition TopicPrefixTmpl :: string where
  "TopicPrefixTmpl = TopicThingsPrefix @ ''{thingId}/shadows/name/default''"
definition TopicPrefixAll :: string where
  "TopicPrefixAll = TopicThingsPrefix @ ''+/shadows/name/default''"

definition topicThingPrefixOf :: "string \<Rightarrow> string" where
  "topicThingPrefixOf thingId = replace_all ''{thingId}'' thingId TopicPrefixTmpl"

definition TopicAllGet :: string where "TopicAllGet = TopicPrefixAll @ ''/get''"
definition TopicAllUpdate :: string where "TopicAllUpdate = TopicPrefixAll @ ''/update''"

definition TopicUpdateOf :: "string \<Rightarrow> string" where
  "TopicUpdateOf thingId = topicThingPrefixOf thingId @ ''/update''"

definition TopicGetAcceptedOf :: "string \<Rightarrow> string" where
  "TopicGetAcceptedOf thingId = topicThingPrefixOf thingId @ ''/get/accepted''"

definition TopicGetRejectedOf :: "string \<Rightarrow> string" where
  "TopicGetRejectedOf thingId = topicThingPrefixOf thingId @ ''/get/rejected''"

definition TopicUpdateAcceptedOf :: "string \<Rightarrow> string" where
  "TopicUpdateAcceptedOf thingId = topicThingPrefixOf thingId @ ''/update/accepted''"

definition TopicUpdateRejectedOf :: "string \<Rightarrow> string" where
  "TopicUpdateRejectedOf thingId = topicThingPrefixOf thingId @ ''/update/rejected''"

definition TopicStateUpdatedOf :: "string \<Rightarrow> string" where
  "TopicStateUpdatedOf thingId = topicThingPrefixOf thingId @ ''/update/documents''"

definition TopicDeltaStateOf :: "string \<Rightarrow> string" where
  "TopicDeltaStateOf thingId = topicThingPrefixOf thingId @ ''/update/delta''"

text \<open>The device of a topic; \<open>None\<close> is the error of an invalid topic name.\<close>

definition GetThingIdFromTopic :: "string \<Rightarrow> string option" where
  "GetThingIdFromTopic topic =
     (let arr = split_on CHR ''/'' topic; l = length arr in
      if starts_with topic TopicThingsPrefix \<and> l \<ge> 3 then Some (arr ! 2)
      else if starts_with topic TopicUserThingsPrefix \<and> l \<ge> 4 then Some (arr ! 3)
      else None)"

definition ntp_TopicReqAll :: string where "ntp_TopicReqAll = ''$iothub/things/+/ntp/req''"

definition ntp_TopicResp :: "string \<Rightarrow> string" where
  "ntp_TopicResp thingId = replace_all ''{thingId}'' thingId ''$iothub/things/{thingId}/ntp/resp''"

definition ntp_TopicReq :: "string \<Rightarrow> string" where
  "ntp_TopicReq thingId = replace_all ''{thingId}'' thingId ''$iothub/things/{thingId}/ntp/req''"

lemmas server_names = TopicThingsPrefix_def TopicUserThingsPrefix_def TopicPrefixTmpl_def
  TopicPrefixAll_def TopicAllGet_def TopicAllUpdate_def TopicUpdateOf_def TopicGetAcceptedOf_def
  TopicGetRejectedOf_def TopicUpdateAcceptedOf_def TopicUpdateRejectedOf_def
  TopicStateUpdatedOf_def TopicDeltaStateOf_def

lemma topicThingPrefixOf_eq:
  "topicThingPrefixOf thingId = ''$iothub/things/'' @ thingId @ ''/shadows/name/default''"
  by (simp add: topicThingPrefixOf_def server_names replace_all.simps)

lemma ntp_TopicReq_eq: "ntp_TopicReq thingId = ''$iothub/things/'' @ thingId @ ''/ntp/req''"
  by (simp add: ntp_TopicReq_def replace_all.simps)

lemma ntp_TopicResp_eq: "ntp_TopicResp thingId = ''$iothub/things/'' @ thingId @ ''/ntp/resp''"
  by (simp add: ntp_TopicResp_def replace_all.simps)

lemma split_things_topic:
  assumes "CHR ''/'' \<notin> set thingId"
  shows "split_on CHR ''/'' (''$iothub/things/'' @ thingId @ ''/'' @ rest) =
    ''$iothub'' # ''things'' # thingId # split_on CHR ''/'' rest"
  using split_on_append_sep [OF assms, of rest] by simp

text \<open>
  The access check of the broker (\<open>TopicAcl\<close> of \<open>thing/service.go\<close>); the configured super users are
  the list of their names. Reading and writing are decided alike.
\<close>

definition TopicAcl :: "string list \<Rightarrow> string \<Rightarrow> string \<Rightarrow> bool \<Rightarrow> bool" where
  "TopicAcl superUsers thingId topic write =
     (if thingId \<in> set superUsers then True
      else if starts_with topic (TopicThingsPrefix @ thingId @ ''/'') \<or>
              starts_with topic (TopicUserThingsPrefix @ thingId @ ''/'') then True
      else if starts_with topic TopicThingsPrefix \<or> starts_with topic TopicUserThingsPrefix then False
      else True)"

lemma TopicAcl_things: "TopicAcl us thingId (things_topic rest (JStr thingId)) w"
  by (auto simp: TopicAcl_def things_topic_def server_names starts_with_iff)

lemma TopicAcl_user_things: "TopicAcl us thingId (user_things_topic rest (JStr thingId)) w"
  by (auto simp: TopicAcl_def user_things_topic_def server_names starts_with_iff)

lemma thing_of_things_topic:
  assumes "CHR ''/'' \<notin> set thingId"
  shows "GetThingIdFromTopic (things_topic rest (JStr thingId)) = Some thingId"
proof -
  obtain y ys where "split_on CHR ''/'' rest = y # ys" using split_on_ex by blast
  with split_things_topic [OF assms, of rest] show ?thesis
    by (simp add: GetThingIdFromTopic_def things_topic_def server_names Let_def starts_with_iff)
qed

section \<open>Properties\<close>

text \<open>
  C18. Every shadow message a device is offered to publish is received by the server (its topic
  matches a filter the server subscribes to) and attributed to that device.
\<close>

theorem shadow_pub_suggestions_reach_server:
  assumes "CHR ''/'' \<notin> set thingId"
  shows "\<forall>s\<in>set pubTopicsShadow. let topic = pub_topicResolver s (JStr thingId) in
    (\<exists>flt\<in>{TopicAllGet, TopicAllUpdate}.
       mqtt_match (split_on CHR ''/'' flt) (split_on CHR ''/'' topic)) \<and>
    GetThingIdFromTopic topic = Some thingId"
proof -
  have levels: "split_on CHR ''/'' (things_topic rest (JStr thingId)) =
      ''$iothub'' # ''things'' # thingId # split_on CHR ''/'' rest" for rest
    using split_things_topic [OF assms] by (simp add: things_topic_def)
  show ?thesis
    using thing_of_things_topic [OF assms]
    by (simp add: pubTopicsShadow_def levels server_names mqtt_match_Cons_Cons)
qed

theorem shadow_pub_suggestions_reach_server_witness:
  "GetThingIdFromTopic (pub_topicResolver (hd pubTopicsShadow) (JStr ''lamp'')) = Some ''lamp''"
  using shadow_pub_suggestions_reach_server [of "''lamp''"]
  by (simp add: pubTopicsShadow_def Let_def)

text \<open>
  The shadow subscriptions suggested for a device are exactly the topics the server publishes
  its answers and notices for this device to, in this order.
\<close>

theorem shadow_sub_suggestions_are_server_topics:
  "map (\<lambda>t. sub_topicResolver t (JStr thingId)) (group_topics getShadow @ group_topics updateShadow) =
    [TopicGetAcceptedOf thingId, TopicGetRejectedOf thingId, TopicUpdateAcceptedOf thingId,
     TopicUpdateRejectedOf thingId, TopicStateUpdatedOf thingId, TopicDeltaStateOf thingId]"
  by (simp add: getShadow_def updateShadow_def things_topic_def topicThingPrefixOf_eq
    TopicGetAcceptedOf_def TopicGetRejectedOf_def TopicUpdateAcceptedOf_def
    TopicUpdateRejectedOf_def TopicStateUpdatedOf_def TopicDeltaStateOf_def)

text \<open>
  C19. The broker lets a device use every topic suggested to it: all subscriptions suggested for
  devices, and every publish suggestion for devices.
\<close>

theorem suggested_topics_are_permitted:
  "(\<forall>(t, g)\<in>set thingSubTopics. TopicAcl us thingId (sub_topicResolver t (JStr thingId)) False) \<and>
   (\<forall>s\<in>set thingPubTopics. TopicAcl us thingId (pub_topicResolver s (JStr thingId)) True)"
proof
  show "\<forall>(t, g)\<in>set thingSubTopics. TopicAcl us thingId (sub_topicResolver t (JStr thingId)) False"
    by (simp add: thingSubTopics_def grouped_def suggestedSubTopics_def sub_group_defs
      TopicAcl_things TopicAcl_user_things)
  show "\<forall>s\<in>set thingPubTopics. TopicAcl us thingId (pub_topicResolver s (JStr thingId)) True"
    by (simp add: thingPubTopics_def suggestedPubTopics_def pubTopicsShadow_def pubTopicsThing_def
      TopicAcl_things TopicAcl_user_things)
qed

theorem suggested_topics_are_permitted_witness:
  "TopicAcl [''root''] ''lamp'' (sub_topicResolver (fst (hd thingSubTopics)) (JStr ''lamp'')) False"
proof -
  have "thingSubTopics \<noteq> []"
    by (simp add: thingSubTopics_def grouped_def suggestedSubTopics_def sub_group_defs)
  then have "hd thingSubTopics \<in> set thingSubTopics" by simp
  with suggested_topics_are_permitted [of "[''root'']" "''lamp''"] show ?thesis
    by (cases "hd thingSubTopics") auto
qed

text \<open>
  The suggested clock request never reaches the server: no device id without a slash gives a
  topic that the filter of the server's clock service matches. The topic of the server itself does.
\<close>

theorem ntp_suggestion_misses_server:
  assumes "CHR ''/'' \<notin> set thingId" and "s \<in> set pubTopicsThing" and "pub_name s = ''Request NTP''"
  shows "\<not> mqtt_match (split_on CHR ''/'' ntp_TopicReqAll)
      (split_on CHR ''/'' (pub_topicResolver s (JStr thingId))) \<and>
    mqtt_match (split_on CHR ''/'' ntp_TopicReqAll) (split_on CHR ''/'' (ntp_TopicReq thingId))"
proof -
  have "pub_topicResolver s (JStr thingId) = things_topic ''req'' (JStr thingId)"
    using assms(2,3) by (auto simp: pubTopicsThing_def)
  then show ?thesis
    using split_things_topic [OF assms(1), of "''req''"] split_things_topic [OF assms(1), of "''ntp/req''"]
    by (simp add: things_topic_def ntp_TopicReqAll_def ntp_TopicReq_eq mqtt_match_Cons_Cons)
qed

theorem ntp_suggestion_misses_server_witness:
  "\<not> mqtt_match (split_on CHR ''/'' ntp_TopicReqAll)
     (split_on CHR ''/'' (pub_topicResolver (pubTopicsThing ! 3) (JStr ''lamp'')))"
  using ntp_suggestion_misses_server [of "''lamp''" "pubTopicsThing ! 3"]
  by (simp add: pubTopicsThing_def)

end
