(* ===== verification/Json.thy ===== *)
theory Json
  imports JsString
begin

text \<open>
  JSON text: what \<open>JSON.stringify\<close> writes and what \<open>JSON.parse\<close> reads, with the round trip. The web
  client keeps its connections as such a text in \<open>localStorage\<close> and edits documents as text.
  Texts whose numbers have a fraction or an exponent, and escapes beyond one byte, are outside
  the model: the parser refuses them. The recursion of the parser is bounded by a fuel that the
  entry point sets to more than the length of the text, of which every call consumes a character.
\<close>

section \<open>Writing\<close>

definition hex_char :: "nat \<Rightarrow> char" where
  "hex_char d = (if d < 10 then char_of (48 + d) else char_of (87 + d))"

definition json_esc :: "char \<Rightarrow> string" where
  "json_esc c =
     (if c = CHR 0x22 then [CHR 0x5C, CHR 0x22]
      else if c = CHR 0x5C then [CHR 0x5C, CHR 0x5C]
      else if c = CHR 0x08 then [CHR 0x5C, CHR ''b'']
      else if c = CHR 0x0C then [CHR 0x5C, CHR ''f'']
      else if c = CHR 0x0A then [CHR 0x5C, CHR ''n'']
      else if c = CHR 0x0D then [CHR 0x5C, CHR ''r'']
      else if c = CHR 0x09 then [CHR 0x5C, CHR ''t'']
      else let n = of_char c :: nat in
        if n < 32 then [CHR 0x5C, CHR ''u'', CHR ''0'', CHR ''0'', hex_char (n div 16), hex_char (n mod 16)]
        else [c])"

definition json_quote :: "string \<Rightarrow> string" where
  "json_quote s = CHR 0x22 # concat (map json_esc s) @ [CHR 0x22]"

fun json_text :: "js \<Rightarrow> string" where
  "json_text JUndef = ''undefined''"
| "json_text JNull = ''null''"
| "json_text (JBool b) = (if b then ''true'' else ''false'')"
| "json_text (JNum n) = int_str n"
| "json_text (JStr s) = json_quote s"
| "json_text (JArr xs) = CHR ''['' # join_on CHR '','' (map json_text xs) @ '']''"
| "json_text (JObj m) =
     CHR ''{'' # join_on CHR '','' (map (\<lambda>(k, v). json_quote k @ CHR '':'' # json_text v) m) @ ''}''"

text \<open>\<open>JSON.stringify(v)\<close> is \<open>undefined\<close> on \<open>undefined\<close>.\<close>

definition json_stringify :: "js \<Rightarrow> string option" where
  "json_stringify v = (if v = JUndef then None else Some (json_text (json_clean v)))"

section \<open>Reading\<close>

fun skip_ws :: "string \<Rightarrow> string" where
  "skip_ws [] = []"
| "skip_ws (c # cs) =
     (if c \<in> {CHR 0x20, CHR 0x09, CHR 0x0A, CHR 0x0D} then skip_ws cs else c # cs)"

definition hex_val :: "char \<Rightarrow> nat option" where
  "hex_val c = (let n = of_char c in
     if 48 \<le> n \<and> n \<le> 57 then Some (n - 48)
     else if 97 \<le> n \<and> n \<le> 102 then Some (n - 87)
     else if 65 \<le> n \<and> n \<le> 70 then Some (n - 55) else None)"

definition unescape :: "char \<Rightarrow> char option" where
  "unescape e = (if e = CHR 0x22 then Some (CHR 0x22) else if e = CHR 0x5C then Some (CHR 0x5C)
     else if e = CHR ''/'' then Some (CHR ''/'') else if e = CHR ''b'' then Some (CHR 0x08)
     else if e = CHR ''f'' then Some (CHR 0x0C) else if e = CHR ''n'' then Some (CHR 0x0A)
     else if e = CHR ''r'' then Some (CHR 0x0D) else if e = CHR ''t'' then Some (CHR 0x09)
     else None)"

definition consr :: "'a \<Rightarrow> ('a list \<times> 'b) res \<Rightarrow> ('a list \<times> 'b) res" where
  "consr c r = res_bind r (\<lambda>(s, rest). Inr (c # s, rest))"

text \<open>The rest of a string after its opening quote.\<close>

fun lex_string :: "string \<Rightarrow> (string \<times> string) res" where
  "lex_string [] = Inl SyntaxError"
| "lex_string (c # cs) =
     (if c = CHR 0x22 then Inr ([], cs)
      else if c = CHR 0x5C then
        (case cs of
           [] \<Rightarrow> Inl SyntaxError
         | e # es \<Rightarrow>
             if e = CHR ''u'' then
               (case es of
                  a # b # x # y # rest \<Rightarrow>
                    (case (hex_val a, hex_val b, hex_val x, hex_val y) of
                       (Some 0, Some 0, Some h, Some l) \<Rightarrow>
                         consr (char_of (16 * h + l)) (lex_string rest)
                     | _ \<Rightarrow> Inl SyntaxError)
                | _ \<Rightarrow> Inl SyntaxError)
             else (case unescape e of
                 None \<Rightarrow> Inl SyntaxError
               | Some d \<Rightarrow> consr d (lex_string es)))
      else if (of_char c :: nat) < 32 then Inl SyntaxError
      else consr c (lex_string cs))"

definition is_digit :: "char \<Rightarrow> bool" where
  "is_digit c \<longleftrightarrow> (let n = of_char c :: nat in 48 \<le> n \<and> n \<le> 57)"

definition digits_val :: "string \<Rightarrow> nat" where
  "digits_val ds = foldl (\<lambda>acc c. 10 * acc + (of_char c - 48)) 0 ds"

definition number_end :: "string \<Rightarrow> bool" where
  "number_end rest \<longleftrightarrow> (case rest of [] \<Rightarrow> True
     | c # _ \<Rightarrow> \<not> is_digit c \<and> c \<noteq> CHR ''.'' \<and> c \<noteq> CHR ''e'' \<and> c \<noteq> CHR ''E'')"

definition lex_nat :: "string \<Rightarrow> (nat \<times> string) res" where
  "lex_nat s = (let ds = takeWhile is_digit s; rest = dropWhile is_digit s in
     if ds = [] \<or> (hd ds = CHR ''0'' \<and> tl ds \<noteq> []) \<or> \<not> number_end rest then Inl SyntaxError
     else Inr (digits_val ds, rest))"

definition lex_number :: "string \<Rightarrow> (int \<times> string) res" where
  "lex_number s = (case s of
     c # cs \<Rightarrow> if c = CHR ''-'' then res_bind (lex_nat cs) (\<lambda>(n, rest). Inr (- int n, rest))
       else res_bind (lex_nat s) (\<lambda>(n, rest). Inr (int n, rest))
   | [] \<Rightarrow> Inl SyntaxError)"

fun p_value :: "nat \<Rightarrow> string \<Rightarrow> (js \<times> string) res"
  and p_elems :: "nat \<Rightarrow> string \<Rightarrow> (js list \<times> string) res"
  and p_members :: "nat \<Rightarrow> string \<Rightarrow> (js obj \<times> string) res"
where
  "p_value 0 s = Inl SyntaxError"
| "p_value (Suc n) s =
     (case skip_ws s of
        [] \<Rightarrow> Inl SyntaxError
      | c # cs \<Rightarrow>
          if c = CHR 0x22 then res_bind (lex_string cs) (\<lambda>(t, r). Inr (JStr t, r))
          else if c = CHR ''['' then
            (if starts_with (skip_ws cs) '']'' then Inr (JArr [], tl (skip_ws cs))
             else res_bind (p_elems n cs) (\<lambda>(xs, r). Inr (JArr xs, r)))
          else if c = CHR ''{'' then
            (if starts_with (skip_ws cs) ''}'' then Inr (JObj [], tl (skip_ws cs))
             else res_bind (p_members n cs) (\<lambda>(m, r). Inr (JObj (fold (\<lambda>(k, v). oput k v) m []), r)))
          else if starts_with (c # cs) ''null'' then Inr (JNull, drop 4 (c # cs))
          else if starts_with (c # cs) ''true'' then Inr (JBool True, drop 4 (c # cs))
          else if starts_with (c # cs) ''false'' then Inr (JBool False, drop 5 (c # cs))
          else res_bind (lex_number (c # cs)) (\<lambda>(i, r). Inr (JNum i, r)))"
| "p_elems 0 s = Inl SyntaxError"
| "p_elems (Suc n) s =
     res_bind (p_value n s) (\<lambda>(v, r). case skip_ws r of
        [] \<Rightarrow> Inl SyntaxError
      | c # r' \<Rightarrow>
          if c = CHR '']'' then Inr ([v], r')
          else if c = CHR '','' then consr v (p_elems n r')
          else Inl SyntaxError)"
| "p_members 0 s = Inl SyntaxError"
| "p_members (Suc n) s =
     (case skip_ws s of
        [] \<Rightarrow> Inl SyntaxError
      | q # cs \<Rightarrow>
          if q \<noteq> CHR 0x22 then Inl SyntaxError
          else res_bind (lex_string cs) (\<lambda>(k, r).
            if \<not> starts_with (skip_ws r) '':'' then Inl SyntaxError
            else res_bind (p_value n (tl (skip_ws r))) (\<lambda>(v, r'). case skip_ws r' of
                [] \<Rightarrow> Inl SyntaxError
              | c # r'' \<Rightarrow>
                  if c = CHR ''}'' then Inr ([(k, v)], r'')
                  else if c = CHR '','' then consr (k, v) (p_members n r'')
                  else Inl SyntaxError)))"

definition json_parse :: "string \<Rightarrow> js res" where
  "json_parse s = res_bind (p_value (Suc (length s)) s) (\<lambda>(v, r).
     if skip_ws r = [] then Inr v else Inl SyntaxError)"

section \<open>Round trip: tokens\<close>

lemma char_eq_of_char: "c = d \<longleftrightarrow> (of_char c :: nat) = of_char d"
  by simp

lemma hex_val_hex_char: "d < 16 \<Longrightarrow> hex_val (hex_char d) = Some d"
  by (auto simp: hex_val_def hex_char_def Let_def of_char_of take_bit_eq_mod)

lemma consr_Inr [simp]: "consr c (Inr (s, r)) = Inr (c # s, r)"
  by (simp add: consr_def)

lemma unescape_simps [simp]:
  "unescape (CHR 0x22) = Some (CHR 0x22)" "unescape (CHR 0x5C) = Some (CHR 0x5C)"
  "unescape (CHR ''b'') = Some (CHR 0x08)" "unescape (CHR ''f'') = Some (CHR 0x0C)"
  "unescape (CHR ''n'') = Some (CHR 0x0A)" "unescape (CHR ''r'') = Some (CHR 0x0D)"
  "unescape (CHR ''t'') = Some (CHR 0x09)"
  by (simp_all add: unescape_def)

lemma of_char_bound: "(of_char c :: nat) < 256"
  by (cases c) (simp add: of_char_def)

lemma lex_string_esc: "lex_string (json_esc c @ t) = consr c (lex_string t)"
proof -
  have "(of_char c :: nat) div 16 < 16" "(of_char c :: nat) mod 16 < 16"
    using of_char_bound [of c] by (simp_all add: less_mult_imp_div_less)
  then have "hex_val (hex_char (of_char c div 16)) = Some (of_char c div 16)"
    "hex_val (hex_char (of_char c mod 16)) = Some (of_char c mod 16)"
    by (simp_all add: hex_val_hex_char)
  moreover have "hex_val (CHR ''0'') = Some 0" by (simp add: hex_val_def)
  ultimately show ?thesis
    by (auto simp: json_esc_def Let_def)
qed

lemma lex_string_quote: "lex_string (concat (map json_esc s) @ CHR 0x22 # rest) = Inr (s, rest)"
  by (induction s) (simp_all add: lex_string_esc)

lemma of_digit_char: "d < 10 \<Longrightarrow> (of_char (digit_char d) :: nat) = 48 + d"
  by (simp add: digit_char_def take_bit_eq_mod)

lemma is_digit_char [simp]: "d < 10 \<Longrightarrow> is_digit (digit_char d)"
  by (simp add: is_digit_def of_digit_char)

lemma nat_str_digits: "\<forall>c\<in>set (nat_str n). is_digit c"
proof (induction n rule: nat_str.induct)
  case (1 n)
  then show ?case by (cases "n < 10") (auto simp: nat_str.simps [of n])
qed

lemma digits_val_snoc: "digits_val (ds @ [c]) = 10 * digits_val ds + (of_char c - 48)"
  by (simp add: digits_val_def)

lemma digits_val_nat_str: "digits_val (nat_str n) = n"
proof (induction n rule: nat_str.induct)
  case (1 n)
  show ?case
  proof (cases "n < 10")
    case True
    then show ?thesis by (simp add: nat_str.simps [of n] digits_val_def of_digit_char)
  next
    case False
    with 1 show ?thesis by (simp add: nat_str.simps [of n] digits_val_snoc of_digit_char)
  qed
qed

lemma nat_str_leading: "hd (nat_str n) = CHR ''0'' \<Longrightarrow> n = 0"
proof (induction n rule: nat_str.induct)
  case (1 n)
  have zero: "digit_char d = CHR ''0'' \<Longrightarrow> d < 10 \<Longrightarrow> d = 0" for d
    using of_digit_char [of d] by auto
  show ?case
  proof (cases "n < 10")
    case True
    with 1 zero show ?thesis by (simp add: nat_str.simps [of n])
  next
    case False
    with 1 show ?thesis by (simp add: nat_str.simps [of n])
  qed
qed

lemma lex_nat_nat_str:
  assumes "number_end rest"
  shows "lex_nat (nat_str n @ rest) = Inr (n, rest)"
proof -
  have rest: "takeWhile is_digit rest = []" "dropWhile is_digit rest = rest"
    using assms by (auto simp: number_end_def split: list.splits)
  then have "takeWhile is_digit (nat_str n @ rest) = nat_str n"
    "dropWhile is_digit (nat_str n @ rest) = rest"
    using nat_str_digits [of n] by (simp_all add: takeWhile_append2 dropWhile_append2)
  moreover have "tl (nat_str n) = []" if "hd (nat_str n) = CHR ''0''"
    using nat_str_leading [OF that] by (simp add: nat_str_small)
  ultimately show ?thesis
    using assms by (auto simp: lex_nat_def Let_def digits_val_nat_str)
qed

lemma hd_nat_str_digit: "is_digit (hd (nat_str n))"
  using nat_str_digits [of n] by (cases "nat_str n") auto

lemma lex_number_int_str:
  assumes "number_end rest"
  shows "lex_number (int_str i @ rest) = Inr (i, rest)"
proof (cases "i < 0")
  case True
  with assms show ?thesis by (simp add: int_str_def lex_number_def lex_nat_nat_str)
next
  case False
  obtain c cs where c: "nat_str (nat i) = c # cs" by (cases "nat_str (nat i)") auto
  with hd_nat_str_digit [of "nat i"] have "c \<noteq> CHR ''-''" by (auto simp: is_digit_def)
  with False c lex_nat_nat_str [OF assms, of "nat i"] show ?thesis
    by (simp add: int_str_def lex_number_def)
qed

section \<open>Round trip: values\<close>

text \<open>The first character of a value's text decides the branch of the parser.\<close>

definition starts_value :: "string \<Rightarrow> bool" where
  "starts_value s \<longleftrightarrow> (\<exists>c cs. s = c # cs \<and> c \<notin> {CHR 0x20, CHR 0x09, CHR 0x0A, CHR 0x0D, CHR '']'', CHR ''}''})"

lemma starts_value_skip: "starts_value s \<Longrightarrow> skip_ws (s @ r) = s @ r"
  by (auto simp: starts_value_def)

lemma int_str_head:
  "\<exists>c cs. int_str i = c # cs \<and> (c = CHR ''-'' \<or> is_digit c)"
  using hd_nat_str_digit [of "nat i"] by (cases "nat_str (nat i)") (auto simp: int_str_def)

lemma int_str_starts: "starts_value (int_str i)"
proof -
  obtain c cs where c: "int_str i = c # cs" "c = CHR ''-'' \<or> is_digit c"
    using int_str_head by blast
  then have "c \<notin> {CHR 0x20, CHR 0x09, CHR 0x0A, CHR 0x0D, CHR '']'', CHR ''}''}"
    by (auto simp: is_digit_def)
  with c show ?thesis by (auto simp: starts_value_def)
qed

lemma json_text_starts: "starts_value (json_text v)"
proof (cases v)
  case (JNum i)
  then show ?thesis by (simp add: int_str_starts)
qed (auto simp: starts_value_def json_quote_def)

lemma p_value_number:
  assumes "number_end rest"
  shows "p_value (Suc n) (int_str i @ rest) = Inr (JNum i, rest)"
proof -
  obtain c cs where c: "int_str i = c # cs" and d: "c = CHR ''-'' \<or> is_digit c"
    using int_str_head by blast
  have "c \<notin> {CHR 0x22, CHR ''['', CHR ''{'', CHR ''n'', CHR ''t'', CHR ''f''}"
    using d by (auto simp: is_digit_def)
  moreover have "skip_ws (int_str i @ rest) = int_str i @ rest"
    by (rule starts_value_skip [OF int_str_starts])
  ultimately show ?thesis
    using lex_number_int_str [OF assms, of i] by (simp add: c)
qed

lemma number_end_sep [simp]:
  "number_end []" "number_end (CHR '','' # r)" "number_end (CHR '']'' # r)" "number_end (CHR ''}'' # r)"
  by (simp_all add: number_end_def is_digit_def)

lemma json_quote_append: "json_quote s @ rest = CHR 0x22 # concat (map json_esc s) @ CHR 0x22 # rest"
  by (simp add: json_quote_def)

lemma fold_oput_distinct:
  assumes "distinct (map fst m @ map fst acc)"
  shows "fold (\<lambda>(k, v). oput k v) m acc = acc @ m"
  using assms
proof (induction m arbitrary: acc)
  case (Cons p m)
  obtain k v where p: "p = (k, v)" by (cases p)
  have "oput k v acc = acc @ [(k, v)]" if "k \<notin> fst ` set acc"
    using that by (induction acc) auto
  with Cons p show ?case by auto
qed simp

abbreviation elems_text :: "js list \<Rightarrow> string" where
  "elems_text xs \<equiv> join_on CHR '','' (map json_text xs)"

definition member_text :: "string \<times> js \<Rightarrow> string" where
  "member_text p = json_quote (fst p) @ CHR '':'' # json_text (snd p)"

abbreviation members_text :: "js obj \<Rightarrow> string" where
  "members_text m \<equiv> join_on CHR '','' (map member_text m)"

lemma json_text_JObj: "json_text (JObj m) = CHR ''{'' # members_text m @ ''}''"
proof -
  have "(\<lambda>(k, v). json_quote k @ CHR '':'' # json_text v) = member_text"
    by (auto simp: member_text_def)
  then show ?thesis by simp
qed

definition reads_value :: "nat \<Rightarrow> bool" where
  "reads_value n \<longleftrightarrow> (\<forall>v rest. json_ok v \<longrightarrow> length (json_text v) < n \<longrightarrow> number_end rest \<longrightarrow>
     p_value n (json_text v @ rest) = Inr (v, rest))"

definition reads_elems :: "nat \<Rightarrow> bool" where
  "reads_elems n \<longleftrightarrow> (\<forall>xs rest. xs \<noteq> [] \<longrightarrow> (\<forall>x\<in>set xs. json_ok x) \<longrightarrow>
     length (elems_text xs) + 1 < n \<longrightarrow>
     p_elems n (elems_text xs @ CHR '']'' # rest) = Inr (xs, rest))"

definition reads_members :: "nat \<Rightarrow> bool" where
  "reads_members n \<longleftrightarrow> (\<forall>m rest. m \<noteq> [] \<longrightarrow> (\<forall>p\<in>set m. json_ok (snd p)) \<longrightarrow>
     length (members_text m) + 1 < n \<longrightarrow>
     p_members n (members_text m @ CHR ''}'' # rest) = Inr (m, rest))"

lemma reads_elems_Suc:
  assumes "reads_value n" and "reads_elems n"
  shows "reads_elems (Suc n)"
  unfolding reads_elems_def
proof (intro allI impI)
  fix xs :: "js list" and rest
  assume xs: "xs \<noteq> []" "\<forall>x\<in>set xs. json_ok x" "length (elems_text xs) + 1 < Suc n"
  obtain x ys where x: "xs = x # ys" using xs(1) by (cases xs) auto
  show "p_elems (Suc n) (elems_text xs @ CHR '']'' # rest) = Inr (xs, rest)"
  proof (cases ys)
    case Nil
    with assms(1) x xs show ?thesis by (auto simp: reads_value_def)
  next
    case (Cons y zs)
    have "p_value n (json_text x @ CHR '','' # elems_text ys @ CHR '']'' # rest) =
      Inr (x, CHR '','' # elems_text ys @ CHR '']'' # rest)"
      using assms(1) xs by (auto simp: reads_value_def x Cons)
    moreover have "p_elems n (elems_text ys @ CHR '']'' # rest) = Inr (ys, rest)"
      by (rule assms(2) [unfolded reads_elems_def, rule_format]) (use xs in \<open>auto simp: x Cons\<close>)
    ultimately show ?thesis by (simp add: x Cons)
  qed
qed

lemma reads_members_Suc:
  assumes "reads_value n" and "reads_members n"
  shows "reads_members (Suc n)"
  unfolding reads_members_def
proof (intro allI impI)
  fix m :: "js obj" and rest
  assume m: "m \<noteq> []" "\<forall>p\<in>set m. json_ok (snd p)" "length (members_text m) + 1 < Suc n"
  obtain k v ys where p: "m = (k, v) # ys" using m(1) by (cases m) auto
  note read = lex_string_quote json_quote_append member_text_def
  show "p_members (Suc n) (members_text m @ CHR ''}'' # rest) = Inr (m, rest)"
  proof (cases ys)
    case Nil
    have "p_value n (json_text v @ CHR ''}'' # rest) = Inr (v, CHR ''}'' # rest)"
      using assms(1) m by (auto simp: reads_value_def p Nil member_text_def)
    then show ?thesis by (simp add: p Nil read)
  next
    case (Cons q zs)
    have "p_value n (json_text v @ CHR '','' # members_text ys @ CHR ''}'' # rest) =
      Inr (v, CHR '','' # members_text ys @ CHR ''}'' # rest)"
      using assms(1) m by (auto simp: reads_value_def p Cons member_text_def)
    moreover have "p_members n (members_text ys @ CHR ''}'' # rest) = Inr (ys, rest)"
      by (rule assms(2) [unfolded reads_members_def, rule_format]) (use m in \<open>auto simp: p Cons\<close>)
    ultimately show ?thesis by (simp add: p Cons read)
  qed
qed

lemma elems_text_starts: "xs \<noteq> [] \<Longrightarrow> starts_value (elems_text xs)"
proof (cases xs)
  case (Cons x ys)
  then show ?thesis using json_text_starts [of x] by (cases ys) (auto simp: starts_value_def)
qed simp

lemma members_text_starts: "m \<noteq> [] \<Longrightarrow> starts_value (members_text m)"
proof (cases m)
  case (Cons p ys)
  then show ?thesis
    by (cases ys) (auto simp: starts_value_def member_text_def json_quote_def)
qed simp

lemma starts_value_not: "starts_value s \<Longrightarrow> \<not> starts_with (s @ r) '']'' \<and> \<not> starts_with (s @ r) ''}''"
  by (auto simp: starts_value_def)

lemma reads_value_Suc:
  assumes "reads_elems n" and "reads_members n"
  shows "reads_value (Suc n)"
  unfolding reads_value_def
proof (intro allI impI)
  fix v :: js and rest
  assume v: "json_ok v" "length (json_text v) < Suc n" "number_end rest"
  show "p_value (Suc n) (json_text v @ rest) = Inr (v, rest)"
  proof (cases v)
    case (JNum i)
    with v(3) p_value_number show ?thesis by simp
  next
    case (JStr s)
    then show ?thesis by (simp add: json_quote_append lex_string_quote)
  next
    case (JArr xs)
    show ?thesis
    proof (cases "xs = []")
      case False
      then have "skip_ws (elems_text xs @ CHR '']'' # rest) = elems_text xs @ CHR '']'' # rest"
        "\<not> starts_with (elems_text xs @ CHR '']'' # rest) '']''"
        using elems_text_starts starts_value_skip starts_value_not by blast+
      moreover have "p_elems n (elems_text xs @ CHR '']'' # rest) = Inr (xs, rest)"
        by (rule assms(1) [unfolded reads_elems_def, rule_format]) (use v False in \<open>auto simp: JArr\<close>)
      ultimately show ?thesis by (simp add: JArr)
    qed (simp add: JArr)
  next
    case (JObj m)
    show ?thesis
    proof (cases "m = []")
      case False
      then have "skip_ws (members_text m @ CHR ''}'' # rest) = members_text m @ CHR ''}'' # rest"
        "\<not> starts_with (members_text m @ CHR ''}'' # rest) ''}''"
        using members_text_starts starts_value_skip starts_value_not by blast+
      moreover have "p_members n (members_text m @ CHR ''}'' # rest) = Inr (m, rest)"
        by (rule assms(2) [unfolded reads_members_def, rule_format])
          (use v False in \<open>auto simp: JObj json_text_JObj simp del: json_text.simps\<close>)
      moreover have "fold (\<lambda>(k, v). oput k v) m [] = m"
        using fold_oput_distinct [of m "[]"] v(1) by (simp add: JObj wf_obj_def)
      ultimately show ?thesis
        unfolding JObj json_text_JObj by simp
    qed (simp add: JObj)
  qed (use v in auto)
qed

lemma reads_all: "reads_value n \<and> reads_elems n \<and> reads_members n"
proof (induction n)
  case 0
  show ?case by (simp add: reads_value_def reads_elems_def reads_members_def)
next
  case (Suc n)
  then show ?case by (simp add: reads_value_Suc reads_elems_Suc reads_members_Suc)
qed

lemma json_parse_text:
  assumes "json_ok v"
  shows "json_parse (json_text v) = Inr v"
proof -
  have "p_value (Suc (length (json_text v))) (json_text v @ []) = Inr (v, [])"
    by (rule conjunct1 [OF reads_all, unfolded reads_value_def, rule_format]) (use assms in auto)
  then show ?thesis by (simp add: json_parse_def del: p_value.simps)
qed

text \<open>The contract of the pair for a caller that stores a value as text and reads it back.\<close>

locale json_codec =
  fixes stringify :: "js \<Rightarrow> string option"
    and parse :: "string \<Rightarrow> js res"
  assumes stringify_defined: "v \<noteq> JUndef \<Longrightarrow> \<exists>t. stringify v = Some t"
    and parse_stringify: "wf_js v \<Longrightarrow> stringify v = Some t \<Longrightarrow> parse t = Inr (json_clean v)"
begin

lemma store_then_load:
  assumes "wf_js v" and "v \<noteq> JUndef"
  obtains t where "stringify v = Some t" and "parse t = Inr (json_clean v)"
  using assms stringify_defined parse_stringify by blast

lemma load_is_stable:
  assumes "wf_js v" and "v \<noteq> JUndef" and "stringify (json_clean v) = Some t"
    and "wf_js (json_clean v)"
  shows "parse t = Inr (json_clean v)"
  using parse_stringify [OF assms(4,3)] assms(1,2) by (simp add: json_clean_idem)

end

interpretation json: json_codec json_stringify json_parse
proof unfold_locales
  fix v :: js and t
  assume "wf_js v" and "json_stringify v = Some t"
  then show "json_parse t = Inr (json_clean v)"
    by (auto simp: json_stringify_def json_parse_text json_ok_clean split: if_splits)
qed (simp add: json_stringify_def)

section \<open>Writing with indentation\<close>

text \<open>
  \<open>JSON.stringify(v, null, n)\<close>: every element and member on a line of its own, indented by \<open>n\<close> spaces
  for every level.
\<close>

definition newline :: "nat \<Rightarrow> nat \<Rightarrow> string" where
  "newline n depth = CHR 0x0A # replicate (n * depth) (CHR '' '')"

fun json_lines :: "nat \<Rightarrow> nat \<Rightarrow> js \<Rightarrow> string" where
  "json_lines n d (JArr xs) = (if xs = [] then ''[]'' else
     CHR ''['' # join_on CHR '','' (map (\<lambda>x. newline n (Suc d) @ json_lines n (Suc d) x) xs) @ newline n d @ '']'')"
| "json_lines n d (JObj m) = (if m = [] then ''{}'' else
     CHR ''{'' # join_on CHR '','' (map (\<lambda>(k, v). newline n (Suc d) @ json_quote k @ '': '' @ json_lines n (Suc d) v) m)
       @ newline n d @ ''}'')"
| "json_lines n d v = json_text v"

definition json_indented :: "nat \<Rightarrow> js \<Rightarrow> string option" where
  "json_indented n v = (if v = JUndef then None else Some (json_lines n 0 (json_clean v)))"

abbreviation json_pretty :: "js \<Rightarrow> string option" where
  "json_pretty \<equiv> json_indented 2"

end
