(* ===== verification/Store.thy ===== *)
theory Store
  imports Json Effects
begin

text \<open>
  The store of the web client (\<open>web/src/store\<close>): the state of its four modules as records, the
  values restored from \<open>localStorage\<close> when the page is loaded, and the actions. A mutation
  \<open>commit("setState", {...})\<close> assigns the named members and is a record update here. Connection
  configurations are objects the program mutates and shares, so the store holds references to them
  (\<open>cref\<close>), and the shared state of a connection holds references to the client, the subscription
  map and the message list of its delegate.
\<close>

section \<open>Local storage\<close>

record local_storage =
  ls_connections :: "string option"
  ls_activeToolKey :: "string option"
  ls_auth :: "string option"

text \<open>\<open>localStorage.getItem(key) || d\<close>.\<close>

definition item_or :: "string option \<Rightarrow> string \<Rightarrow> string" where
  "item_or item d = (case item of None \<Rightarrow> d | Some s \<Rightarrow> if s = '''' then d else s)"

section \<open>Module user\<close>

record user_state =
  auth :: string

definition user_init :: "local_storage \<Rightarrow> user_state" where
  "user_init ls = \<lparr>auth = item_or (ls_auth ls) ''''\<rparr>"

section \<open>Module app\<close>

record app_state =
  tioConfig :: js
  things :: "js list"
  shadowListUpdateTag :: int
  currentShadow :: js
  httpRequestLogs :: "js list"

definition app_init :: app_state where
  "app_init = \<lparr>tioConfig = JObj [], things = [], shadowListUpdateTag = 0, currentShadow = JObj [],
     httpRequestLogs = []\<rparr>"

definition addReqLog :: "js \<Rightarrow> app_state \<Rightarrow> app_state" where
  "addReqLog payload state = state\<lparr>httpRequestLogs := payload # httpRequestLogs state\<rparr>"

definition app_tioConfig :: "js \<Rightarrow> app_state \<Rightarrow> app_state" where
  "app_tioConfig config state = state\<lparr>tioConfig := config\<rparr>"

section \<open>Module layout\<close>

text \<open>The tools of \<open>configs/tool.js\<close>; a height or a link may be missing.\<close>

record tool =
  tool_key :: string
  tool_icon :: string
  tool_name :: string
  tool_height :: "int option"
  tool_link :: "string option"

definition tools :: "tool list" where
  "tools = [
   \<lparr>tool_key = ''mqtt'', tool_icon = ''Connection'', tool_name = ''MQTT Clients'',
    tool_height = Some 450, tool_link = None\<rparr>,
   \<lparr>tool_key = ''logs'', tool_icon = ''Memo'', tool_name = ''HTTP Logs'',
    tool_height = Some 248, tool_link = None\<rparr>,
   \<lparr>tool_key = ''apis'', tool_icon = ''Compass'', tool_name = ''Swagger (View API Definitions)'',
    tool_height = None, tool_link = Some ''/docs''\<rparr>]"

definition find_tool :: "string \<Rightarrow> tool option" where
  "find_tool key = List.find (\<lambda>tool. tool_key tool = key) tools"

record conn_form =
  cf_visible :: bool
  cf_connIdToEdit :: js
  cf_thingIdForCreate :: js
  cf_connectedCallbackToken :: string

record subs_form =
  sf_visible :: bool
  sf_connConfig :: "cref option"
  sf_subscription :: js

text \<open>
  Besides the store members, the style property \<open>--layout-bottom-gap\<close> of the page and the pages
  opened in a new tab.
\<close>

record layout_state =
  activeToolKey :: string
  topGap :: int
  bottomGap :: "int option"
  isToolAreaMaxSize :: bool
  mqttConnForm :: conn_form
  mqttSubsForm :: subs_form
  css_bottom_gap :: "int option"
  opened :: "string list"

definition layout_init :: "local_storage \<Rightarrow> layout_state" where
  "layout_init ls =
     (let key = item_or (ls_activeToolKey ls) '''';
          gap = (case find_tool key of Some tool \<Rightarrow> tool_height tool | None \<Rightarrow> Some 30)
      in \<lparr>activeToolKey = key, topGap = 50, bottomGap = gap, isToolAreaMaxSize = False,
          mqttConnForm = \<lparr>cf_visible = False, cf_connIdToEdit = JNull, cf_thingIdForCreate = JStr '''',
            cf_connectedCallbackToken = ''''\<rparr>,
          mqttSubsForm = \<lparr>sf_visible = False, sf_connConfig = None, sf_subscription = JNull\<rparr>,
          css_bottom_gap = gap, opened = []\<rparr>)"

definition switchActiveTool ::
  "string \<Rightarrow> layout_state \<times> local_storage \<Rightarrow> layout_state \<times> local_storage" where
  "switchActiveTool key = (\<lambda>(state, ls).
     let conf = find_tool key in
     case Option.bind conf tool_link of
       Some link \<Rightarrow> (state\<lparr>opened := opened state @ [link]\<rparr>, ls)
     | None \<Rightarrow>
         let gap = (case Option.bind conf tool_height of Some h \<Rightarrow> h | None \<Rightarrow> 30) in
         (state\<lparr>css_bottom_gap := Some gap, activeToolKey := key, bottomGap := Some gap\<rparr>,
          ls\<lparr>ls_activeToolKey := Some key\<rparr>))"

section \<open>Module mqtt\<close>

text \<open>
  References to MQTT clients, subscription maps and message lists; the state a delegate publishes to
  the store, or the placeholder of a connection without a client (\<open>client: {connected: false}\<close>).
\<close>

type_synonym clref = nat
type_synonym sref = nat
type_synonym mref = nat

datatype shared =
    SharedFull (sh_id: js) (sh_client: clref) (sh_subs: sref) (sh_messages: mref) (sh_unread: int)
      (sh_recvType: string)
  | SharedStub (sh_id: js)

record mqtt_state =
  connectionConfigs :: "cref list"
  currentConnId :: js
  delegateStates :: "shared obj"
  connecting :: bool
  retryTimes :: int
  autoResub :: bool

definition storeConnections :: "js \<Rightarrow> local_storage \<Rightarrow> local_storage" where
  "storeConnections connections ls =
     (case connections of
        JArr cs \<Rightarrow> ls\<lparr>ls_connections := Some (case json_stringify (JArr cs) of Some t \<Rightarrow> t | None \<Rightarrow> ''undefined'')\<rparr>
      | _ \<Rightarrow> ls\<lparr>ls_connections := Some ''[]''\<rparr>)"

definition restoreConnections :: "local_storage \<Rightarrow> js" where
  "restoreConnections ls = res_or (json_parse (item_or (ls_connections ls) ''[]'')) (JArr [])"

text \<open>The loop over the restored configurations.\<close>

fun shared_stubs :: "js list \<Rightarrow> shared obj \<Rightarrow> shared obj res" where
  "shared_stubs [] acc = Inr acc"
| "shared_stubs (c # cs) acc =
     res_bind (js_get c ''id'') (\<lambda>i. shared_stubs cs (oput (js_str i) (SharedStub i) acc))"

text \<open>
  The initial state. What was stored need not be a list: the length of \<open>null\<close> throws, a value
  without a length counts as no connections, and a non-empty string has no \<open>forEach\<close>. For a value
  that is no list the configurations are that value; \<open>None\<close> stands for it, and the first use of
  it as a list throws when the delegates are created. (A member \<open>length\<close> that is a text or an object
  counts as no length: texts are not converted to numbers.)
\<close>

definition mqtt_init :: "local_storage \<Rightarrow> (js list option \<times> js \<times> shared obj) res" where
  "mqtt_init ls =
     (case restoreConnections ls of
        JNull \<Rightarrow> Inl TypeError
      | JUndef \<Rightarrow> Inl TypeError
      | JArr cs \<Rightarrow>
          (case cs of [] \<Rightarrow> Inr (Some [], JNull, [])
           | c # _ \<Rightarrow> res_bind (js_get c ''id'') (\<lambda>i.
               res_bind (shared_stubs cs []) (\<lambda>st. Inr (Some cs, i, st))))
      | JStr s \<Rightarrow> if s = '''' then Inr (None, JNull, []) else Inl TypeError
      | JObj m \<Rightarrow> (case oget m ''length'' of
            JNum n \<Rightarrow> if n > 0 then Inl TypeError else Inr (None, JNull, [])
          | JBool b \<Rightarrow> if b then Inl TypeError else Inr (None, JNull, [])
          | _ \<Rightarrow> Inr (None, JNull, []))
      | _ \<Rightarrow> Inr (None, JNull, []))"

text \<open>The actions. What \<open>updateDelegateStates\<close> gets is a shared state, or a request to delete one.\<close>

definition setConnConfigs :: "cref list \<Rightarrow> mqtt_state \<Rightarrow> mqtt_state" where
  "setConnConfigs configs state = state\<lparr>connectionConfigs := configs\<rparr>"

definition updateConnConfigs ::
  "(cref \<Rightarrow> js) \<Rightarrow> cref list \<Rightarrow> mqtt_state \<times> local_storage \<Rightarrow> mqtt_state \<times> local_storage" where
  "updateConnConfigs deref configs = (\<lambda>(state, ls).
     (setConnConfigs configs state, storeConnections (JArr (map deref configs)) ls))"

datatype states_payload = PutShared shared | ForDelete js

definition updateDelegateStates :: "states_payload \<Rightarrow> mqtt_state \<Rightarrow> mqtt_state" where
  "updateDelegateStates payload state =
     state\<lparr>delegateStates := (case payload of
         ForDelete i \<Rightarrow> odel (js_str i) (delegateStates state)
       | PutShared s \<Rightarrow> oput (js_str (sh_id s)) s (delegateStates state)),
       connecting := False, retryTimes := 0\<rparr>"

text \<open>The mutation the delegates use.\<close>

definition setConnecting :: "int \<Rightarrow> mqtt_state \<Rightarrow> mqtt_state" where
  "setConnecting n state = state\<lparr>connecting := True, retryTimes := n\<rparr>"

section \<open>The store\<close>

record store =
  user :: user_state
  app :: app_state
  layout :: layout_state
  mqtt :: mqtt_state
  local_store :: local_storage

section \<open>Properties\<close>

lemma restore_stored:
  assumes "wf_js (JArr cs)"
  shows "restoreConnections (storeConnections (JArr cs) ls) = json_clean (JArr cs)"
proof -
  obtain t where t: "json_stringify (JArr cs) = Some t" "json_parse t = Inr (json_clean (JArr cs))"
    using json.store_then_load [OF assms] by blast
  then have "t \<noteq> ''''" by (auto simp: json_stringify_def)
  with t show ?thesis by (simp add: storeConnections_def restoreConnections_def item_or_def)
qed

lemma shared_stubs_objects:
  "\<forall>c\<in>set cs. is_obj c \<Longrightarrow> shared_stubs cs acc =
    Inr (fold (\<lambda>c. oput (js_str (fld c ''id'')) (SharedStub (fld c ''id''))) cs acc)"
  by (induction cs arbitrary: acc) (auto simp: js_get_fld)

lemma clean_is_obj: "is_obj v \<Longrightarrow> is_obj (json_clean v)"
  by (auto simp: is_obj_def)

text \<open>
  C28. Connections survive a reload of the page: after an update of the connection configurations,
  the initial state of the next page load has the same configurations in the same order, each as
  its JSON text reads back, and the first one selected.
\<close>

theorem connections_survive_reload:
  assumes "wf_js (JArr (map deref refs))" and "\<forall>r\<in>set refs. is_obj (deref r)"
  shows "\<exists>stubs. mqtt_init (snd (updateConnConfigs deref refs (st, ls))) = Inr (Some (map (\<lambda>r. json_clean (deref r)) refs),
    (case refs of [] \<Rightarrow> JNull | r # _ \<Rightarrow> fld (json_clean (deref r)) ''id''), stubs)"
proof -
  let ?ls' = "snd (updateConnConfigs deref refs (st, ls))"
  have ls': "?ls' = storeConnections (JArr (map deref refs)) ls"
    by (simp add: updateConnConfigs_def)
  have no_undef: "deref r \<noteq> JUndef" if "r \<in> set refs" for r
    using assms(2) that by (auto simp: is_obj_def)
  have restored: "restoreConnections ?ls' = JArr (map (\<lambda>r. json_clean (deref r)) refs)"
    unfolding ls' restore_stored [OF assms(1)] using no_undef by simp
  have objects: "is_obj (json_clean (deref r))" if "r \<in> set refs" for r
    using assms(2) that clean_is_obj by blast
  show ?thesis
    unfolding mqtt_init_def restored using objects
    by (cases refs) (simp_all add: js_get_fld shared_stubs_objects)
qed

theorem connections_survive_reload_witness:
  "\<exists>stubs. mqtt_init (snd (updateConnConfigs (\<lambda>r. JObj [(''id'', JStr ''conn-1''), (''port'', JUndef)]) [0]
      (\<lparr>connectionConfigs = [], currentConnId = JNull, delegateStates = [], connecting = False,
        retryTimes = 0, autoResub = True\<rparr>,
       \<lparr>ls_connections = None, ls_activeToolKey = None, ls_auth = None\<rparr>))) =
    Inr (Some [JObj [(''id'', JStr ''conn-1'')]], JStr ''conn-1'', stubs)"
  using connections_survive_reload [of "\<lambda>r. JObj [(''id'', JStr ''conn-1''), (''port'', JUndef)]" "[0]"
      "\<lparr>connectionConfigs = [], currentConnId = JNull, delegateStates = [], connecting = False,
        retryTimes = 0, autoResub = True\<rparr>"
      "\<lparr>ls_connections = None, ls_activeToolKey = None, ls_auth = None\<rparr>"]
  by (simp add: wf_obj_def)

text \<open>
  A stored text that is no JSON is treated as no connections, but the JSON text of \<open>null\<close>, which
  the program never writes, makes the store fail to load.
\<close>

theorem corrupt_connections:
  "json_parse text = Inl e \<Longrightarrow>
     mqtt_init (ls\<lparr>ls_connections := Some text\<rparr>) = Inr (Some [], JNull, []) \<and>
     mqtt_init (ls\<lparr>ls_connections := Some ''null''\<rparr>) = Inl TypeError"
  using json_parse_text [of "JNull"] json_parse_text [of "JArr []"]
  by (cases "text = ''''") (auto simp: mqtt_init_def restoreConnections_def item_or_def)

theorem corrupt_connections_witness:
  "mqtt_init (\<lparr>ls_connections = None, ls_activeToolKey = None, ls_auth = None\<rparr>\<lparr>ls_connections := Some ''x''\<rparr>)
    = Inr (Some [], JNull, [])"
  by (rule conjunct1 [OF corrupt_connections [where e = SyntaxError]])
    (simp add: json_parse_def lex_number_def lex_nat_def is_digit_def)

end
