(* ===== verification/Session.thy ===== *)
theory Session
  imports Store
begin

text \<open>
  The session of a user: the HTTP client with its interceptors (\<open>web/src/apis/client.js\<close> and the
  requests of the other files of \<open>web/src/apis\<close>), the route guard (\<open>web/src/router.ts\<close>), logging in
  (\<open>Login.vue\<close>) and logging out (\<open>TopNavBar.vue\<close>), and what the page does before it is mounted
  (\<open>App.vue\<close>). The network and the packages \<open>axios\<close> and \<open>querystring\<close> are not part of the
  repository: a response or an error is any value they may give, the text of a query is an
  argument, and so are \<open>btoa\<close> and the formatting of times.
\<close>

section \<open>Requests\<close>

record http_request =
  rq_method :: string
  rq_url :: string
  rq_data :: "js option"

definition get_request :: "string \<Rightarrow> http_request" where
  "get_request url = \<lparr>rq_method = ''get'', rq_url = url, rq_data = None\<rparr>"

definition getConfig :: http_request where
  "getConfig = get_request ''private/api/config''"

definition kickOutClient :: "js \<Rightarrow> http_request" where
  "kickOutClient clientId = \<lparr>rq_method = ''delete'',
     rq_url = ''api/v1/mqttBroker/clients/'' @ js_str clientId, rq_data = None\<rparr>"

definition getBrokerStats :: http_request where
  "getBrokerStats = get_request ''api/v1/mqttBroker/embed/stats''"

definition queryShadows :: "(js \<Rightarrow> string) \<Rightarrow> js \<Rightarrow> js \<Rightarrow> js \<Rightarrow> http_request" where
  "queryShadows qs pageIndex pageSize query = \<lparr>rq_method = ''post'',
     rq_url = ''api/v1/things/shadows/query?'' @ qs (JObj [(''pageIndex'', pageIndex), (''pageSize'', pageSize)]),
     rq_data = Some (JObj [(''query'', query)])\<rparr>"

definition getDefaultShadow :: "js \<Rightarrow> http_request" where
  "getDefaultShadow thingId = get_request (''/api/v1/things/'' @ js_str thingId @ ''/shadows/default'')"

definition getThings :: "(js \<Rightarrow> string) \<Rightarrow> js \<Rightarrow> http_request" where
  "getThings qs params = get_request (''api/v1/things/?'' @ qs params)"

definition postThing :: "js \<Rightarrow> http_request" where
  "postThing thing = \<lparr>rq_method = ''post'', rq_url = ''api/v1/things'', rq_data = Some thing\<rparr>"

definition getThing :: "js \<Rightarrow> http_request" where
  "getThing thingId = get_request (''api/v1/things/'' @ js_str thingId)"

definition deleteThing :: "js \<Rightarrow> http_request" where
  "deleteThing thingId = \<lparr>rq_method = ''delete'', rq_url = ''api/v1/things/'' @ js_str thingId, rq_data = None\<rparr>"

section \<open>The state of the session\<close>

text \<open>
  The store, the address of the server kept in local storage and the one in use, what was shown,
  and the requests for another route.
\<close>

record page =
  pg_store :: store
  pg_client_url :: "string option"
  pg_base :: string
  pg_shown :: "notification list"
  pg_routes :: "window_event list"

definition set_auth :: "string \<Rightarrow> page \<Rightarrow> page" where
  "set_auth a p = p\<lparr>pg_store := (pg_store p)
     \<lparr>user := (user (pg_store p))\<lparr>auth := a\<rparr>,
      local_store := (local_store (pg_store p))\<lparr>ls_auth := Some a\<rparr>\<rparr>\<rparr>"

definition on_app :: "(app_state \<Rightarrow> app_state) \<Rightarrow> page \<Rightarrow> page" where
  "on_app f p = p\<lparr>pg_store := (pg_store p)\<lparr>app := f (app (pg_store p))\<rparr>\<rparr>"

definition auth_of :: "page \<Rightarrow> string" where
  "auth_of p = auth (user (pg_store p))"

definition recreateClient :: "string \<Rightarrow> page \<Rightarrow> page" where
  "recreateClient baseURL p = p\<lparr>pg_client_url := Some baseURL, pg_base := baseURL\<rparr>"

section \<open>Interceptors\<close>

text \<open>The header every request carries; without a credential it has no value.\<close>

definition request_header :: "page \<Rightarrow> string option" where
  "request_header p = (if auth_of p \<noteq> '''' then Some (auth_of p) else None)"

record http_response =
  rs_status :: int
  rs_date :: "string option"
  rs_method :: js
  rs_url :: js
  rs_body :: "string option"
  rs_data :: js

record http_error =
  er_response :: "http_response option"
  er_code :: js
  er_message :: js

text \<open>
  A log entry. \<open>fmt\<close> formats the time of the response, or the current time where it has none. The
  body of the request is read back as JSON, which throws where it is none.
\<close>

definition log_response :: "(string option \<Rightarrow> string) \<Rightarrow> http_response \<Rightarrow> js \<Rightarrow> page \<Rightarrow> page res" where
  "log_response fmt resp error p =
     res_bind (case rs_body resp of
         Some b \<Rightarrow> if b = '''' then Inr JNull else json_parse b | None \<Rightarrow> Inr JNull) (\<lambda>body.
       Inr (on_app (addReqLog (JObj [(''error'', error), (''time'', JStr (fmt (rs_date resp))),
         (''req'', JObj [(''method'', rs_method resp), (''url'', rs_url resp), (''data'', body)]),
         (''res'', JObj [(''data'', rs_data resp)])])) p))"

datatype outcome =
    Resolved js
  | RejectedResponse http_response
  | RejectedError http_error
  | RejectedData js
  | RejectedThrow js_error

definition on_response ::
  "(string option \<Rightarrow> string) \<Rightarrow> http_response \<Rightarrow> page \<Rightarrow> page \<times> outcome" where
  "on_response fmt resp p =
     (if truthy (rs_data resp) then
        (case log_response fmt resp JNull p of
           Inl e \<Rightarrow> (p, RejectedThrow e) | Inr p \<Rightarrow> (p, Resolved (rs_data resp)))
      else (p, Resolved (rs_data resp)))"

definition auth_failed_note :: notification where
  "auth_failed_note = \<lparr>title = ''Authorization Failed'',
     message = ''You must provide a pair of correct username and password'', ntype = ''error''\<rparr>"

definition on_error :: "(string option \<Rightarrow> string) \<Rightarrow> http_error \<Rightarrow> page \<Rightarrow> page \<times> outcome" where
  "on_error fmt err p =
     (case er_response err of
        None \<Rightarrow> (p, RejectedError err)
      | Some resp \<Rightarrow>
          (case log_response fmt resp (JObj [(''code'', er_code err), (''message'', er_message err)]) p of
             Inl e \<Rightarrow> (p, RejectedThrow e)
           | Inr p \<Rightarrow>
               if rs_status resp = 401 then
                 (let p = set_auth '''' (p\<lparr>pg_shown := pg_shown p @ [auth_failed_note]\<rparr>)
                  in (p\<lparr>pg_routes := pg_routes p @ [requestLogOut]\<rparr>, RejectedResponse resp))
               else if rs_status resp = 404 then (p, RejectedError err)
               else (p, RejectedData (rs_data resp))))"

section \<open>Routes\<close>

record route =
  rt_path :: string
  rt_name :: string

definition routes :: "route list" where
  "routes = [\<lparr>rt_path = ''/login'', rt_name = ''Login''\<rparr>, \<lparr>rt_path = ''/things/:thingId'', rt_name = ''Thing''\<rparr>,
     \<lparr>rt_path = ''/'', rt_name = ''List''\<rparr>, \<lparr>rt_path = ''/:pathMatch(.*)*'', rt_name = ''NotFound''\<rparr>]"

datatype nav = Proceed | Redirect string

definition beforeEach :: "string \<Rightarrow> string \<Rightarrow> nav" where
  "beforeEach a to =
     (if a \<noteq> '''' then (if to = ''Login'' then Redirect ''List'' else Proceed)
      else (if to \<noteq> ''Login'' then Redirect ''Login'' else Proceed))"

text \<open>
  Where a navigation ends: a redirect is a navigation of its own. The fuel bounds the redirects;
  without it left the router would be caught in a loop.
\<close>

fun navigate :: "nat \<Rightarrow> string \<Rightarrow> string \<Rightarrow> string option" where
  "navigate 0 a to = None"
| "navigate (Suc n) a to = (case beforeEach a to of Proceed \<Rightarrow> Some to | Redirect r \<Rightarrow> navigate n a r)"

section \<open>Logging in and out\<close>

definition checkName :: "string \<Rightarrow> string option" where
  "checkName value = (if value = '''' then Some ''Please input the username'' else None)"

definition validatePass :: "string \<Rightarrow> string option" where
  "validatePass value = (if value = '''' then Some ''Please input the password'' else None)"

record login_form =
  lf_host :: string
  lf_user :: string
  lf_pass :: string

definition login_form_init :: "page \<Rightarrow> login_form" where
  "login_form_init p = \<lparr>lf_host = item_or (pg_client_url p) ''/'', lf_user = ''admin'', lf_pass = ''''\<rparr>"

text \<open>
  The first part of \<open>submitForm\<close>, up to the request for the things: a form that is not valid does
  nothing. The second part gets whether the things could be loaded.
\<close>

definition submitForm_start :: "(string \<Rightarrow> string) \<Rightarrow> login_form \<Rightarrow> page \<Rightarrow> page option" where
  "submitForm_start btoa form p =
     (if checkName (lf_user form) = None \<and> validatePass (lf_pass form) = None then
        (let p = (if lf_host form \<noteq> pg_base p
                  then recreateClient (if lf_host form = '''' then ''/'' else lf_host form) p else p)
         in Some (set_auth (''Basic '' @ btoa (lf_user form @ '':'' @ lf_pass form)) p))
      else None)"

definition login_failed_note :: notification where
  "login_failed_note = \<lparr>title = ''Login Failed'', message = '''', ntype = ''error''\<rparr>"

definition submitForm_end :: "bool \<Rightarrow> page \<Rightarrow> page" where
  "submitForm_end ok p =
     (if ok then p\<lparr>pg_routes := pg_routes p @ [RouteChange ''List'']\<rparr>
      else p\<lparr>pg_shown := pg_shown p @ [login_failed_note]\<rparr>)"

definition handleLogOut :: "page \<Rightarrow> page" where
  "handleLogOut p = (let p = set_auth '''' p in p\<lparr>pg_routes := pg_routes p @ [RouteChange ''Login'']\<rparr>)"

text \<open>The state of a page that is loaded again.\<close>

definition reload_auth :: "page \<Rightarrow> string" where
  "reload_auth p = auth (user_init (local_store (pg_store p)))"

section \<open>Properties\<close>

lemma auth_set_auth [simp]: "auth_of (set_auth a p) = a" "reload_auth (set_auth a p) = a"
  by (simp_all add: auth_of_def set_auth_def reload_auth_def user_init_def item_or_def)

lemma auth_update [simp]:
  "auth_of (p\<lparr>pg_routes := r\<rparr>) = auth_of p" "auth_of (p\<lparr>pg_shown := s\<rparr>) = auth_of p"
  "reload_auth (p\<lparr>pg_routes := r\<rparr>) = reload_auth p" "reload_auth (p\<lparr>pg_shown := s\<rparr>) = reload_auth p"
  "auth_of (recreateClient u p) = auth_of p" "reload_auth (recreateClient u p) = reload_auth p"
  "auth_of (on_app f p) = auth_of p" "reload_auth (on_app f p) = reload_auth p"
  by (simp_all add: auth_of_def reload_auth_def recreateClient_def on_app_def)

lemma log_response_auth:
  "log_response fmt resp e p = Inr p' \<Longrightarrow> auth_of p' = auth_of p \<and> reload_auth p' = reload_auth p"
  by (auto simp: log_response_def res_simps)

lemma navigate_guard: "navigate (Suc (Suc n)) a to =
    Some (if a = '''' then ''Login'' else if to = ''Login'' then ''List'' else to)"
  by (simp add: beforeEach_def)

text \<open>
  The route guard never loops, and it separates the two halves of the application: without a
  credential every navigation ends at the login page, with one no navigation ends there.
\<close>

theorem guard_separates:
  assumes "2 \<le> fuel"
  shows "navigate fuel a to = Some (if a = '''' then ''Login'' else if to = ''Login'' then ''List'' else to)"
proof -
  obtain n where "fuel = Suc (Suc n)" using assms by (metis Suc_le_D Suc_le_mono numeral_2_eq_2)
  then show ?thesis by (simp only: navigate_guard)
qed

theorem guard_separates_witness: "navigate 2 '''' ''Thing'' = Some ''Login''"
  using guard_separates [of 2 "''''" "''Thing''"] by simp

lemma log_response_ok:
  assumes "\<forall>b. rs_body resp = Some b \<longrightarrow> (\<exists>v. json_parse b = Inr v)"
  shows "\<exists>q. log_response fmt resp e p = Inr q"
proof (cases "rs_body resp")
  case (Some b)
  with assms obtain v where "json_parse b = Inr v" by blast
  with Some show ?thesis by (cases "b = ''''") (simp_all add: log_response_def)
qed (simp add: log_response_def)

lemma on_response_auth: "auth_of (fst (on_response fmt resp p)) = auth_of p \<and>
    reload_auth (fst (on_response fmt resp p)) = reload_auth p"
  using log_response_auth by (auto simp: on_response_def split: sum.split)


definition demo_page :: page where
  "demo_page = \<lparr>pg_store = \<lparr>user = \<lparr>auth = ''Basic x''\<rparr>, app = app_init,
       layout = layout_init \<lparr>ls_connections = None, ls_activeToolKey = None, ls_auth = None\<rparr>,
       mqtt = \<lparr>connectionConfigs = [], currentConnId = JNull, delegateStates = [], connecting = False,
         retryTimes = 0, autoResub = True\<rparr>,
       local_store = \<lparr>ls_connections = None, ls_activeToolKey = None, ls_auth = Some ''Basic x''\<rparr>\<rparr>,
     pg_client_url = None, pg_base = ''/'', pg_shown = [], pg_routes = []\<rparr>"

definition demo_401 :: http_error where
  "demo_401 = \<lparr>er_response = Some \<lparr>rs_status = 401, rs_date = None, rs_method = JNull, rs_url = JNull,
     rs_body = None, rs_data = JNull\<rparr>, er_code = JNull, er_message = JNull\<rparr>"

lemma demo_auth: "auth_of demo_page = ''Basic x''"
  by (simp add: auth_of_def demo_page_def)


text \<open>
  Logging in stores the credential before it has been tried: when the things cannot be loaded
  the login page reports a failure, but the credential stays, also for the next page load, and the
  route guard treats the user as logged in. Logging out removes it.
\<close>

theorem failed_login_keeps_credential:
  assumes "submitForm_start btoa form p = Some p'"
  shows "let q = submitForm_end False p'; a = ''Basic '' @ btoa (lf_user form @ '':'' @ lf_pass form) in
    auth_of q = a \<and> reload_auth q = a \<and> request_header q = Some a \<and>
    navigate 2 (auth_of q) ''Login'' = Some ''List'' \<and>
    navigate 2 (auth_of (handleLogOut q)) to = Some ''Login''"
  using assms
  by (auto simp: submitForm_start_def submitForm_end_def Let_def request_header_def handleLogOut_def
    numeral_2_eq_2 beforeEach_def split: if_splits)

theorem failed_login_keeps_credential_witness:
  "\<exists>p'. submitForm_start id \<lparr>lf_host = ''/'', lf_user = ''u'', lf_pass = ''p''\<rparr> demo_page = Some p' \<and>
    auth_of (submitForm_end False p') = ''Basic u:p''"
proof -
  obtain p' where "submitForm_start id \<lparr>lf_host = ''/'', lf_user = ''u'', lf_pass = ''p''\<rparr> demo_page = Some p'"
    by (simp add: submitForm_start_def checkName_def validatePass_def)
  with failed_login_keeps_credential [OF this] show ?thesis by (simp add: Let_def)
qed

end
