(* ===== verification/Configs.thy ===== *)
theory Configs
  imports Effects Json
begin

text \<open>
  The tables the components of the web client read: the suggested queries
  (\<open>web/src/configs/query.js\<close>), the fields and the HTTP operations of a thing
  (\<open>web/src/configs/thing.js\<close>), and the fields and QoS levels of \<open>web/src/configs/tool.js\<close> (its tools
  are in \<open>Store\<close>, its topic suggestions in \<open>Suggestions\<close>).
\<close>

section \<open>Suggested queries\<close>

record suggestion =
  sg_value :: string
  sg_label :: string
  sg_autoTrigger :: bool

definition query_suggestions :: "suggestion list" where
  "query_suggestions = [
   \<lparr>sg_value = ''SELECT * FROM shadow'', sg_label = ''SELECT All'', sg_autoTrigger = True\<rparr>,
   \<lparr>sg_value = ''SELECT * FROM shadow ORDER BY createdAt'', sg_label = ''Sort By Created Time'',
    sg_autoTrigger = True\<rparr>,
   \<lparr>sg_value = ''SELECT * FROM shadow ORDER BY updatedAt DESC'', sg_label = ''Sort By Updated DESC'',
    sg_autoTrigger = True\<rparr>,
   \<lparr>sg_value = ''SELECT thingId, connected, `state.reported` as reported, `state.desired` as desired, updatedAt FROM shadow'',
    sg_label = ''SELECT Status'', sg_autoTrigger = True\<rparr>,
   \<lparr>sg_value = ''SELECT thingId, connected, `state.reported`, createdAt as created_time, updatedAt as updated_time, `tags` FROM shadow'',
    sg_label = ''Rename Time Fields'', sg_autoTrigger = True\<rparr>,
   \<lparr>sg_value = ''SELECT * FROM shadow WHERE connected = true'', sg_label = ''All Connected'',
    sg_autoTrigger = True\<rparr>,
   \<lparr>sg_value = ''SELECT * FROM shadow'' @ [CHR 0x0A] @ ''         WHERE connected = false'' @
      [CHR 0x0A] @ ''         OR connected IS NULL'',
    sg_label = ''Disconnected'', sg_autoTrigger = True\<rparr>,
   \<lparr>sg_value = ''SELECT * FROM shadow WHERE thingId = {thingId}'', sg_label = ''Select Specified Thing'',
    sg_autoTrigger = False\<rparr>,
   \<lparr>sg_value = ''SELECT * FROM shadow WHERE createdAt > '' @ [CHR 0x27] @ ''{time}'' @ [CHR 0x27],
    sg_label = ''By Created Time'', sg_autoTrigger = False\<rparr>,
   \<lparr>sg_value = ''SELECT * FROM shadow WHERE `tags.{tagName}` = '' @ [CHR 0x27] @ ''{tagValue}'' @ [CHR 0x27],
    sg_label = ''By Tag Name'', sg_autoTrigger = False\<rparr>,
   \<lparr>sg_value = ''SELECT * FROM shadow WHERE `state.desired.{propName}` = '' @ [CHR 0x27] @ ''{propValue}'' @ [CHR 0x27],
    sg_label = ''By Desired Prop'', sg_autoTrigger = False\<rparr>,
   \<lparr>sg_value = ''SELECT * FROM shadow WHERE `state.reported.{propName}` = '' @ [CHR 0x27] @ ''{propValue}'' @ [CHR 0x27],
    sg_label = ''By Peported Prop'', sg_autoTrigger = False\<rparr>]"

section \<open>Fields shown of a thing and of a connection\<close>

record field =
  f_key :: string
  f_label :: string
  f_type :: string
  f_tips :: "string option"

definition metaFields :: "field list" where
  "metaFields = [
   \<lparr>f_key = ''thingId'', f_label = ''Thing Id'', f_type = ''string'', f_tips = None\<rparr>,
   \<lparr>f_key = ''enabled'', f_label = ''Enabled'', f_type = ''boolean'', f_tips = None\<rparr>,
   \<lparr>f_key = ''authType'', f_label = ''Auth Type'', f_type = ''tag'', f_tips = Some ''''\<rparr>,
   \<lparr>f_key = ''authValue'', f_label = ''Auth Value'', f_type = ''password'', f_tips = None\<rparr>,
   \<lparr>f_key = ''createAt'', f_label = ''Created At'', f_type = ''time'', f_tips = None\<rparr>]"

definition mqttFields :: "field list" where
  "mqttFields = [
   \<lparr>f_key = ''broker'', f_label = ''Host'', f_type = ''string'', f_tips = None\<rparr>,
   \<lparr>f_key = ''clientId'', f_label = ''Client Id'', f_type = ''string'', f_tips = None\<rparr>,
   \<lparr>f_key = ''username'', f_label = ''Username'', f_type = ''string'', f_tips = None\<rparr>,
   \<lparr>f_key = ''password'', f_label = ''Password'', f_type = ''password'', f_tips = None\<rparr>,
   \<lparr>f_key = ''mqttVersion'', f_label = ''MQTT Version'', f_type = ''tag'', f_tips = None\<rparr>,
   \<lparr>f_key = ''keepalive'', f_label = ''Keep Alive'', f_type = ''tag'', f_tips = Some ''''\<rparr>]"

definition qosOptions :: "(int \<times> string) list" where
  "qosOptions = [(0, ''At most once''), (1, ''At least once''), (2, ''Exactly once'')]"

text \<open>How \<open>KeyValueDisplayer.vue\<close> shows a field: a switch, a tag, a hidden text, a time or a text.\<close>

datatype shown_field =
    ShownBool bool
  | ShownTag js
  | ShownPassword js
  | ShownTime js
  | ShownText js

definition display_field :: "js obj \<Rightarrow> field \<Rightarrow> string \<times> shown_field" where
  "display_field data f = (f_label f,
     let v = oget data (f_key f) in
     if f_type f = ''boolean'' then ShownBool (truthy v)
     else if f_type f = ''tag'' then ShownTag v
     else if f_type f = ''password'' then ShownPassword v
     else if f_type f = ''time'' then ShownTime v
     else ShownText v)"

text \<open>The text of \<open>KeyValuePassItem.vue\<close>.\<close>

definition pass_text :: "bool \<Rightarrow> string \<Rightarrow> string" where
  "pass_text visible value = (if visible then value else replicate (length value) CHR ''*'')"

section \<open>Operations on a shadow\<close>

record api_param =
  ap_key :: string
  ap_label :: string
  ap_type :: string
  ap_required :: bool

text \<open>A resolver gets the parameters by name; a payload may hold a generated token.\<close>

record shadow_api =
  api_name :: string
  api_method :: string
  api_url :: string
  api_link :: string
  api_params :: "api_param list"
  api_urlResolver :: "js obj \<Rightarrow> string"
  api_payloadResolver :: "string \<Rightarrow> js"

definition param_or :: "js obj \<Rightarrow> string \<Rightarrow> string" where
  "param_or params k = js_str (js_or (oget params k) (JStr (''{'' @ k @ ''}'')))"

definition shadowApis :: "shadow_api obj" where
  "shadowApis = [
   (''invoke'', \<lparr>api_name = ''Request Direct Method'', api_method = ''post'',
      api_url = ''/api/v1/things/{id}/methods/{name}'', api_link = ''/docs/#/shadows/invoke-direct-method'',
      api_params = [\<lparr>ap_key = ''name'', ap_label = ''Method Name'', ap_type = ''path'', ap_required = True\<rparr>],
      api_urlResolver = (\<lambda>params. ''api/v1/things/'' @ param_or params ''id'' @ ''/methods/'' @ param_or params ''name''),
      api_payloadResolver = (\<lambda>uuid. JObj [(''connTimeout'', JNum 30), (''respTimeout'', JNum 20), (''data'', JObj [])])\<rparr>),
   (''desire'', \<lparr>api_name = ''Set Desired'', api_method = ''put'',
      api_url = ''/api/v1/things/{id}/shadows/default/state/desired'', api_link = ''/docs/#/shadows/set-state-desired'',
      api_params = [],
      api_urlResolver = (\<lambda>params. ''api/v1/things/'' @ param_or params ''id'' @ ''/shadows/default/state/desired''),
      api_payloadResolver = (\<lambda>uuid. JObj [(''clientToken'', JStr (genClientToken uuid)),
        (''state'', JObj [(''desired'', JObj [])]), (''version'', JNum 0)])\<rparr>),
   (''tags'', \<lparr>api_name = ''Set Tags'', api_method = ''put'',
      api_url = ''/api/v1/things/{id}/shadows/tags'', api_link = ''/docs/#/shadows/set-tags'',
      api_params = [],
      api_urlResolver = (\<lambda>params. ''/api/v1/things/'' @ param_or params ''id'' @ ''/shadows/tags''),
      api_payloadResolver = (\<lambda>uuid. JObj [(''tags'', JObj []), (''version'', JNum 0)])\<rparr>)]"

end
