(* ===== verification/Layout.thy ===== *)
theory Layout
  imports Session Configs
begin

text \<open>
  The frame around the views: the layout module as components use it
  (\<open>web/src/reactives/useLayout.js\<close>), the object viewer (\<open>useObjectViewer.js\<close>), the subscription to
  window events (\<open>useThingEvent.js\<close>), the title of the page (\<open>Layout.vue\<close>), the bar on top
  (\<open>TopNavBar.vue\<close>), the form that adds a thing (\<open>AddThingForm.vue\<close>) and the pages of the request
  log (\<open>HttpLogs.vue\<close>).
\<close>

section \<open>The tool area and the forms\<close>

text \<open>The two places the message panel can be in.\<close>

datatype teleport = TeleportG | TeleportD

fun teleport_selector :: "teleport \<Rightarrow> string" where
  "teleport_selector TeleportG = ''#global-message-panel''"
| "teleport_selector TeleportD = ''#mqtt-client-message-panel''"

text \<open>The layout, local storage, and whether the global message panel is visible.\<close>

record frame =
  fr_layout :: layout_state
  fr_ls :: local_storage
  fr_global_visible :: bool

definition on_layout :: "(layout_state \<Rightarrow> layout_state) \<Rightarrow> frame \<Rightarrow> frame" where
  "on_layout f fr = fr\<lparr>fr_layout := f (fr_layout fr)\<rparr>"

definition dispatch_switch :: "string \<Rightarrow> frame \<Rightarrow> frame" where
  "dispatch_switch key fr =
     (case switchActiveTool key (fr_layout fr, fr_ls fr) of (l, ls) \<Rightarrow> fr\<lparr>fr_layout := l, fr_ls := ls\<rparr>)"

definition activeToolConf :: "layout_state \<Rightarrow> tool option" where
  "activeToolConf l = find_tool (activeToolKey l)"

definition activeToolHeight :: "layout_state \<Rightarrow> string" where
  "activeToolHeight l =
     (if activeToolKey l \<noteq> '''' \<and> isToolAreaMaxSize l then ''calc(100vh - 60px)''
      else (case bottomGap l of Some n \<Rightarrow> int_str n | None \<Rightarrow> ''undefined'') @ ''px'')"

definition use_switchActiveTool :: "string \<Rightarrow> frame \<Rightarrow> frame" where
  "use_switchActiveTool key fr =
     (let fr = fr\<lparr>fr_global_visible := False\<rparr> in
      if key = activeToolKey (fr_layout fr)
      then on_layout (\<lambda>l. l\<lparr>isToolAreaMaxSize := False\<rparr>) (dispatch_switch '''' fr)
      else dispatch_switch key fr)"

definition isForCreate :: "layout_state \<Rightarrow> bool" where
  "isForCreate l = (\<not> truthy (cf_connIdToEdit (mqttConnForm l)))"

text \<open>The token is generated (from \<open>uuid\<close>) only for a thing; it is the result.\<close>

definition showMqttConnForm :: "string \<Rightarrow> js \<Rightarrow> js \<Rightarrow> layout_state \<Rightarrow> string \<times> layout_state" where
  "showMqttConnForm uuid connIdToEdit thingIdForCreate l =
     (let token = (if truthy thingIdForCreate then genConnectedCallbackToken uuid else '''') in
      (token, l\<lparr>mqttConnForm := \<lparr>cf_visible = True, cf_connIdToEdit = connIdToEdit,
         cf_thingIdForCreate = thingIdForCreate, cf_connectedCallbackToken = token\<rparr>\<rparr>))"

definition hideMqttConnForm :: "layout_state \<Rightarrow> layout_state" where
  "hideMqttConnForm l = l\<lparr>mqttConnForm := \<lparr>cf_visible = False, cf_connIdToEdit = JNull,
     cf_thingIdForCreate = JStr '''', cf_connectedCallbackToken = ''''\<rparr>\<rparr>"

definition showMqttSubsForm :: "cref option \<Rightarrow> js \<Rightarrow> layout_state \<Rightarrow> layout_state" where
  "showMqttSubsForm connConfig subscription l = l\<lparr>mqttSubsForm := \<lparr>sf_visible = True,
     sf_connConfig = connConfig, sf_subscription = subscription\<rparr>\<rparr>"

definition hideMqttSubsForm :: "layout_state \<Rightarrow> layout_state" where
  "hideMqttSubsForm l = l\<lparr>mqttSubsForm := \<lparr>sf_visible = False, sf_connConfig = None,
     sf_subscription = JNull\<rparr>\<rparr>"

definition toggleToolAreaSize :: "layout_state \<Rightarrow> layout_state" where
  "toggleToolAreaSize l = l\<lparr>isToolAreaMaxSize := \<not> isToolAreaMaxSize l\<rparr>"

section \<open>The object viewer\<close>

record object_viewer =
  ov_object :: js
  ov_title :: string
  ov_tree :: bool

definition viewer_closed :: object_viewer where
  "viewer_closed = \<lparr>ov_object = JNull, ov_title = '''', ov_tree = False\<rparr>"

definition viewObject :: "js \<Rightarrow> string \<Rightarrow> bool \<Rightarrow> object_viewer \<Rightarrow> object_viewer" where
  "viewObject obj type asTree v = \<lparr>ov_object = obj, ov_title = type, ov_tree = asTree\<rparr>"

definition handleCloseViewer :: "object_viewer \<Rightarrow> object_viewer" where
  "handleCloseViewer v = viewer_closed"

section \<open>Listening to the events of things\<close>

text \<open>
  A component's callbacks, and whether the component is mounted. A callback is a function on the
  state of its component.
\<close>

record 's listening =
  li_cbs :: "(thing_event \<Rightarrow> 's \<Rightarrow> 's) list"
  li_mounted :: bool

definition onSomethingStatusChange ::
  "(thing_event \<Rightarrow> 's \<Rightarrow> 's) \<Rightarrow> 's listening \<Rightarrow> 's listening" where
  "onSomethingStatusChange cb l = l\<lparr>li_cbs := li_cbs l @ [cb]\<rparr>"

definition listening_mounted :: "'s listening \<Rightarrow> 's listening" where
  "listening_mounted l = l\<lparr>li_mounted := True\<rparr>"

definition listening_unmounted :: "'s listening \<Rightarrow> 's listening" where
  "listening_unmounted l = l\<lparr>li_cbs := [], li_mounted := False\<rparr>"

definition handleSomethingStatusChange :: "'s listening \<Rightarrow> thing_event \<Rightarrow> 's \<Rightarrow> 's" where
  "handleSomethingStatusChange l detail s = fold (\<lambda>cb. cb detail) (li_cbs l) s"

definition deliver :: "window_event \<Rightarrow> 's listening \<Rightarrow> 's \<Rightarrow> 's" where
  "deliver ev l s = (case ev of
     ThingStateChange detail \<Rightarrow> if li_mounted l then handleSomethingStatusChange l detail s else s
   | RouteChange _ \<Rightarrow> s)"

section \<open>The page and the bar on top\<close>

text \<open>The title of a route, which is a text or made from the thing of the route, and its layer.\<close>

definition route_title :: "string \<Rightarrow> js \<Rightarrow> js" where
  "route_title name thingId =
     (if name = ''Login'' then JStr ''Login TIO''
      else if name = ''List'' then JStr ''TIO Playground''
      else if name = ''NotFound'' then JStr ''View Not Found''
      else if name = ''Thing'' then JStr (js_str (js_or thingId (JStr ''(thingId)'')) @ '' | Thing'')
      else JUndef)"

definition document_title :: "string \<Rightarrow> js \<Rightarrow> string" where
  "document_title name thingId = js_str (js_or (route_title name thingId) (JStr ''TIO Playground''))"

definition route_zIndex :: "string \<Rightarrow> int" where
  "route_zIndex name = (if name = ''Login'' then 1999 else 0)"

record nav_bar =
  nb_isAdding :: bool
  nb_isSetting :: bool

definition handleShowAddingForm :: "nav_bar \<Rightarrow> nav_bar" where
  "handleShowAddingForm n = \<lparr>nb_isAdding = True, nb_isSetting = False\<rparr>"

definition handleShowSettingPanel :: "nav_bar \<Rightarrow> nav_bar" where
  "handleShowSettingPanel n = \<lparr>nb_isAdding = False, nb_isSetting = True\<rparr>"

definition handleCloseDialogs :: "nav_bar \<Rightarrow> nav_bar" where
  "handleCloseDialogs n = \<lparr>nb_isAdding = False, nb_isSetting = False\<rparr>"

text \<open>The buttons of the bar, for a route and the shadow shown.\<close>

definition nav_buttons :: "string \<Rightarrow> string \<Rightarrow> js \<Rightarrow> js \<Rightarrow> string list" where
  "nav_buttons a name thingId shadow =
     (let isThing = (name = ''Thing'' \<and> truthy thingId) in
      [if a \<noteq> '''' then ''Log Out'' else ''''] @
      (if name = ''List'' then [''Add Thing'', ''Refresh List''] else []) @
      (if isThing \<and> truthy (opt_get shadow ''connected'') then [''Kick Out''] else []) @
      (if isThing then [''Refresh Shadow''] else []))"

text \<open>Kicking out a client loads the shadow again if the request did not fail.\<close>

definition handleKickOutSelected :: "js \<Rightarrow> js res \<Rightarrow> http_request \<times> bool" where
  "handleKickOutSelected thingId answer =
     (kickOutClient thingId, case answer of Inl _ \<Rightarrow> False | Inr _ \<Rightarrow> True)"

section \<open>Adding a thing\<close>

definition alnum :: "char \<Rightarrow> bool" where
  "alnum c \<longleftrightarrow> (let n = of_char c :: nat in
     (48 \<le> n \<and> n \<le> 57) \<or> (65 \<le> n \<and> n \<le> 90) \<or> (97 \<le> n \<and> n \<le> 122))"

text \<open>The classes \<open>[A-Za-z0-9-_]\<close> and \<open>[A-Za-z0-9_~!@#$%^&*()-+./]\<close>, whose \<open>)-+\<close> is a range.\<close>

definition thing_id_char :: "char \<Rightarrow> bool" where
  "thing_id_char c \<longleftrightarrow> alnum c \<or> c = CHR ''-'' \<or> c = CHR ''_''"

definition password_char :: "char \<Rightarrow> bool" where
  "password_char c \<longleftrightarrow> alnum c \<or> c \<in> set ''_~!@#$%^&*(./'' \<or>
     (let n = of_char c :: nat in 41 \<le> n \<and> n \<le> 43)"

definition matches_class :: "(char \<Rightarrow> bool) \<Rightarrow> js \<Rightarrow> bool" where
  "matches_class P v = (js_str v \<noteq> '''' \<and> list_all P (js_str v))"

definition thingId_validator :: "js \<Rightarrow> bool" where
  "thingId_validator v = (\<not> (v \<noteq> JStr '''' \<and> v \<noteq> JUndef \<and> v \<noteq> JNull \<and> \<not> matches_class thing_id_char v))"

definition password_validator :: "js \<Rightarrow> bool" where
  "password_validator v = (\<not> (v \<noteq> JStr '''' \<and> v \<noteq> JUndef \<and> v \<noteq> JNull \<and> \<not> matches_class password_char v))"

text \<open>What confirming the form asks for, for the outcome of the validation.\<close>

definition handleConfirm_request :: "bool \<Rightarrow> js \<Rightarrow> js \<Rightarrow> http_request option" where
  "handleConfirm_request valid thingId password =
     (if valid then Some (postThing (JObj [(''thingId'', thingId), (''password'', password)])) else None)"

section \<open>The request log\<close>

definition log_pageSize :: nat where "log_pageSize = 50"

definition log_page :: "nat \<Rightarrow> js list \<Rightarrow> js list" where
  "log_page currentPage all =
     (let start = log_pageSize * (currentPage - 1); stop = log_pageSize * currentPage
      in take (stop - start) (drop start all))"

definition log_entry_buttons :: "js \<Rightarrow> string list" where
  "log_entry_buttons log =
     (if opt_get (opt_get log ''req'') ''method'' \<in> {JStr ''post'', JStr ''put''} then [''Req Body''] else []) @
     [''Res Data''] @ (if truthy (opt_get log ''error'') then [''Err Detail''] else [])"


section \<open>The tool area always fits its tool\<close>

text \<open>What the user may do with the tool area; \<open>key\<close> is the tab of any tool.\<close>

inductive frame_step :: "frame \<Rightarrow> frame \<Rightarrow> bool" where
  tab: "find_tool key \<noteq> None \<Longrightarrow> frame_step fr (use_switchActiveTool key fr)"
| resize: "frame_step fr (on_layout toggleToolAreaSize fr)"
| conn_form: "frame_step fr (on_layout (\<lambda>l. snd (showMqttConnForm uuid i t l)) fr)"
| no_conn_form: "frame_step fr (on_layout hideMqttConnForm fr)"
| subs_form: "frame_step fr (on_layout (showMqttSubsForm c s) fr)"
| no_subs_form: "frame_step fr (on_layout hideMqttSubsForm fr)"

definition gap_of :: "string \<Rightarrow> int" where
  "gap_of key = (if key = ''mqtt'' then 450 else if key = ''logs'' then 248 else 30)"

definition panel_keys :: "string list" where "panel_keys = ['''', ''mqtt'', ''logs'']"

definition frame_init :: "frame \<Rightarrow> bool" where
  "frame_init fr \<longleftrightarrow> item_or (ls_activeToolKey (fr_ls fr)) '''' \<in> set panel_keys \<and>
     fr_layout fr = layout_init (fr_ls fr)"

definition frame_inv :: "frame \<Rightarrow> bool" where
  "frame_inv fr \<longleftrightarrow>
     activeToolKey (fr_layout fr) \<in> set panel_keys \<and>
     item_or (ls_activeToolKey (fr_ls fr)) '''' = activeToolKey (fr_layout fr) \<and>
     bottomGap (fr_layout fr) = Some (gap_of (activeToolKey (fr_layout fr))) \<and>
     css_bottom_gap (fr_layout fr) = bottomGap (fr_layout fr)"

lemma find_tool_eqs [simp]:
  "find_tool '''' = None" "find_tool ''mqtt'' = Some (tools ! 0)" "find_tool ''logs'' = Some (tools ! 1)"
  "find_tool ''apis'' = Some (tools ! 2)"
  by (simp_all add: find_tool_def tools_def)

lemma find_tool_known: "find_tool key \<noteq> None \<longleftrightarrow> key \<in> {''mqtt'', ''logs'', ''apis''}"
  by (auto simp: find_tool_def tools_def find_None_iff)

lemma layout_init_gap:
  "item_or (ls_activeToolKey ls) '''' \<in> set panel_keys \<Longrightarrow>
    activeToolKey (layout_init ls) = item_or (ls_activeToolKey ls) '''' \<and>
    bottomGap (layout_init ls) = Some (gap_of (item_or (ls_activeToolKey ls) '''')) \<and>
    css_bottom_gap (layout_init ls) = bottomGap (layout_init ls)"
  by (auto simp: layout_init_def Let_def panel_keys_def gap_of_def tools_def)

lemma frame_inv_frame:
  assumes "activeToolKey (f (fr_layout fr)) = activeToolKey (fr_layout fr)"
    and "bottomGap (f (fr_layout fr)) = bottomGap (fr_layout fr)"
    and "css_bottom_gap (f (fr_layout fr)) = css_bottom_gap (fr_layout fr)"
  shows "frame_inv (on_layout f fr) = frame_inv fr"
  using assms by (simp add: frame_inv_def on_layout_def)

lemma switch_panel:
  assumes "key \<in> set panel_keys"
  shows "switchActiveTool key (l, ls) =
    (l\<lparr>css_bottom_gap := Some (gap_of key), activeToolKey := key, bottomGap := Some (gap_of key)\<rparr>,
     ls\<lparr>ls_activeToolKey := Some key\<rparr>)"
proof -
  consider "key = ''''" | "key = ''mqtt''" | "key = ''logs''" using assms by (auto simp: panel_keys_def)
  then show ?thesis by cases (simp_all add: switchActiveTool_def Let_def tools_def gap_of_def)
qed

lemma frame_inv_switch:
  assumes "frame_inv fr" and "key \<in> {'''', ''mqtt'', ''logs'', ''apis''}"
  shows "frame_inv (dispatch_switch key fr)"
proof (cases "key = ''apis''")
  case True
  with assms(1) show ?thesis
    by (simp add: dispatch_switch_def switchActiveTool_def frame_inv_def tools_def Let_def)
next
  case False
  with assms(2) have "key \<in> set panel_keys" by (auto simp: panel_keys_def)
  then show ?thesis by (auto simp: dispatch_switch_def switch_panel frame_inv_def item_or_def)
qed

lemma frame_inv_tab:
  assumes "frame_inv fr" and "find_tool key \<noteq> None"
  shows "frame_inv (use_switchActiveTool key fr)"
proof -
  have "frame_inv (fr\<lparr>fr_global_visible := False\<rparr>)" using assms(1) by (simp add: frame_inv_def)
  moreover have "key \<in> {''mqtt'', ''logs'', ''apis''}" using assms(2) by (simp only: find_tool_known)
  ultimately show ?thesis
    by (auto simp: use_switchActiveTool_def Let_def frame_inv_frame simp del: find_tool_eqs intro!: frame_inv_switch)
qed

interpretation tool_area: step_invariant frame_init frame_step frame_inv
proof unfold_locales
  show "frame_inv fr" if "frame_init fr" for fr
    using that layout_init_gap by (auto simp: frame_init_def frame_inv_def)
  show "frame_inv t" if "frame_inv fr" "frame_step fr t" for fr t
    using that(2,1)
    by cases (auto simp: frame_inv_tab frame_inv_frame toggleToolAreaSize_def showMqttConnForm_def
      hideMqttConnForm_def showMqttSubsForm_def hideMqttSubsForm_def Let_def)
qed


definition demo_frame :: frame where
  "demo_frame = (let ls = \<lparr>ls_connections = None, ls_activeToolKey = Some ''logs'', ls_auth = None\<rparr>
     in \<lparr>fr_layout = layout_init ls, fr_ls = ls, fr_global_visible = False\<rparr>)"


section \<open>The pages of the log\<close>

lemma concat_chunks: "0 < k \<Longrightarrow> concat (map (\<lambda>i. take k (drop (k * i) xs)) [0..<n]) = take (k * n) xs"
  by (induction n) (simp_all add: take_add [symmetric] add.commute)

lemma log_page_Suc: "log_page (Suc i) all = take log_pageSize (drop (log_pageSize * i) all)"
  by (simp add: log_page_def log_pageSize_def)

text \<open>
  Going through the pages of the request log shows every request exactly once and in order:
  the pages that the total calls for, joined, are the log, and every later page is empty.
\<close>

theorem log_pages_partition:
  assumes "length all \<le> log_pageSize * n"
  shows "concat (map (\<lambda>p. log_page p all) [1..<Suc n]) = all \<and>
    length (log_page p all) \<le> log_pageSize \<and> (n < p \<longrightarrow> log_page p all = [])"
proof (intro conjI impI)
  have "[1..<Suc n] = map Suc [0..<n]" by (simp add: map_Suc_upt)
  then have "concat (map (\<lambda>p. log_page p all) [1..<Suc n]) =
      concat (map (\<lambda>i. take log_pageSize (drop (log_pageSize * i) all)) [0..<n])"
    by (simp add: log_page_Suc comp_def del: upt_Suc)
  also have "\<dots> = all" using assms by (subst concat_chunks) (simp_all add: log_pageSize_def)
  finally show "concat (map (\<lambda>p. log_page p all) [1..<Suc n]) = all" .
  show "length (log_page p all) \<le> log_pageSize"
    by (cases p) (simp_all add: log_page_Suc, simp add: log_page_def)
  show "log_page p all = []" if "n < p"
  proof -
    from that obtain i where i: "p = Suc i" "n \<le> i" by (cases p) auto
    have "length all \<le> log_pageSize * i" using assms mult_le_mono2 [OF i(2), of log_pageSize] by linarith
    with i show ?thesis by (simp add: log_page_Suc)
  qed
qed

theorem log_pages_partition_witness:
  "concat (map (\<lambda>p. log_page p [JNull, JStr ''a'']) [1..<Suc 1]) = [JNull, JStr ''a''] \<and>
   log_page 2 [JNull, JStr ''a''] = []"
  using log_pages_partition [of "[JNull, JStr ''a'']" 1 2] by (simp add: log_pageSize_def)

section \<open>Passwords\<close>

lemma minus_no_password_char: "\<not> password_char CHR ''-''"
  by (simp add: password_char_def alnum_def Let_def)

text \<open>
  The form that adds a thing accepts an id exactly if it is empty or made of letters, digits,
  minus and underscore. It refuses every password with a minus sign, which its message says is
  allowed: the \<open>-\<close> of the password class makes a range.
\<close>

theorem add_thing_validation:
  "(thingId_validator (JStr s) \<longleftrightarrow> list_all thing_id_char s) \<and>
   (CHR ''-'' \<in> set s \<longrightarrow> \<not> password_validator (JStr s))"
proof
  show "thingId_validator (JStr s) \<longleftrightarrow> list_all thing_id_char s"
    by (auto simp: thingId_validator_def matches_class_def)
  show "CHR ''-'' \<in> set s \<longrightarrow> \<not> password_validator (JStr s)"
    using minus_no_password_char by (auto simp: password_validator_def matches_class_def list_all_iff)
qed

theorem add_thing_validation_witness:
  "thingId_validator (JStr ''dev-1_a'') \<and> \<not> password_validator (JStr ''a-b'')"
  using add_thing_validation [of "''dev-1_a''"] add_thing_validation [of "''a-b''"]
  by (simp add: thing_id_char_def alnum_def Let_def)

end
