(* ===== verification/MqttUtil.thy ===== *)
theory MqttUtil
  imports Json
begin

text \<open>
  How a connection configuration becomes the options and the address of an MQTT client
  (\<open>web/src/utils/mqtt.js\<close>), the conversion of payloads, and the forms' initial values. The clock,
  the page's location, the store's \<open>autoResub\<close> and the conversions of \<open>Buffer\<close> are arguments.
\<close>

section \<open>Options of a client\<close>

definition undef_if_empty :: "js \<Rightarrow> js" where
  "undef_if_empty v = (if v = JStr '''' then JUndef else v)"

definition getSSLFile :: "js \<Rightarrow> js \<Rightarrow> js \<Rightarrow> js" where
  "getSSLFile ca cert key =
     JObj [(''ca'', undef_if_empty ca), (''cert'', undef_if_empty cert), (''key'', undef_if_empty key)]"

text \<open>The entries of a value that are neither \<open>null\<close> nor \<open>undefined\<close>.\<close>

definition entries_present :: "js \<Rightarrow> js res" where
  "entries_present v = res_bind (js_keys v) (\<lambda>ks.
     Inr (JObj (filter (\<lambda>(_, w). \<not> nullish w) (map (\<lambda>k. (k, opt_get v k)) ks))))"

definition setMQTT5Properties :: "js \<Rightarrow> js res" where
  "setMQTT5Properties option = (if option = JUndef then Inr JUndef else entries_present option)"

definition setWillMQTT5Properties :: "js \<Rightarrow> js res" where
  "setWillMQTT5Properties option = (if option = JUndef then Inr JUndef else entries_present option)"

text \<open>
  A number of seconds in milliseconds. The product with a value that is no number is
  \<open>NaN\<close>, for which the model has no number; \<open>undefined\<close> stands for it.
\<close>

definition convertSecondsToMs :: "js \<Rightarrow> js" where
  "convertSecondsToMs seconds = (case seconds of
     JNum n \<Rightarrow> JNum (n * 1000) | JNull \<Rightarrow> JNum 0 | JBool b \<Rightarrow> JNum (if b then 1000 else 0) | _ \<Rightarrow> JUndef)"

definition mqttVersionDict :: "js \<Rightarrow> js" where
  "mqttVersionDict v = oget [(''3.1.1'', JNum 4), (''5.0'', JNum 5)] (js_str v)"

definition non_empty_keys :: "js \<Rightarrow> bool" where
  "non_empty_keys v \<longleftrightarrow> truthy v \<and> (case js_keys v of Inr ks \<Rightarrow> ks \<noteq> [] | Inl _ \<Rightarrow> False)"

definition base_options :: "js \<Rightarrow> int \<Rightarrow> js obj" where
  "base_options record now =
     (let get = opt_get record;
          options = [(''clientId'', get ''clientId''), (''keepalive'', get ''keepalive''), (''clean'', get ''clean''),
            (''reconnectPeriod'', if truthy (get ''reconnect'') then get ''reconnectPeriod'' else JNum 0),
            (''protocolVersion'', mqttVersionDict (get ''mqttVersion''))];
          options = oput ''connectTimeout'' (convertSecondsToMs (get ''connectTimeout'')) options;
          options = (if truthy (get ''clientIdWithTime'')
            then oput ''clientId'' (JStr (js_str (get ''clientId'') @ ''_'' @ int_str now)) options else options);
          options = (if get ''username'' \<noteq> JStr '''' then oput ''username'' (get ''username'') options else options)
      in if get ''password'' \<noteq> JStr '''' then oput ''password'' (get ''password'') options else options)"

definition with_properties :: "js \<Rightarrow> js obj \<Rightarrow> js obj res" where
  "with_properties record options =
     (if oget options ''protocolVersion'' = JNum 5 \<and> truthy (opt_get record ''properties'') then
        res_bind (setMQTT5Properties (opt_get record ''properties'')) (\<lambda>properties.
          Inr (if non_empty_keys properties then oput ''properties'' properties options else options))
      else Inr options)"

definition with_ssl :: "js \<Rightarrow> js obj \<Rightarrow> js obj" where
  "with_ssl record options =
     (let get = opt_get record in
      if truthy (get ''ssl'') then
        let options = oput ''rejectUnauthorized''
              (if get ''rejectUnauthorized'' = JUndef then JBool True else get ''rejectUnauthorized'') options
        in if get ''certType'' = JStr ''self'' then
             let res = getSSLFile (get ''ca'') (get ''cert'') (get ''key'')
             in oput ''key'' (fld res ''key'') (oput ''cert'' (fld res ''cert'') (oput ''ca'' (fld res ''ca'') options))
           else options
      else options)"

definition with_will :: "js \<Rightarrow> js obj \<Rightarrow> js obj res" where
  "with_will record options =
     (let will = opt_get record ''will''; topic = opt_get will ''lastWillTopic'' in
      if truthy will \<and> truthy topic then
        let w = [(''topic'', topic), (''payload'', opt_get will ''lastWillPayload''),
                 (''qos'', opt_get will ''lastWillQos''), (''retain'', opt_get will ''lastWillRetain'')];
            properties = opt_get will ''properties''
        in if oget options ''protocolVersion'' = JNum 5 \<and> truthy properties then
             res_bind (setWillMQTT5Properties properties) (\<lambda>willProperties.
               Inr (oput ''will''
                 (JObj (if non_empty_keys willProperties then oput ''properties'' willProperties w else w)) options))
           else Inr (oput ''will'' (JObj w) options)
      else Inr options)"

definition getClientOptions :: "bool \<Rightarrow> int \<Rightarrow> js \<Rightarrow> js obj res" where
  "getClientOptions resub now record =
     (if nullish record then Inl TypeError else
      res_bind (with_properties record (base_options record now)) (\<lambda>options.
      res_bind (with_will record (with_ssl record options)) (\<lambda>options.
        Inr (oput ''resubscribe'' (JBool resub) options))))"

section \<open>Address of a client\<close>

definition getMQTTProtocol :: "js \<Rightarrow> js res" where
  "getMQTTProtocol data =
     res_bind (js_get data ''protocol'') (\<lambda>protocol. res_bind (js_get data ''ssl'') (\<lambda>ssl.
       Inr (if \<not> truthy protocol then (if truthy ssl then JStr ''wss'' else JStr ''ws'') else protocol)))"

definition getUrl :: "js \<Rightarrow> string res" where
  "getUrl record =
     res_bind (getMQTTProtocol record) (\<lambda>protocol.
       let url = js_str protocol @ ''://'' @ js_str (opt_get record ''host'') @ '':'' @ js_str (opt_get record ''port'')
       in if protocol = JStr ''ws'' \<or> protocol = JStr ''wss'' then
            (case opt_get record ''path'' of
               JStr path \<Rightarrow> Inr (url @ (if starts_with path ''/'' then '''' else ''/'') @ path)
             | _ \<Rightarrow> Inl TypeError)
          else Inr url)"

text \<open>What \<open>mqtt.connect\<close> is called with.\<close>

definition createClient :: "bool \<Rightarrow> int \<Rightarrow> js \<Rightarrow> (string \<times> js) res" where
  "createClient resub now record =
     res_bind (getClientOptions resub now record) (\<lambda>options.
     res_bind (getUrl record) (\<lambda>url. Inr (url, JObj options)))"

section \<open>Payloads\<close>

text \<open>
  A payload is a text or a buffer of bytes. \<open>buf_from enc s\<close> is \<open>Buffer.from(s, enc)\<close> and
  \<open>buf_text enc b\<close> is \<open>b.toString(enc)\<close>, without an encoding where \<open>enc\<close> is \<open>None\<close>. The message
  for a text that is no JSON is shown through \<open>this\<close>, which is \<open>undefined\<close> in a function of a
  module, so it throws.
\<close>

datatype mpayload = PText string | PBuf string

record buffers =
  buf_from :: "string \<Rightarrow> string \<Rightarrow> string"
  buf_text :: "string option \<Rightarrow> string \<Rightarrow> string"

definition validJSONType :: "string \<Rightarrow> unit res" where
  "validJSONType s = (case json_parse s of Inr _ \<Rightarrow> Inr () | Inl _ \<Rightarrow> Inl TypeError)"

definition genPublishPayload :: "buffers \<Rightarrow> string \<Rightarrow> string \<Rightarrow> mpayload res" where
  "genPublishPayload bf type value =
     (if type = ''Base64'' \<or> type = ''Hex'' then Inr (PBuf (buf_from bf (to_lower type) value))
      else if type = ''JSON'' then res_bind (validJSONType value) (\<lambda>_. Inr (PText value))
      else Inr (PText value))"

definition genReceivePayload :: "buffers \<Rightarrow> string \<Rightarrow> string \<Rightarrow> mpayload res" where
  "genReceivePayload bf type value =
     (if type = ''Base64'' \<or> type = ''Hex'' then Inr (PText (buf_text bf (Some (to_lower type)) value))
      else if type = ''JSON'' then
        res_bind (validJSONType (buf_text bf None value)) (\<lambda>_. Inr (PText (buf_text bf None value)))
      else Inr (PText (buf_text bf None value)))"

datatype way = WayPublish | WayReceive | WayUndefined

fun convertPayloadByType :: "buffers \<Rightarrow> mpayload \<Rightarrow> string \<Rightarrow> way \<Rightarrow> mpayload res" where
  "convertPayloadByType bf (PText s) type WayPublish = genPublishPayload bf type s"
| "convertPayloadByType bf (PBuf b) type WayReceive = genReceivePayload bf type b"
| "convertPayloadByType bf value type way = Inr value"

section \<open>Initial values of the forms\<close>

definition getInitMeatModel :: js where
  "getInitMeatModel = JObj [(''userProperties'', JObj []), (''contentType'', JUndef),
     (''payloadFormatIndicator'', JBool False), (''messageExpiryInterval'', JUndef), (''topicAlias'', JUndef),
     (''responseTopic'', JUndef), (''correlationData'', JUndef), (''subscriptionIdentifier'', JUndef)]"

definition getDefaultMqttPort :: "bool \<Rightarrow> js \<Rightarrow> js res" where
  "getDefaultMqttPort isHttps config =
     (let connector = opt_get config ''connector'' in
      if opt_get connector ''type'' = JStr ''embed'' then
        (let brk = opt_get connector ''mqttBroker'';
             (public, private) = (if isHttps then (''publicWssPort'', ''wssPort'') else (''publicWsPort'', ''wsPort''))
         in res_bind (js_get brk public) (\<lambda>p. if truthy p then Inr p else js_get brk private))
      else Inr (JNum 8083))"

definition getDefaultForm :: "string \<Rightarrow> bool \<Rightarrow> string \<Rightarrow> js" where
  "getDefaultForm hostname isHttps time = JObj [
     (''userrole'', JStr ''server''), (''clientId'', JStr ''''), (''createAt'', JStr time), (''updateAt'', JStr time),
     (''name'', JStr ''''), (''clean'', JBool True), (''protocol'', JStr (if isHttps then ''wss'' else ''ws'')),
     (''host'', JStr hostname), (''keepalive'', JNum 60), (''connectTimeout'', JNum 10), (''reconnect'', JBool True),
     (''reconnectPeriod'', JNum 4000), (''username'', JStr ''''), (''password'', JStr ''''), (''path'', JStr ''/''),
     (''port'', JNum 8083), (''ssl'', JBool False), (''certType'', JStr ''''), (''rejectUnauthorized'', JBool True),
     (''ca'', JStr ''''), (''cert'', JStr ''''), (''key'', JStr ''''), (''mqttVersion'', JStr ''5.0''),
     (''subscriptions'', JArr []), (''pushProps'', JObj []),
     (''will'', JObj [(''lastWillTopic'', JStr ''''), (''lastWillPayload'', JStr ''''), (''lastWillQos'', JNum 0),
        (''lastWillRetain'', JBool False),
        (''properties'', JObj [(''payloadFormatIndicator'', JUndef), (''willDelayInterval'', JUndef),
           (''messageExpiryInterval'', JUndef), (''contentType'', JStr ''''), (''responseTopic'', JStr ''''),
           (''correlationData'', JUndef), (''userProperties'', JUndef)])]),
     (''properties'', JObj [(''sessionExpiryInterval'', JUndef), (''receiveMaximum'', JUndef),
        (''maximumPacketSize'', JUndef), (''topicAliasMaximum'', JUndef), (''requestResponseInformation'', JUndef),
        (''requestProblemInformation'', JUndef), (''userProperties'', JUndef), (''authenticationMethod'', JUndef),
        (''authenticationData'', JUndef)]),
     (''clientIdWithTime'', JBool False)]"

section \<open>Properties\<close>

text \<open>Only filled-in properties: an object with at least one entry and no empty entry.\<close>

definition filled :: "js \<Rightarrow> bool" where
  "filled v \<longleftrightarrow> (\<exists>m. v = JObj m \<and> m \<noteq> [] \<and> list_all (\<lambda>(_, w). \<not> nullish w) m)"

lemma entries_present_total:
  assumes "truthy v"
  obtains m where "entries_present v = Inr (JObj m)" and "list_all (\<lambda>(_, w). \<not> nullish w) m"
proof -
  have "\<not> nullish v" using assms by (auto simp: nullish_def)
  then obtain ks where "js_keys v = Inr ks" using js_keys_not_nullish by blast
  then show ?thesis
    by (intro that [of "filter (\<lambda>(_, w). \<not> nullish w) (map (\<lambda>k. (k, opt_get v k)) ks)"])
      (auto simp: entries_present_def list_all_iff)
qed

lemma set_properties_total:
  assumes "truthy v"
  obtains m where "setMQTT5Properties v = Inr (JObj m)" and "setWillMQTT5Properties v = Inr (JObj m)"
    and "non_empty_keys (JObj m) \<Longrightarrow> filled (JObj m)"
proof -
  obtain m where m: "entries_present v = Inr (JObj m)" "list_all (\<lambda>(_, w). \<not> nullish w) m"
    using entries_present_total [OF assms] by blast
  moreover have "v \<noteq> JUndef" using assms by auto
  ultimately show ?thesis
    by (intro that [of m])
      (auto simp: setMQTT5Properties_def setWillMQTT5Properties_def filled_def non_empty_keys_def okeys_def)
qed

lemma with_properties_spec:
  "\<exists>opts'. with_properties record opts = Inr opts' \<and>
    (\<forall>k. k \<noteq> ''properties'' \<longrightarrow> olookup opts' k = olookup opts k) \<and>
    (olookup opts' ''properties'' = olookup opts ''properties'' \<or>
     oget opts ''protocolVersion'' = JNum 5 \<and> (\<exists>p. olookup opts' ''properties'' = Some p \<and> filled p))"
proof (cases "oget opts ''protocolVersion'' = JNum 5 \<and> truthy (opt_get record ''properties'')")
  case True
  then have "truthy (opt_get record ''properties'')" by simp
  from set_properties_total [OF this]
  obtain m where "setMQTT5Properties (opt_get record ''properties'') = Inr (JObj m)"
    and "non_empty_keys (JObj m) \<Longrightarrow> filled (JObj m)"
    by metis
  with True show ?thesis
    by (cases "non_empty_keys (JObj m)") (simp_all add: with_properties_def dict_simps)
qed (auto simp: with_properties_def)

text \<open>What a will may look like: it has a topic, and its properties, if any, are filled in.\<close>

definition will_ok :: "bool \<Rightarrow> js \<Rightarrow> bool" where
  "will_ok v5 w \<longleftrightarrow> truthy (opt_get w ''topic'') \<and>
     (opt_get w ''properties'' = JUndef \<or> v5 \<and> filled (opt_get w ''properties''))"

lemma with_will_spec:
  "\<exists>opts'. with_will record opts = Inr opts' \<and>
    (\<forall>k. k \<noteq> ''will'' \<longrightarrow> olookup opts' k = olookup opts k) \<and>
    (olookup opts' ''will'' = olookup opts ''will'' \<or>
     (\<exists>w. olookup opts' ''will'' = Some w \<and> will_ok (oget opts ''protocolVersion'' = JNum 5) w))"
proof -
  let ?will = "opt_get record ''will''" and ?v5 = "oget opts ''protocolVersion'' = JNum 5"
  let ?props = "opt_get ?will ''properties''"
  show ?thesis
  proof (cases "truthy ?will \<and> truthy (opt_get ?will ''lastWillTopic'')")
    case t: True
    show ?thesis
    proof (cases "?v5 \<and> truthy ?props")
      case True
      then have "truthy ?props" by simp
      from set_properties_total [OF this]
      obtain m where "setWillMQTT5Properties ?props = Inr (JObj m)"
        and "non_empty_keys (JObj m) \<Longrightarrow> filled (JObj m)"
        by metis
      with True t show ?thesis
        by (cases "non_empty_keys (JObj m)")
          (simp_all add: with_will_def Let_def dict_simps will_ok_def)
    next
      case False
      with t show ?thesis by (auto simp: with_will_def Let_def dict_simps will_ok_def)
    qed
  qed (auto simp: with_will_def Let_def)
qed

lemma base_options_lookup:
  "olookup (base_options record now) ''properties'' = None"
  "olookup (base_options record now) ''will'' = None"
  "oget (base_options record now) ''protocolVersion'' = mqttVersionDict (opt_get record ''mqttVersion'')"
  "oget (base_options record now) ''reconnectPeriod'' =
    (if truthy (opt_get record ''reconnect'') then opt_get record ''reconnectPeriod'' else JNum 0)"
  by (simp_all add: base_options_def Let_def dict_simps oget_def split del: if_split)
    (simp_all add: dict_simps)

lemma with_ssl_lookup:
  "k \<notin> {''rejectUnauthorized'', ''ca'', ''cert'', ''key''} \<Longrightarrow> olookup (with_ssl record opts) k = olookup opts k"
  by (simp add: with_ssl_def Let_def dict_simps)

lemma getClientOptions_total:
  assumes "is_obj record"
  shows "\<exists>opts. getClientOptions resub now record = Inr opts"
proof -
  obtain o1 where "with_properties record (base_options record now) = Inr o1"
    using with_properties_spec [of "record" "base_options record now"] by blast
  moreover obtain o2 where "with_will record (with_ssl record o1) = Inr o2"
    using with_will_spec [of "record" "with_ssl record o1"] by blast
  moreover have "\<not> nullish record" using assms by (auto simp: is_obj_def)
  ultimately show ?thesis by (simp add: getClientOptions_def)
qed

text \<open>
  C29. Every configuration object gives options for the client: connection properties are passed to
  version 5.0 brokers only, never empty and without empty entries; a will is passed only with a
  topic, its properties likewise; and with reconnecting switched off the client never reconnects
  by itself.
\<close>

theorem getClientOptions_sound:
  assumes "is_obj record"
  shows "\<exists>options. getClientOptions resub now record = Inr options \<and>
    (let v5 = (oget options ''protocolVersion'' = JNum 5) in
     pred_option (\<lambda>p. v5 \<and> filled p) (olookup options ''properties'') \<and>
     pred_option (will_ok v5) (olookup options ''will'')) \<and>
    oget options ''protocolVersion'' = mqttVersionDict (opt_get record ''mqttVersion'') \<and>
    (\<not> truthy (opt_get record ''reconnect'') \<longrightarrow> oget options ''reconnectPeriod'' = JNum 0)"
proof -
  note base = base_options_lookup [of "record" now]
  obtain o1 where o1: "with_properties record (base_options record now) = Inr o1"
    "\<And>k. k \<noteq> ''properties'' \<Longrightarrow> olookup o1 k = olookup (base_options record now) k"
    "olookup o1 ''properties'' = None \<or> oget (base_options record now) ''protocolVersion'' = JNum 5 \<and>
      (\<exists>p. olookup o1 ''properties'' = Some p \<and> filled p)"
    using with_properties_spec [of "record" "base_options record now"] base(1) by auto
  obtain o2 where o2: "with_will record (with_ssl record o1) = Inr o2"
    "\<And>k. k \<noteq> ''will'' \<Longrightarrow> olookup o2 k = olookup (with_ssl record o1) k"
    "olookup o2 ''will'' = None \<or>
      (\<exists>w. olookup o2 ''will'' = Some w \<and> will_ok (oget (with_ssl record o1) ''protocolVersion'' = JNum 5) w)"
    using with_will_spec [of "record" "with_ssl record o1"] base(2) o1(2) [of "''will''"]
    by (auto simp: with_ssl_lookup)
  have version: "oget (with_ssl record o1) ''protocolVersion'' = oget o2 ''protocolVersion''"
    "oget o2 ''protocolVersion'' = mqttVersionDict (opt_get record ''mqttVersion'')"
    "oget o2 ''reconnectPeriod'' = oget (base_options record now) ''reconnectPeriod''"
    using base(3) by (simp_all add: oget_def o2(2) with_ssl_lookup o1(2))
  have "\<not> nullish record" using assms by (auto simp: is_obj_def)
  then have "getClientOptions resub now record = Inr (oput ''resubscribe'' (JBool resub) o2)"
    by (simp add: getClientOptions_def o1(1) o2(1))
  moreover have "olookup o2 ''properties'' = olookup o1 ''properties''"
    by (simp add: o2(2) with_ssl_lookup)
  ultimately show ?thesis
    using o1(3) o2(3) version base(3,4) by (auto simp: dict_simps Let_def)
qed

theorem getClientOptions_sound_witness:
  "\<exists>options. getClientOptions True 0 (getDefaultForm ''h'' False ''now'') = Inr options \<and>
    oget options ''protocolVersion'' = JNum 5"
  using getClientOptions_sound [of "getDefaultForm ''h'' False ''now''" True 0]
  by (auto simp: getDefaultForm_def mqttVersionDict_def)

text \<open>
  The address of a web socket connection has exactly one slash between the port and the path,
  whether the configured path begins with one or not; without a protocol it is chosen by the
  switch for encryption.
\<close>

theorem getUrl_websocket:
  assumes "is_obj record" and "fld record ''path'' = JStr path"
    and "\<not> truthy (fld record ''protocol'') \<or> fld record ''protocol'' = JStr scheme"
    and "scheme = (if truthy (fld record ''ssl'') then ''wss'' else ''ws'')"
  shows "getUrl record = Inr (scheme @ ''://'' @ js_str (fld record ''host'') @ '':'' @
    js_str (fld record ''port'') @ ''/'' @ (if starts_with path ''/'' then tl path else path))"
proof -
  have get: "js_get record k = Inr (fld record k)" "opt_get record k = fld record k" for k
    using assms(1) by (auto simp: js_get_fld is_obj_def)
  have "getMQTTProtocol record = Inr (JStr scheme)"
    using assms(3,4) by (auto simp: getMQTTProtocol_def get)
  moreover have "(if starts_with path ''/'' then '''' else ''/'') @ path =
    ''/'' @ (if starts_with path ''/'' then tl path else path)"
    by (auto simp: starts_with_iff)
  ultimately show ?thesis
    using assms(4) by (cases "truthy (fld record ''ssl'')") (simp_all add: getUrl_def get assms(2) Let_def)
qed

theorem getUrl_websocket_witness:
  "getUrl (JObj [(''host'', JStr ''h''), (''port'', JNum 8083), (''path'', JStr ''mqtt'')]) =
    Inr (''ws://h:'' @ js_str (JNum 8083) @ ''/mqtt'')"
  using getUrl_websocket [of "JObj [(''host'', JStr ''h''), (''port'', JNum 8083), (''path'', JStr ''mqtt'')]"
      "''mqtt''" "''ws''"]
  by simp

end
