(* ===== verification/Delegate.thy ===== *)
theory Delegate
  imports Store MqttUtil Subs
begin

text \<open>
  The delegates of the web client (\<open>web/src/utils/MqttDelegate.js\<close>): one object per connection that
  owns the MQTT client, its subscriptions and its messages, and publishes them to the store.

  The program is event driven, so the state is explicit: a world holds the store, the objects that
  are shared by reference (configurations, delegates, clients, subscription maps, message lists),
  the registry of delegates, the callbacks the MQTT library has not called yet, and what was shown,
  dispatched and requested. The MQTT library (the package \<open>mqtt\<close>) is not part of the repository: it
  decides when a callback is called and which events a client emits, and it owns the flags of a
  client (\<open>connected\<close> and the others); each of its actions is a function from world to world here,
  called with any arguments. A callback is called in a later step than the request it belongs to,
  and at most once. A callback argument of the program itself (\<open>'cb\<close>) is called last wherever it is
  called, so calling it is a result of the operation. An error of the library is the text its
  \<open>toString\<close> gives.
\<close>

section \<open>The world\<close>

type_synonym dref = nat

record delegate =
  d_selfId :: string
  d_id :: js
  d_role :: js
  d_thingId :: js
  d_retryTimes :: int
  d_subs :: sref
  d_messages :: mref
  d_unread :: int
  d_recvType :: string
  d_client :: "clref option"
  d_a :: bool

text \<open>
  A client has the flags its library sets, the delegate, configuration and token its listeners were
  made with, whether the listener for its end is still registered, and what it was created with.
\<close>

record client =
  cl_connected :: bool
  cl_connecting :: bool
  cl_reconnecting :: bool
  cl_disconnecting :: bool
  cl_dlgt :: dref
  cl_conf :: cref
  cl_token :: string
  cl_once_end :: bool
  cl_url :: string
  cl_options :: js

text \<open>
  What a delegate passes to \<open>disconnect\<close>: nothing, the function of \<open>destroy\<close>, the function of
  \<open>connect\<close> with its configuration and token, or the function of \<open>onreconnect\<close>.
\<close>

datatype end_cb = EndPlain | EndDestroy | EndConnect cref string | EndGiveUp

datatype 'cb pending =
    PEnd dref end_cb
  | PPub dref js js js "'cb option"
  | PSub dref js "'cb option"
  | PSubMap dref js "'cb option"
  | PUnsub dref "js list" "'cb option"

datatype request =
    REnd clref
  | RPublish clref js js js
  | RSubscribe clref js "js option"
  | RUnsubscribe clref "js list"

record 'cb world =
  store :: store
  cfgs :: "cref \<Rightarrow> js"
  next_cfg :: nat
  dlgts :: "dref \<Rightarrow> delegate"
  next_dlgt :: nat
  clients :: "clref \<Rightarrow> client"
  next_client :: nat
  subs_heap :: "sref \<Rightarrow> sub_map"
  next_subs :: nat
  msgs_heap :: "mref \<Rightarrow> js list"
  next_msgs :: nat
  registry :: "dref obj"
  pend :: "'cb pending list"
  requests :: "request list"
  shown :: "notification list"
  events :: "window_event list"
  uuids :: "nat \<Rightarrow> string"
  uuid_count :: nat
  clock :: int
  time_text :: "int \<Rightarrow> string"
  bufs :: buffers

text \<open>The result of calling back: the callback with its error argument, if it is called.\<close>

type_synonym 'cb call = "('cb \<times> string option) option"

section \<open>Updates of the world\<close>

definition upd_d :: "dref \<Rightarrow> (delegate \<Rightarrow> delegate) \<Rightarrow> 'cb world \<Rightarrow> 'cb world" where
  "upd_d r f w = w\<lparr>dlgts := (dlgts w)(r := f (dlgts w r))\<rparr>"

definition on_mqtt :: "(mqtt_state \<Rightarrow> mqtt_state) \<Rightarrow> 'cb world \<Rightarrow> 'cb world" where
  "on_mqtt f w = w\<lparr>store := (store w)\<lparr>mqtt := f (mqtt (store w))\<rparr>\<rparr>"

definition notify :: "notification \<Rightarrow> 'cb world \<Rightarrow> 'cb world" where
  "notify n w = w\<lparr>shown := shown w @ [n]\<rparr>"

definition dispatch_event :: "window_event \<Rightarrow> 'cb world \<Rightarrow> 'cb world" where
  "dispatch_event e w = w\<lparr>events := events w @ [e]\<rparr>"

definition ask :: "request \<Rightarrow> 'cb pending \<Rightarrow> 'cb world \<Rightarrow> 'cb world" where
  "ask q p w = w\<lparr>requests := requests w @ [q], pend := pend w @ [p]\<rparr>"

definition new_subs :: "dref \<Rightarrow> 'cb world \<Rightarrow> 'cb world" where
  "new_subs r w = (upd_d r (\<lambda>d. d\<lparr>d_subs := next_subs w\<rparr>) w)
     \<lparr>subs_heap := (subs_heap w)(next_subs w := []), next_subs := Suc (next_subs w)\<rparr>"

definition new_msgs :: "dref \<Rightarrow> 'cb world \<Rightarrow> 'cb world" where
  "new_msgs r w = (upd_d r (\<lambda>d. d\<lparr>d_messages := next_msgs w\<rparr>) w)
     \<lparr>msgs_heap := (msgs_heap w)(next_msgs w := []), next_msgs := Suc (next_msgs w)\<rparr>"

definition on_subs :: "dref \<Rightarrow> (sub_map \<Rightarrow> sub_map) \<Rightarrow> 'cb world \<Rightarrow> 'cb world" where
  "on_subs r f w = (let s = d_subs (dlgts w r) in w\<lparr>subs_heap := (subs_heap w)(s := f (subs_heap w s))\<rparr>)"

definition fresh_uuid :: "'cb world \<Rightarrow> string" where
  "fresh_uuid w = uuids w (uuid_count w)"

definition next_uuid :: "'cb world \<Rightarrow> 'cb world" where
  "next_uuid w = w\<lparr>uuid_count := Suc (uuid_count w)\<rparr>"

lemmas world_updates = upd_d_def on_mqtt_def notify_def dispatch_event_def ask_def new_subs_def
  new_msgs_def on_subs_def next_uuid_def

section \<open>What a delegate knows about itself\<close>

definition client_flag :: "(client \<Rightarrow> bool) \<Rightarrow> 'cb world \<Rightarrow> dref \<Rightarrow> bool" where
  "client_flag f w r = (case d_client (dlgts w r) of None \<Rightarrow> False | Some c \<Rightarrow> f (clients w c))"

definition isConnected :: "'cb world \<Rightarrow> dref \<Rightarrow> bool" where
  "isConnected w r = client_flag cl_connected w r"

definition isConnectingOrDisconnecting :: "'cb world \<Rightarrow> dref \<Rightarrow> bool" where
  "isConnectingOrDisconnecting w r =
     client_flag (\<lambda>c. cl_connecting c \<or> cl_reconnecting c \<or> cl_disconnecting c) w r"

definition isConnActive :: "'cb world \<Rightarrow> dref \<Rightarrow> bool" where
  "isConnActive w r =
     client_flag (\<lambda>c. cl_connected c \<or> cl_connecting c \<or> cl_reconnecting c \<or> cl_disconnecting c) w r"

definition isActive :: "'cb world \<Rightarrow> dref \<Rightarrow> bool" where
  "isActive w r \<longleftrightarrow> activeToolKey (layout (store w)) = ''mqtt'' \<and>
     d_id (dlgts w r) = currentConnId (mqtt (store w))"

definition isClientOfThing :: "delegate \<Rightarrow> js \<Rightarrow> bool" where
  "isClientOfThing d thingId =
     (let isThing = (d_role d = JStr ''thing'') in
      if isThing \<and> truthy thingId then d_thingId d = thingId else isThing)"

definition isOfCurrentThing :: "'cb world \<Rightarrow> dref \<Rightarrow> bool" where
  "isOfCurrentThing w r =
     (let currentId = opt_get (currentShadow (app (store w))) ''thingId'' in
      if truthy currentId then isClientOfThing (dlgts w r) currentId else False)"

definition shared_of :: "delegate \<Rightarrow> shared" where
  "shared_of d = (case d_client d of
     Some c \<Rightarrow> SharedFull (d_id d) c (d_subs d) (d_messages d) (d_unread d) (d_recvType d)
   | None \<Rightarrow> SharedStub (d_id d))"

definition updateStore :: "dref \<Rightarrow> 'cb world \<Rightarrow> 'cb world" where
  "updateStore r w = on_mqtt (updateDelegateStates (PutShared (shared_of (dlgts w r)))) w"

definition update_if_shown :: "dref \<Rightarrow> 'cb world \<Rightarrow> 'cb world" where
  "update_if_shown r w = (if isActive w r \<or> isOfCurrentThing w r then updateStore r w else w)"

definition removeTopic :: "dref \<Rightarrow> js \<Rightarrow> 'cb world \<Rightarrow> 'cb world" where
  "removeTopic r topic w = update_if_shown r (on_subs r (odel (js_str topic)) w)"

section \<open>Connecting and disconnecting\<close>

text \<open>The second half of \<open>connect\<close>, when the previous client has ended.\<close>

definition start_connect :: "dref \<Rightarrow> cref \<Rightarrow> string \<Rightarrow> 'cb world \<Rightarrow> 'cb world \<times> js_error option" where
  "start_connect r cr token w =
     (let w = upd_d r (\<lambda>d. d\<lparr>d_retryTimes := 0\<rparr>) w;
          w = on_mqtt (setConnecting (d_retryTimes (dlgts w r))) w
      in case createClient (autoResub (mqtt (store w))) (clock w div 1000 * 1000) (cfgs w cr) of
           Inl e \<Rightarrow> (w, Some e)
         | Inr (url, options) \<Rightarrow>
             (let c = next_client w;
                  w = w\<lparr>clients := (clients w)(c := \<lparr>cl_connected = False, cl_connecting = False,
                         cl_reconnecting = False, cl_disconnecting = False, cl_dlgt = r, cl_conf = cr,
                         cl_token = token, cl_once_end = True, cl_url = url, cl_options = options\<rparr>),
                        next_client := Suc c\<rparr>
              in (upd_d r (\<lambda>d. d\<lparr>d_client := Some c\<rparr>) w, None)))"

text \<open>Calling the function passed to \<open>disconnect\<close>, with the error of the client if there is one.\<close>

fun run_end_cb :: "dref \<Rightarrow> end_cb \<Rightarrow> string option \<Rightarrow> 'cb world \<Rightarrow> 'cb world \<times> js_error option" where
  "run_end_cb r EndPlain err w = (w, None)"
| "run_end_cb r EndDestroy err w = (w\<lparr>registry := odel (js_str (d_id (dlgts w r))) (registry w)\<rparr>, None)"
| "run_end_cb r (EndConnect cr token) (Some e) w = (notify (notifyFail ''Connect Failure'') w, None)"
| "run_end_cb r (EndConnect cr token) None w = start_connect r cr token w"
| "run_end_cb r EndGiveUp err w = (updateStore r (upd_d r (\<lambda>d. d\<lparr>d_retryTimes := 0\<rparr>) w), None)"

definition disconnect :: "dref \<Rightarrow> end_cb \<Rightarrow> 'cb world \<Rightarrow> 'cb world \<times> js_error option" where
  "disconnect r ecb w =
     (case d_client (dlgts w r) of
        Some c \<Rightarrow> (ask (REnd c) (PEnd r ecb) w, None)
      | None \<Rightarrow> run_end_cb r ecb None w)"

text \<open>The callback of \<open>client.end\<close>.\<close>

definition end_done :: "dref \<Rightarrow> end_cb \<Rightarrow> string option \<Rightarrow> 'cb world \<Rightarrow> 'cb world \<times> js_error option" where
  "end_done r ecb err w =
     (case err of
        Some e \<Rightarrow> run_end_cb r ecb err w
      | None \<Rightarrow>
          (let w = new_subs r (upd_d r (\<lambda>d. d\<lparr>d_retryTimes := 0\<rparr>) w) in
           if ecb = EndPlain then (updateStore r w, None) else run_end_cb r ecb None w))"

definition destroy :: "dref \<Rightarrow> 'cb world \<Rightarrow> 'cb world" where
  "destroy r w = fst (disconnect r EndDestroy w)"

definition cancel :: "dref \<Rightarrow> 'cb world \<Rightarrow> 'cb world" where
  "cancel r w = fst (disconnect r EndPlain w)"

definition connect :: "dref \<Rightarrow> cref \<Rightarrow> string \<Rightarrow> 'cb world \<Rightarrow> 'cb world \<times> js_error option" where
  "connect r cr connectedToken w = disconnect r (EndConnect cr connectedToken) w"

section \<open>Events of a client\<close>

definition thing_event_of :: "'cb world \<Rightarrow> js \<Rightarrow> string \<Rightarrow> about \<Rightarrow> 'cb world" where
  "thing_event_of w thingId type abt = dispatch_event (notifyThingStateChange (clock w) thingId type abt) w"

definition onconnect :: "dref \<Rightarrow> cref \<Rightarrow> string \<Rightarrow> 'cb world \<Rightarrow> 'cb world" where
  "onconnect r cr connectedToken w =
     (let w = updateStore r (notify (notifyDone ''Connected'') w); d = dlgts w r in
      if isClientOfThing d JUndef
      then thing_event_of w (d_thingId d) TSCE_MQTT (AboutConn cr connectedToken) else w)"

definition onreconnect :: "dref \<Rightarrow> 'cb world \<Rightarrow> 'cb world" where
  "onreconnect r w =
     (if d_retryTimes (dlgts w r) < 3 then
        (let w = upd_d r (\<lambda>d. d\<lparr>d_retryTimes := d_retryTimes d + 1\<rparr>) w in
         notify (notifyWarn ''reconnecting...'') (on_mqtt (setConnecting (d_retryTimes (dlgts w r))) w))
      else fst (disconnect r EndGiveUp w))"

definition text_or :: "string option \<Rightarrow> string \<Rightarrow> string" where
  "text_or t d = (case t of None \<Rightarrow> d | Some s \<Rightarrow> if s = '''' then d else s)"

definition onerror :: "dref \<Rightarrow> string option \<Rightarrow> 'cb world \<Rightarrow> 'cb world" where
  "onerror r err w = updateStore r (notify (notifyFail (text_or err ''Connection encounter error'')) w)"

definition onclose :: "dref \<Rightarrow> string option \<Rightarrow> 'cb world \<Rightarrow> 'cb world" where
  "onclose r reason w =
     updateStore r (case reason of Some t \<Rightarrow> notify (notifyFail t) w | None \<Rightarrow> w)"

definition onend :: "dref \<Rightarrow> 'cb world \<Rightarrow> 'cb world" where
  "onend r w =
     (let w = updateStore r w; d = dlgts w r;
          w = (if isClientOfThing d JUndef then thing_event_of w (d_thingId d) TSCE_MQTO AboutEmpty else w)
      in notify (notifyDone ''Disconnected'') w)"

definition push :: "dref \<Rightarrow> js \<Rightarrow> 'cb world \<Rightarrow> 'cb world" where
  "push r msg w =
     (let mr = d_messages (dlgts w r);
          out = truthy (opt_get msg ''out'');
          w = w\<lparr>msgs_heap := (msgs_heap w)(mr := msgs_heap w mr @ [msg])\<rparr>;
          w = (if \<not> isActive w r \<and> \<not> out then upd_d r (\<lambda>d. d\<lparr>d_a := True\<rparr>) w
               else upd_d r (\<lambda>d. d\<lparr>d_unread := 0\<rparr>) w);
          w = update_if_shown r w;
          d = dlgts w r
      in thing_event_of w (if isClientOfThing d JUndef then d_thingId d else JStr ''*'')
           (if out then TSCE_MSGO else TSCE_MSGI) (AboutTopic (opt_get msg ''topic'')))"

definition payload_js :: "mpayload \<Rightarrow> js" where
  "payload_js p = (case p of PText s \<Rightarrow> JStr s | PBuf b \<Rightarrow> JStr b)"

definition onmessage ::
  "dref \<Rightarrow> js \<Rightarrow> string \<Rightarrow> js \<Rightarrow> js \<Rightarrow> js \<Rightarrow> 'cb world \<Rightarrow> 'cb world \<times> js_error option" where
  "onmessage r topic payload qos retain properties w =
     (case convertPayloadByType (bufs w) (PBuf payload) (d_recvType (dlgts w r)) WayReceive of
        Inl e \<Rightarrow> (w, Some e)
      | Inr p \<Rightarrow>
          (let msg = JObj [(''id'', JStr (genMessageId (fresh_uuid w))), (''out'', JBool False),
                 (''createAt'', JStr (time_text w (clock w))), (''topic'', topic), (''payload'', payload_js p),
                 (''qos'', qos), (''retain'', retain), (''properties'', properties)]
           in (push r msg (next_uuid w), None)))"

definition clear :: "dref \<Rightarrow> 'cb world \<Rightarrow> 'cb world" where
  "clear r w = update_if_shown r (new_msgs r w)"

definition read :: "dref \<Rightarrow> 'cb world \<Rightarrow> 'cb world" where
  "read r w = upd_d r (\<lambda>d. d\<lparr>d_unread := 0\<rparr>) w"

section \<open>Publishing\<close>

text \<open>
  The user properties that are filled in replace the user properties of the options. (A value other
  than an object has no truthy member of that name. The test that should drop empty properties
  compares a list of keys with the number 0 and never holds.)
\<close>

definition trim_user_properties :: "js \<Rightarrow> js res" where
  "trim_user_properties opts =
     res_bind (js_get opts ''properties'') (\<lambda>props.
       case (opts, props) of
         (JObj m, JObj p) \<Rightarrow>
           (let up = oget p ''userProperties'' in
            if truthy up then
              res_bind (js_keys up) (\<lambda>ks.
                let kept = filter (\<lambda>(_, v). truthy v) (map (\<lambda>k. (k, opt_get up k)) ks);
                    p' = (if kept \<noteq> [] then oput ''userProperties'' (JObj kept) p
                          else odel ''userProperties'' p)
                in Inr (JObj (oput ''properties'' (JObj p') m)))
            else Inr opts)
       | _ \<Rightarrow> Inr opts)"

definition json_copy :: "js \<Rightarrow> js res" where
  "json_copy v = (case json_stringify v of None \<Rightarrow> Inl SyntaxError | Some t \<Rightarrow> json_parse t)"

definition payload_out :: "'cb world \<Rightarrow> js \<Rightarrow> js \<Rightarrow> js res" where
  "payload_out w payload paytype =
     (case payload of
        JStr s \<Rightarrow> res_bind (convertPayloadByType (bufs w) (PText s) (js_str (js_or paytype (JStr ''JSON'')))
                    WayUndefined) (\<lambda>p. Inr (payload_js p))
      | v \<Rightarrow> Inr v)"

definition has_wildcard :: "string \<Rightarrow> bool" where
  "has_wildcard t \<longleftrightarrow> str_includes t ''+'' \<or> str_includes t ''#''"

definition topic_wild :: "js \<Rightarrow> bool res" where
  "topic_wild topic =
     (if \<not> truthy topic then Inr False
      else (case topic of
          JStr t \<Rightarrow> Inr (has_wildcard t)
        | JArr xs \<Rightarrow> Inr (JStr ''+'' \<in> set xs \<or> JStr ''#'' \<in> set xs)
        | _ \<Rightarrow> Inl TypeError))"

definition pub ::
  "dref \<Rightarrow> js \<Rightarrow> js \<Rightarrow> js \<Rightarrow> js \<Rightarrow> 'cb option \<Rightarrow> 'cb world \<Rightarrow> 'cb world \<times> js_error option" where
  "pub r topic paytype payload opts cb w =
     (case d_client (dlgts w r) of
        None \<Rightarrow> (notify (notifyFail ''Client not connected'') w, None)
      | Some c \<Rightarrow>
          if \<not> isConnected w r then (notify (notifyFail ''Client not connected'') w, None)
          else (case res_bind (json_copy opts) trim_user_properties of
              Inl e \<Rightarrow> (w, Some e)
            | Inr opts \<Rightarrow>
                if \<not> truthy topic \<and> \<not> truthy (opt_get (opt_get opts ''properties'') ''topicAlias'') then
                  (notify (notifyFail ''Topic Required!'') w, None)
                else (case topic_wild topic of
                    Inl e \<Rightarrow> (w, Some e)
                  | Inr True \<Rightarrow> (notify (notifyFail (''Topic Cannot Contain '' @ [CHR 0x27] @ ''+'' @ [CHR 0x27] @
                      '' or '' @ [CHR 0x27] @ ''#'' @ [CHR 0x27] @ ''!'')) w, None)
                  | Inr False \<Rightarrow> (case payload_out w payload paytype of
                      Inl e \<Rightarrow> (w, Some e)
                    | Inr p \<Rightarrow> (ask (RPublish c topic p opts) (PPub r topic payload opts cb) w, None)))))"

text \<open>The entries of a value spread into an object literal.\<close>

definition spread :: "js \<Rightarrow> js obj \<Rightarrow> js obj" where
  "spread v m = (case js_keys v of Inl _ \<Rightarrow> m | Inr ks \<Rightarrow> fold (\<lambda>k. oput k (opt_get v k)) ks m)"

definition pub_done ::
  "dref \<Rightarrow> js \<Rightarrow> js \<Rightarrow> js \<Rightarrow> 'cb option \<Rightarrow> string option \<Rightarrow> 'cb world \<Rightarrow>
   'cb world \<times> 'cb call \<times> js_error option" where
  "pub_done r topic payload opts cb err w =
     (case err of
        Some e \<Rightarrow> (case cb of
            Some f \<Rightarrow> (w, Some (f, err), None)
          | None \<Rightarrow> (notify (notifyFail (text_or err ''Publishing failure'')) w, None, None))
      | None \<Rightarrow>
          (let msg = JObj (spread opts [(''out'', JBool True),
                 (''createAt'', JStr (time_text w (clock w))), (''topic'', topic), (''payload'', payload)]);
               w = push r msg w
           in case cb of Some f \<Rightarrow> (w, Some (f, None), None) | None \<Rightarrow> (w, None, Some TypeError)))"

section \<open>Subscribing and unsubscribing\<close>

definition sub :: "dref \<Rightarrow> js \<Rightarrow> js \<Rightarrow> 'cb option \<Rightarrow> 'cb world \<Rightarrow> 'cb world" where
  "sub r topic opts cb w =
     (case d_client (dlgts w r) of
        None \<Rightarrow> notify (notifyFail ''Client not connected'') w
      | Some c \<Rightarrow>
          if \<not> isConnected w r then notify (notifyFail ''Client not connected'') w
          else (case topic of
              JObj m \<Rightarrow> ask (RSubscribe c topic None) (PSubMap r topic cb) w
            | JStr _ \<Rightarrow> ask (RSubscribe c topic (if truthy opts then Some opts else None)) (PSub r topic cb) w
            | JArr _ \<Rightarrow> ask (RSubscribe c topic (if truthy opts then Some opts else None)) (PSub r topic cb) w
            | _ \<Rightarrow> ask (RSubscribe c topic None) (PSubMap r topic cb) w))"

text \<open>Tell the caller of the outcome, or show it.\<close>

definition answer :: "'cb option \<Rightarrow> string option \<Rightarrow> notification \<Rightarrow> 'cb world \<Rightarrow> 'cb world \<times> 'cb call" where
  "answer cb err n w = (case cb of Some f \<Rightarrow> (w, Some (f, err)) | None \<Rightarrow> (notify n w, None))"

definition rejected :: "js \<Rightarrow> bool" where
  "rejected granted \<longleftrightarrow> truthy granted \<and> truthy (opt_get granted ''0'') \<and>
     opt_get (opt_get granted ''0'') ''qos'' \<notin> {JNum 0, JNum 1, JNum 2}"

definition mark_subs :: "bool \<Rightarrow> string list \<Rightarrow> sub_map \<Rightarrow> sub_map" where
  "mark_subs b ts = fold (\<lambda>t. oput t b) ts"

text \<open>The names in a topic argument: a single one, or a list of them.\<close>

definition sub_names :: "js \<Rightarrow> string list" where
  "sub_names topic = (case topic of JStr t \<Rightarrow> [t] | JArr xs \<Rightarrow> map js_str xs | _ \<Rightarrow> [])"

definition onsub ::
  "dref \<Rightarrow> js \<Rightarrow> 'cb option \<Rightarrow> string option \<Rightarrow> js \<Rightarrow> 'cb world \<Rightarrow> 'cb world \<times> 'cb call" where
  "onsub r topic cb err granted w =
     (case err of
        Some e \<Rightarrow> answer cb err (notifyFail (text_or err ''Subscription failure'')) w
      | None \<Rightarrow>
          if rejected granted then
            answer cb (Some ''Error: Subscription failure'') (notifyFail ''Subscription failure'') w
          else
            answer cb None (notifyDone ''Topic(s) Subscribed'')
              (updateStore r (on_subs r (mark_subs True (sub_names topic)) w)))"

definition onsubmap ::
  "dref \<Rightarrow> js \<Rightarrow> 'cb option \<Rightarrow> string option \<Rightarrow> 'cb world \<Rightarrow> 'cb world \<times> 'cb call \<times> js_error option" where
  "onsubmap r mp cb err w =
     (case err of
        Some e \<Rightarrow> (case answer cb err (notifyFail (text_or err ''Subscription failure'')) w of (w, k) \<Rightarrow> (w, k, None))
      | None \<Rightarrow> (case js_keys mp of
            Inl e \<Rightarrow> (w, None, Some e)
          | Inr ts \<Rightarrow>
              (case answer cb None (notifyDone ''Topic(s) Subscribed'') (updateStore r (on_subs r (mark_subs True ts) w)) of
                 (w, k) \<Rightarrow> (w, k, None))))"

definition unsub :: "dref \<Rightarrow> js list \<Rightarrow> 'cb option \<Rightarrow> 'cb world \<Rightarrow> 'cb world" where
  "unsub r topics cb w =
     (case d_client (dlgts w r) of
        None \<Rightarrow> notify (notifyFail ''Client not connected'') w
      | Some c \<Rightarrow>
          if \<not> isConnected w r then notify (notifyFail ''Client not connected'') w
          else ask (RUnsubscribe c topics) (PUnsub r topics cb) w)"

definition unsub_done ::
  "dref \<Rightarrow> js list \<Rightarrow> 'cb option \<Rightarrow> string option \<Rightarrow> 'cb world \<Rightarrow> 'cb world \<times> 'cb call" where
  "unsub_done r topics cb err w =
     (case err of
        Some e \<Rightarrow> answer cb err (notifyFail (text_or err ''Unsubscriebe failure'')) w
      | None \<Rightarrow> answer cb None (notifyDone ''Topic(s) Unsubscribed'')
          (updateStore r (on_subs r (mark_subs False (map js_str topics)) w)))"

section \<open>The registry of delegates\<close>

definition MqttDelegate :: "string \<Rightarrow> js \<Rightarrow> sref \<Rightarrow> mref \<Rightarrow> delegate" where
  "MqttDelegate uuid connConfig sr mr =
     (let role = opt_get connConfig ''userrole'' in
      \<lparr>d_selfId = genDelegateId uuid, d_id = opt_get connConfig ''id'', d_role = role,
       d_thingId = (if role = JStr ''thing'' then opt_get connConfig ''username'' else JStr ''+''),
       d_retryTimes = 0, d_subs = sr, d_messages = mr, d_unread = 0, d_recvType = ''Plaintext'',
       d_client = None, d_a = False\<rparr>)"

definition new_delegate :: "js \<Rightarrow> 'cb world \<Rightarrow> 'cb world" where
  "new_delegate connConfig w =
     w\<lparr>dlgts := (dlgts w)(next_dlgt w := MqttDelegate (fresh_uuid w) connConfig (next_subs w) (next_msgs w)),
       next_dlgt := Suc (next_dlgt w),
       subs_heap := (subs_heap w)(next_subs w := []), next_subs := Suc (next_subs w),
       msgs_heap := (msgs_heap w)(next_msgs w := []), next_msgs := Suc (next_msgs w),
       uuid_count := Suc (uuid_count w)\<rparr>"

definition deleteDelegateById :: "js \<Rightarrow> 'cb world \<Rightarrow> 'cb world" where
  "deleteDelegateById i w =
     (case olookup (registry w) (js_str i) of
        None \<Rightarrow> w
      | Some r \<Rightarrow> (let w = destroy r w in w\<lparr>registry := odel (js_str i) (registry w)\<rparr>))"

definition createDelegate :: "cref \<Rightarrow> 'cb world \<Rightarrow> dref \<times> 'cb world" where
  "createDelegate cr w =
     (let i = opt_get (cfgs w cr) ''id'';
          w = deleteDelegateById i w;
          r = next_dlgt w;
          w = new_delegate (cfgs w cr) w
      in (r, w\<lparr>registry := oput (js_str i) r (registry w)\<rparr>))"

definition getDelegateById :: "js \<Rightarrow> cref option \<Rightarrow> 'cb world \<Rightarrow> dref option \<times> 'cb world" where
  "getDelegateById i connConfig w =
     (case olookup (registry w) (js_str i) of
        Some r \<Rightarrow> (Some r, w)
      | None \<Rightarrow> (case connConfig of
            None \<Rightarrow> (None, w)
          | Some cr \<Rightarrow> (case createDelegate cr w of (r, w) \<Rightarrow> (Some r, w))))"

text \<open>Loading the module creates a delegate for every restored connection.\<close>

definition load_delegates :: "'cb world \<Rightarrow> 'cb world" where
  "load_delegates w = fold (\<lambda>cr w. snd (createDelegate cr w)) (connectionConfigs (mqtt (store w))) w"

end
