(* ===== verification/DelegateInv.thy ===== *)
theory DelegateInv
  imports Delegate
begin

text \<open>
  The delegates as a state machine: every call the rest of the program makes, every event of a
  client and every callback of the MQTT library is a step, in any order; steps of the rest of the
  program that touch no delegate are one more case. What holds in every reachable world is proved
  by the rule of \<open>step_invariant\<close>, interpreted here on this step relation.
\<close>

section \<open>Steps\<close>

definition set_flags :: "bool \<Rightarrow> bool \<Rightarrow> bool \<Rightarrow> bool \<Rightarrow> client \<Rightarrow> client" where
  "set_flags a b c d cl = cl\<lparr>cl_connected := a, cl_connecting := b, cl_reconnecting := c, cl_disconnecting := d\<rparr>"

definition upd_c :: "clref \<Rightarrow> (client \<Rightarrow> client) \<Rightarrow> 'cb world \<Rightarrow> 'cb world" where
  "upd_c c f w = w\<lparr>clients := (clients w)(c := f (clients w c))\<rparr>"

text \<open>The listeners that \<open>connect\<close> registers: the token is passed on once, the end is heard once.\<close>

definition client_connect :: "clref \<Rightarrow> 'cb world \<Rightarrow> 'cb world" where
  "client_connect c w = (let cl = clients w c in
     upd_c c (\<lambda>cl. cl\<lparr>cl_token := ''''\<rparr>) (onconnect (cl_dlgt cl) (cl_conf cl) (cl_token cl) w))"

definition client_end :: "clref \<Rightarrow> 'cb world \<Rightarrow> 'cb world" where
  "client_end c w =
     (if cl_once_end (clients w c)
      then onend (cl_dlgt (clients w c)) (upd_c c (\<lambda>cl. cl\<lparr>cl_once_end := False\<rparr>) w) else w)"

text \<open>The parts of the world that belong to the delegates.\<close>

definition same_delegates :: "'cb world \<Rightarrow> 'cb world \<Rightarrow> bool" where
  "same_delegates w w' \<longleftrightarrow>
     dlgts w' = dlgts w \<and> next_dlgt w' = next_dlgt w \<and> clients w' = clients w \<and>
     next_client w' = next_client w \<and> subs_heap w' = subs_heap w \<and> next_subs w' = next_subs w \<and>
     msgs_heap w' = msgs_heap w \<and> next_msgs w' = next_msgs w \<and> registry w' = registry w \<and>
     pend w' = pend w \<and> requests w' = requests w \<and>
     delegateStates (mqtt (store w')) = delegateStates (mqtt (store w)) \<and>
     retryTimes (mqtt (store w')) = retryTimes (mqtt (store w))"

definition drop_pending :: "nat \<Rightarrow> 'cb world \<Rightarrow> 'cb world" where
  "drop_pending i w = w\<lparr>pend := take i (pend w) @ drop (Suc i) (pend w)\<rparr>"

inductive dstep :: "'cb world \<Rightarrow> 'cb world \<Rightarrow> bool" where
  create: "dstep w (snd (createDelegate cr w))"
| delete: "dstep w (deleteDelegateById i w)"
| connect: "r < next_dlgt w \<Longrightarrow> dstep w (fst (connect r cr token w))"
| cancel: "r < next_dlgt w \<Longrightarrow> dstep w (cancel r w)"
| destroy: "r < next_dlgt w \<Longrightarrow> dstep w (destroy r w)"
| clear: "r < next_dlgt w \<Longrightarrow> dstep w (clear r w)"
| read: "r < next_dlgt w \<Longrightarrow> dstep w (read r w)"
| update: "r < next_dlgt w \<Longrightarrow> dstep w (updateStore r w)"
| remove: "r < next_dlgt w \<Longrightarrow> dstep w (removeTopic r topic w)"
| pub: "r < next_dlgt w \<Longrightarrow> dstep w (fst (pub r topic paytype payload opts cb w))"
| sub: "r < next_dlgt w \<Longrightarrow> dstep w (sub r topic opts cb w)"
| unsub: "r < next_dlgt w \<Longrightarrow> dstep w (unsub r topics cb w)"
| flags: "c < next_client w \<Longrightarrow> dstep w (upd_c c (set_flags b1 b2 b3 b4) w)"
| on_connect: "c < next_client w \<Longrightarrow> dstep w (client_connect c w)"
| on_reconnect: "c < next_client w \<Longrightarrow> dstep w (onreconnect (cl_dlgt (clients w c)) w)"
| on_error: "c < next_client w \<Longrightarrow> dstep w (onerror (cl_dlgt (clients w c)) err w)"
| on_close: "c < next_client w \<Longrightarrow> dstep w (onclose (cl_dlgt (clients w c)) reason w)"
| on_end: "c < next_client w \<Longrightarrow> dstep w (client_end c w)"
| on_message: "c < next_client w \<Longrightarrow>
    dstep w (fst (onmessage (cl_dlgt (clients w c)) topic bytes qos retain properties w))"
| end_called: "i < length (pend w) \<Longrightarrow> pend w ! i = PEnd r ecb \<Longrightarrow>
    dstep w (fst (end_done r ecb err (drop_pending i w)))"
| pub_called: "i < length (pend w) \<Longrightarrow> pend w ! i = PPub r topic payload opts cb \<Longrightarrow>
    dstep w (fst (pub_done r topic payload opts cb err (drop_pending i w)))"
| sub_called: "i < length (pend w) \<Longrightarrow> pend w ! i = PSub r topic cb \<Longrightarrow>
    dstep w (fst (onsub r topic cb err granted (drop_pending i w)))"
| submap_called: "i < length (pend w) \<Longrightarrow> pend w ! i = PSubMap r mp cb \<Longrightarrow>
    dstep w (fst (onsubmap r mp cb err (drop_pending i w)))"
| unsub_called: "i < length (pend w) \<Longrightarrow> pend w ! i = PUnsub r topics cb \<Longrightarrow>
    dstep w (fst (unsub_done r topics cb err (drop_pending i w)))"
| forget: "dstep w (on_mqtt (updateDelegateStates (ForDelete i)) w)"
| other: "same_delegates w w' \<Longrightarrow> dstep w w'"

section \<open>The invariant\<close>

text \<open>The arguments bound the references: clients, subscription maps and message lists made so far.\<close>

definition d_ok :: "nat \<Rightarrow> nat \<Rightarrow> nat \<Rightarrow> (clref \<Rightarrow> client) \<Rightarrow> dref \<Rightarrow> delegate \<Rightarrow> bool" where
  "d_ok nc ns nm cls r d \<longleftrightarrow> d_unread d = 0 \<and> 0 \<le> d_retryTimes d \<and> d_retryTimes d \<le> 3 \<and>
     d_recvType d = ''Plaintext'' \<and> d_subs d < ns \<and> d_messages d < nm \<and>
     (\<forall>c. d_client d = Some c \<longrightarrow> c < nc \<and> cl_dlgt (cls c) = r)"

fun shared_ok :: "nat \<Rightarrow> nat \<Rightarrow> nat \<Rightarrow> string \<Rightarrow> shared \<Rightarrow> bool" where
  "shared_ok nc ns nm k (SharedFull i c sr mr u t) =
     (js_str i = k \<and> u = 0 \<and> c < nc \<and> sr < ns \<and> mr < nm)"
| "shared_ok nc ns nm k (SharedStub i) = (js_str i = k)"

fun pending_dlgt :: "'cb pending \<Rightarrow> dref" where
  "pending_dlgt (PEnd r ecb) = r"
| "pending_dlgt (PPub r topic payload opts cb) = r"
| "pending_dlgt (PSub r topic cb) = r"
| "pending_dlgt (PSubMap r mp cb) = r"
| "pending_dlgt (PUnsub r topics cb) = r"

fun request_ok :: "request \<Rightarrow> bool" where
  "request_ok (RPublish c topic p opts) = (topic_wild topic = Inr False)"
| "request_ok q = True"

definition delegates_ok :: "'cb world \<Rightarrow> bool" where
  "delegates_ok w \<longleftrightarrow> (\<forall>r<next_dlgt w.
     d_ok (next_client w) (next_subs w) (next_msgs w) (clients w) r (dlgts w r))"

definition isolated :: "'cb world \<Rightarrow> bool" where
  "isolated w \<longleftrightarrow> inj_on (\<lambda>r. d_subs (dlgts w r)) {..<next_dlgt w} \<and>
     inj_on (\<lambda>r. d_messages (dlgts w r)) {..<next_dlgt w}"

definition clients_ok :: "'cb world \<Rightarrow> bool" where
  "clients_ok w \<longleftrightarrow> (\<forall>c<next_client w. cl_dlgt (clients w c) < next_dlgt w)"

definition registry_ok :: "'cb world \<Rightarrow> bool" where
  "registry_ok w \<longleftrightarrow> (\<forall>k r. olookup (registry w) k = Some r \<longrightarrow>
     r < next_dlgt w \<and> js_str (d_id (dlgts w r)) = k)"

definition asked_ok :: "'cb world \<Rightarrow> bool" where
  "asked_ok w \<longleftrightarrow> (\<forall>p\<in>set (pend w). pending_dlgt p < next_dlgt w) \<and> (\<forall>q\<in>set (requests w). request_ok q)"

definition store_ok :: "'cb world \<Rightarrow> bool" where
  "store_ok w \<longleftrightarrow> (\<forall>k s. olookup (delegateStates (mqtt (store w))) k = Some s \<longrightarrow>
       shared_ok (next_client w) (next_subs w) (next_msgs w) k s) \<and>
     0 \<le> retryTimes (mqtt (store w)) \<and> retryTimes (mqtt (store w)) \<le> 3"

definition winv :: "'cb world \<Rightarrow> bool" where
  "winv w \<longleftrightarrow> delegates_ok w \<and> isolated w \<and> clients_ok w \<and> registry_ok w \<and> asked_ok w \<and> store_ok w"

lemmas winv_parts = winv_def delegates_ok_def isolated_def clients_ok_def registry_ok_def
  asked_ok_def store_ok_def

text \<open>Before the delegates are created: nothing but the placeholders of the restored connections.\<close>

definition init :: "'cb world \<Rightarrow> bool" where
  "init w \<longleftrightarrow> next_dlgt w = 0 \<and> next_client w = 0 \<and> registry w = [] \<and> pend w = [] \<and> requests w = [] \<and>
     retryTimes (mqtt (store w)) = 0 \<and>
     list_all (\<lambda>(k, s). \<exists>i. s = SharedStub i \<and> js_str i = k) (delegateStates (mqtt (store w)))"

lemma winv_init: "init w \<Longrightarrow> winv w"
  by (fastforce simp: init_def winv_parts list_all_iff dest!: olookup_SomeD)

lemma shared_ok_mono:
  "shared_ok nc ns nm k s \<Longrightarrow> nc \<le> nc' \<Longrightarrow> ns \<le> ns' \<Longrightarrow> nm \<le> nm' \<Longrightarrow> shared_ok nc' ns' nm' k s"
  by (cases s) auto

lemma shared_ok_Suc:
  "shared_ok nc ns nm k s \<Longrightarrow> shared_ok (Suc nc) ns nm k s"
  "shared_ok nc ns nm k s \<Longrightarrow> shared_ok nc (Suc ns) nm k s"
  "shared_ok nc ns nm k s \<Longrightarrow> shared_ok nc ns (Suc nm) k s"
  by (auto elim: shared_ok_mono)

lemma d_ok_mono:
  "d_ok nc ns nm cls r d \<Longrightarrow> nc \<le> nc' \<Longrightarrow> ns \<le> ns' \<Longrightarrow> nm \<le> nm' \<Longrightarrow>
   (\<And>c. c < nc \<Longrightarrow> cl_dlgt (cls' c) = cl_dlgt (cls c)) \<Longrightarrow> d_ok nc' ns' nm' cls' r d"
  by (auto simp: d_ok_def)

section \<open>Preservation by the updates\<close>

lemma winv_notify [intro!]: "winv w \<Longrightarrow> winv (notify n w)"
  by (simp add: winv_parts world_updates)

lemma winv_dispatch [intro!]: "winv w \<Longrightarrow> winv (dispatch_event e w)"
  by (simp add: winv_parts world_updates)

lemma winv_next_uuid [intro!]: "winv w \<Longrightarrow> winv (next_uuid w)"
  by (simp add: winv_parts world_updates)

lemma winv_ask [intro!]:
  "winv w \<Longrightarrow> pending_dlgt p < next_dlgt w \<Longrightarrow> request_ok q \<Longrightarrow> winv (ask q p w)"
  by (auto simp: winv_parts world_updates)

lemma winv_drop_pending [intro!]:
  assumes "winv w" shows "winv (drop_pending i w)"
proof -
  have "pending_dlgt p < next_dlgt w" if "p \<in> set (take i (pend w)) \<union> set (drop (Suc i) (pend w))" for p
    using assms that by (auto simp: winv_def asked_ok_def dest: in_set_takeD in_set_dropD)
  with assms show ?thesis by (simp add: winv_parts drop_pending_def)
qed

lemma winv_on_subs [intro!]: "winv w \<Longrightarrow> winv (on_subs r f w)"
  by (simp add: winv_parts world_updates Let_def)

lemma winv_msgs [intro!]: "winv w \<Longrightarrow> winv (w\<lparr>msgs_heap := h\<rparr>)"
  by (simp add: winv_parts)

lemma winv_unregister [intro!]: "winv w \<Longrightarrow> winv (w\<lparr>registry := odel k (registry w)\<rparr>)"
  by (simp add: winv_parts obj.lookup_del)

lemma d_ok_upd_client:
  "cl_dlgt x = cl_dlgt (cls c) \<Longrightarrow> d_ok nc ns nm (cls(c := x)) r d = d_ok nc ns nm cls r d"
  by (auto simp: d_ok_def)

lemma winv_upd_c:
  assumes "winv w" and "\<And>cl. cl_dlgt (f cl) = cl_dlgt cl"
  shows "winv (upd_c c f w)"
  using assms by (simp add: winv_parts upd_c_def d_ok_upd_client)

text \<open>Updates of one delegate that keep its identity and its references.\<close>

lemma winv_upd_d:
  assumes "winv w" and "\<And>nc ns nm cls. d_ok nc ns nm cls r (dlgts w r) \<Longrightarrow> d_ok nc ns nm cls r (f (dlgts w r))"
    and "d_subs (f (dlgts w r)) = d_subs (dlgts w r)" and "d_messages (f (dlgts w r)) = d_messages (dlgts w r)"
    and "d_id (f (dlgts w r)) = d_id (dlgts w r)"
  shows "winv (upd_d r f w)"
proof -
  let ?d = "(dlgts w)(r := f (dlgts w r))"
  have same: "d_subs (?d q) = d_subs (dlgts w q)" "d_messages (?d q) = d_messages (dlgts w q)"
    "d_id (?d q) = d_id (dlgts w q)" for q
    using assms(3-5) by simp_all
  have "d_ok (next_client w) (next_subs w) (next_msgs w) (clients w) q (?d q)" if "q < next_dlgt w" for q
    using assms(1,2) that by (simp add: winv_def delegates_ok_def)
  with assms(1) show ?thesis
    by (simp add: winv_parts upd_d_def same del: fun_upd_apply)
qed

lemma d_subs_less: "winv w \<Longrightarrow> r < next_dlgt w \<Longrightarrow> d_subs (dlgts w r) < next_subs w"
  and d_messages_less: "winv w \<Longrightarrow> r < next_dlgt w \<Longrightarrow> d_messages (dlgts w r) < next_msgs w"
  by (simp_all add: winv_def delegates_ok_def d_ok_def)

lemma inj_on_fresh:
  assumes "inj_on f A" and "\<And>x. x \<in> A \<Longrightarrow> f x < (n::nat)" and "\<And>x. g x = (if x = r then n else f x)"
  shows "inj_on g A"
proof (rule inj_onI)
  fix x y assume "x \<in> A" "y \<in> A" "g x = g y"
  with assms show "x = y"
    by (cases "x = r"; cases "y = r") (auto dest: inj_onD)
qed

lemma winv_new_subs [intro!]:
  assumes "winv w" shows "winv (new_subs r w)"
proof -
  have "delegates_ok (new_subs r w)"
    using assms by (auto simp: winv_def delegates_ok_def world_updates d_ok_def less_SucI)
  moreover have "isolated (new_subs r w)"
    unfolding isolated_def
  proof
    have "inj_on (\<lambda>q. d_subs (dlgts w q)) {..<next_dlgt w}"
      using assms by (simp add: winv_def isolated_def)
    then have "inj_on (\<lambda>q. d_subs (dlgts (new_subs r w) q)) {..<next_dlgt w}"
      by (rule inj_on_fresh [where n = "next_subs w" and r = r])
        (simp_all add: d_subs_less [OF assms] world_updates)
    then show "inj_on (\<lambda>q. d_subs (dlgts (new_subs r w) q)) {..<next_dlgt (new_subs r w)}"
      by (simp add: world_updates)
    have "d_messages (dlgts (new_subs r w) q) = d_messages (dlgts w q)" for q
      by (simp add: world_updates)
    with assms show "inj_on (\<lambda>q. d_messages (dlgts (new_subs r w) q)) {..<next_dlgt (new_subs r w)}"
      by (simp add: winv_def isolated_def) (simp add: world_updates)
  qed
  moreover have "registry_ok (new_subs r w)"
    using assms by (auto simp: winv_def registry_ok_def world_updates)
  moreover have "store_ok (new_subs r w)"
    using assms by (auto simp: winv_def store_ok_def world_updates shared_ok_Suc)
  ultimately show ?thesis
    using assms by (simp add: winv_def clients_ok_def asked_ok_def world_updates)
qed

lemma winv_new_msgs [intro!]:
  assumes "winv w" shows "winv (new_msgs r w)"
proof -
  have "delegates_ok (new_msgs r w)"
    using assms by (auto simp: winv_def delegates_ok_def world_updates d_ok_def less_SucI)
  moreover have "isolated (new_msgs r w)"
    unfolding isolated_def
  proof
    have "inj_on (\<lambda>q. d_messages (dlgts w q)) {..<next_dlgt w}"
      using assms by (simp add: winv_def isolated_def)
    then have "inj_on (\<lambda>q. d_messages (dlgts (new_msgs r w) q)) {..<next_dlgt w}"
      by (rule inj_on_fresh [where n = "next_msgs w" and r = r])
        (simp_all add: d_messages_less [OF assms] world_updates)
    then show "inj_on (\<lambda>q. d_messages (dlgts (new_msgs r w) q)) {..<next_dlgt (new_msgs r w)}"
      by (simp add: world_updates)
    have "d_subs (dlgts (new_msgs r w) q) = d_subs (dlgts w q)" for q
      by (simp add: world_updates)
    with assms show "inj_on (\<lambda>q. d_subs (dlgts (new_msgs r w) q)) {..<next_dlgt (new_msgs r w)}"
      by (simp add: winv_def isolated_def) (simp add: world_updates)
  qed
  moreover have "registry_ok (new_msgs r w)"
    using assms by (auto simp: winv_def registry_ok_def world_updates)
  moreover have "store_ok (new_msgs r w)"
    using assms by (auto simp: winv_def store_ok_def world_updates shared_ok_Suc)
  ultimately show ?thesis
    using assms by (simp add: winv_def clients_ok_def asked_ok_def world_updates)
qed

lemma winv_on_mqtt:
  assumes "winv w"
    and "\<And>k s. olookup (delegateStates (f (mqtt (store w)))) k = Some s \<Longrightarrow>
      shared_ok (next_client w) (next_subs w) (next_msgs w) k s"
    and "0 \<le> retryTimes (f (mqtt (store w)))" and "retryTimes (f (mqtt (store w))) \<le> 3"
  shows "winv (on_mqtt f w)"
  using assms by (simp add: winv_parts on_mqtt_def)

lemma shared_of_ok:
  "winv w \<Longrightarrow> r < next_dlgt w \<Longrightarrow>
   shared_ok (next_client w) (next_subs w) (next_msgs w) (js_str (d_id (dlgts w r))) (shared_of (dlgts w r))"
  by (auto simp: winv_def delegates_ok_def d_ok_def shared_of_def split: option.split)

lemma sh_id_shared_of [simp]: "sh_id (shared_of d) = d_id d"
  by (simp add: shared_of_def split: option.split)

lemma winv_store: "winv w \<Longrightarrow> olookup (delegateStates (mqtt (store w))) k = Some s \<Longrightarrow>
  shared_ok (next_client w) (next_subs w) (next_msgs w) k s"
  by (simp add: winv_def store_ok_def)

lemma winv_updateStore [intro!]:
  assumes "winv w" and "r < next_dlgt w"
  shows "winv (updateStore r w)"
  unfolding updateStore_def
  using assms shared_of_ok [OF assms] winv_store [OF assms(1)]
  by (intro winv_on_mqtt) (auto simp: updateDelegateStates_def obj.lookup_put split: if_splits)

lemma winv_forget [intro!]:
  assumes "winv w" shows "winv (on_mqtt (updateDelegateStates (ForDelete i)) w)"
  using assms winv_store [OF assms]
  by (intro winv_on_mqtt) (auto simp: updateDelegateStates_def obj.lookup_del split: if_splits)

lemma winv_setConnecting [intro!]:
  "winv w \<Longrightarrow> 0 \<le> n \<Longrightarrow> n \<le> 3 \<Longrightarrow> winv (on_mqtt (setConnecting n) w)"
  by (rule winv_on_mqtt) (auto simp: setConnecting_def winv_store)

lemma next_simps [simp]:
  "next_dlgt (notify n w) = next_dlgt w" "next_dlgt (dispatch_event e w) = next_dlgt w"
  "next_dlgt (next_uuid w) = next_dlgt w" "next_dlgt (ask q p w) = next_dlgt w"
  "next_dlgt (drop_pending i w) = next_dlgt w" "next_dlgt (on_subs r f w) = next_dlgt w"
  "next_dlgt (upd_c c g w) = next_dlgt w" "next_dlgt (upd_d r h w) = next_dlgt w"
  "next_dlgt (new_subs r w) = next_dlgt w" "next_dlgt (new_msgs r w) = next_dlgt w"
  "next_dlgt (on_mqtt k w) = next_dlgt w"
  by (simp_all add: world_updates drop_pending_def upd_c_def Let_def)

lemma next_updateStore [simp]: "next_dlgt (updateStore r w) = next_dlgt w"
  by (simp add: updateStore_def)

lemma next_update_if_shown [simp]: "next_dlgt (update_if_shown r w) = next_dlgt w"
  by (simp add: update_if_shown_def)

lemma winv_update_if_shown [intro!]: "winv w \<Longrightarrow> r < next_dlgt w \<Longrightarrow> winv (update_if_shown r w)"
  by (auto simp: update_if_shown_def)

section \<open>Preservation by the operations\<close>

lemma d_retry_bounds:
  "winv w \<Longrightarrow> r < next_dlgt w \<Longrightarrow> 0 \<le> d_retryTimes (dlgts w r) \<and> d_retryTimes (dlgts w r) \<le> 3"
  by (simp add: winv_def delegates_ok_def d_ok_def)

lemma winv_set_retry [intro!]: "winv w \<Longrightarrow> winv (upd_d r (\<lambda>d. d\<lparr>d_retryTimes := 0\<rparr>) w)"
  by (rule winv_upd_d) (auto simp: d_ok_def)

lemma winv_set_unread [intro!]: "winv w \<Longrightarrow> winv (upd_d r (\<lambda>d. d\<lparr>d_unread := 0\<rparr>) w)"
  by (rule winv_upd_d) (auto simp: d_ok_def)

lemma winv_set_a [intro!]: "winv w \<Longrightarrow> winv (upd_d r (\<lambda>d. d\<lparr>d_a := b\<rparr>) w)"
  by (rule winv_upd_d) (auto simp: d_ok_def)

definition new_client :: "dref \<Rightarrow> client \<Rightarrow> 'cb world \<Rightarrow> 'cb world" where
  "new_client r cl w = upd_d r (\<lambda>d. d\<lparr>d_client := Some (next_client w)\<rparr>)
     (w\<lparr>clients := (clients w)(next_client w := cl), next_client := Suc (next_client w)\<rparr>)"

lemma winv_new_client:
  assumes "winv w" and "cl_dlgt cl = r" and "r < next_dlgt w"
  shows "winv (new_client r cl w)"
proof -
  let ?w = "new_client r cl w"
  have "d_ok (next_client ?w) (next_subs ?w) (next_msgs ?w) (clients ?w) q (dlgts ?w q)"
    if "q < next_dlgt w" for q
    using assms that by (auto simp: winv_def delegates_ok_def d_ok_def new_client_def upd_d_def less_SucI)
  moreover have "isolated ?w"
  proof -
    have "d_subs (dlgts ?w q) = d_subs (dlgts w q)" "d_messages (dlgts ?w q) = d_messages (dlgts w q)" for q
      by (simp_all add: new_client_def upd_d_def)
    moreover have "next_dlgt ?w = next_dlgt w" by (simp add: new_client_def upd_d_def)
    ultimately show ?thesis using assms(1) by (simp add: winv_def isolated_def)
  qed
  moreover have "clients_ok ?w" "registry_ok ?w" "asked_ok ?w"
    using assms by (auto simp: winv_def clients_ok_def registry_ok_def asked_ok_def new_client_def upd_d_def
      less_Suc_eq)
  moreover have "store_ok ?w"
    using assms by (auto simp: winv_def store_ok_def new_client_def upd_d_def shared_ok_Suc)
  ultimately show ?thesis by (simp add: winv_def delegates_ok_def new_client_def upd_d_def)
qed

lemma start_connect_eq:
  "start_connect r cr token w =
     (let w = on_mqtt (setConnecting 0) (upd_d r (\<lambda>d. d\<lparr>d_retryTimes := 0\<rparr>) w)
      in case createClient (autoResub (mqtt (store w))) (clock w div 1000 * 1000) (cfgs w cr) of
           Inl e \<Rightarrow> (w, Some e)
         | Inr (url, options) \<Rightarrow> (new_client r \<lparr>cl_connected = False, cl_connecting = False,
             cl_reconnecting = False, cl_disconnecting = False, cl_dlgt = r, cl_conf = cr,
             cl_token = token, cl_once_end = True, cl_url = url, cl_options = options\<rparr> w, None))"
  by (simp add: start_connect_def new_client_def upd_d_def Let_def cong: sum.case_cong)

lemma winv_start_connect:
  assumes "winv w" and "r < next_dlgt w"
  shows "winv (fst (start_connect r cr token w))"
  using assms unfolding start_connect_eq Let_def
  by (auto split: sum.split prod.split intro!: winv_new_client)

lemma winv_run_end_cb:
  assumes "winv w" and "r < next_dlgt w"
  shows "winv (fst (run_end_cb r ecb err w))"
  using assms
  by (cases "(r, ecb, err, w)" rule: run_end_cb.cases) (auto intro: winv_start_connect)

lemma winv_disconnect:
  assumes "winv w" and "r < next_dlgt w"
  shows "winv (fst (disconnect r ecb w))"
  using assms by (auto simp: disconnect_def winv_run_end_cb split: option.split)

lemma winv_end_done:
  assumes "winv w" and "r < next_dlgt w"
  shows "winv (fst (end_done r ecb err w))"
  using assms by (auto simp: end_done_def Let_def split: option.split intro!: winv_run_end_cb)

lemma winv_onconnect: "winv w \<Longrightarrow> r < next_dlgt w \<Longrightarrow> winv (onconnect r cr token w)"
  by (auto simp: onconnect_def thing_event_of_def Let_def)

lemma winv_onreconnect:
  assumes "winv w" and "r < next_dlgt w"
  shows "winv (onreconnect r w)"
proof (cases "d_retryTimes (dlgts w r) < 3")
  case True
  let ?w = "upd_d r (\<lambda>d. d\<lparr>d_retryTimes := d_retryTimes d + 1\<rparr>) w"
  have "winv ?w"
    by (rule winv_upd_d) (use assms True in \<open>auto simp: d_ok_def\<close>)
  moreover have "d_retryTimes (dlgts ?w r) = d_retryTimes (dlgts w r) + 1"
    by (simp add: upd_d_def)
  ultimately show ?thesis
    using True d_retry_bounds [OF assms] by (auto simp: onreconnect_def Let_def)
qed (use assms in \<open>simp add: onreconnect_def winv_disconnect\<close>)

lemma winv_events:
  assumes "winv w" and "r < next_dlgt w"
  shows "winv (onerror r err w)" and "winv (onclose r reason w)" and "winv (onend r w)"
  using assms by (auto simp: onerror_def onclose_def onend_def thing_event_of_def Let_def split: option.split)

lemma winv_push:
  assumes "winv w" and "r < next_dlgt w"
  shows "winv (push r msg w)"
  using assms unfolding push_def thing_event_of_def Let_def
  by (intro winv_dispatch winv_update_if_shown) (auto split: if_split)

lemma winv_onmessage:
  assumes "winv w" and "r < next_dlgt w"
  shows "winv (fst (onmessage r topic bytes qos retain properties w))"
  using assms by (auto simp: onmessage_def Let_def intro!: winv_push split: sum.split)

lemma winv_clear: "winv w \<Longrightarrow> r < next_dlgt w \<Longrightarrow> winv (clear r w)"
  by (auto simp: clear_def)

lemma winv_removeTopic: "winv w \<Longrightarrow> r < next_dlgt w \<Longrightarrow> winv (removeTopic r topic w)"
  by (auto simp: removeTopic_def)

lemma winv_pub:
  assumes "winv w" and "r < next_dlgt w"
  shows "winv (fst (pub r topic paytype payload opts cb w))"
  using assms by (auto simp: pub_def Let_def split: option.split sum.split bool.split)

lemma winv_answer: "winv w \<Longrightarrow> winv (fst (answer cb err n w))"
  by (auto simp: answer_def split: option.split)

lemma winv_pub_done:
  assumes "winv w" and "r < next_dlgt w"
  shows "winv (fst (pub_done r topic payload opts cb err w))"
  using assms by (auto simp: pub_done_def Let_def intro!: winv_push split: option.split)

lemma winv_sub: "winv w \<Longrightarrow> r < next_dlgt w \<Longrightarrow> winv (sub r topic opts cb w)"
  by (auto simp: sub_def split: option.split jsval.split)

lemma winv_unsub: "winv w \<Longrightarrow> r < next_dlgt w \<Longrightarrow> winv (unsub r topics cb w)"
  by (auto simp: unsub_def split: option.split)

lemma winv_sub_results:
  assumes "winv w" and "r < next_dlgt w"
  shows "winv (fst (onsub r topic cb err granted w))"
    and "winv (fst (onsubmap r mp cb err w))"
    and "winv (fst (unsub_done r topics cb err w))"
proof -
  show "winv (fst (onsub r topic cb err granted w))"
    using assms unfolding onsub_def Let_def
    by (auto split: option.split intro!: winv_answer)
  have "winv (fst (answer cb e n w))" "winv (fst (answer cb e n (updateStore r (on_subs r f w))))" for e n f
    using assms by (auto intro!: winv_answer)
  then show "winv (fst (onsubmap r mp cb err w))"
    unfolding onsubmap_def using assms(1)
    by (auto split: option.split sum.split prod.split) (metis fst_conv)+
  show "winv (fst (unsub_done r topics cb err w))"
    using assms unfolding unsub_done_def by (auto split: option.split intro!: winv_answer)
qed

section \<open>Creating and deleting delegates\<close>

lemma destroy_cases:
  "destroy r w = (case d_client (dlgts w r) of
     Some c \<Rightarrow> ask (REnd c) (PEnd r EndDestroy) w
   | None \<Rightarrow> w\<lparr>registry := odel (js_str (d_id (dlgts w r))) (registry w)\<rparr>)"
  by (simp add: destroy_def disconnect_def split: option.split)

lemma destroy_keeps [simp]:
  "cfgs (destroy r w) = cfgs w" "dlgts (destroy r w) = dlgts w" "next_dlgt (destroy r w) = next_dlgt w"
  "store (destroy r w) = store w" "clients (destroy r w) = clients w"
  by (simp_all add: destroy_cases ask_def split: option.split)

lemma deleteDelegateById_keeps [simp]:
  "cfgs (deleteDelegateById i w) = cfgs w" "next_dlgt (deleteDelegateById i w) = next_dlgt w"
  "dlgts (deleteDelegateById i w) = dlgts w" "store (deleteDelegateById i w) = store w"
  by (simp_all add: deleteDelegateById_def Let_def split: option.split)

lemma winv_destroy: "winv w \<Longrightarrow> r < next_dlgt w \<Longrightarrow> winv (destroy r w)"
  by (simp add: destroy_def winv_disconnect)

lemma registry_bound: "winv w \<Longrightarrow> olookup (registry w) k = Some r \<Longrightarrow> r < next_dlgt w"
  by (simp add: winv_def registry_ok_def)

lemma winv_deleteDelegateById:
  assumes "winv w"
  shows "winv (deleteDelegateById i w)"
proof (cases "olookup (registry w) (js_str i)")
  case (Some r)
  with assms have "winv (destroy r w)" by (simp add: winv_destroy registry_bound)
  with Some show ?thesis by (auto simp: deleteDelegateById_def Let_def)
qed (simp add: deleteDelegateById_def assms)

lemma winv_new_delegate:
  assumes "winv w"
  shows "winv (new_delegate conf w)"
proof -
  let ?w = "new_delegate conf w"
  have old: "dlgts ?w q = dlgts w q" if "q < next_dlgt w" for q
    using that by (simp add: new_delegate_def)
  have new: "d_subs (dlgts ?w (next_dlgt w)) = next_subs w" "d_messages (dlgts ?w (next_dlgt w)) = next_msgs w"
    by (simp_all add: new_delegate_def MqttDelegate_def Let_def)
  have "d_ok (next_client ?w) (next_subs ?w) (next_msgs ?w) (clients ?w) q (dlgts ?w q)"
    if "q < next_dlgt ?w" for q
  proof (cases "q = next_dlgt w")
    case False
    with that have q: "q < next_dlgt w" by (simp add: new_delegate_def)
    with assms have "d_ok (next_client w) (next_subs w) (next_msgs w) (clients w) q (dlgts w q)"
      by (simp add: winv_def delegates_ok_def)
    with old [OF q] show ?thesis by (simp add: new_delegate_def d_ok_def)
  qed (simp add: new_delegate_def MqttDelegate_def d_ok_def Let_def)
  then have "delegates_ok ?w" by (simp add: delegates_ok_def)
  moreover have "isolated ?w"
    unfolding isolated_def
  proof
    have "next_dlgt ?w = Suc (next_dlgt w)" by (simp add: new_delegate_def)
    then have dom: "{..<next_dlgt ?w} = insert (next_dlgt w) {..<next_dlgt w}" by auto
    have "inj_on (\<lambda>q. d_subs (dlgts w q)) {..<next_dlgt w}" "inj_on (\<lambda>q. d_messages (dlgts w q)) {..<next_dlgt w}"
      using assms by (simp_all add: winv_def isolated_def)
    then show "inj_on (\<lambda>q. d_subs (dlgts ?w q)) {..<next_dlgt ?w}"
      and "inj_on (\<lambda>q. d_messages (dlgts ?w q)) {..<next_dlgt ?w}"
      using d_subs_less [OF assms] d_messages_less [OF assms]
      unfolding dom by (auto simp: inj_on_def old new) (metis less_irrefl)+
  qed
  moreover have "clients_ok ?w" "asked_ok ?w"
    using assms by (auto simp: winv_def clients_ok_def asked_ok_def new_delegate_def less_SucI)
  moreover have "registry_ok ?w"
    using assms old by (auto simp: winv_def registry_ok_def) (auto simp: new_delegate_def less_SucI)
  moreover have "store_ok ?w"
    using assms by (auto simp: winv_def store_ok_def new_delegate_def shared_ok_Suc)
  ultimately show ?thesis by (simp add: winv_def)
qed

lemma winv_register:
  "winv w \<Longrightarrow> r < next_dlgt w \<Longrightarrow> js_str (d_id (dlgts w r)) = k \<Longrightarrow>
   winv (w\<lparr>registry := oput k r (registry w)\<rparr>)"
  by (simp add: winv_parts obj.lookup_put)

lemma winv_createDelegate:
  assumes "winv w"
  shows "winv (snd (createDelegate cr w))"
  unfolding createDelegate_def Let_def snd_conv
  using winv_new_delegate [OF winv_deleteDelegateById [OF assms]]
  by (rule winv_register) (simp_all add: new_delegate_def MqttDelegate_def Let_def)

section \<open>Every step keeps the invariant\<close>

lemma pending_bound:
  assumes "winv w" and "i < length (pend w)" and "pend w ! i = p"
  shows "pending_dlgt p < next_dlgt w"
  using assms nth_mem [OF assms(2)] by (auto simp: winv_def asked_ok_def)

lemma client_bound: "winv w \<Longrightarrow> c < next_client w \<Longrightarrow> cl_dlgt (clients w c) < next_dlgt w"
  by (simp add: winv_def clients_ok_def)

lemma winv_same_delegates: "winv w \<Longrightarrow> same_delegates w w' \<Longrightarrow> winv w'"
  by (simp add: winv_parts same_delegates_def)

lemma winv_client_connect: "winv w \<Longrightarrow> c < next_client w \<Longrightarrow> winv (client_connect c w)"
  by (simp add: client_connect_def Let_def winv_upd_c winv_onconnect client_bound)

lemma winv_client_end: "winv w \<Longrightarrow> c < next_client w \<Longrightarrow> winv (client_end c w)"
  by (simp add: client_end_def winv_upd_c winv_events client_bound)

lemma winv_step:
  assumes "dstep w w'" and "winv w"
  shows "winv w'"
  using assms
proof cases
  case (pub_called i r topic payload opts cb err)
  with assms(2) pending_bound [of w i] winv_drop_pending [OF assms(2)] show ?thesis
    by (auto intro: winv_pub_done)
next
  case (end_called i r ecb err)
  with assms(2) pending_bound [of w i] winv_drop_pending [OF assms(2)] show ?thesis
    by (auto intro: winv_end_done)
next
  case (sub_called i r topic cb err granted)
  with assms(2) pending_bound [of w i] winv_drop_pending [OF assms(2)] show ?thesis
    by (auto intro: winv_sub_results)
next
  case (submap_called i r mp cb err)
  with assms(2) pending_bound [of w i] winv_drop_pending [OF assms(2)] show ?thesis
    by (auto intro: winv_sub_results)
next
  case (unsub_called i r topics cb err)
  with assms(2) pending_bound [of w i] winv_drop_pending [OF assms(2)] show ?thesis
    by (auto intro: winv_sub_results)
next
  case (flags c)
  then show ?thesis using assms(2) by (auto simp: set_flags_def intro: winv_upd_c)
next
  case other
  then show ?thesis using assms(2) winv_same_delegates by blast
qed (use assms(2) in \<open>auto simp: connect_def cancel_def read_def winv_createDelegate
  winv_deleteDelegateById winv_disconnect winv_destroy winv_clear winv_removeTopic winv_pub winv_sub
  winv_unsub winv_client_connect winv_client_end winv_events winv_onreconnect winv_onmessage client_bound\<close>)

interpretation delegates: step_invariant init dstep winv
  by unfold_locales (auto intro: winv_init winv_step)

end
