(* ===== verification/DelegateProps.thy ===== *)
theory DelegateProps
  imports DelegateInv
begin

text \<open>
  What the delegates guarantee in every reachable world, and what single operations do, with a
  small concrete world on which each statement is evaluated.
\<close>

section \<open>A concrete world\<close>

definition demo_conf :: js where
  "demo_conf = JObj [(''id'', JStr ''c1''), (''userrole'', JStr ''thing''), (''username'', JStr ''lamp''),
     (''host'', JStr ''h''), (''port'', JNum 8083), (''path'', JStr ''/'')]"

definition demo_store :: store where
  "demo_store = \<lparr>user = \<lparr>auth = ''''\<rparr>, app = app_init,
     layout = layout_init \<lparr>ls_connections = None, ls_activeToolKey = None, ls_auth = None\<rparr>,
     mqtt = \<lparr>connectionConfigs = [0], currentConnId = JNull, delegateStates = [], connecting = False,
       retryTimes = 0, autoResub = True\<rparr>,
     local_store = \<lparr>ls_connections = None, ls_activeToolKey = None, ls_auth = None\<rparr>\<rparr>"

definition demo_delegate :: delegate where
  "demo_delegate = MqttDelegate '''' JNull 0 0"

definition demo_client :: client where
  "demo_client = \<lparr>cl_connected = False, cl_connecting = False, cl_reconnecting = False,
     cl_disconnecting = False, cl_dlgt = 0, cl_conf = 0, cl_token = '''', cl_once_end = True,
     cl_url = '''', cl_options = JNull\<rparr>"

definition demo_world :: "unit world" where
  "demo_world = \<lparr>store = demo_store, cfgs = (\<lambda>_. demo_conf), next_cfg = 1, dlgts = (\<lambda>_. demo_delegate),
     next_dlgt = 0, clients = (\<lambda>_. demo_client), next_client = 0, subs_heap = (\<lambda>_. []), next_subs = 0,
     msgs_heap = (\<lambda>_. []), next_msgs = 0, registry = [], pend = [], requests = [], shown = [],
     events = [], uuids = (\<lambda>n. nat_str n), uuid_count = 0, clock = 5000, time_text = int_str,
     bufs = \<lparr>buf_from = (\<lambda>_ s. s), buf_text = (\<lambda>_ s. s)\<rparr>\<rparr>"

text \<open>After loading the page, after connecting, and after the library reports the connection.\<close>

definition demo_loaded :: "unit world" where
  "demo_loaded = snd (createDelegate 0 demo_world)"

definition demo_asked :: "unit world" where
  "demo_asked = fst (connect 0 0 ''tok'' demo_loaded)"

definition demo_connected :: "unit world" where
  "demo_connected = upd_c 0 (set_flags True False False False) demo_asked"

lemma demo_loaded_simps [simp]:
  "next_dlgt demo_loaded = 1" "next_client demo_loaded = 0" "registry demo_loaded = [(''c1'', 0)]"
  "dlgts demo_loaded 0 = MqttDelegate (nat_str 0) demo_conf 0 0" "cfgs demo_loaded = (\<lambda>_. demo_conf)"
  "requests demo_loaded = []" "store demo_loaded = demo_store" "clock demo_loaded = 5000"
  "msgs_heap demo_loaded = (\<lambda>_. [])" "subs_heap demo_loaded = (\<lambda>_. [])"
  "bufs demo_loaded = bufs demo_world" "pend demo_loaded = []" "next_subs demo_loaded = 1"
  "next_msgs demo_loaded = 1"
  by (simp_all add: demo_loaded_def createDelegate_def deleteDelegateById_def new_delegate_def
    demo_world_def demo_conf_def Let_def fresh_uuid_def fun_upd_idem)

lemma demo_delegate_fields [simp]:
  "d_client (MqttDelegate u c s m) = None" "d_id (MqttDelegate u c s m) = opt_get c ''id''"
  "d_role (MqttDelegate u c s m) = opt_get c ''userrole''" "d_subs (MqttDelegate u c s m) = s"
  "d_messages (MqttDelegate u c s m) = m" "d_retryTimes (MqttDelegate u c s m) = 0"
  "d_unread (MqttDelegate u c s m) = 0" "d_recvType (MqttDelegate u c s m) = ''Plaintext''"
  by (simp_all add: MqttDelegate_def Let_def)

lemma demo_createClient:
  "\<exists>url options. createClient resub now demo_conf = Inr (url, options)"
proof -
  have "\<exists>opts. getClientOptions resub now demo_conf = Inr opts"
    by (rule getClientOptions_total) (simp add: demo_conf_def)
  moreover have "\<exists>url. getUrl demo_conf = Inr url"
    by (simp add: getUrl_def getMQTTProtocol_def demo_conf_def Let_def)
  ultimately show ?thesis by (auto simp: createClient_def)
qed

lemma demo_asked_eq:
  "\<exists>url options. demo_asked = new_client 0 (demo_client\<lparr>cl_token := ''tok'', cl_url := url, cl_options := options\<rparr>)
     (on_mqtt (setConnecting 0) (upd_d 0 (\<lambda>d. d\<lparr>d_retryTimes := 0\<rparr>) demo_loaded))"
proof -
  let ?w = "on_mqtt (setConnecting 0) (upd_d 0 (\<lambda>d. d\<lparr>d_retryTimes := 0\<rparr>) demo_loaded)"
  have "cfgs ?w 0 = demo_conf" by (simp add: on_mqtt_def upd_d_def)
  moreover obtain url options where
    "createClient (autoResub (mqtt (store ?w))) (clock ?w div 1000 * 1000) demo_conf = Inr (url, options)"
    using demo_createClient by blast
  ultimately show ?thesis
    by (intro exI [of _ url] exI [of _ options])
      (simp add: demo_asked_def connect_def disconnect_def start_connect_eq Let_def demo_client_def)
qed

lemma demo_connected_simps [simp]:
  "next_dlgt demo_connected = 1" "next_client demo_connected = 1" "d_client (dlgts demo_connected 0) = Some 0"
  "d_id (dlgts demo_connected 0) = JStr ''c1''" "registry demo_connected = [(''c1'', 0)]"
  "cl_connected (clients demo_connected 0)" "cl_dlgt (clients demo_connected 0) = 0"
  "d_retryTimes (dlgts demo_connected 0) = 0" "requests demo_connected = []"
  "d_subs (dlgts demo_connected 0) = 0" "d_messages (dlgts demo_connected 0) = 0"
  "cfgs demo_connected = (\<lambda>_. demo_conf)" "msgs_heap demo_connected = (\<lambda>_. [])"
  "subs_heap demo_connected = (\<lambda>_. [])" "bufs demo_connected = bufs demo_world"
  "d_recvType (dlgts demo_connected 0) = ''Plaintext''" "pend demo_connected = []"
  "next_subs demo_connected = 1" "next_msgs demo_connected = 1"
  "store demo_connected = demo_store\<lparr>mqtt := setConnecting 0 (mqtt demo_store)\<rparr>"
proof -
  obtain url options where eq: "demo_asked = new_client 0
      (demo_client\<lparr>cl_token := ''tok'', cl_url := url, cl_options := options\<rparr>)
      (on_mqtt (setConnecting 0) (upd_d 0 (\<lambda>d. d\<lparr>d_retryTimes := 0\<rparr>) demo_loaded))"
    using demo_asked_eq by blast
  show "next_dlgt demo_connected = 1" "next_client demo_connected = 1"
    "d_client (dlgts demo_connected 0) = Some 0" "d_id (dlgts demo_connected 0) = JStr ''c1''"
    "registry demo_connected = [(''c1'', 0)]" "cl_connected (clients demo_connected 0)"
    "cl_dlgt (clients demo_connected 0) = 0" "d_retryTimes (dlgts demo_connected 0) = 0"
    "requests demo_connected = []" "d_subs (dlgts demo_connected 0) = 0"
    "d_messages (dlgts demo_connected 0) = 0" "cfgs demo_connected = (\<lambda>_. demo_conf)"
    "msgs_heap demo_connected = (\<lambda>_. [])" "subs_heap demo_connected = (\<lambda>_. [])"
    "bufs demo_connected = bufs demo_world" "d_recvType (dlgts demo_connected 0) = ''Plaintext''"
    "pend demo_connected = []" "next_subs demo_connected = 1" "next_msgs demo_connected = 1"
    "store demo_connected = demo_store\<lparr>mqtt := setConnecting 0 (mqtt demo_store)\<rparr>"
    by (simp_all add: demo_connected_def eq upd_c_def set_flags_def new_client_def on_mqtt_def upd_d_def
      demo_client_def demo_conf_def)
qed

lemma demo_reach: "reach init dstep demo_connected"
proof -
  have "init demo_world" by (simp add: init_def demo_world_def demo_store_def)
  then have "reach init dstep demo_world" by (rule reach.start)
  then have "reach init dstep demo_loaded"
    unfolding demo_loaded_def by (rule reach.step) (rule dstep.create)
  then have "reach init dstep demo_asked"
    unfolding demo_asked_def by (rule reach.step) (rule dstep.connect, simp)
  moreover have "next_client demo_asked = 1"
    using demo_connected_simps(2) by (simp add: demo_connected_def upd_c_def)
  ultimately show ?thesis
    unfolding demo_connected_def by (metis reach.step dstep.flags zero_less_one)
qed

lemma demo_message:
  "reach init dstep (fst (onmessage 0 (JStr ''t'') ''hi'' q rt pr demo_connected))"
proof -
  have "dstep demo_connected (fst (onmessage (cl_dlgt (clients demo_connected 0)) (JStr ''t'') ''hi'' q rt pr
      demo_connected))"
    by (rule dstep.on_message) simp
  then show ?thesis by (intro reach.step [OF demo_reach]) simp
qed

section \<open>What holds in every reachable world\<close>

text \<open>
  The number of unread messages never leaves zero, in no delegate and in no state a connection
  shows: receiving a message counts in another member.
\<close>

theorem unread_never_counts:
  assumes "reach init dstep w" and "r < next_dlgt w"
  shows "d_unread (dlgts w r) = 0 \<and>
    (olookup (delegateStates (mqtt (store w))) k = Some (SharedFull i c sr mr u t) \<longrightarrow> u = 0)"
  using delegates.reach_inv [OF assms(1)] assms(2) winv_store [of w k]
  by (auto simp: winv_def delegates_ok_def d_ok_def)

theorem unread_never_counts_witness:
  "d_unread (dlgts (fst (onmessage 0 (JStr ''t'') ''hi'' (JNum 0) (JBool False) JUndef demo_connected)) 0) = 0"
proof -
  have "next_dlgt (fst (onmessage 0 (JStr ''t'') ''hi'' (JNum 0) (JBool False) JUndef demo_connected)) = 1"
    by (simp add: onmessage_def genReceivePayload_def push_def thing_event_of_def Let_def demo_world_def)
  then show ?thesis using unread_never_counts [OF demo_message] by simp
qed

text \<open>
  C27. A client is given up after three attempts: the number of attempts is between zero and three in
  every delegate and in the store.
\<close>

theorem retries_bounded:
  assumes "reach init dstep w" and "r < next_dlgt w"
  shows "d_retryTimes (dlgts w r) \<in> {0..3} \<and> retryTimes (mqtt (store w)) \<in> {0..3}"
  using delegates.reach_inv [OF assms(1)] d_retry_bounds [of w r] assms(2)
  by (auto simp: winv_def store_ok_def)

theorem retries_bounded_witness: "d_retryTimes (dlgts demo_connected 0) \<in> {0..3}"
  using retries_bounded [OF demo_reach, of 0] by simp

text \<open>
  C23. Delegates are isolated and filed under their own id: a subscription result, whatever it is,
  changes the subscriptions of no other delegate, and received messages never end up in the list of
  another one.
\<close>

theorem delegates_isolated:
  assumes "reach init dstep w" and "r < next_dlgt w" and "q < next_dlgt w" and "r \<noteq> q"
  shows "subs_heap (fst (onsub r topic cb err granted w)) (d_subs (dlgts w q)) =
      subs_heap w (d_subs (dlgts w q)) \<and>
    msgs_heap (push r msg w) (d_messages (dlgts w q)) = msgs_heap w (d_messages (dlgts w q)) \<and>
    (olookup (registry w) k = Some r \<longrightarrow> js_str (d_id (dlgts w r)) = k)"
proof -
  have inv: "winv w" by (rule delegates.reach_inv [OF assms(1)])
  then have "d_subs (dlgts w q) \<noteq> d_subs (dlgts w r)" "d_messages (dlgts w q) \<noteq> d_messages (dlgts w r)"
    using assms(2-4) by (auto simp: winv_def isolated_def dest: inj_onD)
  then show ?thesis
    using inv
    by (auto simp: onsub_def answer_def Let_def world_updates updateStore_def push_def update_if_shown_def
      thing_event_of_def winv_def registry_ok_def split: option.split)
qed

theorem delegates_isolated_witness:
  "msgs_heap (push 0 (JStr ''m'') (snd (createDelegate 0 demo_connected))) 1 = []"
proof -
  have "next_dlgt (snd (createDelegate 0 demo_connected)) = 2"
    by (simp add: createDelegate_def new_delegate_def Let_def)
  moreover have "reach init dstep (snd (createDelegate 0 demo_connected))"
    by (rule reach.step [OF demo_reach dstep.create])
  ultimately have "msgs_heap (push 0 (JStr ''m'') (snd (createDelegate 0 demo_connected)))
      (d_messages (dlgts (snd (createDelegate 0 demo_connected)) 1)) =
    msgs_heap (snd (createDelegate 0 demo_connected)) (d_messages (dlgts (snd (createDelegate 0 demo_connected)) 1))"
    using delegates_isolated [of "snd (createDelegate 0 demo_connected)" 0 1] by simp
  moreover have "d_messages (dlgts (snd (createDelegate 0 demo_connected)) 1) = 1"
    "msgs_heap (snd (createDelegate 0 demo_connected)) 1 = []"
    by (simp_all add: createDelegate_def new_delegate_def Let_def deleteDelegateById_def destroy_cases ask_def
      demo_conf_def)
  ultimately show ?thesis by simp
qed

text \<open>
  C24. Nothing is ever published to a topic with a wildcard, whatever is asked of the delegates.
\<close>

theorem published_topics_are_concrete:
  assumes "reach init dstep w" and "RPublish c (JStr topic) p opts \<in> set (requests w)"
  shows "CHR ''+'' \<notin> set topic \<and> CHR ''#'' \<notin> set topic"
proof -
  have "request_ok (RPublish c (JStr topic) p opts)"
    using delegates.reach_inv [OF assms(1)] assms(2) by (auto simp: winv_def asked_ok_def)
  then have "topic = '''' \<or> \<not> has_wildcard topic"
    by (simp add: topic_wild_def split: if_splits)
  then show ?thesis by (auto simp: has_wildcard_def str_includes_char)
qed

lemma demo_pub:
  "requests (fst (pub 0 (JStr ''a/b'') JUndef (JStr ''x'') (JObj []) None demo_connected)) =
    [RPublish 0 (JStr ''a/b'') (JStr ''x'') (JObj [])]"
proof -
  have "json_copy (JObj []) = Inr (JObj [])"
    using json_parse_text [of "JObj []"] by (simp add: json_copy_def json_stringify_def)
  then show ?thesis
    by (simp add: pub_def isConnected_def client_flag_def trim_user_properties_def topic_wild_def
      has_wildcard_def payload_out_def payload_js_def ask_def)
qed

theorem published_topics_are_concrete_witness:
  "RPublish 0 (JStr ''a/b'') (JStr ''x'') (JObj []) \<in>
     set (requests (fst (pub 0 (JStr ''a/b'') JUndef (JStr ''x'') (JObj []) None demo_connected))) \<and>
   CHR ''+'' \<notin> set ''a/b''"
proof -
  have "reach init dstep (fst (pub 0 (JStr ''a/b'') JUndef (JStr ''x'') (JObj []) None demo_connected))"
    by (rule reach.step [OF demo_reach dstep.pub]) simp
  then show ?thesis
    using published_topics_are_concrete [of _ 0 "''a/b''" "JStr ''x''" "JObj []"] demo_pub by simp
qed

text \<open>
  C25. No received message is lost or rejected: in every reachable world the text of a message is
  appended to the messages of the delegate whose client received it.
\<close>

theorem received_messages_are_kept:
  assumes "reach init dstep w" and "r < next_dlgt w"
    and "onmessage r topic bytes qos retain properties w = (w', e)"
  shows "e = None \<and> (\<exists>m. msgs_heap w' (d_messages (dlgts w r)) = msgs_heap w (d_messages (dlgts w r)) @ [m] \<and>
    fld m ''topic'' = topic \<and> fld m ''payload'' = JStr (buf_text (bufs w) None bytes))"
proof -
  have "d_recvType (dlgts w r) = ''Plaintext''"
    using delegates.reach_inv [OF assms(1)] assms(2) by (simp add: winv_def delegates_ok_def d_ok_def)
  then have "convertPayloadByType (bufs w) (PBuf bytes) (d_recvType (dlgts w r)) WayReceive =
      Inr (PText (buf_text (bufs w) None bytes))"
    by (simp add: genReceivePayload_def)
  then have w': "e = None" "\<exists>m. w' = push r m (next_uuid w) \<and> fld m ''topic'' = topic \<and>
      fld m ''payload'' = JStr (buf_text (bufs w) None bytes)"
    using assms(3) by (auto simp: onmessage_def payload_js_def Let_def)
  then obtain m where m: "w' = push r m (next_uuid w)" "fld m ''topic'' = topic"
    "fld m ''payload'' = JStr (buf_text (bufs w) None bytes)"
    by blast
  have "msgs_heap w' (d_messages (dlgts w r)) = msgs_heap w (d_messages (dlgts w r)) @ [m]"
    by (simp add: m(1) push_def Let_def world_updates update_if_shown_def updateStore_def thing_event_of_def)
  with w'(1) m show ?thesis by blast
qed

theorem received_messages_are_kept_witness:
  "\<exists>w' m. onmessage 0 (JStr ''t'') ''hi'' (JNum 0) (JBool False) JUndef demo_connected = (w', None) \<and>
     msgs_heap w' 0 = [m] \<and> fld m ''payload'' = JStr ''hi''"
proof -
  obtain w' e where "onmessage 0 (JStr ''t'') ''hi'' (JNum 0) (JBool False) JUndef demo_connected = (w', e)"
    by fastforce
  with received_messages_are_kept [OF demo_reach _ this] show ?thesis
    by (auto simp: demo_world_def)
qed

text \<open>
  A client that only ever reports attempts to reconnect is ended on the fourth one: three
  warnings and three attempts, then a request to end the client and nothing else.
\<close>

theorem gives_up_after_three_attempts:
  assumes "d_client (dlgts w r) = Some c" and "d_retryTimes (dlgts w r) = 0"
  shows "let w3 = onreconnect r (onreconnect r (onreconnect r w)) in
    requests w3 = requests w \<and> d_retryTimes (dlgts w3 r) = 3 \<and>
    shown w3 = shown w @ replicate 3 (notifyWarn ''reconnecting...'') \<and>
    onreconnect r w3 = ask (REnd c) (PEnd r EndGiveUp) w3"
  using assms by (simp add: onreconnect_def disconnect_def Let_def world_updates numeral_3_eq_3)

theorem gives_up_after_three_attempts_witness:
  "requests (onreconnect 0 (onreconnect 0 (onreconnect 0 (onreconnect 0 demo_connected)))) = [REnd 0]"
  using gives_up_after_three_attempts [of demo_connected 0 0] by (simp add: Let_def ask_def)

text \<open>
  Replacing the delegate of a connected connection loses the new one: its entry in the registry
  is deleted when the client of the old delegate has ended, or has failed to end.
\<close>

theorem replaced_delegate_is_lost:
  assumes "olookup (registry w) k = Some r" and "d_client (dlgts w r) = Some c"
    and "k = js_str (opt_get (cfgs w cr) ''id'')" and "k = js_str (d_id (dlgts w r))"
    and "r < next_dlgt w"
    and "createDelegate cr w = (r', w')"
  shows "olookup (registry w') k = Some r' \<and> PEnd r EndDestroy \<in> set (pend w') \<and>
    olookup (registry (fst (end_done r EndDestroy err w'))) k = None"
proof -
  have w: "destroy r w = ask (REnd c) (PEnd r EndDestroy) w"
    using assms(2) by (simp add: destroy_cases)
  have w': "w' = (new_delegate (cfgs w cr) (deleteDelegateById (opt_get (cfgs w cr) ''id'') w))
      \<lparr>registry := oput k r' (registry (new_delegate (cfgs w cr)
         (deleteDelegateById (opt_get (cfgs w cr) ''id'') w)))\<rparr>"
    using assms(3,6) by (auto simp: createDelegate_def Let_def)
  have "pend w' = pend w @ [PEnd r EndDestroy]"
    using assms(1,3) by (simp add: w' new_delegate_def deleteDelegateById_def Let_def w ask_def)
  moreover have "dlgts w' r = dlgts w r"
    using assms(5) by (simp add: w' new_delegate_def)
  moreover have "olookup (registry w') k = Some r'" by (simp add: w' obj.lookup_put)
  ultimately show ?thesis
    using assms(4)
    by (cases err) (auto simp: end_done_def Let_def world_updates obj.lookup_del)
qed

theorem replaced_delegate_is_lost_witness:
  "olookup (registry (fst (end_done 0 EndDestroy None (snd (createDelegate 0 demo_connected))))) ''c1'' = None"
proof -
  obtain r' w' where c: "createDelegate 0 demo_connected = (r', w')" by (cases "createDelegate 0 demo_connected")
  have "olookup (registry (fst (end_done 0 EndDestroy None w'))) ''c1'' = None"
    by (rule conjunct2 [OF conjunct2 [OF replaced_delegate_is_lost [OF _ _ _ _ _ c]]]) (simp_all add: demo_conf_def)
  with c show ?thesis by simp
qed

section \<open>Outcomes of requests\<close>

lemma olookup_mark_subs:
  "olookup (mark_subs b ts m) t = (if t \<in> set ts then Some b else olookup m t)"
  using obj.lookup_fold_put [of "\<lambda>_. b" ts m t] by (simp add: mark_subs_def)

lemma updateStore_subs [simp]: "subs_heap (updateStore r w) = subs_heap w"
  by (simp add: updateStore_def on_mqtt_def)

lemma updateStore_shared:
  "olookup (delegateStates (mqtt (store (updateStore r w)))) (js_str (d_id (dlgts w r))) =
    Some (shared_of (dlgts w r))"
  by (simp add: updateStore_def on_mqtt_def updateDelegateStates_def obj.lookup_put)



text \<open>
  A subscription to a map of topics has no such check: without an error of the library all its
  topics count as subscribed and the caller is told of success, whatever the broker granted.
\<close>

theorem bulk_subscription_marks_all:
  assumes "onsubmap r (JObj m) (Some f) None w = (w', k, e)"
  shows "k = Some (f, None) \<and> e = None \<and> (\<forall>t. olookup (subs_heap w' (d_subs (dlgts w r))) t =
    (if t \<in> set (okeys m) then Some True else olookup (subs_heap w (d_subs (dlgts w r))) t))"
  using assms by (auto simp: onsubmap_def answer_def olookup_mark_subs on_subs_def Let_def)

theorem bulk_subscription_marks_all_witness:
  "\<exists>w'. onsubmap 0 (JObj [(''a'', JNull)]) (Some ()) None demo_connected = (w', Some ((), None), None) \<and>
    olookup (subs_heap w' 0) ''a'' = Some True"
proof -
  obtain w' k e where o: "onsubmap 0 (JObj [(''a'', JNull)]) (Some ()) None demo_connected = (w', k, e)"
    by (metis prod_cases3)
  from bulk_subscription_marks_all [OF this] o show ?thesis by (auto simp: okeys_def)
qed

text \<open>
  A message is handed to the MQTT client only while that client is connected, and then exactly
  one publish request is made, for the topic that was asked for.
\<close>

theorem publishes_only_when_connected:
  assumes "requests (fst (pub r topic paytype payload opts cb w)) \<noteq> requests w"
  shows "isConnected w r \<and> (\<exists>c p qs. d_client (dlgts w r) = Some c \<and>
    requests (fst (pub r topic paytype payload opts cb w)) = requests w @ [RPublish c topic p qs])"
  using assms
  by (auto simp: pub_def notify_def ask_def split: option.splits if_splits sum.splits bool.splits)

theorem publishes_only_when_connected_witness:
  "isConnected demo_connected 0 \<and>
   requests (fst (pub 0 (JStr ''a/b'') JUndef (JStr ''x'') (JObj []) None demo_connected)) \<noteq> []"
  using publishes_only_when_connected [of 0 "JStr ''a/b''" JUndef "JStr ''x''" "JObj []" None demo_connected]
    demo_pub by simp

end
