(* ===== verification/UseMqtt.thy ===== *)
theory UseMqtt
  imports DelegateProps
begin

text \<open>
  The connections as the components of the web client use them (\<open>web/src/reactives/useMqtt.js\<close>):
  configurations are looked up, added, replaced and removed, persisted after every change, and the
  operations of a connection go through its delegate. The callbacks handed to the delegates are
  values of \<open>ucb\<close>, called by \<open>run_call\<close>; they carry the callback of the component (\<open>'k\<close>).
  Configurations are objects the program shares and mutates, so they are references; the parts of
  a configuration (its subscriptions, the entries of a list passed in) are values, so that an entry
  shared by two lists is two entries here.
\<close>

datatype 'k ucb =
    UPublish cref js js "'k option"
  | USubscribe cref js js bool "js list option" "'k option"
  | UUnsubscribe "'k option"

type_synonym 'k mworld = "'k ucb world"

section \<open>Configurations and connections\<close>

definition configs_of :: "'cb world \<Rightarrow> cref list" where
  "configs_of w = connectionConfigs (mqtt (store w))"

definition conf_id :: "'cb world \<Rightarrow> cref \<Rightarrow> js" where
  "conf_id w cr = opt_get (cfgs w cr) ''id''"

definition getConnConfig :: "js \<Rightarrow> 'cb world \<Rightarrow> cref option" where
  "getConnConfig i w = List.find (\<lambda>cr. conf_id w cr = i) (configs_of w)"

definition getConnConfigsByClientId :: "js \<Rightarrow> 'cb world \<Rightarrow> cref list" where
  "getConnConfigsByClientId clientId w =
     filter (\<lambda>cr. opt_get (cfgs w cr) ''clientId'' = clientId) (configs_of w)"

text \<open>
  What a component sees of a connection: its configuration, and the members of the configuration
  overridden by those of the shared state.
\<close>

record conn_view =
  cv_config :: cref
  cv_fields :: js
  cv_shared :: "shared option"

definition view_of :: "'cb world \<Rightarrow> cref \<Rightarrow> conn_view" where
  "view_of w cr = \<lparr>cv_config = cr, cv_fields = cfgs w cr,
     cv_shared = olookup (delegateStates (mqtt (store w))) (js_str (conf_id w cr))\<rparr>"

definition connections :: "'cb world \<Rightarrow> conn_view list" where
  "connections w = map (view_of w) (configs_of w)"

text \<open>The selected connection; its configuration is missing where no configuration has the id.\<close>

definition selectedConn :: "'cb world \<Rightarrow> (cref option \<times> shared option) option" where
  "selectedConn w =
     (let i = currentConnId (mqtt (store w)) in
      if truthy i then Some (getConnConfig i w, olookup (delegateStates (mqtt (store w))) (js_str i))
      else None)"

definition view_connected :: "'cb world \<Rightarrow> conn_view \<Rightarrow> bool" where
  "view_connected w v = (case cv_shared v of
     Some (SharedFull i c sr mr u t) \<Rightarrow> cl_connected (clients w c) | _ \<Rightarrow> False)"

section \<open>Changing the configurations\<close>

definition persist :: "cref list \<Rightarrow> 'cb world \<Rightarrow> 'cb world" where
  "persist configs w =
     (case updateConnConfigs (cfgs w) configs (mqtt (store w), local_store (store w)) of
        (m, ls) \<Rightarrow> w\<lparr>store := (store w)\<lparr>mqtt := m, local_store := ls\<rparr>\<rparr>)"

definition set_field :: "cref \<Rightarrow> string \<Rightarrow> js \<Rightarrow> 'cb world \<Rightarrow> 'cb world" where
  "set_field cr k v w = w\<lparr>cfgs := (cfgs w)(cr := (case cfgs w cr of JObj m \<Rightarrow> JObj (oput k v m) | x \<Rightarrow> x))\<rparr>"

definition new_conf :: "js \<Rightarrow> 'cb world \<Rightarrow> cref \<times> 'cb world" where
  "new_conf c w = (next_cfg w, w\<lparr>cfgs := (cfgs w)(next_cfg w := c), next_cfg := Suc (next_cfg w)\<rparr>)"

definition disconn :: "cref \<Rightarrow> 'cb world \<Rightarrow> 'cb world" where
  "disconn cr w =
     (if connecting (mqtt (store w)) then w
      else (case getDelegateById (conf_id w cr) (Some cr) w of
          (Some r, w) \<Rightarrow> cancel r w | (None, w) \<Rightarrow> w))"

text \<open>The index of a configuration; \<open>None\<close> is the index -1.\<close>

definition find_index :: "('a \<Rightarrow> bool) \<Rightarrow> 'a list \<Rightarrow> nat option" where
  "find_index P xs = List.find (\<lambda>i. P (xs ! i)) [0..<length xs]"

text \<open>Assigning the element at index -1 of a list adds a member that the list operations ignore.\<close>

definition setConnConfig :: "js \<Rightarrow> cref \<Rightarrow> 'cb world \<Rightarrow> 'cb world" where
  "setConnConfig i cr w =
     (let configs = configs_of w in
      if \<not> truthy i then
        (let w = disconn cr (set_field cr ''id'' (JStr (genConnectionId (fresh_uuid w))) (next_uuid w))
         in persist (configs @ [cr]) w)
      else persist (case find_index (\<lambda>c. conf_id w c = i) configs of
          Some n \<Rightarrow> configs[n := cr] | None \<Rightarrow> configs) w)"

definition selectConnection :: "cref \<Rightarrow> 'cb world \<Rightarrow> 'cb world" where
  "selectConnection cr w =
     (case getDelegateById (conf_id w cr) (Some cr) w of
        (Some r, w) \<Rightarrow> on_mqtt (\<lambda>m. m\<lparr>currentConnId := conf_id w cr\<rparr>) (updateStore r (read r w))
      | (None, w) \<Rightarrow> w)"

text \<open>\<open>splice(index, 1)\<close>: the index -1 is the last element.\<close>

definition splice1 :: "nat option \<Rightarrow> 'a list \<Rightarrow> 'a list" where
  "splice1 i xs = (case i of Some n \<Rightarrow> take n xs @ drop (Suc n) xs | None \<Rightarrow> butlast xs)"

definition removeConnection :: "js \<Rightarrow> 'cb world \<Rightarrow> 'cb world" where
  "removeConnection i w =
     (let configs = splice1 (find_index (\<lambda>c. conf_id w c = i) (configs_of w)) (configs_of w);
          w = (case configs of
              c # _ \<Rightarrow> selectConnection c w
            | [] \<Rightarrow> on_mqtt (\<lambda>m. m\<lparr>currentConnId := JNull\<rparr>) w);
          w = on_mqtt (updateDelegateStates (ForDelete i)) (persist configs w)
      in case getDelegateById i None w of (Some r, w) \<Rightarrow> destroy r w | (None, w) \<Rightarrow> w)"

definition removeConnectionsByClientId :: "js \<Rightarrow> 'cb world \<Rightarrow> 'cb world" where
  "removeConnectionsByClientId clientId w =
     fold (\<lambda>cr w. removeConnection (conf_id w cr) w) (getConnConfigsByClientId clientId w) w"

section \<open>Operations of a connection\<close>

definition use_connect :: "cref \<Rightarrow> string \<Rightarrow> 'cb world \<Rightarrow> 'cb world \<times> js_error option" where
  "use_connect cr connectedToken w =
     (if connecting (mqtt (store w)) then (w, None)
      else (case getDelegateById (conf_id w cr) (Some cr) w of
          (Some r, w) \<Rightarrow> connect r cr connectedToken w | (None, w) \<Rightarrow> (w, None)))"

definition publish :: "cref \<Rightarrow> js \<Rightarrow> 'k option \<Rightarrow> 'k mworld \<Rightarrow> 'k mworld \<times> js_error option" where
  "publish cr options cb w =
     (let get = opt_get options in
      case getDelegateById (conf_id w cr) (Some cr) w of
        (Some r, w) \<Rightarrow> pub r (get ''topic'') (get ''paytype'') (get ''payload'')
          (JObj [(''qos'', get ''qos''), (''retain'', get ''retain''), (''properties'', get ''properties'')])
          (Some (UPublish cr (get ''qos'') (get ''retain'') cb)) w
      | (None, w) \<Rightarrow> (w, None))"

definition published :: "cref \<Rightarrow> js \<Rightarrow> js \<Rightarrow> 'cb world \<Rightarrow> 'cb world" where
  "published cr qos retain w =
     (case new_conf (JObj (oput ''pushProps'' (JObj [(''qos'', qos), (''retain'', retain)])
              (spread (cfgs w cr) []))) w of
        (cr', w) \<Rightarrow> setConnConfig (conf_id w cr) cr' w)"

definition subscribe :: "cref \<Rightarrow> js \<Rightarrow> js \<Rightarrow> bool \<Rightarrow> js list option \<Rightarrow> 'k option \<Rightarrow> 'k mworld \<Rightarrow> 'k mworld" where
  "subscribe cr topic opts multiple configs cb w =
     (case getDelegateById (conf_id w cr) (Some cr) w of
        (Some r, w) \<Rightarrow> sub r topic (if multiple then JNull else opts)
          (Some (USubscribe cr topic opts multiple configs cb)) w
      | (None, w) \<Rightarrow> w)"

definition put_js :: "string \<Rightarrow> js \<Rightarrow> js \<Rightarrow> js" where
  "put_js k v x = (case x of JObj m \<Rightarrow> JObj (oput k v m) | _ \<Rightarrow> x)"

definition with_topic :: "js \<Rightarrow> js \<Rightarrow> bool" where
  "with_topic t s \<longleftrightarrow> opt_get s ''topic'' = t"

text \<open>
  The loop over the subscribed topics: an existing subscription gets the new options, a topic with
  a configuration is added under a fresh id (\<open>n\<close> counts the UUIDs used).
\<close>

fun record_topics ::
  "(nat \<Rightarrow> string) \<Rightarrow> (js \<Rightarrow> js) \<Rightarrow> js list option \<Rightarrow> js list \<Rightarrow> js list \<times> nat \<Rightarrow> js list \<times> nat" where
  "record_topics uuid opts_for configs [] (subs, n) = (subs, n)"
| "record_topics uuid opts_for configs (t # ts) (subs, n) =
     (case find_index (with_topic t) subs of
        Some i \<Rightarrow> record_topics uuid opts_for configs ts (subs[i := put_js ''opts'' (opts_for t) (subs ! i)], n)
      | None \<Rightarrow> (case List.find (with_topic t) (case configs of Some cs \<Rightarrow> cs | None \<Rightarrow> []) of
            Some conf \<Rightarrow> record_topics uuid opts_for configs ts
              (subs @ [put_js ''id'' (JStr (genSubscriptionId (uuid n))) conf], Suc n)
          | None \<Rightarrow> record_topics uuid opts_for configs ts (subs, n)))"

definition topics_of :: "bool \<Rightarrow> js \<Rightarrow> js list res" where
  "topics_of multiple topic =
     (if multiple then res_bind (js_keys topic) (\<lambda>ks. Inr (map JStr ks))
      else (case topic of JStr _ \<Rightarrow> Inr [topic] | JArr ts \<Rightarrow> Inr ts | _ \<Rightarrow> Inl TypeError))"

definition subscribed ::
  "cref \<Rightarrow> js \<Rightarrow> js \<Rightarrow> bool \<Rightarrow> js list option \<Rightarrow> 'cb world \<Rightarrow> 'cb world \<times> js_error option" where
  "subscribed cr topic opts multiple configs w =
     (let w = set_field cr ''subscriptions'' (js_or (opt_get (cfgs w cr) ''subscriptions'') (JArr [])) w in
      case topics_of multiple topic of
        Inl e \<Rightarrow> (w, Some e)
      | Inr [] \<Rightarrow> (setConnConfig (conf_id w cr) cr w, None)
      | Inr ts \<Rightarrow> (case opt_get (cfgs w cr) ''subscriptions'' of
            JArr subs \<Rightarrow>
              (let (subs', n) = record_topics (uuids w) (\<lambda>t. if multiple then opt_get topic (js_str t) else opts)
                     configs ts (subs, uuid_count w);
                   w = set_field cr ''subscriptions'' (JArr subs') (w\<lparr>uuid_count := n\<rparr>)
               in (setConnConfig (conf_id w cr) cr w, None))
          | _ \<Rightarrow> (w, Some TypeError)))"

definition unsubscribe :: "cref \<Rightarrow> js \<Rightarrow> 'k option \<Rightarrow> 'k mworld \<Rightarrow> 'k mworld" where
  "unsubscribe cr options cb w =
     (let topics = (case options of JStr _ \<Rightarrow> [options] | JArr ts \<Rightarrow> ts | _ \<Rightarrow> []) in
      if topics \<noteq> [] then
        (case getDelegateById (conf_id w cr) (Some cr) w of
           (Some r, w) \<Rightarrow> unsub r topics (Some (UUnsubscribe cb)) w | (None, w) \<Rightarrow> w)
      else w)"

definition clearMessages :: "cref \<Rightarrow> 'cb world \<Rightarrow> 'cb world" where
  "clearMessages cr w =
     (case getDelegateById (conf_id w cr) (Some cr) w of (Some r, w) \<Rightarrow> clear r w | (None, w) \<Rightarrow> w)"

definition use_removeTopic :: "cref \<Rightarrow> js \<Rightarrow> 'cb world \<Rightarrow> 'cb world" where
  "use_removeTopic cr topic w =
     (case getDelegateById (conf_id w cr) None w of (Some r, w) \<Rightarrow> removeTopic r topic w | (None, w) \<Rightarrow> w)"

text \<open>Calling back: what the callbacks of this module do before they call the component's own.\<close>

definition run_call :: "'k ucb call \<Rightarrow> 'k mworld \<Rightarrow> 'k mworld \<times> 'k call \<times> js_error option" where
  "run_call call w =
     (case call of
        None \<Rightarrow> (w, None, None)
      | Some (UPublish cr qos retain cb, err) \<Rightarrow>
          ((case err of None \<Rightarrow> published cr qos retain w | Some _ \<Rightarrow> w), map_option (\<lambda>k. (k, err)) cb, None)
      | Some (USubscribe cr topic opts multiple configs cb, err) \<Rightarrow>
          (case err of
             Some _ \<Rightarrow> (w, map_option (\<lambda>k. (k, err)) cb, None)
           | None \<Rightarrow> (case subscribed cr topic opts multiple configs w of
                 (w, Some e) \<Rightarrow> (w, None, Some e)
               | (w, None) \<Rightarrow> (w, map_option (\<lambda>k. (k, None)) cb, None)))
      | Some (UUnsubscribe cb, err) \<Rightarrow> (w, map_option (\<lambda>k. (k, err)) cb, None))"

end
