(* ===== verification/UseMqttProps.thy ===== *)
theory UseMqttProps
  imports UseMqtt
begin

text \<open>
  What the operations on connections do to the list of configurations, to what is persisted, and to
  the subscriptions of a configuration.
\<close>

section \<open>What the operations leave alone\<close>

lemma find_index_Some:
  "find_index P xs = Some n \<longleftrightarrow> n < length xs \<and> P (xs ! n) \<and> (\<forall>m<n. \<not> P (xs ! m))"
  by (auto simp: find_index_def find_Some_iff)

lemma find_index_None: "find_index P xs = None \<longleftrightarrow> (\<forall>x\<in>set xs. \<not> P x)"
  by (auto simp: find_index_def find_None_iff all_set_conv_all_nth)

lemma configs_on_mqtt:
  "(\<And>m. connectionConfigs (f m) = connectionConfigs m) \<Longrightarrow> configs_of (on_mqtt f w) = configs_of w"
  by (simp add: configs_of_def on_mqtt_def)

lemma configs_updateStore [simp]: "configs_of (updateStore r w) = configs_of w"
  by (simp add: updateStore_def configs_on_mqtt updateDelegateStates_def)

lemma configs_read [simp]: "configs_of (read r w) = configs_of w"
  by (simp add: read_def configs_of_def upd_d_def)

lemma store_createDelegate [simp]:
  "store (snd (createDelegate cr w)) = store w" "cfgs (snd (createDelegate cr w)) = cfgs w"
  by (simp_all add: createDelegate_def new_delegate_def Let_def)

lemma getDelegateById_keeps:
  assumes "getDelegateById i c w = (r, w')"
  shows "store w' = store w \<and> cfgs w' = cfgs w \<and> (c = None \<or> r \<noteq> None)"
proof (cases "olookup (registry w) (js_str i)")
  case None
  show ?thesis
  proof (cases c)
    case (Some cr)
    obtain q v where c: "createDelegate cr w = (q, v)" by (cases "createDelegate cr w")
    with store_createDelegate [of cr w] have "store v = store w" "cfgs v = cfgs w" by simp_all
    with assms None Some c show ?thesis by (auto simp: getDelegateById_def)
  qed (use assms None in \<open>simp add: getDelegateById_def\<close>)
qed (use assms in \<open>auto simp: getDelegateById_def\<close>)

lemma configs_persist [simp]: "configs_of (persist configs w) = configs"
  by (simp add: persist_def updateConnConfigs_def setConnConfigs_def configs_of_def)

lemma persist_keeps [simp]:
  "cfgs (persist configs w) = cfgs w" "registry (persist configs w) = registry w"
  "dlgts (persist configs w) = dlgts w"
  "delegateStates (mqtt (store (persist configs w))) = delegateStates (mqtt (store w))"
  "currentConnId (mqtt (store (persist configs w))) = currentConnId (mqtt (store w))"
  "local_store (store (persist configs w)) = storeConnections (JArr (map (cfgs w) configs)) (local_store (store w))"
  by (simp_all add: persist_def updateConnConfigs_def setConnConfigs_def)

lemma selectConnection_keeps:
  "configs_of (selectConnection cr w) = configs_of w"
  "currentConnId (mqtt (store (selectConnection cr w))) = conf_id w cr"
  "cfgs (selectConnection cr w) = cfgs w"
proof -
  obtain r w' where g: "getDelegateById (conf_id w cr) (Some cr) w = (Some r, w')"
    using getDelegateById_keeps by (metis option.exhaust prod.exhaust option.distinct(1))
  then have k: "store w' = store w" "cfgs w' = cfgs w" "conf_id w' cr = conf_id w cr"
    using getDelegateById_keeps [OF g] by (simp_all add: conf_id_def)
  show "configs_of (selectConnection cr w) = configs_of w"
    using k by (simp add: selectConnection_def g configs_on_mqtt) (simp add: configs_of_def)
  show "currentConnId (mqtt (store (selectConnection cr w))) = conf_id w cr"
    using k by (simp add: selectConnection_def g on_mqtt_def)
  show "cfgs (selectConnection cr w) = cfgs w"
    using k by (simp add: selectConnection_def g on_mqtt_def updateStore_def read_def upd_d_def)
qed

lemma demo_configs [simp]: "configs_of demo_connected = [0]" "conf_id demo_connected 0 = JStr ''c1''"
  by (simp_all add: configs_of_def conf_id_def demo_conf_def demo_store_def setConnecting_def)

section \<open>Adding, replacing and removing configurations\<close>

text \<open>
  C20. Saving a configuration under an existing id replaces exactly that entry of the list, and the
  next page load restores the new list.
\<close>

theorem setConnConfig_replaces:
  assumes "truthy i" and "find_index (\<lambda>c. conf_id w c = i) (configs_of w) = Some n"
    and "wf_js (JArr (map (cfgs w) ((configs_of w)[n := cr])))"
  shows "configs_of (setConnConfig i cr w) = (configs_of w)[n := cr] \<and>
    restoreConnections (local_store (store (setConnConfig i cr w))) =
      json_clean (JArr (map (cfgs w) ((configs_of w)[n := cr])))"
  using assms by (simp add: setConnConfig_def Let_def restore_stored del: json_clean.simps)

theorem setConnConfig_replaces_witness:
  "configs_of (setConnConfig (JStr ''c1'') 7 demo_connected) = [7]"
  using setConnConfig_replaces [of "JStr ''c1''" demo_connected 0 7]
  by (simp add: find_index_Some demo_conf_def wf_obj_def)

text \<open>
  C21. Removing a known connection takes out exactly its entry, forgets its shared state, and selects
  the first of the connections that are left.
\<close>

theorem removeConnection_removes:
  assumes "find_index (\<lambda>c. conf_id w c = i) (configs_of w) = Some n"
  shows "configs_of (removeConnection i w) = take n (configs_of w) @ drop (Suc n) (configs_of w) \<and>
    olookup (delegateStates (mqtt (store (removeConnection i w)))) (js_str i) = None \<and>
    currentConnId (mqtt (store (removeConnection i w))) =
      (case take n (configs_of w) @ drop (Suc n) (configs_of w) of [] \<Rightarrow> JNull | c # _ \<Rightarrow> conf_id w c)"
proof -
  let ?configs = "take n (configs_of w) @ drop (Suc n) (configs_of w)"
  let ?w1 = "case ?configs of c # _ \<Rightarrow> selectConnection c w
    | [] \<Rightarrow> on_mqtt (\<lambda>m. m\<lparr>currentConnId := JNull\<rparr>) w"
  let ?w2 = "on_mqtt (updateDelegateStates (ForDelete i)) (persist ?configs ?w1)"
  obtain r w3 where g: "getDelegateById i None ?w2 = (r, w3)" by fastforce
  have "removeConnection i w = (case r of Some q \<Rightarrow> destroy q w3 | None \<Rightarrow> w3)"
    using assms g by (auto simp: removeConnection_def Let_def splice1_def split: option.split)
  then have store: "store (removeConnection i w) = store ?w2"
    using getDelegateById_keeps [OF g] by (simp split: option.split)
  have "currentConnId (mqtt (store (case cs of c # _ \<Rightarrow> selectConnection c w
      | [] \<Rightarrow> on_mqtt (\<lambda>m. m\<lparr>currentConnId := JNull\<rparr>) w))) =
    (case cs of [] \<Rightarrow> JNull | c # _ \<Rightarrow> conf_id w c)" for cs
    by (cases cs) (simp_all add: selectConnection_keeps on_mqtt_def)
  moreover have "currentConnId (mqtt (store ?w2)) = currentConnId (mqtt (store ?w1))"
    by (simp add: on_mqtt_def updateDelegateStates_def)
  moreover have "configs_of ?w2 = ?configs"
    by (simp add: configs_on_mqtt updateDelegateStates_def)
  moreover have "olookup (delegateStates (mqtt (store ?w2))) (js_str i) = None"
    by (simp add: on_mqtt_def updateDelegateStates_def obj.lookup_del)
  ultimately show ?thesis by (simp add: store configs_of_def)
qed

theorem removeConnection_removes_witness:
  "configs_of (removeConnection (JStr ''c1'') demo_connected) = []"
  using removeConnection_removes [of demo_connected "JStr ''c1''" 0] by (simp add: find_index_Some)

text \<open>
  Removing a connection that is not in the list removes the last connection instead.
\<close>

theorem removeConnection_unknown_removes_last:
  assumes "find_index (\<lambda>c. conf_id w c = i) (configs_of w) = None"
  shows "configs_of (removeConnection i w) = butlast (configs_of w)"
proof -
  let ?w1 = "case butlast (configs_of w) of c # _ \<Rightarrow> selectConnection c w
    | [] \<Rightarrow> on_mqtt (\<lambda>m. m\<lparr>currentConnId := JNull\<rparr>) w"
  let ?w2 = "on_mqtt (updateDelegateStates (ForDelete i)) (persist (butlast (configs_of w)) ?w1)"
  obtain r w3 where g: "getDelegateById i None ?w2 = (r, w3)" by fastforce
  have "removeConnection i w = (case r of Some q \<Rightarrow> destroy q w3 | None \<Rightarrow> w3)"
    using assms g by (auto simp: removeConnection_def Let_def splice1_def split: option.split)
  then have "store (removeConnection i w) = store ?w2"
    using getDelegateById_keeps [OF g] by (simp split: option.split)
  moreover have "configs_of ?w2 = butlast (configs_of w)"
    by (simp add: configs_on_mqtt updateDelegateStates_def)
  ultimately show ?thesis by (simp add: configs_of_def)
qed

theorem removeConnection_unknown_removes_last_witness:
  "configs_of (removeConnection (JStr ''nope'') demo_connected) = []"
  using removeConnection_unknown_removes_last [of demo_connected "JStr ''nope''"]
  by (simp add: find_index_None)

section \<open>Recording subscriptions\<close>

definition topic_of :: "js \<Rightarrow> js" where
  "topic_of s = opt_get s ''topic''"

lemma topic_of_put [simp]: "k \<noteq> ''topic'' \<Longrightarrow> topic_of (put_js k v s) = topic_of s"
  by (cases s) (simp_all add: topic_of_def put_js_def dict_simps)

lemma with_topic_iff: "with_topic t s \<longleftrightarrow> topic_of s = t"
  by (simp add: with_topic_def topic_of_def)

lemma find_SomeD: "List.find P xs = Some x \<Longrightarrow> P x \<and> x \<in> set xs"
  by (auto simp: find_Some_iff)

lemma record_topics_topics:
  assumes "record_topics uuid opts configs ts (subs, n) = (subs', n')"
  shows "set (map topic_of subs') = set (map topic_of subs) \<union>
      {t \<in> set ts. t \<in> set (map topic_of (case configs of Some cs \<Rightarrow> cs | None \<Rightarrow> []))} \<and>
    (distinct (map topic_of subs) \<longrightarrow> distinct (map topic_of subs'))"
  using assms
proof (induction ts arbitrary: subs n)
  case (Cons t ts)
  let ?cs = "case configs of Some cs \<Rightarrow> cs | None \<Rightarrow> []"
  show ?case
  proof (cases "find_index (with_topic t) subs")
    case (Some i)
    then have i: "i < length subs" "topic_of (subs ! i) = t"
      by (simp_all add: find_index_Some with_topic_iff)
    let ?subs = "subs[i := put_js ''opts'' (opts t) (subs ! i)]"
    have same: "map topic_of ?subs = map topic_of subs"
      using i by (simp add: map_update list_update_same_conv)
    have "t \<in> set (map topic_of subs)" using i nth_mem by force
    moreover have "record_topics uuid opts configs ts (?subs, n) = (subs', n')"
      using Cons.prems Some by simp
    note Cons.IH [OF this, unfolded same]
    ultimately show ?thesis by auto
  next
    case None
    then have new: "t \<notin> set (map topic_of subs)"
      by (auto simp: find_index_None with_topic_iff)
    show ?thesis
    proof (cases "List.find (with_topic t) ?cs")
      case find: None
      then have "t \<notin> set (map topic_of ?cs)" by (auto simp: find_None_iff with_topic_iff)
      with Cons None find show ?thesis by auto
    next
      case (Some conf)
      then have conf: "topic_of conf = t" "conf \<in> set ?cs"
        using find_SomeD [OF Some] by (simp_all add: with_topic_iff)
      let ?subs = "subs @ [put_js ''id'' (JStr (genSubscriptionId (uuid n))) conf]"
      have "record_topics uuid opts configs ts (?subs, Suc n) = (subs', n')"
        using Cons.prems None Some by simp
      from Cons.IH [OF this] conf new show ?thesis by auto
    qed
  qed
qed auto

text \<open>What the callback of a subscription does to the configuration, for a list of topics.\<close>

lemma subscribed_shape:
  assumes "subscribed cr (JArr ts) opts False confs w = (w', e)"
    and "cfgs w cr = JObj c" and "oget c ''subscriptions'' = JArr subs"
  shows "e = None \<and> (\<exists>u d subs' m m'. w' = setConnConfig (conf_id w cr) cr u \<and>
    (\<forall>x. x \<noteq> cr \<longrightarrow> cfgs u x = cfgs w x) \<and> cfgs u cr = JObj d \<and> configs_of u = configs_of w \<and>
    oget d ''subscriptions'' = JArr subs' \<and> (\<forall>k. k \<noteq> ''subscriptions'' \<longrightarrow> oget d k = oget c k) \<and>
    record_topics (uuids w) (\<lambda>_. opts) confs ts (subs, m) = (subs', m'))"
proof -
  let ?w1 = "set_field cr ''subscriptions'' (JArr subs) w"
  have w1: "js_or (opt_get (cfgs w cr) ''subscriptions'') (JArr []) = JArr subs"
    "opt_get (cfgs ?w1 cr) ''subscriptions'' = JArr subs" "conf_id ?w1 cr = conf_id w cr"
    "cfgs ?w1 cr = JObj (oput ''subscriptions'' (JArr subs) c)" "uuids ?w1 = uuids w"
    using assms(2,3) by (simp_all add: js_or_def set_field_def dict_simps conf_id_def)
  have other: "cfgs (set_field cr k v u) x = cfgs u x" "configs_of (set_field cr k v u) = configs_of u"
    if "x \<noteq> cr" for k v x and u :: "'a world"
    using that by (simp_all add: set_field_def configs_of_def)
  have same_list: "configs_of (set_field cr k v u) = configs_of u" for k v and u :: "'a world"
    by (simp add: set_field_def configs_of_def)
  obtain subs' n where rec: "record_topics (uuids w) (\<lambda>_. opts) confs ts (subs, uuid_count ?w1) = (subs', n)"
    by fastforce
  let ?w2 = "set_field cr ''subscriptions'' (JArr subs') (?w1\<lparr>uuid_count := n\<rparr>)"
  have w2: "cfgs ?w2 cr = JObj (oput ''subscriptions'' (JArr subs') (oput ''subscriptions'' (JArr subs) c))"
    "conf_id ?w2 cr = conf_id w cr" "configs_of ?w2 = configs_of w"
    using w1(3,4) by (simp_all add: set_field_def conf_id_def configs_of_def dict_simps)
  show ?thesis
  proof (cases ts)
    case Nil
    have "w' = setConnConfig (conf_id w cr) cr ?w1" "e = None"
      using assms(1) by (simp_all add: subscribed_def w1 topics_of_def Nil)
    moreover have "record_topics (uuids w) (\<lambda>_. opts) confs ts (subs, 0) = (subs, 0)"
      by (simp add: Nil)
    ultimately show ?thesis
      using w1(4) other(1) same_list [of "''subscriptions''" "JArr subs" w] by (fastforce simp: dict_simps)
  next
    case (Cons t ts')
    have "w' = setConnConfig (conf_id w cr) cr ?w2" "e = None"
      using assms(1) rec w2(2)
      by (simp_all add: subscribed_def w1 topics_of_def Cons Let_def dict_simps del: record_topics.simps)
    moreover have "cfgs ?w2 x = cfgs w x" if "x \<noteq> cr" for x
      using that by (simp add: set_field_def)
    ultimately show ?thesis
      using w2(1,3) rec by (intro conjI exI [of _ ?w2] exI) (auto simp: dict_simps)
  qed
qed

lemma setConnConfig_cfgs: "truthy i \<Longrightarrow> cfgs (setConnConfig i cr u) = cfgs u"
  by (simp add: setConnConfig_def Let_def)


lemma oget_spread: "oget (spread (JObj c) []) k = oget c k"
proof -
  have "olookup (fold (\<lambda>k. oput k (oget c k)) (okeys c) []) k =
      (if k \<in> set (okeys c) then Some (oget c k) else olookup [] k)"
    by (rule obj.lookup_fold_put)
  then show ?thesis
    by (auto simp: spread_def oget_def obj.keys_lookup split: option.split)
qed

lemma find_index_cong:
  assumes "find_index P xs = Some n" and "\<And>m. m < n \<Longrightarrow> \<not> Q (ys ! m)" and "Q (ys ! n)"
    and "length ys = length xs"
  shows "find_index Q ys = Some n"
  using assms by (simp add: find_index_Some)

lemma configs_setConnConfig:
  "truthy i \<Longrightarrow> find_index (\<lambda>c. conf_id u c = i) (configs_of u) = Some n \<Longrightarrow>
   configs_of (setConnConfig i cr u) = (configs_of u)[n := cr]"
  by (simp add: setConnConfig_def Let_def)

lemma published_shape:
  assumes "find_index (\<lambda>x. conf_id w x = conf_id w cr) (configs_of w) = Some n"
    and "truthy (conf_id w cr)" and "\<forall>x\<in>set (configs_of w). x < next_cfg w" and "cr < next_cfg w"
  shows "configs_of (published cr qos retain w) = (configs_of w)[n := next_cfg w] \<and>
    cfgs (published cr qos retain w) = (cfgs w)(next_cfg w :=
      JObj (oput ''pushProps'' (JObj [(''qos'', qos), (''retain'', retain)]) (spread (cfgs w cr) [])))"
proof -
  let ?c = "JObj (oput ''pushProps'' (JObj [(''qos'', qos), (''retain'', retain)]) (spread (cfgs w cr) []))"
  let ?u = "w\<lparr>cfgs := (cfgs w)(next_cfg w := ?c), next_cfg := Suc (next_cfg w)\<rparr>"
  have same: "conf_id ?u x = conf_id w x" if "x < next_cfg w" for x
    using that by (simp add: conf_id_def)
  have configs: "configs_of ?u = configs_of w" by (simp add: configs_of_def)
  have "find_index (\<lambda>x. conf_id ?u x = conf_id w cr) (configs_of ?u) = Some n"
    by (rule find_index_cong [OF assms(1)])
      (use assms(1,3) in \<open>auto simp: configs same find_index_Some\<close>)
  moreover have "published cr qos retain w = setConnConfig (conf_id w cr) (next_cfg w) ?u"
    using same [OF assms(4)] by (simp add: published_def new_conf_def)
  ultimately show ?thesis
    using assms(2) by (simp add: configs_setConnConfig configs setConnConfig_cfgs)
qed

text \<open>
  A subscription that was requested before a message was published, and is answered after it,
  undoes what publishing recorded: the list holds the configuration from before again, without the
  publish options of the later one.
\<close>

theorem subscription_answer_undoes_publish:
  assumes "find_index (\<lambda>x. conf_id w x = conf_id w cr) (configs_of w) = Some n" and "configs_of w ! n = cr"
    and "truthy (conf_id w cr)" and "\<forall>x\<in>set (configs_of w). x < next_cfg w"
    and "cfgs w cr = JObj c" and "oget c ''subscriptions'' = JArr subs"
    and "subscribed cr (JArr ts) opts False confs (published cr qos retain w) = (w2, e)"
  shows "fld (cfgs (published cr qos retain w) (configs_of (published cr qos retain w) ! n)) ''pushProps'' =
      JObj [(''qos'', qos), (''retain'', retain)] \<and>
    configs_of w2 = configs_of w \<and> fld (cfgs w2 cr) ''pushProps'' = oget c ''pushProps''"
proof -
  let ?w1 = "published cr qos retain w" and ?new = "next_cfg w"
  have n: "n < length (configs_of w)" using assms(1) by (simp add: find_index_Some)
  then have cr: "cr < ?new" using assms(2,4) by auto
  note w1 = published_shape [OF assms(1,3,4) cr, of qos retain]
  have c1: "cfgs ?w1 cr = JObj c" using w1 cr assms(5) by simp
  obtain u d subs' m m' where u: "w2 = setConnConfig (conf_id ?w1 cr) cr u"
    "\<forall>x. x \<noteq> cr \<longrightarrow> cfgs u x = cfgs ?w1 x" "cfgs u cr = JObj d" "configs_of u = configs_of ?w1"
    "\<forall>k. k \<noteq> ''subscriptions'' \<longrightarrow> oget d k = oget c k"
    using subscribed_shape [OF assms(7) c1 assms(6)] by (elim conjE exE) (rule that, assumption+)
  have cid: "conf_id ?w1 cr = conf_id w cr" "conf_id u ?new = conf_id w cr"
    using c1 w1 u(2) cr assms(5) by (auto simp: conf_id_def dict_simps oget_spread)
  have "\<not> conf_id u ((configs_of w)[n := ?new] ! m) = conf_id w cr" if "m < n" for m
  proof -
    have m: "conf_id w (configs_of w ! m) \<noteq> conf_id w cr" "configs_of w ! m < ?new"
      using assms(1,4) that n by (auto simp: find_index_Some)
    then have "configs_of w ! m \<noteq> cr" by auto
    then have "conf_id u (configs_of w ! m) = conf_id w (configs_of w ! m)"
      using u(2) w1 m(2) by (simp add: conf_id_def)
    with m(1) that show ?thesis by simp
  qed
  then have "find_index (\<lambda>x. conf_id u x = conf_id w cr) (configs_of u) = Some n"
    using u(4) w1 cid(2) n by (intro find_index_cong [OF assms(1)]) simp_all
  then have "configs_of w2 = (configs_of w)[n := ?new, n := cr]" "cfgs w2 = cfgs u"
    using u(1,4) cid(1) assms(3) w1 by (simp_all add: configs_setConnConfig setConnConfig_cfgs)
  moreover have "(configs_of w)[n := ?new, n := cr] = configs_of w"
    using assms(2) by (metis list_update_id list_update_overwrite)
  ultimately show ?thesis
    using w1 u(3,5) n by (simp add: dict_simps)
qed

definition demo_sub_world :: "unit ucb world" where
  "demo_sub_world = \<lparr>store = demo_store,
     cfgs = (\<lambda>_. JObj [(''id'', JStr ''c1''), (''subscriptions'', JArr [])]), next_cfg = 1,
     dlgts = (\<lambda>_. demo_delegate), next_dlgt = 0, clients = (\<lambda>_. demo_client), next_client = 0,
     subs_heap = (\<lambda>_. []), next_subs = 0, msgs_heap = (\<lambda>_. []), next_msgs = 0, registry = [], pend = [],
     requests = [], shown = [], events = [], uuids = nat_str, uuid_count = 0, clock = 5000,
     time_text = int_str, bufs = \<lparr>buf_from = (\<lambda>_ s. s), buf_text = (\<lambda>_ s. s)\<rparr>\<rparr>"

lemma demo_sub_world_simps [simp]:
  "configs_of demo_sub_world = [0]" "conf_id demo_sub_world i = JStr ''c1''"
  "cfgs demo_sub_world i = JObj [(''id'', JStr ''c1''), (''subscriptions'', JArr [])]"
  "next_cfg demo_sub_world = 1"
  by (simp_all add: demo_sub_world_def configs_of_def conf_id_def demo_store_def)

theorem subscription_answer_undoes_publish_witness:
  "\<exists>w2 e. subscribed 0 (JArr [JStr ''a'']) JNull False None (published 0 (JNum 1) (JBool True) demo_sub_world) =
      (w2, e) \<and> fld (cfgs w2 0) ''pushProps'' = JUndef"
proof -
  obtain w2 e where o: "subscribed 0 (JArr [JStr ''a'']) JNull False None
      (published 0 (JNum 1) (JBool True) demo_sub_world) = (w2, e)"
    by fastforce
  have "fld (cfgs w2 0) ''pushProps'' = oget [(''id'', JStr ''c1''), (''subscriptions'', JArr [])] ''pushProps''"
    by (rule conjunct2 [OF conjunct2 [OF subscription_answer_undoes_publish [where n = 0, OF _ _ _ _ _ _ o]]])
      (simp_all add: find_index_Some)
  with o show ?thesis by simp
qed


end
