(* ===== verification/ConnForm.thy ===== *)
theory ConnForm
  imports Layout UseMqttProps
begin

text \<open>
  The form that creates, edits and tests a connection (\<open>MqttConnForm.vue\<close>). The form object is a
  list of members. Vue runs the watchers of the role and of the user name after the code that
  changed them, before the code that waits for the next tick; \<open>settle\<close> runs the ones whose value
  changed. The form component decides whether the form is valid; \<open>name_rule\<close> is the rule the
  source gives it for names.
\<close>

section \<open>Validation and fields\<close>

definition name_rule :: "bool \<Rightarrow> js \<Rightarrow> js list \<Rightarrow> js \<Rightarrow> bool" where
  "name_rule forCreate oldName names name =
     (\<not> list_ex (\<lambda>other. (forCreate \<and> other = name) \<or> (\<not> forCreate \<and> name \<noteq> oldName \<and> other = name)) names)"

definition changeProtocol :: "js \<Rightarrow> bool \<Rightarrow> js obj \<Rightarrow> js obj" where
  "changeProtocol protocol isSSL form =
     (if truthy protocol \<and> str_includes (to_lower (js_str protocol)) ''ws''
      then oput ''protocol'' (JStr (if isSSL then ''wss'' else ''ws'')) form else form)"

definition handleSSL :: "bool \<Rightarrow> js obj \<Rightarrow> js obj" where
  "handleSSL val form =
     (let form = changeProtocol (oget form ''protocol'') val form
      in if \<not> val then oput ''certType'' (JStr '''') form else form)"

definition emptyToNull :: "js \<Rightarrow> js res" where
  "emptyToNull data = res_bind (js_keys data) (\<lambda>ks. Inr (case data of
     JObj m \<Rightarrow> JObj (map (\<lambda>(k, v). (k, if v = JStr '''' then JNull else v)) m) | _ \<Rightarrow> data))"

definition server_clientId :: "js \<Rightarrow> string \<Rightarrow> js" where
  "server_clientId username random16 = JStr (''$'' @ js_str username @ ''_'' @ genClientIdSuffix random16)"

definition resetClientID :: "string \<Rightarrow> js obj \<Rightarrow> js obj" where
  "resetClientID random16 form = oput ''clientId''
     (if truthy (oget form ''username'') \<and> oget form ''userrole'' = JStr ''server''
      then server_clientId (oget form ''username'') random16 else JStr '''') form"

section \<open>Watchers of the form\<close>

definition watch_userrole :: "js \<Rightarrow> js obj \<Rightarrow> js obj" where
  "watch_userrole createThingId form =
     (if truthy createThingId then form else oput ''username'' (JStr '''') form)"

definition watch_username :: "js \<Rightarrow> string \<Rightarrow> js obj \<Rightarrow> js obj" where
  "watch_username createThingId random16 form =
     (if truthy createThingId then form
      else if truthy (oget form ''username'') then
        (if oget form ''userrole'' = JStr ''server''
         then oput ''clientId'' (server_clientId (oget form ''username'') random16) form else form)
      else oput ''clientId'' (JStr '''') form)"

definition settle :: "js \<Rightarrow> string \<Rightarrow> js obj \<Rightarrow> js obj \<Rightarrow> js obj" where
  "settle createThingId random16 old form =
     (let form = (if oget form ''userrole'' \<noteq> oget old ''userrole'' then watch_userrole createThingId form else form)
      in if oget form ''username'' \<noteq> oget old ''username'' then watch_username createThingId random16 form else form)"

section \<open>Opening and closing\<close>

record conn_dialog =
  cd_form :: "js obj"
  cd_oldName :: js
  cd_token :: string

definition edited_username :: "js \<Rightarrow> js" where
  "edited_username config =
     (if opt_get config ''userrole'' = JStr ''server'' then
        (case opt_get config ''username'' of JStr u \<Rightarrow> JStr (drop 1 u) | v \<Rightarrow> v)
      else opt_get config ''username'')"

text \<open>
  For an existing connection: the role first, the rest in the next tick. A stored user name is a
  text.
\<close>

definition open_edit :: "js \<Rightarrow> js \<Rightarrow> (nat \<Rightarrow> string) \<Rightarrow> conn_dialog \<Rightarrow> conn_dialog" where
  "open_edit config port random16 d =
     (let form0 = cd_form d;
          form1 = oput ''userrole'' (opt_get config ''userrole'') form0;
          form2 = settle JNull (random16 0) form0 form1;
          form3 = oput ''port'' port (oput ''username'' (edited_username config) (spread config form2));
          form4 = settle JNull (random16 1) form2 form3
      in \<lparr>cd_form = form4, cd_oldName = opt_get config ''name'', cd_token = ''''\<rparr>)"

text \<open>For a new connection of a thing, if it is among the things loaded.\<close>

definition find_thing :: "js \<Rightarrow> js list \<Rightarrow> js option" where
  "find_thing thingId ts = List.find (\<lambda>t. opt_get t ''thingId'' = thingId) ts"

definition open_thing :: "js \<Rightarrow> js list \<Rightarrow> string \<Rightarrow> js \<Rightarrow> conn_dialog \<Rightarrow> conn_dialog" where
  "open_thing thingId ts token port d =
     (case find_thing thingId ts of
        Some thing \<Rightarrow> \<lparr>cd_form = oput ''port'' port (fold (\<lambda>(k, v). oput k v)
            [(''userrole'', JStr ''thing''), (''name'', JStr (js_str thingId @ '' (default)'')),
             (''username'', thingId), (''clientId'', thingId), (''password'', opt_get thing ''authValue''),
             (''mqttVersion'', JStr ''3.1.1'')] (cd_form d)),
           cd_oldName = JStr '''', cd_token = token\<rparr>
      | None \<Rightarrow> \<lparr>cd_form = oput ''port'' port (cd_form d), cd_oldName = JStr '''', cd_token = ''''\<rparr>)"

definition open_new :: "js \<Rightarrow> js \<Rightarrow> string \<Rightarrow> conn_dialog \<Rightarrow> conn_dialog" where
  "open_new defaults port random16 d =
     \<lparr>cd_form = settle JNull random16 (cd_form d) (oput ''port'' port (spread defaults (cd_form d))),
      cd_oldName = JStr '''', cd_token = ''''\<rparr>"

text \<open>
  The watcher of the visibility, which runs when the form opens and when it closes. \<open>config\<close> is the
  configuration of the connection to edit.
\<close>

definition conn_form_watch ::
  "conn_form \<Rightarrow> js \<Rightarrow> js list \<Rightarrow> js \<Rightarrow> js \<Rightarrow> (nat \<Rightarrow> string) \<Rightarrow> conn_dialog \<Rightarrow> conn_dialog" where
  "conn_form_watch cf config ts defaults port random16 d =
     (if truthy (cf_connIdToEdit cf) then open_edit config port random16 d
      else if truthy (cf_thingIdForCreate cf)
        then open_thing (cf_thingIdForCreate cf) ts (cf_connectedCallbackToken cf) port d
      else open_new defaults port (random16 0) d)"

text \<open>The suggestions for the user name, and selecting one.\<close>

definition username_item :: "js \<Rightarrow> js" where
  "username_item thing = JObj [(''value'', opt_get thing ''thingId''), (''clientId'', opt_get thing ''thingId''),
     (''password'', opt_get thing ''authValue'')]"

definition filterUsername :: "js \<Rightarrow> string \<Rightarrow> js list \<Rightarrow> js list" where
  "filterUsername createThingId qs ts =
     (if truthy createThingId then
        (case find_thing createThingId ts of Some thing \<Rightarrow> [username_item thing] | None \<Rightarrow> [])
      else map username_item (take 1000
        (if qs \<noteq> '''' then filter (\<lambda>t. str_includes (to_lower (js_str (opt_get t ''thingId''))) (to_lower qs)) ts
         else ts)))"

definition handleUsernameSelect :: "js \<Rightarrow> js obj \<Rightarrow> js obj" where
  "handleUsernameSelect item form =
     oput ''password'' (opt_get item ''password'') (oput ''clientId'' (opt_get item ''clientId'') form)"

section \<open>Trying a connection\<close>

text \<open>The test client: whether one is being connected, and the flag of the one there is.\<close>

record tester =
  te_connecting :: bool
  te_client :: "bool option"
  te_ended :: nat
  te_shown :: "notification list"

definition test_end :: "tester \<Rightarrow> tester" where
  "test_end t = (case te_client t of Some _ \<Rightarrow> t\<lparr>te_ended := Suc (te_ended t)\<rparr> | None \<Rightarrow> t)"

definition test_onSuccess :: "string \<Rightarrow> tester \<Rightarrow> tester" where
  "test_onSuccess name t = (let t = test_end (t\<lparr>te_connecting := False\<rparr>) in
     t\<lparr>te_shown := te_shown t @ [\<lparr>title = ''Connected'',
       message = ''Test client <'' @ name @ ''> connected'', ntype = ''success''\<rparr>]\<rparr>)"

definition test_onFailed :: "tester \<Rightarrow> tester" where
  "test_onFailed t = test_end (t\<lparr>te_connecting := False\<rparr>)"

text \<open>The callback of ending after a failure, with the text of the error.\<close>

definition test_failed_ended :: "string option \<Rightarrow> bool \<Rightarrow> tester \<Rightarrow> tester" where
  "test_failed_ended error end_failed t =
     (if end_failed then t
      else t\<lparr>te_shown := te_shown t @ [\<lparr>title = ''Failed'',
        message = (case error of Some m \<Rightarrow> if m = '''' then ''Cconnect failed'' else m | None \<Rightarrow> ''Cconnect failed''),
        ntype = ''error''\<rparr>]\<rparr>)"

definition test_onClose :: "tester \<Rightarrow> tester" where
  "test_onClose t = test_end (t\<lparr>te_connecting := False\<rparr>)"

definition test_onEnd :: "tester \<Rightarrow> tester" where
  "test_onEnd t = t\<lparr>te_connecting := False, te_client := None\<rparr>"

definition test_connect :: "bool \<Rightarrow> int \<Rightarrow> js \<Rightarrow> tester \<Rightarrow> tester \<times> js_error option" where
  "test_connect isHttps now data t =
     (if te_connecting t \<or> te_client t = Some True then (t, None)
      else (let t = t\<lparr>te_connecting := True\<rparr> in
        case createClient isHttps now data of
          Inl e \<Rightarrow> (t, Some e) | Inr _ \<Rightarrow> (t\<lparr>te_client := Some False\<rparr>, None)))"

section \<open>Saving\<close>

text \<open>
  The data of a valid form, the user name of a server with its prefix. (The object of the MQTT 5
  properties is shared with the form, where the empty texts become \<open>null\<close> as well.)
\<close>

definition form_data :: "js obj \<Rightarrow> js obj res" where
  "form_data form = res_bind (emptyToNull (oget form ''properties'')) (\<lambda>p.
     let data = oput ''properties'' p form in
     Inr (if oget data ''userrole'' = JStr ''server''
       then oput ''username'' (JStr (''$'' @ js_str (oget data ''username''))) data else data))"

text \<open>
  Saving: the world, and the configuration and token the form emits with \<open>done\<close>; \<open>None\<close> is an
  operation that threw or a form that is not valid.
\<close>

definition handleConnect_save ::
  "bool \<Rightarrow> bool \<Rightarrow> conn_dialog \<Rightarrow> 'cb world \<Rightarrow> 'cb world \<times> (cref option \<times> string) option" where
  "handleConnect_save valid forCreate d w =
     (if \<not> valid then (w, None)
      else (case form_data (cd_form d) of
          Inl e \<Rightarrow> (w, None)
        | Inr data \<Rightarrow>
            (let now = JStr (time_text w (clock w)) in
             if forCreate then
               (let (cr, w) = new_conf (JObj (oput ''updateAt'' now (oput ''createAt'' now data))) w
                in (setConnConfig JNull cr w, Some (Some cr, cd_token d)))
             else if truthy (oget data ''id'') then
               (let (cr, w) = new_conf (JObj (oput ''updateAt'' now data)) w
                in (setConnConfig (oget data ''id'') cr w, Some (Some cr, cd_token d)))
             else (w, Some (None, cd_token d)))))"

definition handleConnect_test ::
  "bool \<Rightarrow> bool \<Rightarrow> int \<Rightarrow> conn_dialog \<Rightarrow> tester \<Rightarrow> tester \<times> js_error option" where
  "handleConnect_test valid isHttps now d t =
     (if \<not> valid then (t, None)
      else (case form_data (cd_form d) of
          Inl e \<Rightarrow> (t, Some e) | Inr data \<Rightarrow> test_connect isHttps now (JObj data) t))"


section \<open>Editing a connection\<close>

lemma olookup_spread: "oget (spread (JObj c) m) k = (case olookup c k of Some v \<Rightarrow> v | None \<Rightarrow> oget m k)"
proof -
  have "spread (JObj c) m = fold (\<lambda>k. oput k (oget c k)) (okeys c) m" by (simp add: spread_def)
  then show ?thesis
    using obj.keys_lookup [of k c] by (auto simp: oget_def obj.lookup_fold_put split: option.split)
qed

lemma oget_settle_other:
  "k \<noteq> ''username'' \<Longrightarrow> k \<noteq> ''clientId'' \<Longrightarrow> oget (settle t r old form) k = oget form k"
  by (simp add: settle_def watch_userrole_def watch_username_def Let_def dict_simps)

lemma emptyToNull_ok: "is_obj v \<Longrightarrow> \<exists>p. emptyToNull v = Inr p"
  by (auto simp: is_obj_def emptyToNull_def)

text \<open>
  Editing a connection of a server and saving it unchanged: every member is saved as it was, the
  user name with its prefix included, except two. The port is always that of the server's
  configuration, whatever was stored, and the client id is a new one, because the user name
  changes when the stored configuration is put into the form.
\<close>

theorem edit_server_connection:
  assumes "oget c ''userrole'' = JStr ''server''" and "oget c ''username'' = JStr (CHR ''$'' # u)" and "u \<noteq> ''''"
    and "is_obj (oget c ''properties'')" and "oget (cd_form d) ''username'' = JStr ''''"
  shows "\<exists>data. form_data (cd_form (open_edit (JObj c) port random16 d)) = Inr data \<and>
    oget data ''username'' = oget c ''username'' \<and> oget data ''port'' = port \<and>
    oget data ''clientId'' = server_clientId (JStr u) (random16 1) \<and>
    (\<forall>k v. olookup c k = Some v \<longrightarrow> k \<notin> {''port'', ''clientId'', ''properties''} \<longrightarrow> oget data k = v)"
proof -
  let ?form2 = "settle JNull (random16 0) (cd_form d) (oput ''userrole'' (JStr ''server'') (cd_form d))"
  let ?form3 = "oput ''port'' port (oput ''username'' (JStr u) (spread (JObj c) ?form2))"
  let ?form4 = "cd_form (open_edit (JObj c) port random16 d)"
  have present: "olookup c k = Some (oget c k)" if "oget c k \<noteq> JUndef" for k
    using that by (auto simp: oget_def split: option.splits)
  have form4: "?form4 = settle JNull (random16 1) ?form2 ?form3"
    using assms(1,2) by (simp add: open_edit_def edited_username_def Let_def)
  have empty: "oget ?form2 ''username'' = JStr ''''"
    using assms(5) by (simp add: settle_def watch_userrole_def watch_username_def Let_def dict_simps)
  have role: "oget ?form2 ''userrole'' = JStr ''server''" by (simp add: oget_settle_other dict_simps)
  have role3: "oget ?form3 ''userrole'' = JStr ''server''"
    using present [of "''userrole''"] assms(1) by (simp add: olookup_spread dict_simps)
  have form4': "?form4 = oput ''clientId'' (server_clientId (JStr u) (random16 1)) ?form3"
    using assms(3) role role3 empty by (simp add: form4 settle_def watch_username_def dict_simps)
  have props: "oget ?form4 ''properties'' = oget c ''properties''"
  proof -
    have "oget c ''properties'' \<noteq> JUndef" using assms(4) by (auto simp: is_obj_def)
    from present [OF this] show ?thesis by (simp add: form4' olookup_spread dict_simps)
  qed
  obtain p where p: "emptyToNull (oget c ''properties'') = Inr p" using emptyToNull_ok [OF assms(4)] by blast
  have role4: "oget ?form4 ''userrole'' = JStr ''server''"
    using role3 by (simp add: form4' dict_simps)
  have name4: "oget ?form4 ''username'' = JStr u" by (simp add: form4' dict_simps)
  have "form_data ?form4 = Inr (oput ''username'' (JStr (''$'' @ u)) (oput ''properties'' p ?form4))"
    by (simp add: form_data_def props p role4 name4 Let_def dict_simps)
  moreover have "oget (oput ''username'' (JStr (''$'' @ u)) (oput ''properties'' p ?form4)) k = v"
    if "olookup c k = Some v" "k \<notin> {''port'', ''clientId'', ''properties''}" for k v
  proof -
    have "oget c k = v" using that(1) by (simp add: oget_def)
    with that assms(2) show ?thesis
      by (cases "k = ''username''") (auto simp: form4' olookup_spread dict_simps)
  qed
  ultimately show ?thesis
    using assms(2) by (auto simp: form4' dict_simps)
qed

definition demo_server :: "js obj" where
  "demo_server = [(''id'', JStr ''c1''), (''userrole'', JStr ''server''), (''username'', JStr ''$root''),
     (''clientId'', JStr ''$root_1''), (''port'', JNum 9001), (''properties'', JObj [])]"

definition demo_dialog :: conn_dialog where
  "demo_dialog = \<lparr>cd_form = [(''userrole'', JStr ''server''), (''username'', JStr '''')], cd_oldName = JStr '''',
     cd_token = ''''\<rparr>"

theorem edit_server_connection_witness:
  "\<exists>data. form_data (cd_form (open_edit (JObj demo_server) (JNum 8083) (\<lambda>_. ''0.abc'') demo_dialog)) = Inr data \<and>
    oget demo_server ''port'' = JNum 9001 \<and> oget data ''port'' = JNum 8083 \<and>
    oget data ''username'' = JStr ''$root'' \<and> oget data ''clientId'' = JStr ''$root_abc''"
proof -
  have "oget demo_server ''userrole'' = JStr ''server''" "oget demo_server ''username'' = JStr (CHR ''$'' # ''root'')"
    "is_obj (oget demo_server ''properties'')" "oget demo_server ''port'' = JNum 9001"
    "oget (cd_form demo_dialog) ''username'' = JStr ''''"
    by (simp_all add: demo_server_def demo_dialog_def)
  with edit_server_connection [of demo_server "''root''" demo_dialog "JNum 8083" "\<lambda>_. ''0.abc''"]
  show ?thesis by (auto simp: server_clientId_def genClientIdSuffix_def)
qed

section \<open>Names of connections\<close>

definition conn_names :: "'cb world \<Rightarrow> js list" where
  "conn_names w = map (\<lambda>cr. opt_get (cfgs w cr) ''name'') (configs_of w)"

lemma disconnect_keeps:
  "store (fst (disconnect r EndPlain w)) = store w \<and> cfgs (fst (disconnect r EndPlain w)) = cfgs w"
  by (auto simp: disconnect_def ask_def split: option.split)

lemma disconn_keeps: "store (disconn cr w) = store w \<and> cfgs (disconn cr w) = cfgs w"
proof -
  obtain r v where g: "getDelegateById (conf_id w cr) (Some cr) w = (r, v)" by fastforce
  with getDelegateById_keeps [OF g] show ?thesis
    by (cases r) (simp_all add: disconn_def cancel_def disconnect_keeps)
qed

lemma names_create:
  assumes "cr \<notin> set (configs_of w)"
  shows "conn_names (setConnConfig JNull cr w) = conn_names w @ [opt_get (cfgs w cr) ''name'']"
proof -
  let ?w = "set_field cr ''id'' (JStr (genConnectionId (fresh_uuid w))) (next_uuid w)"
  have s: "configs_of ?w = configs_of w" by (simp add: set_field_def next_uuid_def configs_of_def)
  have name: "opt_get (cfgs ?w x) ''name'' = opt_get (cfgs w x) ''name''" for x
    by (auto simp: set_field_def next_uuid_def dict_simps split: jsval.split)
  have "cfgs (persist cs (disconn cr ?w)) = cfgs ?w" for cs using disconn_keeps [of cr ?w] by simp
  then show ?thesis by (simp add: setConnConfig_def Let_def conn_names_def name)
qed

lemma names_replace:
  assumes "truthy i" and "find_index (\<lambda>c. conf_id w c = i) (configs_of w) = Some n"
  shows "conn_names (setConnConfig i cr w) = (conn_names w)[n := opt_get (cfgs w cr) ''name'']"
  using assms by (simp add: setConnConfig_def conn_names_def map_update)

lemma form_data_members:
  assumes "form_data form = Inr data"
  shows "oget data ''name'' = oget form ''name'' \<and> oget data ''id'' = oget form ''id''"
  using assms by (auto simp: form_data_def res_simps Let_def dict_simps split: if_splits)

lemma names_new_conf:
  assumes "\<forall>x\<in>set (configs_of w). x < next_cfg w" and "new_conf c w = (cr, v)"
  shows "conn_names v = conn_names w \<and> cr \<notin> set (configs_of v) \<and> configs_of v = configs_of w \<and>
    opt_get (cfgs v cr) ''name'' = opt_get c ''name'' \<and> (\<forall>x\<in>set (configs_of w). conf_id v x = conf_id w x)"
  using assms by (auto simp: new_conf_def conn_names_def configs_of_def conf_id_def)

lemma find_index_pred_cong:
  "(\<And>x. x \<in> set xs \<Longrightarrow> P x = Q x) \<Longrightarrow> find_index P xs = find_index Q xs"
  unfolding find_index_def by (intro find_cong) auto

lemma save_new_names:
  assumes "form_data (cd_form d) = Inr data" and "\<forall>x\<in>set (configs_of w). x < next_cfg w"
  shows "conn_names (fst (handleConnect_save True True d w)) = conn_names w @ [oget (cd_form d) ''name'']"
proof -
  let ?now = "JStr (time_text w (clock w))"
  obtain cr v where n: "new_conf (JObj (oput ''updateAt'' ?now (oput ''createAt'' ?now data))) w = (cr, v)"
    by fastforce
  note new = names_new_conf [OF assms(2) n]
  then have "conn_names (setConnConfig JNull cr v) = conn_names w @ [oget (cd_form d) ''name'']"
    using names_create [of cr v] form_data_members [OF assms(1)] by (auto simp: dict_simps)
  then show ?thesis using n assms(1) by (simp add: handleConnect_save_def Let_def)
qed

lemma save_edited_names:
  assumes "form_data (cd_form d) = Inr data" and "\<forall>x\<in>set (configs_of w). x < next_cfg w"
    and "find_index (\<lambda>c. conf_id w c = oget (cd_form d) ''id'') (configs_of w) = Some i"
    and "truthy (oget (cd_form d) ''id'')"
  shows "conn_names (fst (handleConnect_save True False d w)) = (conn_names w)[i := oget (cd_form d) ''name'']"
proof -
  let ?now = "JStr (time_text w (clock w))"
  obtain cr v where n: "new_conf (JObj (oput ''updateAt'' ?now data)) w = (cr, v)" by fastforce
  note new = names_new_conf [OF assms(2) n] and mem = form_data_members [OF assms(1)]
  then have "find_index (\<lambda>c. conf_id v c = oget data ''id'') (configs_of v) = Some i"
    using assms(3) find_index_pred_cong [of "configs_of w" "\<lambda>c. conf_id v c = oget data ''id''"
      "\<lambda>c. conf_id w c = oget data ''id''"] by simp
  then show ?thesis
    using names_replace [of "oget data ''id''" v i cr] new mem n assms(1,4)
    by (simp add: handleConnect_save_def Let_def dict_simps)
qed

lemma distinct_rename:
  assumes "distinct xs" and "y \<noteq> xs ! i \<Longrightarrow> y \<notin> set xs"
  shows "distinct (xs[i := y])"
  using assms by (cases "y = xs ! i") (auto intro: distinct_list_update)

lemma name_rule_iff:
  "name_rule forCreate old names nm \<longleftrightarrow> (\<not> forCreate \<and> nm = old) \<or> nm \<notin> set names"
  by (auto simp: name_rule_def list_ex_iff)

text \<open>
  C39. The names of connections stay distinct: saving a form whose name passed the rule, whether it
  creates a connection or edits an existing one, never gives two connections the same name.
\<close>

theorem names_stay_distinct:
  assumes "distinct (conn_names w)" and "\<forall>x\<in>set (configs_of w). x < next_cfg w"
    and "name_rule forCreate (cd_oldName d) (conn_names w) (oget (cd_form d) ''name'')"
    and "\<not> forCreate \<Longrightarrow> \<exists>n. find_index (\<lambda>c. conf_id w c = oget (cd_form d) ''id'') (configs_of w) = Some n \<and>
      conn_names w ! n = cd_oldName d"
  shows "distinct (conn_names (fst (handleConnect_save valid forCreate d w)))"
proof (cases "valid \<and> (\<exists>data. form_data (cd_form d) = Inr data)")
  case True
  then obtain data where data: "form_data (cd_form d) = Inr data" and valid by blast
  show ?thesis
  proof (cases forCreate)
    case True
    with save_new_names [OF data assms(2)] assms(1,3) \<open>valid\<close> show ?thesis by (simp add: name_rule_iff)
  next
    case False
    then obtain i where i: "find_index (\<lambda>c. conf_id w c = oget (cd_form d) ''id'') (configs_of w) = Some i"
        "conn_names w ! i = cd_oldName d" using assms(4) by blast
    have "distinct ((conn_names w)[i := oget (cd_form d) ''name''])"
      using assms(1,3) i(2) False by (intro distinct_rename) (auto simp: name_rule_iff)
    with save_edited_names [OF data assms(2) i(1)] form_data_members [OF data] data False \<open>valid\<close> assms(1)
    show ?thesis by (cases "truthy (oget data ''id'')") (simp_all add: handleConnect_save_def)
  qed
next
  case False
  with assms(1) show ?thesis by (auto simp: handleConnect_save_def split: sum.split)
qed

theorem names_stay_distinct_witness:
  "distinct (conn_names (fst (handleConnect_save True True
     (demo_dialog\<lparr>cd_form := [(''name'', JStr ''other''), (''properties'', JObj [])]\<rparr>) demo_world)))"
proof (rule names_stay_distinct)
  have configs: "configs_of demo_world = [0]" by (simp add: configs_of_def demo_world_def demo_store_def)
  then show "distinct (conn_names demo_world)" "\<forall>x\<in>set (configs_of demo_world). x < next_cfg demo_world"
    by (simp_all add: conn_names_def demo_world_def)
  show "name_rule True (cd_oldName (demo_dialog\<lparr>cd_form := [(''name'', JStr ''other''), (''properties'', JObj [])]\<rparr>))
      (conn_names demo_world)
      (oget (cd_form (demo_dialog\<lparr>cd_form := [(''name'', JStr ''other''), (''properties'', JObj [])]\<rparr>)) ''name'')"
  proof -
    have "conn_names demo_world = [JUndef]"
      by (simp only: conn_names_def configs) (simp add: demo_world_def demo_conf_def)
    then show ?thesis by (simp add: name_rule_def)
  qed
qed simp

end
