(* ===== verification/Template.thy ===== *)
theory Template
  imports JsValue
begin

text \<open>
  Templates. A rendered template is a tree of elements with the attributes, listeners and children
  that the template gives them in the current state: \<open>v-if\<close> and \<open>v-for\<close> are conditionals and maps
  of the function that renders, a listener carries the message that stands for the call it makes,
  and \<open>v-model\<close> is an attribute with a listener for its update. Attributes that only concern the
  appearance (styles, sizes, icons, static classes) are left out.

  What the user can do with a rendered template follows the documented behaviour of the browser and
  of the controls of the component library: a click reaches the listeners of the element it happens
  on and then those of the elements around it, unless one of them stops it; a disabled or loading
  control reacts to nothing, nor does what is below a loading mask or in a closed dialog; a control
  emits only values of its kind.
\<close>

section \<open>Controls\<close>

datatype control =
    Text
  | MaybeText
  | Pairs
  | Free
  | Number int "int option"
  | Choice "js list"
  | Optional "js list"
  | Switch
  | PageNumber

fun admits :: "control \<Rightarrow> js \<Rightarrow> bool" where
  "admits Text v = (\<exists>s. v = JStr s)"
| "admits MaybeText v = (nullish v \<or> (\<exists>s. v = JStr s))"
| "admits Pairs v = (nullish v \<or> is_obj v)"
| "admits Free v = (case v of JUndef \<Rightarrow> True | JNull \<Rightarrow> True | JNum n \<Rightarrow> True | JStr s \<Rightarrow> True | _ \<Rightarrow> False)"
| "admits (Number lo hi) v = (case v of
     JNull \<Rightarrow> True | JNum n \<Rightarrow> lo \<le> n \<and> (case hi of Some h \<Rightarrow> n \<le> h | None \<Rightarrow> True) | _ \<Rightarrow> False)"
| "admits (Choice vs) v = (v \<in> set vs)"
| "admits (Optional vs) v = (v \<in> set vs \<or> nullish v)"
| "admits Switch v = (\<exists>b. v = JBool b)"
| "admits PageNumber v = (\<exists>n \<ge> 1. v = JNum n)"

text \<open>An event without a value.\<close>

abbreviation signal :: control where
  "signal \<equiv> Choice [JUndef]"

section \<open>Elements\<close>

datatype 'm listener =
    Clicked 'm
  | ClickedStop 'm
  | Emitted string "js \<Rightarrow> 'm"

datatype 'm node =
    Say js
  | Element string "js obj" "'m listener list" "'m node list"

abbreviation lit :: "string \<Rightarrow> 'm node" where
  "lit s \<equiv> Say (JStr s)"

abbreviation box :: "string \<Rightarrow> 'm node list \<Rightarrow> 'm node" where
  "box t ns \<equiv> Element t [] [] ns"

abbreviation button :: "js obj \<Rightarrow> 'm \<Rightarrow> string \<Rightarrow> 'm node" where
  "button as m s \<equiv> Element ''el-button'' as [Clicked m] [lit s]"

text \<open>A bound value with the message for its update: \<open>v-model\<close>.\<close>

abbreviation bound :: "string \<Rightarrow> js obj \<Rightarrow> js \<Rightarrow> (js \<Rightarrow> 'm) \<Rightarrow> 'm node list \<Rightarrow> 'm node" where
  "bound t as v m ns \<equiv> Element t ((''model-value'', v) # as) [Emitted ''update:modelValue'' m] ns"

definition library_controls :: "string list" where
  "library_controls = [''el-button'', ''el-input'', ''el-select'', ''el-checkbox'', ''el-switch'', ''el-radio-group'']"

text \<open>A control that is switched off, and a dialog that is closed.\<close>

definition dead :: "string \<Rightarrow> js obj \<Rightarrow> bool" where
  "dead t as \<longleftrightarrow> t \<in> set library_controls \<and> (truthy (oget as ''disabled'') \<or> truthy (oget as ''loading'')) \<or>
     t \<in> {''el-dialog'', ''el-drawer''} \<and> \<not> truthy (oget as ''model-value'')"

text \<open>
  Dialogs and teleports are moved out of the element they are written in, so neither a loading mask
  around them covers them nor do their clicks reach what is around them. The flag says whether the
  place is below a mask.
\<close>

definition floats :: "string \<Rightarrow> bool" where
  "floats t \<longleftrightarrow> t \<in> {''el-dialog'', ''el-drawer'', ''Teleport''}"

definition masked :: "bool \<Rightarrow> string \<Rightarrow> js obj \<Rightarrow> bool" where
  "masked b t as \<longleftrightarrow> b \<and> \<not> floats t \<or> truthy (oget as ''v-loading'')"

section \<open>Clicks\<close>

definition own_click :: "'m listener list \<Rightarrow> 'm list" where
  "own_click ls = concat (map (\<lambda>l. case l of Clicked m \<Rightarrow> [m] | ClickedStop m \<Rightarrow> [m] | _ \<Rightarrow> []) ls)"

definition stops :: "'m listener list \<Rightarrow> bool" where
  "stops ls = list_ex (\<lambda>l. case l of ClickedStop m \<Rightarrow> True | _ \<Rightarrow> False) ls"

definition bubble :: "'m listener list \<Rightarrow> 'm list \<times> bool \<Rightarrow> 'm list \<times> bool" where
  "bubble ls r = (case r of (ms, stopped) \<Rightarrow> if stopped then r else (ms @ own_click ls, stops ls))"

definition contain :: "string \<Rightarrow> 'm list \<times> bool \<Rightarrow> 'm list \<times> bool" where
  "contain t r = (fst r, snd r \<or> floats t)"

text \<open>For every element that can be clicked: the messages of the click, and whether it was stopped.\<close>

fun clicks :: "bool \<Rightarrow> 'm node \<Rightarrow> ('m list \<times> bool) list" where
  "clicks b (Say v) = []"
| "clicks b (Element t as ls ns) = (if dead t as then []
     else let b' = masked b t as; below = concat (map (clicks b') ns) in
       map (contain t) (if b' then below else (own_click ls, stops ls) # map (bubble ls) below))"

section \<open>What controls emit\<close>

definition values_of :: "string \<Rightarrow> string \<Rightarrow> 'm node list \<Rightarrow> js list" where
  "values_of t a ns = concat (map (\<lambda>n. case n of
     Element t' as ls ks \<Rightarrow> if t' = t then [oget as a] else [] | Say v \<Rightarrow> []) ns)"

text \<open>
  The events the user can cause at an element of the component library, each with the kind of its
  value, and at the two editors that wrap a text editor (\<open>JSONEditor.vue\<close>, \<open>SQLEditor.vue\<close>). The
  events of one entry are emitted together, in this order.
\<close>

definition control_events :: "string \<Rightarrow> js obj \<Rightarrow> 'm node list \<Rightarrow> (control \<times> string list) list" where
  "control_events t as ns =
     (if t = ''el-input'' then
        [(if oget as ''type'' = JStr ''number'' then Free else Text, [''update:modelValue'', ''input'']),
         (signal, [''focus''])]
      else if t = ''el-select'' then [(Choice (values_of ''el-option'' ''value'' ns), [''update:modelValue''])]
      else if t = ''el-radio-group'' then [(Choice (values_of ''el-radio'' ''label'' ns), [''update:modelValue''])]
      else if t = ''el-checkbox'' \<or> t = ''el-switch'' then [(Switch, [''update:modelValue''])]
      else if t = ''el-collapse'' then
        [(Choice (JStr '''' # values_of ''el-collapse-item'' ''name'' ns), [''update:modelValue''])]
      else if t = ''el-pagination'' then
        [(PageNumber, [''update:current-page'', ''current-change'']),
         (case oget as ''page-sizes'' of JArr vs \<Rightarrow> Choice vs | _ \<Rightarrow> Choice [], [''size-change''])]
      else if t = ''el-dialog'' \<or> t = ''el-drawer'' \<or> t = ''el-tag'' \<and> truthy (oget as ''closable'')
        then [(signal, [''close''])]
      else if t = ''JSONEditor'' \<and> \<not> truthy (oget as ''read-only'')
        then [(Text, [''update:modelValue'']), (Switch, [''update:has-error''])]
      else if t = ''SQLEditor'' then [(Choice [JBool True], [''update:focused''])]
      else if t = ''el-popconfirm'' then [(signal, [''confirm'']), (signal, [''cancel''])]
      else [])"

definition heard :: "'m listener list \<Rightarrow> string list \<Rightarrow> js \<Rightarrow> 'm list" where
  "heard ls es x = concat (map (\<lambda>e. concat (map (\<lambda>l. case l of
     Emitted e' m \<Rightarrow> if e' = e then [m x] else [] | _ \<Rightarrow> []) ls)) es)"

definition emits :: "string \<Rightarrow> js obj \<Rightarrow> 'm listener list \<Rightarrow> 'm node list \<Rightarrow> (control \<times> (js \<Rightarrow> 'm list)) list" where
  "emits t as ls ns = map (\<lambda>(c, es). (c, heard ls es)) (control_events t as ns)"

fun inputs :: "bool \<Rightarrow> 'm node \<Rightarrow> (control \<times> (js \<Rightarrow> 'm list)) list" where
  "inputs b (Say v) = []"
| "inputs b (Element t as ls ns) = (if dead t as then []
     else let b' = masked b t as in (if b' then [] else emits t as ls ns) @ concat (map (inputs b') ns))"

section \<open>What the user can do\<close>

inductive does :: "'m node list \<Rightarrow> 'm list \<Rightarrow> bool" for page :: "'m node list" where
  click: "n \<in> set page \<Longrightarrow> (m # ms, s) \<in> set (clicks False n) \<Longrightarrow> does page (m # ms)"
| enter: "n \<in> set page \<Longrightarrow> (c, h) \<in> set (inputs False n) \<Longrightarrow> admits c x \<Longrightarrow> h x = m # ms \<Longrightarrow> does page (m # ms)"

text \<open>
  What holds of everything the user can do with a list of elements, below a mask or not, and its
  rules, by which a template is evaluated.
\<close>

definition all_clicks :: "bool \<Rightarrow> ('m list \<Rightarrow> bool) \<Rightarrow> 'm node \<Rightarrow> bool" where
  "all_clicks b P n \<longleftrightarrow> (\<forall>r\<in>set (clicks b n). fst r \<noteq> [] \<longrightarrow> P (fst r))"

definition all_inputs :: "bool \<Rightarrow> ('m list \<Rightarrow> bool) \<Rightarrow> 'm node \<Rightarrow> bool" where
  "all_inputs b P n \<longleftrightarrow> (\<forall>i\<in>set (inputs b n). \<forall>x. admits (fst i) x \<longrightarrow> snd i x \<noteq> [] \<longrightarrow> P (snd i x))"

definition all_do :: "bool \<Rightarrow> ('m list \<Rightarrow> bool) \<Rightarrow> 'm node list \<Rightarrow> bool" where
  "all_do b P page \<longleftrightarrow> (\<forall>n\<in>set page. all_clicks b P n \<and> all_inputs b P n)"

lemma all_do_iff: "all_do False P page \<longleftrightarrow> (\<forall>ms. does page ms \<longrightarrow> P ms)"
proof
  assume a: "\<forall>ms. does page ms \<longrightarrow> P ms"
  have "P (fst r)" if "n \<in> set page" "r \<in> set (clicks False n)" "fst r \<noteq> []" for n r
    using a that by (cases r; cases "fst r") (auto intro: does.click)
  moreover have "P (snd i x)" if "n \<in> set page" "i \<in> set (inputs False n)" "admits (fst i) x" "snd i x \<noteq> []" for n i x
    using a that by (cases i; cases "snd i x") (auto intro: does.enter)
  ultimately show "all_do False P page" by (simp add: all_do_def all_clicks_def all_inputs_def)
next
  assume *: "all_do False P page"
  have "P ms" if "does page ms" for ms
    using that
  proof cases
    case (click n m ms' s)
    with * show ?thesis unfolding all_do_def all_clicks_def by (metis fst_conv list.distinct(1))
  next
    case (enter n c h x m ms')
    with * show ?thesis unfolding all_do_def all_inputs_def by (metis fst_conv snd_conv list.distinct(1))
  qed
  then show "\<forall>ms. does page ms \<longrightarrow> P ms" by blast
qed

lemma all_doD: "all_do False P page \<Longrightarrow> does page ms \<Longrightarrow> P ms"
  by (simp add: all_do_iff)

lemma does_iff: "does page ms \<longleftrightarrow> \<not> all_do False (\<lambda>x. x \<noteq> ms) page"
  by (simp add: all_do_iff)

named_theorems template \<open>evaluation of what can be done with a template\<close>

lemma all_do_lists [template]:
  "all_do b P [] = True"
  "all_do b P (xs @ ys) = (all_do b P xs \<and> all_do b P ys)"
  "all_do b P (map f zs) = (\<forall>x\<in>set zs. all_do b P [f x])"
  "all_do b P (concat ls) = (\<forall>l\<in>set ls. all_do b P l)"
  by (auto simp: all_do_def)

lemma all_do_Cons [template]:
  "all_do b P (n # m # ns) = (all_do b P [n] \<and> all_do b P (m # ns))"
  "all_do b P (n # map f zs) = (all_do b P [n] \<and> all_do b P (map f zs))"
  "all_do b P (n # xs @ ys) = (all_do b P [n] \<and> all_do b P (xs @ ys))"
  by (auto simp: all_do_def)

lemma all_do_Say [template]: "all_do b P [Say v] = True"
  by (simp add: all_do_def all_clicks_def all_inputs_def)

lemma all_do_if [template]:
  "all_do b P (if c then p else q) = (if c then all_do b P p else all_do b P q)"
  "all_do b P [if c then m else n] = (if c then all_do b P [m] else all_do b P [n])"
  by simp_all

lemma admits_all [template]:
  "(\<forall>x. admits Text x \<longrightarrow> Q x) \<longleftrightarrow> (\<forall>s. Q (JStr s))"
  "(\<forall>x. admits Switch x \<longrightarrow> Q x) \<longleftrightarrow> (\<forall>v. Q (JBool v))"
  "(\<forall>x. admits (Choice vs) x \<longrightarrow> Q x) \<longleftrightarrow> (\<forall>v\<in>set vs. Q v)"
  "(\<forall>x. \<not> admits (Choice vs) x) \<longleftrightarrow> vs = []"
  by (auto simp: neq_Nil_conv)

text \<open>Nothing listens in a subtree.\<close>

fun quiet :: "'m node \<Rightarrow> bool" where
  "quiet (Say v) = True"
| "quiet (Element t as ls ns) = (ls = [] \<and> list_all quiet ns)"

lemma heard_Nil [simp]: "heard [] es x = []"
  by (simp add: heard_def)

lemma own_click_Nil [simp]: "own_click [] = []" "\<not> stops []"
  by (simp_all add: own_click_def stops_def)

lemma own_click_none: "own_click ls = [] \<Longrightarrow> \<not> stops ls"
  by (induction ls) (auto simp: own_click_def stops_def split: listener.splits)

lemma bubble_none: "own_click ls = [] \<Longrightarrow> bubble ls = (\<lambda>r. r)"
  by (auto simp: bubble_def own_click_none fun_eq_iff)

lemma fst_contain [simp]: "fst (contain t r) = fst r"
  by (simp add: contain_def)

lemma quiet_clicks: "quiet n \<Longrightarrow> r \<in> set (clicks b n) \<Longrightarrow> fst r = []"
  by (induction b n arbitrary: r rule: clicks.induct)
    (auto simp: list_all_iff bubble_none Let_def split: if_splits)

lemma quiet_inputs: "quiet n \<Longrightarrow> i \<in> set (inputs b n) \<Longrightarrow> snd i x = []"
  by (induction b n arbitrary: i rule: inputs.induct)
    (fastforce simp: list_all_iff emits_def Let_def split: if_splits)+

definition all_emits :: "('m list \<Rightarrow> bool) \<Rightarrow> string \<Rightarrow> js obj \<Rightarrow> 'm listener list \<Rightarrow> 'm node list \<Rightarrow> bool" where
  "all_emits P t as ls ns \<longleftrightarrow> (\<forall>e\<in>set (control_events t as ns).
     \<forall>x. admits (fst e) x \<longrightarrow> heard ls (snd e) x \<noteq> [] \<longrightarrow> P (heard ls (snd e) x))"

lemma all_emits_none [template]: "all_emits P t as [] ns"
  by (simp add: all_emits_def)

lemma all_inputs_Element: "all_inputs b P (Element t as ls ns) \<longleftrightarrow> dead t as \<or>
    (masked b t as \<or> all_emits P t as ls ns) \<and> (\<forall>n\<in>set ns. all_inputs (masked b t as) P n)"
proof -
  have "(\<forall>i\<in>set (emits t as ls ns). \<forall>x. admits (fst i) x \<longrightarrow> snd i x \<noteq> [] \<longrightarrow> P (snd i x)) \<longleftrightarrow> all_emits P t as ls ns"
    by (simp add: all_emits_def emits_def split_beta)
  then show ?thesis by (auto simp: all_inputs_def Let_def)
qed

lemma all_clicks_Element: "all_clicks b P (Element t as ls ns) \<longleftrightarrow> dead t as \<or>
    (if masked b t as then \<forall>n\<in>set ns. all_clicks True P n
     else (own_click ls \<noteq> [] \<longrightarrow> P (own_click ls)) \<and>
      (\<forall>n\<in>set ns. \<forall>r\<in>set (clicks False n). fst (bubble ls r) \<noteq> [] \<longrightarrow> P (fst (bubble ls r))))"
  by (auto simp: all_clicks_def Let_def)

lemma all_do_Element [template]:
  assumes "own_click ls = []"
  shows "all_do b P [Element t as ls ns] =
    (dead t as \<or> (masked b t as \<or> all_emits P t as ls ns) \<and> all_do (masked b t as) P ns)"
proof -
  have "(\<forall>n\<in>set ns. \<forall>r\<in>set (clicks False n). fst (bubble ls r) \<noteq> [] \<longrightarrow> P (fst (bubble ls r))) \<longleftrightarrow>
      (\<forall>n\<in>set ns. all_clicks False P n)"
    by (simp add: bubble_none [OF assms] all_clicks_def)
  with assms show ?thesis by (auto simp: all_do_def all_inputs_Element all_clicks_Element)
qed

lemma all_do_leaf [template]:
  assumes "list_all quiet ns" and "own_click ls \<noteq> []"
  shows "all_do b P [Element t as ls ns] =
    (dead t as \<or> masked b t as \<or> P (own_click ls) \<and> all_emits P t as ls ns)"
proof -
  have "fst r = []" if "n \<in> set ns" "r \<in> set (clicks c n)" for n r c
    using quiet_clicks [of n r c] that assms(1) by (simp add: list_all_iff)
  then have "fst (bubble ls r) \<in> {[], own_click ls}" if "n \<in> set ns" "r \<in> set (clicks c n)" for n r c
    using that by (cases r) (fastforce simp: bubble_def)
  moreover have "all_inputs c P n \<and> all_clicks True P n" if "n \<in> set ns" for n c
    using quiet_inputs [of n] quiet_clicks [of n] that assms(1) by (auto simp: list_all_iff all_inputs_def all_clicks_def)
  ultimately show ?thesis using assms(2) by (fastforce simp: all_do_def all_inputs_Element all_clicks_Element)
qed

text \<open>An element around others that stop every click: its own listener only hears its own clicks.\<close>

lemma stopped_clicks:
  assumes "stops ls" and "\<not> masked b t as" and "r \<in> set (clicks b (Element t as ls ns))"
  shows "snd r"
  using assms by (auto simp: Let_def contain_def bubble_def split: if_splits)

lemma all_do_around:
  assumes "\<And>n r. n \<in> set ns \<Longrightarrow> r \<in> set (clicks False n) \<Longrightarrow> snd r"
    and "own_click ls \<noteq> []" and "\<not> dead t as" and "\<not> masked b t as"
  shows "all_do b P [Element t as ls ns] = (P (own_click ls) \<and> all_emits P t as ls ns \<and> all_do False P ns)"
proof -
  have "bubble ls r = r" if "n \<in> set ns" "r \<in> set (clicks False n)" for n r
    using assms(1) [OF that] by (cases r) (simp add: bubble_def)
  then have "(\<forall>n\<in>set ns. \<forall>r\<in>set (clicks False n). fst (bubble ls r) \<noteq> [] \<longrightarrow> P (fst (bubble ls r))) \<longleftrightarrow>
      (\<forall>n\<in>set ns. all_clicks False P n)"
    by (simp add: all_clicks_def)
  with assms(2-4) show ?thesis by (auto simp: all_do_def all_inputs_Element all_clicks_Element)
qed

lemma own_click_simps [template]:
  "own_click [] = []" "own_click (Clicked m # ls) = m # own_click ls"
  "own_click (ClickedStop m # ls) = m # own_click ls" "own_click (Emitted e h # ls) = own_click ls"
  by (simp_all add: own_click_def)

lemma heard_simps [template]:
  "heard ls [] x = []" "heard [] (e # es) x = heard [] es x"
  "heard [Emitted e' h] (e # es) x = (if e' = e then h x # heard [Emitted e' h] es x else heard [Emitted e' h] es x)"
  "heard [Clicked m] es x = []"
  by (simp_all add: heard_def)

lemma quiet_lists [template]:
  "list_all quiet [] = True" "list_all quiet (n # ns) = (quiet n \<and> list_all quiet ns)"
  by simp_all

lemmas [template] = quiet.simps oget_Nil oget_Cons

section \<open>Templates within templates\<close>

text \<open>A child component is rendered with its own messages, which its parent wraps.\<close>

lemma own_click_map: "own_click (map (map_listener f) ls) = map f (own_click ls)"
  by (induction ls) (auto simp: own_click_def split: listener.splits)

lemma stops_map: "stops (map (map_listener f) ls) = stops ls"
  by (induction ls) (auto simp: stops_def split: listener.splits)

lemma heard_map: "heard (map (map_listener f) ls) es x = map f (heard ls es x)"
proof -
  have "concat (map (\<lambda>l. case l of Emitted e' m \<Rightarrow> if e' = e then [m x] else [] | _ \<Rightarrow> []) (map (map_listener f) ls)) =
    map f (concat (map (\<lambda>l. case l of Emitted e' m \<Rightarrow> if e' = e then [m x] else [] | _ \<Rightarrow> []) ls))" for e
    by (induction ls) (auto split: listener.splits)
  then show ?thesis by (simp add: heard_def map_concat o_def)
qed

lemma values_of_map: "values_of t a (map (map_node f) ns) = values_of t a ns"
  by (induction ns) (auto simp: values_of_def split: node.splits)

lemma control_events_map: "control_events t as (map (map_node f) ns) = control_events t as ns"
  by (simp add: control_events_def values_of_map)

lemma clicks_map: "clicks b (map_node f n) = map (map_prod (map f) (\<lambda>s. s)) (clicks b n)"
proof (induction b n rule: clicks.induct)
  case (2 b t as ls ns)
  have "map (bubble (map (map_listener f) ls)) (map (map_prod (map f) (\<lambda>s. s)) rs) =
      map (map_prod (map f) (\<lambda>s. s)) (map (bubble ls) rs)" for rs
    by (auto simp: bubble_def own_click_map stops_map split: prod.split)
  moreover have "map (contain t) (map (map_prod (map f) (\<lambda>s. s)) rs) =
      map (map_prod (map f) (\<lambda>s. s)) (map (contain t) rs)" for rs
    by (auto simp: contain_def)
  moreover have "concat (map (clicks (masked b t as)) (map (map_node f) ns)) =
      map (map_prod (map f) (\<lambda>s. s)) (concat (map (clicks (masked b t as)) ns))" if "\<not> dead t as"
    using 2 [OF that] by (induction ns) auto
  ultimately show ?case
    by (cases "masked b t as") (simp_all add: own_click_map stops_map Let_def contain_def del: map_map)
qed simp

lemma inputs_map: "inputs b (map_node f n) = map (map_prod (\<lambda>c. c) (\<lambda>h x. map f (h x))) (inputs b n)"
proof (induction b n rule: inputs.induct)
  case (2 b t as ls ns)
  have "concat (map (inputs (masked b t as)) (map (map_node f) ns)) =
      map (map_prod (\<lambda>c. c) (\<lambda>h x. map f (h x))) (concat (map (inputs (masked b t as)) ns))" if "\<not> dead t as"
    using 2 [OF that] by (induction ns) auto
  moreover have "emits t as (map (map_listener f) ls) (map (map_node f) ns) =
      map (map_prod (\<lambda>c. c) (\<lambda>h x. map f (h x))) (emits t as ls ns)"
    by (auto simp: emits_def control_events_map fun_eq_iff heard_map)
  ultimately show ?case by (simp add: Let_def)
qed simp

lemma all_do_map_node [template]: "all_do b P (map (map_node f) ns) = all_do b (\<lambda>ms. P (map f ms)) ns"
  by (simp add: all_do_def all_clicks_def all_inputs_def clicks_map inputs_map)

lemma all_do_map_nodes [template]:
  "(\<forall>n\<in>set ns. all_do b P [map_node f n]) = all_do b (\<lambda>ms. P (map f ms)) ns"
  "(\<forall>n\<in>set ks. all_do b Q [map_node g (map_node h n)]) = all_do b (\<lambda>ms. Q (map g (map h ms))) ks"
  using all_do_map_node [of b P f ns] all_do_map_node [of b Q g "map (map_node h) ks"]
    all_do_map_node [of b "\<lambda>ms. Q (map g ms)" h ks]
  by (simp_all add: all_do_def)

text \<open>Below a mask only what floats can be used.\<close>

lemma masked_clicks: "r \<in> set (clicks True n) \<Longrightarrow> fst r \<noteq> [] \<Longrightarrow> snd r \<and> r \<in> set (clicks False n)"
proof (induction n arbitrary: r)
  case (Element t as ls ns)
  show ?case
  proof (cases "floats t")
    case True
    with Element.prems show ?thesis by (auto simp: masked_def Let_def contain_def split: if_splits)
  next
    case False
    then have [simp]: "contain t = (\<lambda>r. r)" by (simp add: contain_def fun_eq_iff)
    obtain n where n: "n \<in> set ns" "r \<in> set (clicks True n)" "\<not> dead t as"
      using Element.prems False by (auto simp: masked_def Let_def split: if_splits)
    with Element have r: "snd r" "r \<in> set (clicks False n)" by blast+
    then have "bubble ls r = r" by (cases r) (simp add: bubble_def)
    with n r have "r \<in> bubble ls ` (\<Union>n\<in>set ns. set (clicks False n))" by (metis UN_I image_eqI)
    with n r show ?thesis by (cases "masked False t as") (auto simp: Let_def)
  qed
qed simp

lemma masked_inputs: "i \<in> set (inputs True n) \<Longrightarrow> i \<in> set (inputs False n)"
proof (induction n)
  case (Element t as ls ns)
  then show ?case by (cases "masked False t as") (auto simp: masked_def Let_def split: if_splits)
qed simp

lemma all_do_masked: "all_do False P ns \<Longrightarrow> all_do b P ns"
  using masked_clicks masked_inputs by (cases b) (fastforce simp: all_do_def all_clicks_def all_inputs_def)+

lemma all_do_True: "all_do b (\<lambda>_. True) ns"
  by (simp add: all_do_def all_clicks_def all_inputs_def)

end
