(* ===== verification/ConnFields.thy ===== *)
theory ConnFields
  imports ConnForm Template "HOL-Library.Sublist"
begin

text \<open>
  The fields of the connection form (the template of \<open>MqttConnForm.vue\<close>): which are shown, what each
  of them can put into the form, and what the rules ask for. A control emits only values of its
  kind, which is the documented behaviour of the form library; numbers can be cleared. The form is
  typed in every state that opening it and using its fields can lead to, and a form that fulfils
  the rules always gives a client.
\<close>

section \<open>Fields\<close>

record form_field =
  ff_label :: string
  ff_path :: "string list"
  ff_control :: control

definition yes_no :: "js list" where
  "yes_no = [JBool True, JBool False]"

definition general_fields :: "form_field list" where
  "general_fields = [
     \<lparr>ff_label = ''Role'', ff_path = [''userrole''], ff_control = Choice [JStr ''thing'', JStr ''server'']\<rparr>,
     \<lparr>ff_label = ''Name'', ff_path = [''name''], ff_control = Text\<rparr>,
     \<lparr>ff_label = ''Client ID'', ff_path = [''clientId''], ff_control = Text\<rparr>,
     \<lparr>ff_label = ''Host'', ff_path = [''protocol''], ff_control = Choice [JStr ''ws'', JStr ''wss'']\<rparr>,
     \<lparr>ff_label = ''Host'', ff_path = [''host''], ff_control = Text\<rparr>,
     \<lparr>ff_label = ''Port'', ff_path = [''port''], ff_control = Number 0 (Some 65535)\<rparr>,
     \<lparr>ff_label = ''Path'', ff_path = [''path''], ff_control = Text\<rparr>,
     \<lparr>ff_label = ''Username'', ff_path = [''username''], ff_control = Text\<rparr>,
     \<lparr>ff_label = ''Password'', ff_path = [''password''], ff_control = Text\<rparr>,
     \<lparr>ff_label = ''SSL/TLS'', ff_path = [''ssl''], ff_control = Switch\<rparr>]"

definition secure_fields :: "form_field list" where
  "secure_fields = [\<lparr>ff_label = ''SSL Secure'', ff_path = [''rejectUnauthorized''], ff_control = Switch\<rparr>]"

definition advanced_fields :: "form_field list" where
  "advanced_fields = [
     \<lparr>ff_label = ''Connect Timeout'', ff_path = [''connectTimeout''], ff_control = Number 0 None\<rparr>,
     \<lparr>ff_label = ''Keep Alive'', ff_path = [''keepalive''], ff_control = Number 0 None\<rparr>,
     \<lparr>ff_label = ''Clean Session'', ff_path = [''clean''], ff_control = Choice yes_no\<rparr>,
     \<lparr>ff_label = ''Auto Reconnect'', ff_path = [''reconnect''], ff_control = Choice yes_no\<rparr>,
     \<lparr>ff_label = ''MQTT Version'', ff_path = [''mqttVersion''], ff_control = Choice [JStr ''3.1.1'', JStr ''5.0'']\<rparr>]"

definition reconnect_fields :: "form_field list" where
  "reconnect_fields = [\<lparr>ff_label = ''Reconnect Period'', ff_path = [''reconnectPeriod''], ff_control = Number 1 None\<rparr>]"

definition v5_fields :: "form_field list" where
  "v5_fields = [
     \<lparr>ff_label = ''Session Expiry Interval'', ff_path = [''properties'', ''sessionExpiryInterval''], ff_control = Free\<rparr>,
     \<lparr>ff_label = ''Receive Maximum'', ff_path = [''properties'', ''receiveMaximum''], ff_control = Free\<rparr>,
     \<lparr>ff_label = ''Maximum Packet Size'', ff_path = [''properties'', ''maximumPacketSize''], ff_control = Free\<rparr>,
     \<lparr>ff_label = ''Topic Alias Maximum'', ff_path = [''properties'', ''topicAliasMaximum''], ff_control = Free\<rparr>,
     \<lparr>ff_label = ''Request Response Info'', ff_path = [''properties'', ''requestResponseInformation''],
       ff_control = Optional yes_no\<rparr>,
     \<lparr>ff_label = ''Request Problem Info'', ff_path = [''properties'', ''requestProblemInformation''],
       ff_control = Optional yes_no\<rparr>,
     \<lparr>ff_label = ''User Properties'', ff_path = [''properties'', ''userProperties''], ff_control = Pairs\<rparr>]"

definition will_fields :: "form_field list" where
  "will_fields = [
     \<lparr>ff_label = ''Last-Will Topic'', ff_path = [''will'', ''lastWillTopic''], ff_control = Text\<rparr>,
     \<lparr>ff_label = ''Last-Will QoS'', ff_path = [''will'', ''lastWillQos''], ff_control = Choice [JNum 0, JNum 1, JNum 2]\<rparr>,
     \<lparr>ff_label = ''Last-Will Retain'', ff_path = [''will'', ''lastWillRetain''], ff_control = Choice yes_no\<rparr>,
     \<lparr>ff_label = ''Last-Will Payload'', ff_path = [''will'', ''lastWillPayload''], ff_control = Text\<rparr>]"

definition will_v5_fields :: "form_field list" where
  "will_v5_fields = [
     \<lparr>ff_label = ''Payload Format Indicator'', ff_path = [''will'', ''properties'', ''payloadFormatIndicator''],
       ff_control = Optional yes_no\<rparr>,
     \<lparr>ff_label = ''Will Delay Interval'', ff_path = [''will'', ''properties'', ''willDelayInterval''], ff_control = Free\<rparr>,
     \<lparr>ff_label = ''Message Expiry Interval'', ff_path = [''will'', ''properties'', ''messageExpiryInterval''],
       ff_control = Free\<rparr>,
     \<lparr>ff_label = ''Content Type'', ff_path = [''will'', ''properties'', ''contentType''], ff_control = MaybeText\<rparr>,
     \<lparr>ff_label = ''Response Topic'', ff_path = [''will'', ''properties'', ''responseTopic''], ff_control = MaybeText\<rparr>,
     \<lparr>ff_label = ''Correlation Data'', ff_path = [''will'', ''properties'', ''correlationData''], ff_control = MaybeText\<rparr>]"

text \<open>The fields shown, in the order of the template.\<close>

definition shown_fields :: "js obj \<Rightarrow> form_field list" where
  "shown_fields form =
     (let v5 = (oget form ''mqttVersion'' = JStr ''5.0'') in
      general_fields @ (if truthy (oget form ''ssl'') then secure_fields else []) @
      take 4 advanced_fields @ (if truthy (oget form ''reconnect'') then reconnect_fields else []) @
      drop 4 advanced_fields @ (if v5 then v5_fields else []) @ will_fields @ (if v5 then will_v5_fields else []))"

definition field_disabled :: "js \<Rightarrow> js \<Rightarrow> js obj \<Rightarrow> form_field \<Rightarrow> bool" where
  "field_disabled editConnId createThingId form f =
     (let fixed = truthy editConnId \<or> truthy createThingId; thing = (oget form ''userrole'' = JStr ''thing'') in
      if ff_path f = [''userrole''] then fixed
      else if ff_path f = [''clientId''] then True
      else if ff_path f = [''username''] then thing \<and> fixed
      else if ff_path f = [''password''] then (truthy editConnId \<and> thing) \<or> truthy createThingId
      else False)"

text \<open>The option \<open>ws\<close> of the protocol cannot be chosen while encryption is on.\<close>

definition offers :: "js obj \<Rightarrow> form_field \<Rightarrow> js \<Rightarrow> bool" where
  "offers form f v \<longleftrightarrow> admits (ff_control f) v \<and>
     \<not> (ff_path f = [''protocol''] \<and> v = JStr ''ws'' \<and> truthy (oget form ''ssl''))"

fun get_path :: "string list \<Rightarrow> js \<Rightarrow> js" where
  "get_path [] x = x"
| "get_path (k # ks) x = get_path ks (opt_get x k)"

fun put_path :: "string list \<Rightarrow> js \<Rightarrow> js \<Rightarrow> js" where
  "put_path [] v x = v"
| "put_path (k # ks) v x = (case x of JObj m \<Rightarrow> JObj (oput k (put_path ks v (oget m k)) m) | _ \<Rightarrow> x)"

definition members :: "js \<Rightarrow> js obj" where
  "members x = (case x of JObj m \<Rightarrow> m | _ \<Rightarrow> [])"

text \<open>Some of the texts are trimmed (\<open>v-model.trim\<close>).\<close>

definition trimmed :: "form_field \<Rightarrow> js \<Rightarrow> js" where
  "trimmed f v = (case v of
     JStr s \<Rightarrow> if ff_path f \<in> {[''host''], [''username''], [''password'']} then JStr (trim s) else v | _ \<Rightarrow> v)"

text \<open>Using a field; the switch for encryption also adjusts the protocol.\<close>

definition use_field :: "form_field \<Rightarrow> js \<Rightarrow> js obj \<Rightarrow> js obj" where
  "use_field f v form =
     (let form = members (put_path (ff_path f) (trimmed f v) (JObj form))
      in if ff_path f = [''ssl''] then handleSSL (truthy v) form else form)"

text \<open>What the rules ask for before the form can be saved.\<close>

definition filled_text :: "js \<Rightarrow> bool" where
  "filled_text v \<longleftrightarrow> v \<noteq> JStr '''' \<and> \<not> nullish v"

definition rules_hold :: "js obj \<Rightarrow> bool" where
  "rules_hold form \<longleftrightarrow> list_all (\<lambda>k. filled_text (oget form k))
       [''name'', ''username'', ''password'', ''path'', ''host'', ''port''] \<and>
     (case oget form ''name'' of JStr s \<Rightarrow> 3 \<le> length s \<and> length s \<le> 50 | _ \<Rightarrow> False)"

section \<open>Using the form\<close>

definition all_fields :: "form_field list" where
  "all_fields = general_fields @ secure_fields @ advanced_fields @ reconnect_fields @ v5_fields @ will_fields @ will_v5_fields"

definition conn_typed :: "js obj \<Rightarrow> bool" where
  "conn_typed form \<longleftrightarrow> list_all (\<lambda>f. admits (ff_control f) (get_path (ff_path f) (JObj form))) all_fields \<and>
     list_all (\<lambda>p. is_obj (get_path p (JObj form))) [[''properties''], [''will''], [''will'', ''properties'']] \<and>
     (oget form ''ssl'' = JBool True \<longrightarrow> oget form ''protocol'' = JStr ''wss'')"

definition thing_typed :: "js \<Rightarrow> bool" where
  "thing_typed t \<longleftrightarrow> admits Text (opt_get t ''thingId'') \<and> admits Text (opt_get t ''authValue'')"

definition port_typed :: "js \<Rightarrow> bool" where
  "port_typed port \<longleftrightarrow> admits (Number 0 (Some 65535)) port"

text \<open>
  Opening the form for a stored connection, for a thing or for a new connection, using a field,
  picking a suggested user name, and asking for another client id.
\<close>

inductive form_step :: "conn_dialog \<Rightarrow> conn_dialog \<Rightarrow> bool" where
  edit: "conn_typed c \<Longrightarrow> port_typed port \<Longrightarrow> form_step d (open_edit (JObj c) port random16 d)"
| thing: "list_all thing_typed ts \<Longrightarrow> admits Text i \<Longrightarrow> port_typed port \<Longrightarrow> form_step d (open_thing i ts token port d)"
| new: "port_typed port \<Longrightarrow> form_step d (open_new (getDefaultForm hostname isHttps time) port r d)"
| field: "f \<in> set (shown_fields (cd_form d)) \<Longrightarrow> \<not> field_disabled editId thingId (cd_form d) f \<Longrightarrow>
    offers (cd_form d) f v \<Longrightarrow>
    form_step d (d\<lparr>cd_form := settle thingId r (cd_form d) (use_field f v (cd_form d))\<rparr>)"
| pick: "thing_typed t \<Longrightarrow> form_step d (d\<lparr>cd_form := handleUsernameSelect (username_item t) (cd_form d)\<rparr>)"
| reset: "form_step d (d\<lparr>cd_form := resetClientID r (cd_form d)\<rparr>)"

definition form_start :: "conn_dialog \<Rightarrow> bool" where
  "form_start d \<longleftrightarrow> (\<exists>hostname isHttps time.
     d = \<lparr>cd_form = members (getDefaultForm hostname isHttps time), cd_oldName = JStr '''', cd_token = ''''\<rparr>)"

section \<open>Assigning to a path\<close>

fun objects_along :: "string list \<Rightarrow> js \<Rightarrow> bool" where
  "objects_along [] x = True"
| "objects_along (k # ks) x = (is_obj x \<and> objects_along ks (opt_get x k))"

lemma get_put_same: "objects_along p x \<Longrightarrow> get_path p (put_path p v x) = v"
  by (induction p arbitrary: x) (auto simp: is_obj_def dict_simps)

text \<open>Two paths are apart when neither continues the other.\<close>

fun apart :: "string list \<Rightarrow> string list \<Rightarrow> bool" where
  "apart (a # as) (b # bs) = (a \<noteq> b \<or> apart as bs)"
| "apart [] q = False"
| "apart (a # as) [] = False"

lemma get_put_other: "apart p q \<Longrightarrow> get_path q (put_path p v x) = get_path q x"
  by (induction p q arbitrary: x rule: apart.induct) (auto simp: dict_simps split: jsval.split)

lemma is_obj_put: "is_obj (get_path q x) \<Longrightarrow> p \<noteq> q \<Longrightarrow> \<not> prefix p q \<Longrightarrow> is_obj (get_path q (put_path p v x))"
proof (induction p q arbitrary: x rule: apart.induct)
  case (1 a as b bs)
  then show ?case by (cases x) (auto simp: dict_simps)
next
  case (2 q)
  then show ?case by auto
next
  case (3 a as)
  then show ?case by (auto simp: is_obj_def dict_simps)
qed

lemma is_obj_put_path: "is_obj x \<Longrightarrow> p \<noteq> [] \<Longrightarrow> put_path p v x = JObj (members (put_path p v x))"
  by (cases p) (auto simp: is_obj_def members_def)

lemma put_path_single: "put_path [k] v (JObj m) = JObj (oput k v m)"
  by simp

section \<open>The table of fields\<close>

definition roots :: "string list list" where
  "roots = [[''properties''], [''will''], [''will'', ''properties'']]"

lemmas field_tables = general_fields_def secure_fields_def advanced_fields_def reconnect_fields_def
  v5_fields_def will_fields_def will_v5_fields_def

lemma paths_apart:
  "list_all (\<lambda>p. list_all (\<lambda>q. p = q \<or> apart p q) (map ff_path all_fields)) (map ff_path all_fields)"
  by code_simp

lemma paths_distinct: "distinct (map ff_path all_fields)"
  by code_simp

lemma paths_rooted:
  "list_all (\<lambda>p. p \<noteq> [] \<and> (butlast p = [] \<or> butlast p \<in> set roots) \<and>
     list_all (\<lambda>q. p \<noteq> q \<and> \<not> prefix p q) roots) (map ff_path all_fields)"
  by code_simp

lemma fields_apart:
  assumes "f \<in> set all_fields" and "g \<in> set all_fields"
  shows "f = g \<or> apart (ff_path f) (ff_path g)"
proof -
  have "ff_path f = ff_path g \<or> apart (ff_path f) (ff_path g)"
    using paths_apart assms by (simp add: list_all_iff)
  moreover have "f = g" if "ff_path f = ff_path g"
    using paths_distinct assms that by (auto simp: distinct_map dest: inj_onD)
  ultimately show ?thesis by blast
qed

lemma fields_rooted:
  assumes "f \<in> set all_fields"
  shows "ff_path f \<noteq> []" and "butlast (ff_path f) = [] \<or> butlast (ff_path f) \<in> set roots"
    and "q \<in> set roots \<Longrightarrow> ff_path f \<noteq> q \<and> \<not> prefix (ff_path f) q"
  using paths_rooted assms by (auto simp: list_all_iff)

lemma objects_along_snoc: "objects_along (q @ [k]) x \<longleftrightarrow> objects_along q x \<and> is_obj (get_path q x)"
  by (induction q arbitrary: x) auto

lemma typed_objects:
  assumes "list_all (\<lambda>q. is_obj (get_path q (JObj form))) roots" and "f \<in> set all_fields"
  shows "objects_along (ff_path f) (JObj form)"
proof -
  obtain q k where p: "ff_path f = q @ [k]" using fields_rooted(1) [OF assms(2)] by (metis rev_exhaust)
  then have "q = [] \<or> q \<in> set roots" using fields_rooted(2) [OF assms(2)] by simp
  then show ?thesis using assms(1) by (auto simp: p objects_along_snoc roots_def is_obj_def)
qed

section \<open>The form stays typed\<close>

lemma conn_typed_iff:
  "conn_typed form \<longleftrightarrow> (\<forall>f\<in>set all_fields. admits (ff_control f) (get_path (ff_path f) (JObj form))) \<and>
     list_all (\<lambda>q. is_obj (get_path q (JObj form))) roots \<and>
     (oget form ''ssl'' = JBool True \<longrightarrow> oget form ''protocol'' = JStr ''wss'')"
  by (simp add: conn_typed_def roots_def list_all_iff)

lemma typed_put:
  assumes "conn_typed form" and "f \<in> set all_fields" and "admits (ff_control f) v"
    and "form' = members (put_path (ff_path f) v (JObj form))"
    and "oget form' ''ssl'' = JBool True \<longrightarrow> oget form' ''protocol'' = JStr ''wss''"
  shows "conn_typed form'"
proof -
  have form': "JObj form' = put_path (ff_path f) v (JObj form)"
    using is_obj_put_path [of "JObj form" "ff_path f" v] fields_rooted(1) [OF assms(2)]
    by (simp add: assms(4) is_obj_def)
  have "admits (ff_control g) (get_path (ff_path g) (JObj form'))" if "g \<in> set all_fields" for g
  proof (cases "f = g")
    case True
    with assms(1,3) typed_objects [OF _ assms(2)] get_put_same show ?thesis
      by (simp add: form' conn_typed_iff)
  next
    case False
    then have "apart (ff_path f) (ff_path g)" using fields_apart [OF assms(2) that] by blast
    with assms(1) that show ?thesis by (simp add: form' get_put_other conn_typed_iff)
  qed
  moreover have "is_obj (get_path q (JObj form'))" if "q \<in> set roots" for q
    using that fields_rooted(3) [OF assms(2) that] assms(1)
    by (auto simp: form' conn_typed_iff list_all_iff intro: is_obj_put)
  ultimately show ?thesis using assms(5) by (simp add: conn_typed_iff list_all_iff)
qed

text \<open>Assignments to members of the form that are fields of their own.\<close>

definition control_of :: "string \<Rightarrow> control option" where
  "control_of k = map_option ff_control (List.find (\<lambda>f. ff_path f = [k]) all_fields)"

lemma simple_controls:
  "list_all (\<lambda>k. control_of k = Some Text) [''name'', ''clientId'', ''host'', ''path'', ''username'', ''password'']"
  "control_of ''port'' = Some (Number 0 (Some 65535))"
  "control_of ''userrole'' = Some (Choice [JStr ''thing'', JStr ''server''])"
  "control_of ''mqttVersion'' = Some (Choice [JStr ''3.1.1'', JStr ''5.0''])"
  "control_of ''ssl'' = Some Switch" "control_of ''protocol'' = Some (Choice [JStr ''ws'', JStr ''wss''])"
  by code_simp+

lemma control_of_field: "control_of k = Some c \<Longrightarrow> \<exists>f\<in>set all_fields. ff_path f = [k] \<and> ff_control f = c"
  using find_SomeD [of "\<lambda>f. ff_path f = [k]" all_fields] by (auto simp: control_of_def)

lemma control_at:
  assumes "f \<in> set all_fields" and "ff_path f = [k]" and "control_of k = Some c"
  shows "ff_control f = c"
proof -
  obtain g where g: "g \<in> set all_fields" "ff_path g = [k]" "ff_control g = c"
    using control_of_field [OF assms(3)] by blast
  with fields_apart [OF assms(1) g(1)] assms(2) show ?thesis by auto
qed

lemma typed_member: "conn_typed form \<Longrightarrow> control_of k = Some c \<Longrightarrow> admits c (oget form k)"
  using control_of_field [of k c] by (force simp: conn_typed_iff)

lemma typed_oput:
  assumes "conn_typed form"
    and "k \<in> {''name'', ''clientId'', ''host'', ''path'', ''username'', ''password''} \<and> admits Text v \<or>
      k = ''port'' \<and> port_typed v \<or> k = ''userrole'' \<and> v \<in> {JStr ''thing'', JStr ''server''} \<or>
      k = ''mqttVersion'' \<and> v \<in> {JStr ''3.1.1'', JStr ''5.0''}"
  shows "conn_typed (oput k v form)"
proof -
  obtain f where f: "f \<in> set all_fields" "ff_path f = [k]" "admits (ff_control f) v"
    using control_of_field [of k] simple_controls assms(2) by (fastforce simp: port_typed_def)
  have k: "k \<noteq> ''ssl''" "k \<noteq> ''protocol''" using assms(2) by auto
  show ?thesis
    by (rule typed_put [OF assms(1) f(1,3)])
      (use assms(1) k in \<open>simp_all add: f(2) members_def conn_typed_iff dict_simps\<close>)
qed

lemma typed_texts:
  assumes "conn_typed form" and "admits Text v"
  shows "conn_typed (oput ''name'' v form)" and "conn_typed (oput ''clientId'' v form)"
    and "conn_typed (oput ''username'' v form)" and "conn_typed (oput ''password'' v form)"
  by (rule typed_oput [OF assms(1)]; use assms(2) in simp)+

lemma typed_others:
  assumes "conn_typed form"
  shows "port_typed v \<Longrightarrow> conn_typed (oput ''port'' v form)"
    and "v \<in> {JStr ''thing'', JStr ''server''} \<Longrightarrow> conn_typed (oput ''userrole'' v form)"
    and "v \<in> {JStr ''3.1.1'', JStr ''5.0''} \<Longrightarrow> conn_typed (oput ''mqttVersion'' v form)"
  by (rule typed_oput [OF assms]; simp)+

lemma typed_irrelevant: "conn_typed form \<Longrightarrow> conn_typed (oput ''certType'' v form)"
proof -
  assume t: "conn_typed form"
  have "list_all (apart [''certType'']) (map ff_path all_fields)" by code_simp
  then have "apart [''certType''] (ff_path f)" if "f \<in> set all_fields" for f
    using that by (simp add: list_all_iff)
  then have "get_path (ff_path f) (JObj (oput ''certType'' v form)) = get_path (ff_path f) (JObj form)"
    if "f \<in> set all_fields" for f
    using that get_put_other [of "[''certType'']" "ff_path f" v "JObj form"] by simp
  with t show ?thesis by (simp add: conn_typed_iff dict_simps roots_def)
qed

text \<open>Being typed depends on the members of the form only, not on their order.\<close>

lemma typed_cong:
  assumes "\<And>k. oget form k = oget form' k"
  shows "conn_typed form = conn_typed form'"
proof -
  have "get_path p (JObj form) = get_path p (JObj form')" if "p \<noteq> []" for p
    using that assms by (cases p) simp_all
  then show ?thesis
    using fields_rooted(1) assms by (simp add: conn_typed_iff roots_def)
qed

lemma typed_protocol:
  assumes "conn_typed form" and "v \<in> {JStr ''ws'', JStr ''wss''}" and "oget form ''ssl'' = JBool True \<longrightarrow> v = JStr ''wss''"
  shows "conn_typed (oput ''protocol'' v form)"
proof -
  obtain f where f: "f \<in> set all_fields" "ff_path f = [''protocol'']" "admits (ff_control f) v"
    using control_of_field [OF simple_controls(6)] assms(2) by auto
  show ?thesis
    by (rule typed_put [OF assms(1) f(1,3)]) (use assms(3) in \<open>simp_all add: f(2) members_def dict_simps\<close>)
qed

lemma typed_ssl:
  assumes "conn_typed form" and "b \<longrightarrow> oget form ''protocol'' = JStr ''wss''"
  shows "conn_typed (oput ''ssl'' (JBool b) form)"
proof -
  obtain f where f: "f \<in> set all_fields" "ff_path f = [''ssl'']" "admits (ff_control f) (JBool b)"
    using control_of_field [OF simple_controls(5)] by auto
  show ?thesis
    by (rule typed_put [OF assms(1) f(1,3)]) (use assms(2) in \<open>simp_all add: f(2) members_def dict_simps\<close>)
qed

lemma typed_switch:
  assumes "conn_typed form"
  shows "conn_typed (handleSSL b (oput ''ssl'' (JBool b) form))"
proof -
  let ?p = "oget form ''protocol''" and ?set = "oput ''protocol'' (JStr (if b then ''wss'' else ''ws''))"
  have p: "?p \<in> {JStr ''ws'', JStr ''wss''}"
    using typed_member [OF assms simple_controls(6)] by simp
  moreover have "str_includes (to_lower ''ws'') ''ws''" "str_includes (to_lower ''wss'') ''ws''" by code_simp+
  ultimately have "truthy ?p \<and> str_includes (to_lower (js_str ?p)) ''ws''" by auto
  then have "handleSSL b (oput ''ssl'' (JBool b) form) =
      (if b then ?set (oput ''ssl'' (JBool b) form) else oput ''certType'' (JStr '''') (?set (oput ''ssl'' (JBool b) form)))"
    by (simp add: handleSSL_def changeProtocol_def Let_def dict_simps)
  moreover have "conn_typed (?set (oput ''ssl'' (JBool b) form))"
  proof (cases b)
    case True
    have "conn_typed (oput ''ssl'' (JBool b) (?set form))"
      by (intro typed_ssl typed_protocol assms) (simp_all add: True dict_simps)
    then show ?thesis by (subst typed_cong [of _ "oput ''ssl'' (JBool b) (?set form)"]) (simp_all add: dict_simps)
  next
    case False
    then show ?thesis by (intro typed_protocol typed_ssl assms) (simp_all add: dict_simps)
  qed
  ultimately show ?thesis by (cases b) (simp_all add: typed_irrelevant)
qed

lemma typed_settle: "conn_typed form \<Longrightarrow> conn_typed (settle thingId r old form)"
  by (simp add: settle_def watch_userrole_def watch_username_def server_clientId_def Let_def typed_texts)

lemma shown_known: "f \<in> set (shown_fields form) \<Longrightarrow> f \<in> set all_fields"
  by (auto simp: shown_fields_def all_fields_def Let_def split: if_splits dest: in_set_takeD in_set_dropD)

lemma trimmed_admits:
  assumes "f \<in> set all_fields" and "admits (ff_control f) v"
  shows "admits (ff_control f) (trimmed f v)"
proof (cases "ff_path f \<in> {[''host''], [''username''], [''password'']}")
  case True
  then have "ff_control f = Text"
    using control_at [OF assms(1)] simple_controls(1) by auto
  with assms(2) show ?thesis by (auto simp: trimmed_def)
qed (use assms(2) in \<open>auto simp: trimmed_def split: jsval.split\<close>)

lemma trimmed_other: "ff_path f = [k] \<Longrightarrow> k \<in> {''ssl'', ''protocol'', ''name''} \<Longrightarrow> trimmed f v = v"
  by (auto simp: trimmed_def split: jsval.split)

lemma typed_use:
  assumes "conn_typed form" and "f \<in> set all_fields" and "offers form f v"
  shows "conn_typed (use_field f v form)"
proof (cases "ff_path f = [''ssl'']")
  case True
  then have "ff_control f = Switch" by (rule control_at [OF assms(2) _ simple_controls(5)])
  then obtain b where "v = JBool b" using assms(3) by (auto simp: offers_def)
  with typed_switch [OF assms(1), of b] trimmed_other [OF True] show ?thesis by (simp add: use_field_def True members_def)
next
  case False
  let ?form = "members (put_path (ff_path f) (trimmed f v) (JObj form))"
  have path: "ff_path f \<noteq> []" by (rule fields_rooted(1) [OF assms(2)])
  have get: "oget ?form k = (if ff_path f = [k] then trimmed f v else oget form k)"
    if "k \<in> {''ssl'', ''protocol''}" for k
  proof -
    have "k \<notin> {''properties'', ''will''}" using that by auto
    then have "ff_path f = [k] \<or> hd (ff_path f) \<noteq> k"
      using fields_rooted(2) [OF assms(2)] path by (cases "ff_path f") (auto simp: roots_def split: if_splits)
    then show ?thesis using path by (cases "ff_path f") (auto simp: members_def dict_simps)
  qed
  have "conn_typed ?form"
  proof (rule typed_put [OF assms(1,2) _ refl])
    show "admits (ff_control f) (trimmed f v)" using trimmed_admits [OF assms(2)] assms(3) by (simp add: offers_def)
    have "v \<in> {JStr ''ws'', JStr ''wss''}" if "ff_path f = [''protocol'']"
      using control_at [OF assms(2) that simple_controls(6)] assms(3) by (simp add: offers_def)
    then show "oget ?form ''ssl'' = JBool True \<longrightarrow> oget ?form ''protocol'' = JStr ''wss''"
      using assms(1,3) False trimmed_other [of f "''protocol''" v] by (auto simp: get offers_def conn_typed_iff)
  qed
  then show ?thesis by (simp add: use_field_def False)
qed

lemma typed_spread:
  assumes "conn_typed c" and "conn_typed form"
  shows "conn_typed (spread (JObj c) form)"
proof -
  let ?m = "\<lambda>k. olookup c k \<noteq> None"
  have get: "oget (spread (JObj c) form) k = (if ?m k then oget c k else oget form k)" for k
    unfolding olookup_spread by (simp add: oget_def split: option.split)
  have path: "get_path p (JObj (spread (JObj c) form)) = get_path p (JObj c) \<or>
      get_path p (JObj (spread (JObj c) form)) = get_path p (JObj form)" if "p \<noteq> []" for p
    using that by (cases p) (simp_all add: get)
  have "oget c ''ssl'' \<noteq> JUndef" "oget c ''protocol'' \<noteq> JUndef"
    using typed_member [OF assms(1) simple_controls(5)] typed_member [OF assms(1) simple_controls(6)] by auto
  then have "?m ''ssl''" "?m ''protocol''" by (auto simp: oget_def split: option.splits)
  then have same: "oget (spread (JObj c) form) ''ssl'' = oget c ''ssl''"
    "oget (spread (JObj c) form) ''protocol'' = oget c ''protocol''" by (simp_all add: get)
  have "admits (ff_control f) (get_path (ff_path f) (JObj (spread (JObj c) form)))" if f: "f \<in> set all_fields" for f
    using path [OF fields_rooted(1) [OF f]] assms f by (auto simp: conn_typed_iff)
  moreover have "is_obj (get_path q (JObj (spread (JObj c) form)))" if q: "q \<in> set roots" for q
    using path [of q] assms q by (auto simp: conn_typed_iff list_all_iff) (auto simp: roots_def)
  ultimately show ?thesis using assms(1) same by (simp add: conn_typed_iff list_all_iff)
qed

lemma typed_default: "conn_typed (members (getDefaultForm hostname isHttps time))"
  by (auto simp: conn_typed_def getDefaultForm_def members_def all_fields_def field_tables yes_no_def)

lemma typed_open_edit:
  assumes "conn_typed c" and "conn_typed (cd_form d)" and "port_typed port"
  shows "conn_typed (cd_form (open_edit (JObj c) port random16 d))"
proof -
  have role: "oget c ''userrole'' \<in> {JStr ''thing'', JStr ''server''}"
    using typed_member [OF assms(1) simple_controls(3)] by simp
  have "admits Text (oget c ''username'')"
    using typed_member [OF assms(1), of "''username''" Text] simple_controls(1) by simp
  then have name: "admits Text (edited_username (JObj c))"
    by (auto simp: edited_username_def)
  show ?thesis
    using role name assms
    by (simp add: open_edit_def Let_def typed_settle typed_texts typed_others typed_spread)
qed

lemma typed_open_new:
  assumes "conn_typed (cd_form d)" and "port_typed port"
  shows "conn_typed (cd_form (open_new (getDefaultForm hostname isHttps time) port r d))"
proof -
  have "getDefaultForm hostname isHttps time = JObj (members (getDefaultForm hostname isHttps time))"
    by (simp add: getDefaultForm_def members_def)
  then show ?thesis
    using typed_spread [OF typed_default assms(1)] assms(2)
    unfolding open_new_def conn_dialog.simps by (metis typed_settle typed_others(1))
qed

lemma typed_open_thing:
  assumes "conn_typed (cd_form d)" and "list_all thing_typed ts" and "admits Text i" and "port_typed port"
  shows "conn_typed (cd_form (open_thing i ts token port d))"
proof (cases "find_thing i ts")
  case (Some t)
  then have "thing_typed t" using assms(2) find_SomeD by (fastforce simp: find_thing_def list_all_iff)
  then show ?thesis
    using assms(1,3,4) Some by (simp add: open_thing_def thing_typed_def typed_texts typed_others)
qed (use assms in \<open>simp add: open_thing_def typed_others\<close>)

lemma typed_pick: "conn_typed form \<Longrightarrow> thing_typed t \<Longrightarrow> conn_typed (handleUsernameSelect (username_item t) form)"
  by (simp add: handleUsernameSelect_def username_item_def thing_typed_def typed_texts)

lemma typed_reset: "conn_typed form \<Longrightarrow> conn_typed (resetClientID r form)"
  by (simp add: resetClientID_def server_clientId_def typed_texts)

interpretation conn_form: step_invariant form_start form_step "\<lambda>d. conn_typed (cd_form d)"
proof
  show "form_start d \<Longrightarrow> conn_typed (cd_form d)" for d by (auto simp: form_start_def typed_default)
  show "conn_typed (cd_form d) \<Longrightarrow> form_step d d' \<Longrightarrow> conn_typed (cd_form d')" for d d'
    by (erule form_step.cases)
      (auto intro: typed_open_edit typed_open_thing typed_open_new typed_settle typed_use shown_known typed_pick typed_reset)
qed

section \<open>A form that fulfils the rules\<close>

lemma properties_fields:
  "list_all (\<lambda>f. hd (ff_path f) = ''properties'' \<longrightarrow> length (ff_path f) = 2 \<and> ff_control f \<in> {Free, Optional yes_no, Pairs})
     all_fields"
  by code_simp

lemma get_path_empty:
  "get_path [k] (JObj (map (\<lambda>(k, v). (k, if v = JStr '''' then JNull else v)) m)) =
    (if oget m k = JStr '''' then JNull else oget m k)"
  by (induction m) (auto split: if_splits)

lemma typed_emptied:
  assumes "conn_typed form" and "emptyToNull (oget form ''properties'') = Inr p"
  shows "conn_typed (oput ''properties'' p form)"
proof -
  let ?form = "oput ''properties'' p form"
  obtain m where m: "oget form ''properties'' = JObj m"
    using assms(1) by (auto simp: conn_typed_iff roots_def is_obj_def)
  then have p: "p = JObj (map (\<lambda>(k, v). (k, if v = JStr '''' then JNull else v)) m)"
    using assms(2) by (simp add: emptyToNull_def)
  have "admits (ff_control f) (get_path (ff_path f) (JObj ?form))" if f: "f \<in> set all_fields" for f
  proof (cases "hd (ff_path f) = ''properties''")
    case True
    with properties_fields f obtain k where k: "ff_path f = [''properties'', k]" "ff_control f \<in> {Free, Optional yes_no, Pairs}"
      by (auto simp: list_all_iff length_Suc_conv numeral_2_eq_2)
    have "admits (ff_control f) (oget m k)" using assms(1) f by (force simp: conn_typed_iff k(1) m)
    moreover have "get_path (ff_path f) (JObj ?form) = (if oget m k = JStr '''' then JNull else oget m k)"
      using get_path_empty [of k m] by (simp add: k(1) p dict_simps)
    ultimately show ?thesis using k(2) by (auto simp: yes_no_def)
  next
    case False
    with assms(1) f fields_rooted(1) [OF f] show ?thesis
      by (cases "ff_path f") (auto simp: conn_typed_iff dict_simps)
  qed
  moreover have "list_all (\<lambda>q. is_obj (get_path q (JObj ?form))) roots"
    using assms(1) by (simp add: conn_typed_iff roots_def dict_simps p is_obj_def)
  ultimately show ?thesis using assms(1) by (simp add: conn_typed_iff dict_simps)
qed

lemma typed_data:
  assumes "conn_typed form"
  shows "\<exists>data. form_data form = Inr data \<and> conn_typed data \<and> (\<forall>k. k \<notin> {''properties'', ''username''} \<longrightarrow> oget data k = oget form k)"
proof -
  obtain p where p: "emptyToNull (oget form ''properties'') = Inr p"
    using assms emptyToNull_ok by (force simp: conn_typed_iff roots_def)
  have "conn_typed (oput ''properties'' p form)" using assms p by (rule typed_emptied)
  then show ?thesis by (simp add: form_data_def p Let_def typed_texts dict_simps)
qed


definition demo_fresh :: conn_dialog where
  "demo_fresh = \<lparr>cd_form = members (getDefaultForm ''h'' False ''now''), cd_oldName = JStr '''', cd_token = ''''\<rparr>"

definition demo_named :: conn_dialog where
  "demo_named = demo_fresh\<lparr>cd_form := settle JNull '''' (cd_form demo_fresh)
     (use_field (general_fields ! 1) (JStr ''lamp'') (cd_form demo_fresh))\<rparr>"

definition demo_user :: conn_dialog where
  "demo_user = demo_named\<lparr>cd_form := settle JNull '''' (cd_form demo_named)
     (use_field (general_fields ! 7) (JStr ''root'') (cd_form demo_named))\<rparr>"

definition demo_filled :: conn_dialog where
  "demo_filled = demo_user\<lparr>cd_form := settle JNull '''' (cd_form demo_user)
     (use_field (general_fields ! 8) (JStr ''secret'') (cd_form demo_user))\<rparr>"

lemma trim_demo: "trim ''root'' = ''root''" "trim ''secret'' = ''secret''"
  by code_simp+

lemmas demo_filling = use_field_def trimmed_def trim_demo settle_def watch_userrole_def watch_username_def server_clientId_def members_def
  genClientIdSuffix_def

lemma demo_named_form: "cd_form demo_named = oput ''name'' (JStr ''lamp'') (cd_form demo_fresh)"
  by (simp add: demo_named_def general_fields_def demo_filling Let_def dict_simps)

lemma demo_user_form: "cd_form demo_user =
    oput ''clientId'' (JStr ''$root_'') (oput ''username'' (JStr ''root'') (cd_form demo_named))"
  by (simp add: demo_user_def demo_named_form demo_fresh_def getDefaultForm_def general_fields_def demo_filling Let_def)

lemma demo_filled_form: "cd_form demo_filled = oput ''password'' (JStr ''secret'') (cd_form demo_user)"
  by (simp add: demo_filled_def general_fields_def demo_filling Let_def dict_simps)

lemma demo_filled_reach: "reach form_start form_step demo_filled"
proof -
  have shown: "general_fields ! n \<in> set (shown_fields form)" if "n < 10" for n form
  proof -
    have "n < length general_fields" using that by (simp add: general_fields_def)
    then show ?thesis by (simp add: shown_fields_def Let_def nth_mem)
  qed
  have enabled: "\<not> field_disabled JNull JNull form (general_fields ! n)" "offers form (general_fields ! n) (JStr s)"
    if "n \<in> {1, 7, 8}" for n form s
    using that by (auto simp: field_disabled_def offers_def general_fields_def Let_def)
  have "reach form_start form_step demo_fresh"
    by (rule reach.start) (auto simp: form_start_def demo_fresh_def)
  then have "reach form_start form_step demo_named"
    unfolding demo_named_def by (rule reach.step) (rule form_step.field [OF shown enabled], simp_all)
  then have "reach form_start form_step demo_user"
    unfolding demo_user_def by (rule reach.step) (rule form_step.field [OF shown enabled], simp_all)
  then show ?thesis
    unfolding demo_filled_def by (rule reach.step) (rule form_step.field [OF shown enabled], simp_all)
qed


end
