(* ===== verification/Forms.thy ===== *)
theory Forms
  imports Configs Store MqttUtil
begin

text \<open>
  The editors and forms of the web client: the editor of key and value pairs
  (\<open>KeyValueEditor.vue\<close>), the JSON editor (\<open>JSONEditor.vue\<close>), the viewers of objects and states
  (\<open>ObjectViewer.vue\<close>, \<open>StateViewer.vue\<close>), the tags and properties of a shadow (\<open>ShadowTags.vue\<close>,
  \<open>ShadowProps.vue\<close>) and the form that sends an HTTP request (\<open>HttpPoster.vue\<close>). A watcher is the
  function it runs; what a component emits is a result.
\<close>

section \<open>Key and value pairs\<close>

record kv_row =
  kv_key :: string
  kv_value :: js
  kv_checked :: bool

definition kv_empty_row :: "bool \<Rightarrow> kv_row" where
  "kv_empty_row checked = \<lparr>kv_key = '''', kv_value = JStr '''', kv_checked = checked\<rparr>"

definition kv_addItem :: "kv_row list \<Rightarrow> kv_row list" where
  "kv_addItem rows = rows @ [kv_empty_row True]"

text \<open>
  The object of the checked pairs. A key that comes again collects its values in a list, if what
  was kept for it so far is truthy.
\<close>

definition kv_put :: "kv_row \<Rightarrow> js obj \<Rightarrow> js obj" where
  "kv_put r m =
     (if kv_key r = '''' then m
      else let objValue = oget m (kv_key r) in
        if truthy objValue then
          oput (kv_key r) (case objValue of JArr vs \<Rightarrow> JArr (vs @ [kv_value r]) | v \<Rightarrow> JArr [v, kv_value r]) m
        else oput (kv_key r) (kv_value r) m)"

definition kv_handleInputChange :: "kv_row list \<Rightarrow> js" where
  "kv_handleInputChange rows = JObj (fold kv_put (filter kv_checked rows) [])"

text \<open>Deleting a pair: the pairs left and what is emitted.\<close>

definition kv_deleteItem :: "nat \<Rightarrow> kv_row list \<Rightarrow> kv_row list \<times> js" where
  "kv_deleteItem index rows =
     (if length rows > 1 then
        (let rows = take index rows @ drop (Suc index) rows in (rows, kv_handleInputChange rows))
      else ([kv_empty_row True], JNull))"

definition kv_checkItem :: "nat \<Rightarrow> kv_row list \<Rightarrow> kv_row list \<times> js" where
  "kv_checkItem index rows =
     (let rows = rows[index := (rows ! index)\<lparr>kv_checked := \<not> kv_checked (rows ! index)\<rparr>]
      in (rows, kv_handleInputChange rows))"

definition kv_entry_rows :: "string \<times> js \<Rightarrow> kv_row list" where
  "kv_entry_rows kv = (case kv of (key, value) \<Rightarrow> (case value of
     JStr s \<Rightarrow> [\<lparr>kv_key = key, kv_value = value, kv_checked = True\<rparr>]
   | JArr vs \<Rightarrow> map (\<lambda>item. \<lparr>kv_key = key, kv_value = item, kv_checked = True\<rparr>) vs
   | _ \<Rightarrow> []))"

definition kv_processObjToArry :: "js \<Rightarrow> kv_row list" where
  "kv_processObjToArry model =
     (case js_keys model of
        Inl _ \<Rightarrow> [kv_empty_row True]
      | Inr ks \<Rightarrow>
          (let rows = concat (map (\<lambda>k. kv_entry_rows (k, opt_get model k)) ks)
           in if rows \<noteq> [] then rows else [kv_empty_row False]))"

text \<open>The watcher loads the pairs only once, from the first value.\<close>

definition kv_watch :: "js \<Rightarrow> js \<Rightarrow> kv_row list \<Rightarrow> kv_row list" where
  "kv_watch val oldVal rows = (if oldVal = JUndef then kv_processObjToArry val else rows)"

section \<open>JSON editor\<close>

text \<open>The value shown, its text, and whether the editor reported errors.\<close>

record json_editor =
  je_object :: js
  je_content :: string
  je_error :: bool

definition je_init :: json_editor where
  "je_init = \<lparr>je_object = JObj [], je_content = ''{}'', je_error = False\<rparr>"

definition text_of :: "string option \<Rightarrow> string" where
  "text_of t = (case t of Some s \<Rightarrow> s | None \<Rightarrow> ''undefined'')"

text \<open>The watcher of the model; the second part of the result is the emitted \<open>hasError\<close>.\<close>

definition je_watch :: "js \<Rightarrow> json_editor \<Rightarrow> json_editor \<times> bool" where
  "je_watch model e =
     (case model of
        JStr s \<Rightarrow>
          (case json_parse (if s = '''' then json_quote '''' else s) of
             Inr newObject \<Rightarrow>
               (let newContent = text_of (json_stringify newObject) in
                (if je_content e \<noteq> newContent then e\<lparr>je_object := newObject, je_content := newContent\<rparr> else e,
                 False))
           | Inl _ \<Rightarrow> (e\<lparr>je_object := model, je_content := s\<rparr>, True))
      | _ \<Rightarrow> (e\<lparr>je_object := JObj [], je_content := ''{}''\<rparr>, False))"

text \<open>What the editor component reports: errors, a value, or a text.\<close>

datatype edit = EditErrors | EditJson js | EditText string

definition je_onChange :: "edit \<Rightarrow> json_editor \<Rightarrow> (json_editor \<times> bool \<times> string option) res" where
  "je_onChange ed e =
     (case ed of
        EditErrors \<Rightarrow> Inr (e\<lparr>je_error := True\<rparr>, True, None)
      | _ \<Rightarrow>
          res_bind (case ed of EditText t \<Rightarrow> json_parse t | EditJson v \<Rightarrow> Inr v | EditErrors \<Rightarrow> Inr JUndef) (\<lambda>obj.
            Inr (e\<lparr>je_error := False, je_content := text_of (json_stringify obj)\<rparr>, False,
              json_pretty (js_or obj (JObj [])))))"

section \<open>Viewers\<close>

definition viewer_content :: "bool \<Rightarrow> string \<Rightarrow> js \<Rightarrow> string \<Rightarrow> string" where
  "viewer_content visible type obj shown =
     (if visible \<and> type \<noteq> '''' \<and> truthy obj then text_of (json_pretty obj) else shown)"

record state_viewer =
  sv_comparing :: bool
  sv_content1 :: string
  sv_content2 :: string

definition state_viewer_title :: "string \<Rightarrow> string" where
  "state_viewer_title type = ''View State ('' @
     (if type = ''both'' then ''Both Desired & Reported'' else if type = ''reported'' then ''Reported''
      else ''Desired'') @ '')''"

definition state_viewer_watch :: "bool \<Rightarrow> string \<Rightarrow> js \<Rightarrow> state_viewer \<Rightarrow> state_viewer" where
  "state_viewer_watch visible type st v =
     (if visible \<and> type \<noteq> '''' \<and> truthy st then
        (let reported = text_of (json_pretty (opt_get st ''reported''));
             desired = text_of (json_pretty (opt_get st ''desired'')) in
         if type = ''reported'' then v\<lparr>sv_content1 := reported, sv_content2 := desired\<rparr>
         else (if type = ''both'' then v\<lparr>sv_comparing := True\<rparr> else v)
           \<lparr>sv_content1 := desired, sv_content2 := reported\<rparr>)
      else v)"

section \<open>The tags and properties of a shadow\<close>

record tag =
  tag_key :: string
  tag_type :: string
  tag_value :: js

definition convertDataTypeToTagType :: "js \<Rightarrow> string \<times> js" where
  "convertDataTypeToTagType value = (case value of
     JNum n \<Rightarrow> ('''', JStr (int_str n))
   | JBool b \<Rightarrow> ('''', JStr (if b then ''true'' else ''false''))
   | JNull \<Rightarrow> (''primary'', JStr ''null'')
   | JArr _ \<Rightarrow> (''warning'', value)
   | JObj _ \<Rightarrow> (''warning'', value)
   | JStr s \<Rightarrow> (''info'', js_or value (JStr ''-''))
   | JUndef \<Rightarrow> (''info'', JStr ''undefined''))"

text \<open>The watcher of the tags; without any the tags shown before stay.\<close>

definition tags_watch :: "js \<Rightarrow> tag list \<Rightarrow> tag list" where
  "tags_watch data tags =
     (if truthy data then
        map (\<lambda>k. case convertDataTypeToTagType (opt_get data k) of (type, value) \<Rightarrow>
          \<lparr>tag_key = k, tag_type = type, tag_value = value\<rparr>) (res_or (js_keys data) [])
      else tags)"

text \<open>The payload that closing a tag asks to send.\<close>

definition close_tag :: "tag \<Rightarrow> js" where
  "close_tag t = JObj [(''tags'', JObj [(tag_key t, JNull)]), (''version'', JNum 0)]"

text \<open>The titles and descriptions of the properties; \<open>fmt\<close> formats the time.\<close>

definition shadow_props :: "(js \<Rightarrow> string) \<Rightarrow> js \<Rightarrow> (string \<times> string \<times> string) list" where
  "shadow_props fmt shadow =
     (let type = (if truthy (opt_get shadow ''connected'') then ''success'' else ''info'') in
      [(''Updated At'', fmt (opt_get shadow ''updatedAt''), type),
       (''Version'', js_str (opt_get shadow ''version''), type)] @
      (if truthy (opt_get shadow ''remoteAddr'')
       then [(''Remote Address'', js_str (opt_get shadow ''remoteAddr''), type)] else []) @
      [(''Conn'', if type = ''success'' then ''Connected'' else ''Disconnected'', type)])"

section \<open>Sending an HTTP request\<close>

definition defaultRes :: string where
  "defaultRes = json_text (JObj [(''code'', JNum 0), (''message'', JStr ''''), (''data'', JStr '''')])"

record poster =
  po_api :: "shadow_api option"
  po_params :: "api_param list"
  po_form :: "js obj"
  po_required :: "string list"
  po_submitting :: bool
  po_isError :: bool
  po_result :: string

definition poster_init :: poster where
  "poster_init = \<lparr>po_api = None, po_params = [],
     po_form = [(''method'', JStr ''''), (''api'', JStr ''''), (''url'', JStr ''''), (''id'', JStr ''''),
       (''headers'', JObj [(''Content-Type'', JStr ''application/json'')]), (''body'', JStr '''')],
     po_required = [''method'', ''url'', ''id''], po_submitting = False, po_isError = False,
     po_result = defaultRes\<rparr>"

definition opt_text :: "string option \<Rightarrow> js" where
  "opt_text t = (case t of Some s \<Rightarrow> JStr s | None \<Rightarrow> JUndef)"

text \<open>The watcher of the properties, for an operation, a thing and a payload.\<close>

definition poster_param :: "api_param \<Rightarrow> poster \<Rightarrow> poster" where
  "poster_param param p = p\<lparr>po_form := oput (ap_key param) (JStr '''') (po_form p),
     po_params := po_params p @ [param],
     po_required := (if ap_required param then List.insert (ap_key param) (po_required p)
       else removeAll (ap_key param) (po_required p))\<rparr>"

definition poster_props :: "string \<Rightarrow> js \<Rightarrow> js \<Rightarrow> string \<Rightarrow> poster \<Rightarrow> poster" where
  "poster_props code thingId payload uuid p =
     (let api = olookup shadowApis code;
          p = p\<lparr>po_api := api, po_params := [], po_result := defaultRes\<rparr> in
      case api of
        None \<Rightarrow> p
      | Some a \<Rightarrow>
          (let form = oput ''id'' thingId (oput ''api'' (JStr (api_url a))
                 (oput ''method'' (JStr (api_method a)) (po_form p)));
               form = oput ''url'' (JStr (api_urlResolver a form)) form;
               form = oput ''body'' (opt_text (json_indented 4 (js_or payload (api_payloadResolver a uuid)))) form
           in fold poster_param (api_params a) (p\<lparr>po_form := form\<rparr>)))"

text \<open>The watcher of the form, which runs after every change of it.\<close>

definition poster_form_watch :: "poster \<Rightarrow> poster" where
  "poster_form_watch p = p\<lparr>po_form := oput ''url'' (case po_api p of
     Some a \<Rightarrow> JStr (api_urlResolver a (po_form p)) | None \<Rightarrow> JUndef) (po_form p)\<rparr>"

definition poster_edit :: "string \<Rightarrow> js \<Rightarrow> poster \<Rightarrow> poster" where
  "poster_edit k v p = poster_form_watch (p\<lparr>po_form := oput k v (po_form p)\<rparr>)"

record poster_request =
  pr_url :: js
  pr_method :: js
  pr_headers :: js
  pr_data :: js

text \<open>
  Submitting, up to the request; the form component says whether the form is valid, or rejects with
  a value.
\<close>

definition poster_failed :: "js \<Rightarrow> poster \<Rightarrow> poster" where
  "poster_failed err p = p\<lparr>po_isError := True,
     po_result := text_of (json_stringify (JObj [(''error'', err)])), po_submitting := False\<rparr>"

definition poster_submit :: "bool + js \<Rightarrow> poster \<Rightarrow> poster \<times> poster_request option" where
  "poster_submit validation p =
     (case validation of
        Inl True \<Rightarrow> (p\<lparr>po_submitting := True, po_isError := False, po_result := defaultRes\<rparr>,
          Some \<lparr>pr_url = oget (po_form p) ''url'', pr_method = oget (po_form p) ''method'',
            pr_headers = oget (po_form p) ''headers'', pr_data = oget (po_form p) ''body''\<rparr>)
      | Inl False \<Rightarrow> (p\<lparr>po_submitting := False\<rparr>, None)
      | Inr err \<Rightarrow> (poster_failed err p, None))"

text \<open>
  The answer: the result shown, the event about the thing, and whether the caller is told. A
  rejection is a value that JSON can carry.
\<close>

definition poster_answered ::
  "js + js \<Rightarrow> js \<Rightarrow> int \<Rightarrow> poster_request \<Rightarrow> poster \<Rightarrow> poster \<times> window_event list \<times> bool" where
  "poster_answered answer thingId now rq p =
     (case answer of
        Inl res \<Rightarrow> (p\<lparr>po_result := text_of (json_indented 4 res), po_submitting := False\<rparr>,
          [notifyThingStateChange now thingId TSCE_HTTP (AboutRequest (pr_url rq) (pr_method rq))], True)
      | Inr err \<Rightarrow> (poster_failed err p, [], False))"


section \<open>Properties of the pair editor\<close>

text \<open>The values a list of pairs gives to a key.\<close>

definition kv_values :: "string \<Rightarrow> kv_row list \<Rightarrow> js list" where
  "kv_values k rows = map kv_value (filter (\<lambda>r. kv_checked r \<and> kv_key r = k) rows)"

definition collected :: "js list \<Rightarrow> js option" where
  "collected vs = (case vs of [] \<Rightarrow> None | [v] \<Rightarrow> Some v | _ \<Rightarrow> Some (JArr vs))"

definition plain_text :: "js \<Rightarrow> bool" where
  "plain_text v = (case v of JStr s \<Rightarrow> s \<noteq> '''' | _ \<Rightarrow> False)"

lemma plain_textD: "plain_text v \<Longrightarrow> \<exists>s. v = JStr s \<and> s \<noteq> ''''"
  by (auto simp: plain_text_def split: jsval.splits)

lemma collected_snoc:
  assumes "collected vs = Some w" and "\<forall>v\<in>set vs. plain_text v"
  shows "truthy w \<and> collected (vs @ [v]) = Some (case w of JArr us \<Rightarrow> JArr (us @ [v]) | u \<Rightarrow> JArr [u, v])"
proof (cases vs)
  case (Cons a us)
  then show ?thesis
  proof (cases us)
    case Nil
    with Cons assms obtain s where "a = JStr s" "s \<noteq> ''''" using plain_textD by fastforce
    with Cons Nil assms(1) show ?thesis by (auto simp: collected_def)
  next
    case (Cons b bs)
    with \<open>vs = a # us\<close> assms(1) show ?thesis by (auto simp: collected_def split: list.split)
  qed
qed (use assms in \<open>simp add: collected_def\<close>)

lemma kv_put_collects:
  assumes "\<forall>k. k \<noteq> '''' \<longrightarrow> olookup m k = collected (f k)" and "\<forall>k. \<forall>v\<in>set (f k). plain_text v"
    and "k \<noteq> ''''"
  shows "olookup (kv_put r m) k = collected (if kv_key r = k then f k @ [kv_value r] else f k)"
proof (cases "kv_key r = k")
  case True
  show ?thesis
  proof (cases "f k")
    case Nil
    with assms True have "olookup m k = None" by (simp add: collected_def)
    with True assms(3) Nil show ?thesis by (simp add: kv_put_def Let_def oget_def collected_def dict_simps)
  next
    case (Cons a us)
    then obtain w where w: "collected (f k) = Some w" by (cases us) (simp_all add: collected_def)
    from collected_snoc [OF w] assms(2) have
      "truthy w" "collected (f k @ [kv_value r]) = Some (case w of JArr us \<Rightarrow> JArr (us @ [kv_value r]) | u \<Rightarrow> JArr [u, kv_value r])"
      by blast+
    with assms w True show ?thesis by (auto simp: kv_put_def Let_def oget_def dict_simps split: jsval.split)
  qed
next
  case False
  with assms show ?thesis by (simp add: kv_put_def Let_def dict_simps)
qed

lemma kv_fold_collects:
  assumes "\<forall>r\<in>set rows. plain_text (kv_value r)" and "\<forall>k. k \<noteq> '''' \<longrightarrow> olookup m k = collected (f k)"
    and "\<forall>k. \<forall>v\<in>set (f k). plain_text v" and "k \<noteq> ''''"
  shows "olookup (fold kv_put rows m) k =
    collected (f k @ map kv_value (filter (\<lambda>r. kv_key r = k) rows))"
  using assms
proof (induction rows arbitrary: m f)
  case (Cons r rows)
  let ?f = "\<lambda>k. if kv_key r = k then f k @ [kv_value r] else f k"
  have "olookup (fold kv_put rows (kv_put r m)) k =
      collected (?f k @ map kv_value (filter (\<lambda>r. kv_key r = k) rows))"
  proof (rule Cons.IH)
    show "\<forall>k. k \<noteq> '''' \<longrightarrow> olookup (kv_put r m) k = collected (?f k)"
      using kv_put_collects [OF Cons.prems(2,3)] by blast
  qed (use Cons.prems in auto)
  then show ?case by (simp split: if_splits)
qed simp

lemma kv_put_no_empty: "olookup m '''' = None \<Longrightarrow> olookup (kv_put r m) '''' = None"
  by (simp add: kv_put_def Let_def dict_simps)

lemma kv_fold_no_empty: "olookup m '''' = None \<Longrightarrow> olookup (fold kv_put rows m) '''' = None"
  by (induction rows arbitrary: m) (simp_all add: kv_put_no_empty)


definition demo_pairs :: "kv_row list" where
  "demo_pairs = [\<lparr>kv_key = ''a'', kv_value = JStr ''1'', kv_checked = True\<rparr>,
     \<lparr>kv_key = ''b'', kv_value = JStr ''2'', kv_checked = False\<rparr>,
     \<lparr>kv_key = ''a'', kv_value = JStr ''3'', kv_checked = True\<rparr>]"


text \<open>What the editor can show without loss: texts, and lists of at least two texts.\<close>

definition kv_shown :: "js \<Rightarrow> bool" where
  "kv_shown v = (case v of JStr s \<Rightarrow> True
     | JArr vs \<Rightarrow> length vs \<ge> 2 \<and> plain_text (hd vs) | _ \<Rightarrow> False)"

lemma oput_again: "oput k x (oput k y m) = oput k x m"
  by (induction m) auto

lemma kv_fold_list:
  assumes "olookup m k = Some (JArr us)" and "k \<noteq> ''''"
  shows "fold kv_put (map (\<lambda>item. \<lparr>kv_key = k, kv_value = item, kv_checked = True\<rparr>) vs) m =
    (if vs = [] then m else oput k (JArr (us @ vs)) m)"
  using assms
proof (induction vs arbitrary: m us)
  case (Cons v vs)
  have "kv_put \<lparr>kv_key = k, kv_value = v, kv_checked = True\<rparr> m = oput k (JArr (us @ [v])) m"
    using Cons.prems by (simp add: kv_put_def Let_def oget_def)
  then show ?case
    using Cons.IH [of "oput k (JArr (us @ [v])) m" "us @ [v]"] Cons.prems by (simp add: dict_simps oput_again)
qed simp

lemma kv_entry_put:
  assumes "kv_shown v" and "k \<noteq> ''''" and "olookup m k = None"
  shows "fold kv_put (kv_entry_rows (k, v)) m = oput k v m"
proof (cases v)
  case (JArr vs)
  with assms(1) obtain a b us where vs: "vs = a # b # us" and a: "plain_text a"
    by (auto simp: kv_shown_def Suc_le_length_iff numeral_2_eq_2)
  obtain s where s: "a = JStr s" "s \<noteq> ''''" using plain_textD [OF a] by blast
  have "fold kv_put (kv_entry_rows (k, v)) m =
      fold kv_put (map (\<lambda>item. \<lparr>kv_key = k, kv_value = item, kv_checked = True\<rparr>) us) (oput k (JArr [a, b]) m)"
    using assms(2,3) s by (simp add: kv_entry_rows_def JArr vs kv_put_def Let_def oget_def dict_simps oput_again)
  also have "\<dots> = oput k v m"
    using kv_fold_list [of "oput k (JArr [a, b]) m" k "[a, b]" us] assms(2) by (simp add: dict_simps oput_again JArr vs)
  finally show ?thesis .
qed (use assms in \<open>simp_all add: kv_shown_def kv_entry_rows_def kv_put_def Let_def oget_def\<close>)

lemma oput_fresh: "olookup m k = None \<Longrightarrow> oput k v m = m @ [(k, v)]"
  by (induction m) (auto split: if_splits)

lemma kv_fold_entries:
  assumes "wf_obj (m @ n)" and "\<forall>(k, v)\<in>set n. kv_shown v \<and> k \<noteq> ''''"
  shows "fold kv_put (concat (map kv_entry_rows n)) m = m @ n"
  using assms
proof (induction n arbitrary: m)
  case (Cons p n)
  obtain k v where p: "p = (k, v)" by (cases p)
  have "olookup m k = None"
    using Cons.prems(1) p by (auto simp: wf_obj_def olookup_def map_of_eq_None_iff)
  then have "fold kv_put (kv_entry_rows p) m = m @ [p]"
    using kv_entry_put Cons.prems(2) p by (auto simp: oput_fresh)
  with Cons.IH [of "m @ [p]"] Cons.prems show ?case by simp
qed simp



section \<open>Properties of the JSON editor\<close>

text \<open>
  The JSON editor does not pass on a falsy value: after \<open>null\<close>, \<open>false\<close>, \<open>0\<close> or an empty text has
  been entered it emits the text of an empty object, without an error, and once the model has this
  text it shows the empty object. Every other value is emitted as its own text.
\<close>

theorem json_editor_replaces_falsy:
  assumes "v \<noteq> JUndef"
  shows "\<exists>e' t. je_onChange (EditJson v) e = Inr (e', False, Some t) \<and>
    t = (if truthy v then json_lines 2 0 (json_clean v) else ''{}'') \<and>
    (\<not> truthy v \<longrightarrow> je_object (fst (je_watch (JStr t) e')) = JObj [] \<and> \<not> snd (je_watch (JStr t) e'))"
proof -
  let ?t = "if truthy v then json_lines 2 0 (json_clean v) else ''{}''"
  let ?e = "e\<lparr>je_error := False, je_content := text_of (json_stringify v)\<rparr>"
  have "je_onChange (EditJson v) e = Inr (?e, False, Some ?t)"
    using assms by (auto simp: je_onChange_def json_indented_def js_or_def)
  moreover have "je_object (fst (je_watch (JStr ?t) ?e)) = JObj [] \<and> \<not> snd (je_watch (JStr ?t) ?e)"
    if "\<not> truthy v"
  proof -
    have p: "json_parse ''{}'' = Inr (JObj [])"
      using json_parse_text [of "JObj []"] by simp
    have "text_of (json_stringify v) \<noteq> ''{}''"
      using that assms by (cases v) (auto simp: text_of_def json_stringify_def json_quote_def int_str_def nat_str_small digit_char_def)
    with that p show ?thesis by (simp add: je_watch_def Let_def text_of_def json_stringify_def)
  qed
  ultimately show ?thesis by blast
qed

theorem json_editor_replaces_falsy_witness:
  "\<exists>e'. je_onChange (EditJson (JNum 0)) je_init = Inr (e', False, Some ''{}'')"
  using json_editor_replaces_falsy [of "JNum 0" je_init] by auto

end
