(* ===== verification/EditorPages.thy ===== *)
theory EditorPages
  imports Template Forms Layout
begin

text \<open>
  The templates of the small components: the pair editor (\<open>KeyValueEditor.vue\<close>), the JSON editor
  (\<open>JSONEditor.vue\<close>), the viewers (\<open>ObjectViewer.vue\<close>, \<open>StateViewer.vue\<close>), what shows the fields of a
  thing (\<open>KeyValueDisplayer.vue\<close>, \<open>KeyValuePassItem.vue\<close>, \<open>KeyValueTimeItem.vue\<close>) and of a shadow
  (\<open>ShadowProps.vue\<close>), the delete button of the tables (\<open>DeleteButton.vue\<close>) and the button that
  changes the size of the tool area (\<open>SwitchSizeButton.vue\<close>).
\<close>

section \<open>The pair editor\<close>

datatype kv_msg =
    AddItem
  | CheckItem nat
  | SetKey nat js
  | SetValue nat js
  | InputChange
  | DeleteItem nat

definition kv_row_view :: "bool \<Rightarrow> nat \<times> kv_row \<Rightarrow> kv_msg node" where
  "kv_row_view disabled = (\<lambda>(index, item). box ''div'' (
     (if \<not> disabled then [Element ''a'' [] [Clicked (CheckItem index)]
        [box ''el-icon'' [if kv_checked item then box ''Select'' [] else box ''Check'' []]]] else []) @
     [Element ''el-input'' [(''placeholder'', JStr ''Key''), (''disabled'', JBool disabled), (''model-value'', JStr (kv_key item))]
        [Emitted ''update:modelValue'' (SetKey index), Emitted ''input'' (\<lambda>_. InputChange)] [],
      Element ''el-input'' [(''placeholder'', JStr ''Value''), (''disabled'', JBool disabled), (''model-value'', kv_value item)]
        [Emitted ''update:modelValue'' (SetValue index), Emitted ''input'' (\<lambda>_. InputChange)] []] @
     (if \<not> disabled then [Element ''el-button'' [] [Clicked (DeleteItem index)] []] else [])))"

definition kv_view :: "string \<Rightarrow> bool \<Rightarrow> kv_row list \<Rightarrow> kv_msg node list" where
  "kv_view heading disabled rows = [box ''div'' [
     box ''div'' ([box ''span'' [lit heading]] @
       (if \<not> disabled then [Element ''el-button'' [] [Clicked AddItem] []] else [])),
     box ''div'' (map (kv_row_view disabled) (enumerate 0 rows))]]"

text \<open>What the editor does: the rows left, and the values it emits.\<close>

definition kv_set :: "nat \<Rightarrow> (kv_row \<Rightarrow> kv_row) \<Rightarrow> kv_row list \<Rightarrow> kv_row list" where
  "kv_set i f rows = rows[i := f (rows ! i)]"

fun kv_perform :: "kv_msg \<Rightarrow> kv_row list \<Rightarrow> kv_row list \<times> js list" where
  "kv_perform AddItem rows = (kv_addItem rows, [])"
| "kv_perform (CheckItem i) rows = (case kv_checkItem i rows of (rows, v) \<Rightarrow> (rows, [v]))"
| "kv_perform (SetKey i x) rows = (kv_set i (\<lambda>r. r\<lparr>kv_key := js_str x\<rparr>) rows, [])"
| "kv_perform (SetValue i x) rows = (kv_set i (\<lambda>r. r\<lparr>kv_value := x\<rparr>) rows, [])"
| "kv_perform InputChange rows = (rows, [kv_handleInputChange rows])"
| "kv_perform (DeleteItem i) rows = (case kv_deleteItem i rows of (rows, v) \<Rightarrow> (rows, [v]))"

section \<open>Viewers\<close>

datatype viewer_msg = CloseView | Compare bool

definition json_editor_view :: "string \<Rightarrow> bool \<Rightarrow> js \<Rightarrow> 'm node list" where
  "json_editor_view mode readOnly obj = [Element ''JsonEditorVue'' [(''model-value'', obj), (''mode'', JStr mode),
     (''main-menu-bar'', JBool False), (''navigation-bar'', JBool readOnly), (''status-bar'', JBool False),
     (''read-only'', JBool readOnly)] [] []]"

definition object_viewer_view :: "bool \<Rightarrow> string \<Rightarrow> bool \<Rightarrow> string \<Rightarrow> viewer_msg node list" where
  "object_viewer_view visible type asTree content =
     [Element ''el-dialog'' [(''model-value'', JBool visible), (''title'', JStr type)] [Emitted ''close'' (\<lambda>_. CloseView)]
        [box ''div'' [Element ''JSONEditor'' [(''mode'', JStr (if asTree then ''tree'' else ''text'')),
           (''model-value'', JStr content), (''read-only'', JBool True)] [] []]]]"

definition state_viewer_view :: "bool \<Rightarrow> string \<Rightarrow> state_viewer \<Rightarrow> viewer_msg node list" where
  "state_viewer_view visible type v =
     [Element ''el-dialog'' [(''model-value'', JBool visible), (''title'', JStr (state_viewer_title type))]
        [Emitted ''close'' (\<lambda>_. CloseView)]
        [box ''span'' ((if type \<noteq> ''both'' then
             [if sv_comparing v then button [] (Compare False) ((if type = ''reported'' then ''Reported'' else ''Desired'') @ '' Only'')
              else button [] (Compare True) ''Compare''] else []) @
           [button [] CloseView ''Close'']),
         box ''div'' ([Element ''JSONEditor'' [(''mode'', JStr ''tree''), (''model-value'', JStr (sv_content1 v)),
             (''read-only'', JBool True)] [] []] @
           (if sv_comparing v then [Element ''JSONEditor'' [(''mode'', JStr ''tree''), (''model-value'', JStr (sv_content2 v)),
             (''read-only'', JBool True)] [] []] else []))]]"

definition state_viewer_compare :: "bool \<Rightarrow> state_viewer \<Rightarrow> state_viewer" where
  "state_viewer_compare b v = v\<lparr>sv_comparing := b\<rparr>"

section \<open>Showing fields\<close>

datatype pass_msg = ShowPass bool

definition pass_item_view :: "bool \<Rightarrow> string \<Rightarrow> pass_msg node list" where
  "pass_item_view visible value = [box ''div'' [box ''code'' [lit (pass_text visible value)],
     if visible then Element ''el-icon'' [] [Clicked (ShowPass False)] [box ''View'' []]
     else Element ''el-icon'' [] [Clicked (ShowPass True)] [box ''Hide'' []]]]"

text \<open>\<open>fmt\<close> formats a time in the given way (the library dayjs).\<close>

definition time_item_view :: "(js \<Rightarrow> string \<Rightarrow> string) \<Rightarrow> js \<Rightarrow> 'm node list" where
  "time_item_view fmt time = [box ''div'' [
     box ''div'' [lit (fmt time ''MMM DD, YYYY'')], box ''div'' [lit (fmt time ''HH:mm:ss'')]]]"

text \<open>The fields of a thing; \<open>shown k\<close> says whether the password of the key is visible.\<close>

definition field_view ::
  "(js \<Rightarrow> string \<Rightarrow> string) \<Rightarrow> (string \<Rightarrow> bool) \<Rightarrow> js obj \<Rightarrow> field \<Rightarrow> (string \<times> pass_msg) node" where
  "field_view fmt shown data field = (let v = oget data (f_key field) in box ''div'' [
     box ''div'' [lit (f_label field)],
     box ''div'' [
       if f_type field = ''boolean'' then
         box ''div'' [if truthy v then box ''el-icon'' [box ''Open'' []] else box ''el-icon'' [box ''TurnOff'' []]]
       else if f_type field = ''tag'' then box ''div'' [box ''el-tag'' [Say v]]
       else if f_type field = ''password'' then box ''div'' [Element ''KeyValuePassItem'' [(''value'', v)] []
         (map (map_node (Pair (f_key field))) (pass_item_view (shown (f_key field)) (js_str v)))]
       else if f_type field = ''time'' then box ''div'' [Element ''KeyValueTimeItem'' [(''time'', v)] [] (time_item_view fmt v)]
       else box ''div'' [Say v]]])"

definition displayer_view ::
  "(js \<Rightarrow> string \<Rightarrow> string) \<Rightarrow> (string \<Rightarrow> bool) \<Rightarrow> js obj \<Rightarrow> field list \<Rightarrow> (string \<times> pass_msg) node list" where
  "displayer_view fmt shown data fs = map (field_view fmt shown data) fs"

definition alert_view :: "string \<Rightarrow> string \<Rightarrow> string \<Rightarrow> 'm node" where
  "alert_view t description type = Element ''el-alert'' [(''title'', JStr t), (''description'', JStr description),
     (''type'', JStr type), (''closable'', JBool False)] [] []"

definition shadow_props_view :: "(js \<Rightarrow> string \<Rightarrow> string) \<Rightarrow> js \<Rightarrow> 'm node list" where
  "shadow_props_view fmt shadow = (let get = opt_get shadow;
       type = (if truthy (get ''connected'') then ''success'' else ''info'') in
     [box ''div'' ([
        box ''div'' [alert_view ''Updated At'' (fmt (get ''updatedAt'') ''MMM DD, YYYY HH:mm:ss'') type],
        box ''div'' [alert_view ''Version'' (js_str (get ''version'')) type]] @
        (if truthy (get ''remoteAddr'')
         then [box ''div'' [alert_view ''Remote Address'' (js_str (get ''remoteAddr'')) type]] else []) @
        [box ''div'' [if truthy (get ''connected'') then alert_view ''Conn'' ''Connected'' ''success''
           else alert_view ''Conn'' ''Disconnected'' ''info'']])])"

section \<open>Two buttons\<close>

datatype delete_msg = ConfirmDelete | CancelDelete

definition delete_button_view :: "string \<Rightarrow> string \<Rightarrow> string \<Rightarrow> bool \<Rightarrow> delete_msg node list" where
  "delete_button_view question confirmText cancelText disabled =
     [if disabled then Element ''el-button'' [(''disabled'', JBool True)] [] [lit ''Delete Thing'']
      else Element ''el-popconfirm'' [(''title'', JStr question), (''confirm-button-text'', JStr confirmText),
          (''cancel-button-text'', JStr cancelText)]
        [Emitted ''cancel'' (\<lambda>_. CancelDelete), Emitted ''confirm'' (\<lambda>_. ConfirmDelete)]
        [box ''el-button'' [lit ''Delete'']]]"

datatype size_msg = ToggleSize

definition size_button_view :: "bool \<Rightarrow> size_msg node list" where
  "size_button_view isMax = [Element ''el-tooltip''
     [(''content'', JStr (if isMax then ''resize to default height'' else ''resize to maximum height''))] []
     [Element ''el-button'' [(''icon'', JStr (if isMax then ''ArrowDownBold'' else ''ArrowUpBold''))] [Clicked ToggleSize] []]]"

section \<open>What can be done with them\<close>

text \<open>Evaluating a template: the controls it names, and what each of them emits.\<close>

lemmas page_eval = template all_emits_def control_events_def dead_def masked_def floats_def library_controls_def values_of_def

lemma all_do_kv: "all_do b P (kv_view heading disabled rows) \<longleftrightarrow> b \<or> disabled \<or>
    P [AddItem] \<and> (\<forall>i < length rows. P [CheckItem i] \<and> P [DeleteItem i] \<and>
      (\<forall>s. P [SetKey i (JStr s), InputChange] \<and> P [SetValue i (JStr s), InputChange]))"
proof -
  have row: "all_do b P [kv_row_view disabled (i, item)] \<longleftrightarrow> b \<or> disabled \<or>
      P [CheckItem i] \<and> P [DeleteItem i] \<and> (\<forall>s. P [SetKey i (JStr s), InputChange] \<and> P [SetValue i (JStr s), InputChange])"
    for i item
    by (auto simp: kv_row_view_def page_eval heard_def)
  have "(\<forall>x\<in>set (enumerate 0 rows). Q (fst x)) \<longleftrightarrow> (\<forall>i < length rows. Q i)" for Q
    by (simp add: in_set_enumerate_eq all_set_conv_all_nth nth_enumerate_eq)
  from this [of "\<lambda>i. b \<or> disabled \<or> P [CheckItem i] \<and> P [DeleteItem i] \<and>
      (\<forall>s. P [SetKey i (JStr s), InputChange] \<and> P [SetValue i (JStr s), InputChange])"] row
  have "(\<forall>x\<in>set (enumerate 0 rows). all_do b P [kv_row_view disabled x]) \<longleftrightarrow> (\<forall>i < length rows. b \<or> disabled \<or>
      P [CheckItem i] \<and> P [DeleteItem i] \<and> (\<forall>s. P [SetKey i (JStr s), InputChange] \<and> P [SetValue i (JStr s), InputChange]))"
    by (metis (no_types, lifting) prod.collapse)
  then show ?thesis by (auto simp: kv_view_def page_eval)
qed

end
