(* ===== verification/MqttForms.thy ===== *)
theory MqttForms
  imports Forms UseMqtt
begin

text \<open>
  The forms for publishing and subscribing: the message editor (\<open>MqttPublish.vue\<close>), the form for its
  MQTT 5 properties (\<open>MetaForm.vue\<close>), the drawer with topic suggestions
  (\<open>PublishTopicSuggestions.vue\<close>), the form of a subscription (\<open>SubscriptionForm.vue\<close>), and what
  submitting it does to the subscriptions of a connection (\<open>Subcriptions.vue\<close>).
\<close>

section \<open>The message editor\<close>

record publish_form =
  pf_lang :: string
  pf_type :: string
  pf_qos :: js
  pf_retain :: js
  pf_topic :: js
  pf_payload :: js
  pf_props :: "js obj"
  pf_enable :: bool
  pf_has :: bool
  pf_metaShown :: bool
  pf_tplsShown :: bool
  pf_jsonError :: bool

definition init_props :: "js obj" where
  "init_props = spread getInitMeatModel []"

definition publish_form_init :: publish_form where
  "publish_form_init = \<lparr>pf_lang = ''json'', pf_type = ''JSON'', pf_qos = JNum 0, pf_retain = JBool False,
     pf_topic = JStr '''', pf_payload = JStr '''', pf_props = init_props, pf_enable = False, pf_has = False,
     pf_metaShown = False, pf_tplsShown = False, pf_jsonError = False\<rparr>"

definition isNotEmptyObject :: "js \<Rightarrow> bool" where
  "isNotEmptyObject value =
     (if typeof value = TObject then value \<noteq> JNull \<and> json_stringify value \<noteq> Some ''{}'' else True)"

definition calcHasProps :: "js \<Rightarrow> bool res" where
  "calcHasProps props = res_bind (js_keys props) (\<lambda>ks.
     Inr (list_ex (\<lambda>value. isNotEmptyObject value \<and> value \<noteq> JUndef \<and> value \<noteq> JBool False \<and> value \<noteq> JStr '''')
       (map (opt_get props) ks)))"

definition toggleMetaFormVisable :: "publish_form \<Rightarrow> publish_form" where
  "toggleMetaFormVisable f = f\<lparr>pf_metaShown := \<not> pf_metaShown f\<rparr>"

definition publish_toggleTpls :: "publish_form \<Rightarrow> publish_form" where
  "publish_toggleTpls f = f\<lparr>pf_tplsShown := \<not> pf_tplsShown f\<rparr>"

definition has_props :: "js obj \<Rightarrow> bool" where
  "has_props props = res_or (calcHasProps (JObj props)) False"

definition handleSaveMeta :: "js obj \<Rightarrow> publish_form \<Rightarrow> publish_form res" where
  "handleSaveMeta newProps f =
     (let get = oget newProps; or_undef = (\<lambda>k. js_or (get k) JUndef) in
      res_bind (calcHasProps (get ''userProperties'')) (\<lambda>has.
        let props = fold (\<lambda>(k, v). oput k v)
              [(''userProperties'', if has then get ''userProperties'' else JObj []),
               (''contentType'', or_undef ''contentType''), (''responseTopic'', or_undef ''responseTopic''),
               (''payloadFormatIndicator'', js_or (get ''payloadFormatIndicator'') (JBool False)),
               (''messageExpiryInterval'', or_undef ''messageExpiryInterval''),
               (''correlationData'', or_undef ''correlationData''), (''topicAlias'', JUndef),
               (''subscriptionIdentifier'', JUndef)] (pf_props f)
        in Inr (f\<lparr>pf_props := props, pf_metaShown := False, pf_has := has_props props\<rparr>)))"

definition lang_of :: "string \<Rightarrow> string" where
  "lang_of type = (if type = ''JSON'' then ''json'' else ''plaintext'')"

definition publish_handleSelectTopic :: "js \<Rightarrow> string \<Rightarrow> js \<Rightarrow> publish_form \<Rightarrow> publish_form" where
  "publish_handleSelectTopic topic paytype payload f =
     (let f = f\<lparr>pf_topic := topic, pf_payload := payload\<rparr> in
      if paytype \<noteq> '''' then f\<lparr>pf_type := paytype, pf_lang := lang_of paytype\<rparr> else f)"

text \<open>The watchers: of the topic, of the payload with its type, of the type, of the connection.\<close>

definition publish_watch_topic :: "js \<Rightarrow> publish_form \<Rightarrow> publish_form" where
  "publish_watch_topic topic f = f\<lparr>pf_topic := js_or topic (JStr '''')\<rparr>"

definition publish_watch_payload :: "string \<Rightarrow> js \<Rightarrow> publish_form \<Rightarrow> publish_form" where
  "publish_watch_payload paytype payload f =
     (if paytype \<noteq> '''' then
        f\<lparr>pf_type := paytype, pf_lang := lang_of paytype,
          pf_payload := js_or payload (JStr (if paytype = ''JSON'' then ''{}'' else ''''))\<rparr>
      else f\<lparr>pf_type := ''JSON'', pf_payload := js_or payload (JStr ''{}'')\<rparr>)"

definition publish_watch_type :: "publish_form \<Rightarrow> publish_form" where
  "publish_watch_type f = f\<lparr>pf_lang := lang_of (pf_type f)\<rparr>"

definition publish_watch_conn :: "js \<Rightarrow> js \<Rightarrow> publish_form \<Rightarrow> publish_form res" where
  "publish_watch_conn config oldId f =
     (if truthy config \<and> opt_get config ''id'' \<noteq> oldId then
        (let get = opt_get config;
             f = f\<lparr>pf_qos := (if get ''userrole'' = JStr ''server''
                     then js_or (opt_get (get ''pushProps'') ''qos'') (JNum 0) else JNum 0),
                   pf_retain := js_or (opt_get (get ''pushProps'') ''retain'') (JBool False)\<rparr> in
         if get ''mqttVersion'' = JStr ''5.0'' then
           res_bind (js_get (get ''will'') ''properties'') (\<lambda>wp.
             let or_undef = (\<lambda>k. js_or (opt_get wp k) JUndef);
                 props = fold (\<lambda>(k, v). oput k v)
                   [(''userProperties'', js_or (get ''properties'') (JObj [])),
                    (''contentType'', or_undef ''contentType''), (''responseTopic'', or_undef ''responseTopic''),
                    (''payloadFormatIndicator'', js_or (opt_get wp ''payloadFormatIndicator'') (JBool False)),
                    (''messageExpiryInterval'', or_undef ''messageExpiryInterval''),
                    (''correlationData'', or_undef ''correlationData''), (''topicAlias'', JUndef),
                    (''subscriptionIdentifier'', JUndef)] (pf_props f)
             in Inr (f\<lparr>pf_enable := True, pf_props := props, pf_has := has_props props\<rparr>))
         else Inr (f\<lparr>pf_enable := False, pf_has := False,
           pf_props := fold (\<lambda>(k, v). oput k v) init_props (pf_props f)\<rparr>))
      else Inr f)"

text \<open>What sending hands to the connection.\<close>

definition publish_options :: "publish_form \<Rightarrow> js" where
  "publish_options f = JObj [(''qos'', pf_qos f), (''retain'', pf_retain f), (''topic'', pf_topic f),
     (''payload'', pf_payload f), (''paytype'', JStr (pf_type f)),
     (''properties'', if pf_has f then JObj (pf_props f) else JUndef)]"

definition send_disabled :: "publish_form \<Rightarrow> bool" where
  "send_disabled f \<longleftrightarrow> pf_lang f = ''json'' \<and> pf_jsonError f"

definition payloadOptions :: "string list" where
  "payloadOptions = [''Plaintext'', ''Base64'', ''JSON'', ''Hex'']"

definition send :: "'k \<Rightarrow> cref \<Rightarrow> publish_form \<Rightarrow> 'k mworld \<Rightarrow> 'k mworld \<times> js_error option" where
  "send cb cr f w =
     (if truthy (conf_id w cr) then publish cr (publish_options f) (Some cb) w else (w, None))"

section \<open>The form of MQTT 5 properties and the suggestions\<close>

definition meta_form_watch :: "bool \<Rightarrow> js \<Rightarrow> js obj \<Rightarrow> js obj" where
  "meta_form_watch visible model form =
     (if visible \<and> truthy model then
        (let form = spread model form
         in oput ''userProperties'' (JObj (spread (oget form ''userProperties'') [])) form)
      else form)"

definition is_thing_conn :: "js \<Rightarrow> bool" where
  "is_thing_conn config \<longleftrightarrow> opt_get config ''userrole'' = JStr ''thing''"

definition publish_suggestions :: "js \<Rightarrow> pub_suggestion list" where
  "publish_suggestions config = (if is_thing_conn config then thingPubTopics else serverPubTopics)"

definition suggestion_thingId :: "js \<Rightarrow> js" where
  "suggestion_thingId config = (if is_thing_conn config then opt_get config ''username'' else JStr ''+'')"

text \<open>Selecting a suggestion: topic, type and text of the payload.\<close>

definition suggestions_handleSelect ::
  "js \<Rightarrow> int \<Rightarrow> string \<Rightarrow> pub_suggestion \<Rightarrow> js \<times> string \<times> js" where
  "suggestions_handleSelect config now uuid g =
     (JStr (pub_topicResolver g (suggestion_thingId config)), pub_payloadType g,
      opt_text (json_pretty (pub_payloadResolver g now uuid)))"

section \<open>The form of a subscription\<close>

definition subs_form_init :: "js obj" where
  "subs_form_init = [(''keep'', JBool False), (''id'', JStr ''''), (''topic'', JStr ''''), (''qos'', JNum 0),
     (''name'', JStr ''''), (''subscriptionIdentifier'', JUndef), (''nl'', JUndef), (''rap'', JUndef),
     (''rh'', JUndef)]"

definition subs_form_topics :: "js \<Rightarrow> (string \<times> string) list" where
  "subs_form_topics config =
     map (\<lambda>(t, g). (sub_name t, sub_topicResolver t (suggestion_thingId config)))
       (if is_thing_conn config then thingSubTopics else serverSubTopics)"

definition subs_form_select :: "string \<times> string \<Rightarrow> js obj \<Rightarrow> js obj" where
  "subs_form_select t form = oput ''topic'' (JStr (snd t)) (oput ''name'' (JStr (fst t)) form)"

text \<open>
  The watcher: a form for a new subscription starts empty, one for an existing subscription is
  filled from it. \<open>JNull\<close> is no subscription.
\<close>

definition subs_form_watch :: "bool \<Rightarrow> js \<Rightarrow> js obj \<Rightarrow> js obj" where
  "subs_form_watch visible data form =
     (if \<not> visible then form
      else if data = JNull then fold (\<lambda>(k, v). oput k v) subs_form_init form
      else if truthy data then
        (let get = opt_get data; qos = opt_get (get ''opts'') ''qos''; or_undef = (\<lambda>v. js_or v JUndef) in
         fold (\<lambda>(k, v). oput k v)
           [(''id'', get ''id''), (''topic'', get ''topic''), (''qos'', qos),
            (''name'', js_or (get ''name'') (JStr '''')), (''keep'', js_or (get ''keep'') (JBool False)),
            (''nl'', or_undef qos), (''rap'', or_undef qos), (''rh'', or_undef qos),
            (''subscriptionIdentifier'',
              or_undef (opt_get (opt_get (get ''opts'') ''properties'') ''subscriptionIdentifier''))] form)
      else form)"

definition subs_form_submit :: "js obj \<Rightarrow> js" where
  "subs_form_submit form = json_clean (JObj form)"

text \<open>The options of the subscription made from submitted data.\<close>

definition subs_opts :: "js \<Rightarrow> js" where
  "subs_opts data =
     (let get = opt_get data;
          add = (\<lambda>k opts. if truthy (get k) then opts @ [(k, get k)] else opts);
          opts = add ''rh'' (add ''rap'' (add ''nl'' [(''qos'', get ''qos'')])) in
      JObj (if truthy (get ''subscriptionIdentifier'')
        then opts @ [(''properties'', JObj [(''subscriptionIdentifier'', get ''subscriptionIdentifier'')])]
        else opts))"

section \<open>Properties\<close>

text \<open>
  Editing a subscription does not keep its flags: opening the form for a subscription and
  submitting it unchanged gives options whose "no local", "retain as published" and "retain
  handling" all have the value of the QoS, or are gone when the QoS is 0, whatever they were
  before. Id, topic, QoS and name do survive.
\<close>

theorem subscription_flags_lost:
  assumes "opt_get (opt_get data ''opts'') ''qos'' = JNum q" and "is_obj data"
    and "opt_get data ''topic'' = JStr t" and "opt_get data ''id'' = JStr i"
    and "opt_get (opt_get (opt_get data ''opts'') ''properties'') ''subscriptionIdentifier'' = JUndef"
  shows "let sent = subs_form_submit (subs_form_watch True data subs_form_init) in
    opt_get sent ''topic'' = JStr t \<and> opt_get sent ''id'' = JStr i \<and>
    subs_opts sent = JObj (if q = 0 then [(''qos'', JNum 0)]
      else [(''qos'', JNum q), (''nl'', JNum q), (''rap'', JNum q), (''rh'', JNum q)])"
proof -
  have "data \<noteq> JNull" "truthy data" using assms(2) by (auto simp: is_obj_def)
  then show ?thesis
    using assms
    by (simp add: subs_form_submit_def subs_form_watch_def subs_form_init_def Let_def subs_opts_def js_or_def)
qed

definition demo_flagged :: js where
  "demo_flagged = JObj [(''id'', JStr ''s1''), (''topic'', JStr ''a/b''),
     (''opts'', JObj [(''qos'', JNum 1), (''nl'', JBool True)])]"

theorem subscription_flags_lost_witness:
  "opt_get (opt_get demo_flagged ''opts'') ''rh'' = JUndef \<and>
   subs_opts (subs_form_submit (subs_form_watch True demo_flagged subs_form_init)) =
     JObj [(''qos'', JNum 1), (''nl'', JNum 1), (''rap'', JNum 1), (''rh'', JNum 1)]"
  using subscription_flags_lost [of demo_flagged 1 "''a/b''" "''s1''"]
  by (simp add: demo_flagged_def Let_def)

text \<open>
  After the last user property has been deleted in the form of MQTT 5 properties, the form
  cannot be saved: the pair editor emits \<open>null\<close>, of which saving takes the values. With any object
  of user properties saving succeeds, closes the form, and says that there are properties exactly
  if one is set.
\<close>

theorem saving_meta:
  "kv_deleteItem 0 [r] = ([kv_empty_row True], JNull) \<and>
   handleSaveMeta (oput ''userProperties'' (snd (kv_deleteItem 0 [r])) form) f = Inl TypeError \<and>
   (\<exists>f'. handleSaveMeta (oput ''userProperties'' (JObj m) form) f = Inr f' \<and> \<not> pf_metaShown f' \<and>
     pf_has f' = has_props (pf_props f'))"
  by (simp add: kv_deleteItem_def handleSaveMeta_def Let_def dict_simps calcHasProps_def)

lemma res_or_calc: "calcHasProps (JObj m) = Inr (has_props m)"
  by (simp add: has_props_def calcHasProps_def)

text \<open>
  The suggested topics a server may publish to are templates: until the user edits them, every one
  of them has a wildcard, with which publishing fails.
\<close>

lemma server_suggestions_wild:
  "\<forall>g\<in>set serverPubTopics. has_wildcard (pub_topicResolver g (JStr ''+''))"
  by (simp add: serverPubTopics_def suggestedPubTopics_def pubTopicsShadow_def pubTopicsThing_def
    has_wildcard_def things_topic_def user_things_topic_def)

end
