(* ===== verification/Things.thy ===== *)
theory Things
  imports Session MqttUtil Shadow Configs
begin

text \<open>
  The list of things and the shadow of the thing shown (\<open>web/src/reactives/useThingsAndShadows.js\<close>,
  the views \<open>List.vue\<close> and \<open>Thing.vue\<close>, the tables \<open>StandardTable.vue\<close> and \<open>CustomTable.vue\<close>). A
  request and its answer are two steps, because anything may happen in between; the answer is any
  value, or an error.
\<close>

section \<open>Loading the things\<close>

definition things_query :: "nat \<Rightarrow> js" where
  "things_query pageIndex = JObj [(''pageIndex'', JNum (int pageIndex)), (''pageSize'', JNum 9999),
     (''withAuthValue'', JBool True)]"

text \<open>
  The loop over the pages. \<open>pages i\<close> is the server's answer for page \<open>i\<close>: a page and the total, or an
  error. The fuel bounds the number of requests; \<open>None\<close> is a loop that is still going.
\<close>

fun load_pages ::
  "nat \<Rightarrow> (nat \<Rightarrow> (js list \<times> int) res) \<Rightarrow> nat \<Rightarrow> js list \<Rightarrow> js list res option" where
  "load_pages 0 pages pageIndex loaded = None"
| "load_pages (Suc fuel) pages pageIndex loaded =
     (case pages pageIndex of
        Inl e \<Rightarrow> Some (Inl e)
      | Inr (page_content, page_total) \<Rightarrow>
          (let loaded = loaded @ page_content in
           if int (length loaded) < page_total then load_pages fuel pages (Suc pageIndex) loaded
           else Some (Inr loaded)))"

definition updateThings ::
  "nat \<Rightarrow> (nat \<Rightarrow> (js list \<times> int) res) \<Rightarrow> app_state \<Rightarrow> (app_state \<times> bool) option" where
  "updateThings fuel pages st =
     (case load_pages fuel pages 1 [] of
        None \<Rightarrow> None
      | Some (Inl e) \<Rightarrow> Some (st, False)
      | Some (Inr loaded) \<Rightarrow> Some (st\<lparr>things := loaded\<rparr>, True))"

text \<open>
  Adding and deleting a thing, once the request is answered: the new state, the result, and whether
  the things are loaded again (which is not waited for).
\<close>

definition requestUpdateShadowList :: "app_state \<Rightarrow> app_state" where
  "requestUpdateShadowList st = st\<lparr>shadowListUpdateTag := shadowListUpdateTag st + 1\<rparr>"

definition addThing :: "js res \<Rightarrow> app_state \<Rightarrow> app_state \<times> bool \<times> bool" where
  "addThing answer st = (case answer of
     Inl e \<Rightarrow> (st, False, False)
   | Inr r \<Rightarrow> (st\<lparr>shadowListUpdateTag := shadowListUpdateTag st + 1\<rparr>, True, True))"

definition delThing :: "js res \<Rightarrow> app_state \<Rightarrow> app_state \<times> bool \<times> bool" where
  "delThing answer st = (case answer of
     Inl e \<Rightarrow> (st, False, False) | Inr r \<Rightarrow> (requestUpdateShadowList st, True, True))"

section \<open>The shadow of the thing shown\<close>

definition setCurrentShadow :: "js \<Rightarrow> app_state \<Rightarrow> app_state" where
  "setCurrentShadow shadow st = st\<lparr>currentShadow := js_or shadow (JObj [])\<rparr>"

text \<open>The thing of the current route, the store, and the things whose shadow was requested.\<close>

record shadow_page =
  sp_selected :: js
  sp_app :: app_state
  sp_asked :: "js list"

definition shown_shadow :: "shadow_page \<Rightarrow> js" where
  "shown_shadow v = (if truthy (sp_selected v) then currentShadow (sp_app v) else JObj [])"

definition set_shadow :: "js \<Rightarrow> shadow_page \<Rightarrow> shadow_page" where
  "set_shadow shadow v = v\<lparr>sp_app := setCurrentShadow shadow (sp_app v)\<rparr>"

definition updateCurrentShadow :: "shadow_page \<Rightarrow> shadow_page" where
  "updateCurrentShadow v =
     (if truthy (sp_selected v) then v\<lparr>sp_asked := sp_asked v @ [sp_selected v]\<rparr> else set_shadow JNull v)"

text \<open>
  The answer to the i-th of the requests under way; an error, also that of an answer without
  members, is only logged.
\<close>

definition shadow_answered :: "nat \<Rightarrow> js res \<Rightarrow> shadow_page \<Rightarrow> shadow_page" where
  "shadow_answered i answer v =
     (let v = v\<lparr>sp_asked := take i (sp_asked v) @ drop (Suc i) (sp_asked v)\<rparr> in
      case res_bind answer (\<lambda>r. js_get r ''data'') of Inl e \<Rightarrow> v | Inr d \<Rightarrow> set_shadow d v)"

section \<open>The detail view\<close>

text \<open>Where going back leads: to the page before, or to the list.\<close>

datatype back_target = RouterBack | RouterReplace string

definition handleBack2List :: "bool \<Rightarrow> shadow_page \<Rightarrow> back_target \<times> shadow_page" where
  "handleBack2List isFromList v =
     ((if isFromList then RouterBack else RouterReplace ''/''), set_shadow JNull v)"

definition onMounted_fromList :: "shadow_page \<Rightarrow> bool" where
  "onMounted_fromList v = truthy (opt_get (shown_shadow v) ''fromList'')"

text \<open>The members of an answer are copied into the thing shown.\<close>

definition getBasicInfo :: "js res \<Rightarrow> js obj \<Rightarrow> js obj" where
  "getBasicInfo answer thing = (case res_bind answer (\<lambda>r. js_get r ''data'') of
     Inl e \<Rightarrow> thing
   | Inr d \<Rightarrow> (case js_keys d of Inl e \<Rightarrow> thing
       | Inr ks \<Rightarrow> fold (\<lambda>k. oput k (opt_get d k)) ks thing))"

text \<open>The events that make the detail view of \<open>thingId\<close> load the shadow again.\<close>

definition reloads_shadow :: "js \<Rightarrow> js \<Rightarrow> string \<Rightarrow> about \<Rightarrow> bool" where
  "reloads_shadow thingId eventThingId type abt =
     (if eventThingId = thingId then type \<in> {TSCE_MQTT, TSCE_MQTO, TSCE_MSGO, TSCE_MSGI}
      else eventThingId = JStr ''*'' \<and> type = TSCE_MSGO \<and>
        (case abt of AboutTopic (JStr t) \<Rightarrow> starts_with t (''$iothub/things/'' @ js_str thingId @ ''/'')
         | _ \<Rightarrow> False))"

definition thing_title :: "js \<Rightarrow> string" where
  "thing_title thingId = js_str (js_or thingId (JStr ''(thingId)'')) @ '' | Thing''"

section \<open>The list view\<close>

definition defaultPageSize :: int where "defaultPageSize = 20"
definition placeholder :: string where "placeholder = sg_value (query_suggestions ! 0)"

record list_state =
  l_query :: string
  l_querying :: bool
  l_isSelectAll :: bool
  l_list :: "js list"
  l_total :: int
  l_focused :: bool
  l_blured :: bool
  l_empty :: bool
  l_error :: string
  l_pageIndex :: int
  l_pageSize :: int
  l_params_query :: string

definition list_init :: list_state where
  "list_init = \<lparr>l_query = ''SELECT * FROM shadow'', l_querying = False, l_isSelectAll = True, l_list = [],
     l_total = 0, l_focused = False, l_blured = False, l_empty = False, l_error = '''', l_pageIndex = 1,
     l_pageSize = defaultPageSize, l_params_query = placeholder\<rparr>"

definition list_active :: "list_state \<Rightarrow> bool" where
  "list_active s \<longleftrightarrow> l_focused s \<or> l_total s > 0"

definition list_reset :: "list_state \<Rightarrow> list_state" where
  "list_reset s = s\<lparr>l_focused := False, l_list := [], l_total := 0, l_empty := False, l_error := ''''\<rparr>"

definition handleClear :: "list_state \<Rightarrow> list_state" where
  "handleClear s = list_reset (s\<lparr>l_query := placeholder\<rparr>)"

text \<open>\<open>fetchList\<close> up to the request, whose parameters are in the state, and after its answer.\<close>

definition fetch_start :: "list_state \<Rightarrow> list_state" where
  "fetch_start s = s\<lparr>l_querying := True,
     l_isSelectAll := starts_with (to_lower (l_params_query s)) ''select *''\<rparr>"

definition fetch_request :: "(js \<Rightarrow> string) \<Rightarrow> list_state \<Rightarrow> http_request" where
  "fetch_request qs s =
     queryShadows qs (JNum (l_pageIndex s)) (JNum (l_pageSize s)) (JStr (l_params_query s))"

text \<open>An answer is a page with its total; a rejection is any value.\<close>

definition fetch_answered :: "(js list \<times> int) + js \<Rightarrow> list_state \<Rightarrow> list_state" where
  "fetch_answered answer s =
     (case answer of
        Inl (rows, all_rows) \<Rightarrow>
          (list_reset s)\<lparr>l_list := rows, l_total := all_rows, l_empty := (all_rows = 0), l_querying := False\<rparr>
      | Inr err \<Rightarrow>
          (let e = (if opt_get err ''code'' = JNum 400 then err
                    else JObj [(''error'', js_or err (JStr ''undefined''))])
           in (list_reset s)\<lparr>l_error := (case json_pretty e of Some t \<Rightarrow> t | None \<Rightarrow> ''undefined''),
                l_querying := False\<rparr>))"

text \<open>
  Searching takes the trimmed text of the editor if there is one, and the placeholder for an empty
  query; it starts at the first page.
\<close>

definition handleSearch :: "string option \<Rightarrow> list_state \<Rightarrow> list_state" where
  "handleSearch editor s =
     (let query = (case editor of Some t \<Rightarrow> trim t | None \<Rightarrow> l_query s);
          value = (if trim query = '''' then placeholder else trim query)
      in fetch_start (s\<lparr>l_query := value, l_params_query := value, l_pageIndex := 1\<rparr>))"

text \<open>
  The text of the editor is set when the query changes (the watcher in \<open>SQLEditor.vue\<close>), which happens
  before a search that a suggestion triggers, and not at all when the query was that of the
  suggestion already.
\<close>

definition editor_follows :: "string \<Rightarrow> string \<Rightarrow> string option \<Rightarrow> string option" where
  "editor_follows before query editor = (if query = before then editor else map_option (\<lambda>_. trim query) editor)"

definition handleSelect :: "string option \<Rightarrow> suggestion \<Rightarrow> list_state \<Rightarrow> list_state" where
  "handleSelect editor suggestion s =
     (let editor = editor_follows (l_query s) (sg_value suggestion) editor; s = s\<lparr>l_query := sg_value suggestion\<rparr> in
      if sg_autoTrigger suggestion then handleSearch editor s
      else if l_total s > 0 then s\<lparr>l_focused := False\<rparr> else s)"

definition handlePageIndexChange :: "int \<Rightarrow> list_state \<Rightarrow> list_state" where
  "handlePageIndexChange value s = fetch_start (s\<lparr>l_pageIndex := value\<rparr>)"

definition handlePageSizeChange :: "int \<Rightarrow> list_state \<Rightarrow> list_state" where
  "handlePageSizeChange value s = fetch_start (s\<lparr>l_pageSize := value\<rparr>)"

definition list_refresh :: "list_state \<Rightarrow> list_state" where
  "list_refresh s = (if l_total s \<noteq> 0 \<or> l_empty s then fetch_start s else s)"

definition list_on_event :: "js \<Rightarrow> string \<Rightarrow> list_state \<Rightarrow> list_state" where
  "list_on_event eventThingId type s =
     (if (\<exists>x\<in>set (l_list s). opt_get x ''thingId'' = eventThingId) \<and> type \<in> {TSCE_MQTT, TSCE_MQTO}
      then list_refresh s else s)"

section \<open>The tables\<close>

definition isSolved :: "js \<Rightarrow> bool" where
  "isSolved thing =
     (let st = js_or (opt_get thing ''state'') (JObj []) in
      json_stringify (opt_get st ''desired'') = json_stringify (opt_get st ''reported''))"

text \<open>Opening a thing from a table: the route, and what the detail view knows of it until it loads.\<close>

definition standard_viewThing :: "js \<Rightarrow> shadow_page \<Rightarrow> string option \<times> shadow_page" where
  "standard_viewThing thing v =
     (let i = opt_get thing ''thingId'' in
      if truthy i then (Some (''/things/'' @ js_str i),
        set_shadow (JObj (oput ''fromList'' (JBool True) (case thing of JObj m \<Rightarrow> m | _ \<Rightarrow> []))) v)
      else (None, v))"

definition custom_viewThing :: "js \<Rightarrow> shadow_page \<Rightarrow> string option \<times> shadow_page" where
  "custom_viewThing thing v =
     (let i = opt_get thing ''thingId'' in
      if truthy i then (Some (''/things/'' @ js_str i), set_shadow (JObj [(''fromList'', JBool True)]) v)
      else (None, v))"

text \<open>A column: the member shown, how, and its title.\<close>

record column =
  c_prop :: string
  c_type :: string
  c_label :: string

definition type_name :: "js \<Rightarrow> string" where
  "type_name v = (case typeof v of TUndefined \<Rightarrow> ''undefined'' | TBoolean \<Rightarrow> ''boolean'' | TNumber \<Rightarrow> ''number''
     | TString \<Rightarrow> ''string'' | TObject \<Rightarrow> ''object'')"

definition upper_char :: "char \<Rightarrow> char" where
  "upper_char c = (let n = of_char c :: nat in if 97 \<le> n \<and> n \<le> 122 then char_of (n - 32) else c)"

definition word_char :: "char \<Rightarrow> bool" where
  "word_char c \<longleftrightarrow> (let n = of_char c :: nat in
     (48 \<le> n \<and> n \<le> 57) \<or> (65 \<le> n \<and> n \<le> 90) \<or> (97 \<le> n \<and> n \<le> 122) \<or> n = 95)"

text \<open>The replacement of every match of \<open>(^\w|\_\w)\<close> after the first character, and from the start.\<close>

fun label_rest :: "string \<Rightarrow> string" where
  "label_rest (u # c # cs) =
     (if u = CHR ''_'' \<and> word_char c then CHR '' '' # upper_char c # label_rest cs else u # label_rest (c # cs))"
| "label_rest cs = cs"

definition column_label :: "string \<Rightarrow> string" where
  "column_label prop = (case prop of [] \<Rightarrow> []
     | c # cs \<Rightarrow> if word_char c then (if c = CHR ''_'' then CHR '' '' else upper_char c) # label_rest cs
         else label_rest prop)"

definition column_type :: "string \<Rightarrow> js \<Rightarrow> string" where
  "column_type prop v =
     (if ends_with prop ''_time'' \<or> ends_with prop ''Time'' \<or> prop \<in> {''createdAtd'', ''updatedAtd''} then ''time''
      else type_name v)"

text \<open>The columns, and whether there is a column for the id; without a row the latter is kept.\<close>

definition table_columns :: "js list \<Rightarrow> bool \<Rightarrow> bool \<times> column list" where
  "table_columns rows withId =
     (case rows of
        [] \<Rightarrow> (withId, [])
      | row # _ \<Rightarrow>
          if truthy row then
            (let keys = (case js_keys row of Inr ks \<Rightarrow> ks | Inl _ \<Rightarrow> []) in
             (''thingId'' \<in> set keys,
              map (\<lambda>prop. \<lparr>c_prop = prop, c_type = column_type prop (opt_get row prop), c_label = column_label prop\<rparr>)
                (filter (\<lambda>k. k \<noteq> ''thingId'') keys)))
          else (withId, []))"


text \<open>What the tables show in a row: \<open>fmt\<close> formats a time.\<close>

datatype cell =
    CellText string
  | CellValue js
  | CellBool bool
  | CellView

definition standard_time :: "(js \<Rightarrow> string) \<Rightarrow> js \<Rightarrow> cell" where
  "standard_time fmt time = CellText (if truthy time then fmt time else ''-'')"

definition standard_cells :: "(js \<Rightarrow> string) \<Rightarrow> js \<Rightarrow> (string \<times> cell) list" where
  "standard_cells fmt row =
     (let get = opt_get row in
      [(''Thing Id'', CellValue (get ''thingId'')),
       (''Connected'', CellBool (truthy (get ''connected''))),
       (''Last Connected Time'', standard_time fmt (get ''connectedAt'')),
       (''Remote Address'', CellValue (js_or (get ''remoteAddr'') (JStr ''-''))),
       (''Created At'', standard_time fmt (get ''createdAt'')),
       (''Updated At'', standard_time fmt (get ''updatedAt'')),
       (''Version'', CellValue (get ''version''))])"

definition standard_operations_disabled :: "js \<Rightarrow> bool" where
  "standard_operations_disabled row \<longleftrightarrow> opt_get row ''thingId'' = JUndef"

definition custom_cell :: "(js \<Rightarrow> string) \<Rightarrow> js \<Rightarrow> column \<Rightarrow> cell" where
  "custom_cell fmt row c =
     (let v = opt_get row (c_prop c) in
      if c_type c = ''boolean'' then CellBool (truthy v)
      else if c_type c = ''time'' then CellText (fmt v)
      else if c_type c = ''object'' then CellView
      else CellValue v)"

section \<open>Loading the things: when it returns, and with what\<close>

lemma load_pages_run:
  assumes "\<forall>i. pages i = Inr (c i, T)"
    and "\<forall>k. 0 < k \<and> k < n \<longrightarrow> int (length (acc @ concat (map c [j..<j + k]))) < T" and "0 < n"
    and "T \<le> int (length (acc @ concat (map c [j..<j + n])))" and "n \<le> fuel"
  shows "load_pages fuel pages j acc = Some (Inr (acc @ concat (map c [j..<j + n])))"
  using assms(2-)
proof (induction fuel arbitrary: j acc n)
  case (Suc fuel)
  show ?case
  proof (cases "n = 1")
    case True
    with Suc.prems assms(1) show ?thesis by (simp add: Let_def)
  next
    case False
    with Suc.prems obtain m where m: "n = Suc m" "0 < m" by (cases n) auto
    have split: "[j..<j + Suc k] = j # [Suc j..<Suc j + k]" for k by (simp add: upt_rec [of j])
    have "int (length (acc @ c j)) < T" using spec [OF Suc.prems(1), of 1] m by simp
    moreover have "load_pages fuel pages (Suc j) (acc @ c j) =
        Some (Inr ((acc @ c j) @ concat (map c [Suc j..<Suc j + m])))"
    proof (rule Suc.IH)
      show "\<forall>k. 0 < k \<and> k < m \<longrightarrow> int (length ((acc @ c j) @ concat (map c [Suc j..<Suc j + k]))) < T"
      proof (intro allI impI)
        fix k assume "0 < k \<and> k < m"
        then show "int (length ((acc @ c j) @ concat (map c [Suc j..<Suc j + k]))) < T"
          using spec [OF Suc.prems(1), of "Suc k"] m by (simp only: split) simp
      qed
      show "T \<le> int (length ((acc @ c j) @ concat (map c [Suc j..<Suc j + m])))"
        using Suc.prems(3) m by (simp only: split) simp
    qed (use m Suc.prems in simp_all)
    moreover have "pages j = Inr (c j, T)" using assms(1) by blast
    ultimately show ?thesis using m by (simp only: split) (simp add: Let_def)
  qed
qed simp

lemma load_pages_loops:
  assumes "\<forall>i. pages i = Inr (c i, T)"
    and "\<forall>n>0. int (length (acc @ concat (map c [j..<j + n]))) < T"
  shows "load_pages fuel pages j acc = None"
  using assms(2)
proof (induction fuel arbitrary: j acc)
  case (Suc fuel)
  have "int (length (acc @ c j)) < T" using Suc.prems [rule_format, of 1] by simp
  moreover have "load_pages fuel pages (Suc j) (acc @ c j) = None"
  proof (rule Suc.IH, intro allI impI)
    fix n :: nat assume "0 < n"
    have "[j..<j + Suc n] = j # [Suc j..<Suc j + n]" by (simp add: upt_rec [of j])
    then show "int (length ((acc @ c j) @ concat (map c [Suc j..<Suc j + n]))) < T"
      using Suc.prems [rule_format, of "Suc n"] by simp
  qed
  moreover have "pages j = Inr (c j, T)" using assms(1) by blast
  ultimately show ?case by (simp add: Let_def)
qed simp

text \<open>The things on the first \<open>n\<close> pages.\<close>

definition pages_upto :: "(nat \<Rightarrow> js list) \<Rightarrow> nat \<Rightarrow> js list" where
  "pages_upto c n = concat (map c [1..<Suc n])"

lemma least_reaching:
  assumes "0 < n" and "T \<le> int (length (pages_upto c n))"
  obtains m where "0 < m" "m \<le> n" "T \<le> int (length (pages_upto c m))"
    and "\<And>k. 0 < k \<Longrightarrow> k < m \<Longrightarrow> int (length (pages_upto c k)) < T"
proof -
  let ?P = "\<lambda>m. 0 < m \<and> T \<le> int (length (pages_upto c m))"
  have "?P n" using assms by simp
  then have "?P (LEAST m. ?P m)" and "(LEAST m. ?P m) \<le> n"
    by (rule LeastI [of ?P], rule Least_le [of ?P])
  moreover have "int (length (pages_upto c k)) < T" if "0 < k" "k < (LEAST m. ?P m)" for k
    using not_less_Least [OF that(2)] that(1) by simp
  ultimately show ?thesis using that by blast
qed

lemma load_pages_upto:
  assumes "\<forall>i. pages i = Inr (c i, T)" and "0 < n" and "T \<le> int (length (pages_upto c n))"
    and "\<forall>k. 0 < k \<and> k < n \<longrightarrow> int (length (pages_upto c k)) < T" and "n \<le> fuel"
  shows "load_pages fuel pages 1 [] = Some (Inr (pages_upto c n))"
  using load_pages_run [OF assms(1), of n "[]" 1 fuel] assms(2-) by (simp add: pages_upto_def)



text \<open>
  C32. When the pages reach the total, the store gets the things of all pages up to the first that
  does, in the order of the pages, after as many requests as there are such pages.
\<close>

theorem updateThings_loads_all:
  assumes "\<forall>i. pages i = Inr (c i, T)" and "0 < n" and "T \<le> int (length (pages_upto c n))"
    and "\<forall>k. 0 < k \<and> k < n \<longrightarrow> int (length (pages_upto c k)) < T" and "n \<le> fuel"
  shows "updateThings fuel pages st = Some (st\<lparr>things := pages_upto c n\<rparr>, True)"
  using load_pages_upto [OF assms] by (simp add: updateThings_def)

theorem updateThings_loads_all_witness:
  "updateThings 2 (\<lambda>i. Inr ([JNum (int i)], 2)) app_init =
     Some (app_init\<lparr>things := [JNum 1, JNum 2]\<rparr>, True)"
proof -
  have "[Suc 0..<Suc (Suc 0)] = [1]" "[Suc 0..<Suc (Suc (Suc 0))] = [1, 2]" by simp_all
  then show ?thesis
    using updateThings_loads_all [of "\<lambda>i. Inr ([JNum (int i)], 2)" "\<lambda>i. [JNum (int i)]" 2 2 2 app_init]
    by (auto simp: pages_upto_def numeral_2_eq_2 less_Suc_eq)
qed

section \<open>The shadow shown and the list\<close>

text \<open>
  The shadow shown is that of the last answer, not that of the thing selected: when the shadow
  of a second thing is requested before that of the first has arrived, the answers may come in
  either order, and if the first comes last the view of the second thing shows the first one's
  shadow.
\<close>

theorem stale_shadow_shown:
  assumes "truthy a" and "truthy b" and "sp_asked v = []"
  shows "let w = updateCurrentShadow ((updateCurrentShadow (v\<lparr>sp_selected := a\<rparr>))\<lparr>sp_selected := b\<rparr>);
      ra = Inr (JObj [(''data'', JObj sa)]); rb = Inr (JObj [(''data'', JObj sb)]) in
    sp_asked w = [a, b] \<and>
    shown_shadow (shadow_answered 0 rb (shadow_answered 0 ra w)) = JObj sb \<and>
    shown_shadow (shadow_answered 0 ra (shadow_answered 1 rb w)) = JObj sa"
  using assms
  by (simp add: updateCurrentShadow_def shadow_answered_def Let_def set_shadow_def setCurrentShadow_def
    shown_shadow_def js_or_def)

definition demo_shadow_page :: shadow_page where
  "demo_shadow_page = \<lparr>sp_selected = JUndef, sp_app = app_init, sp_asked = []\<rparr>"

theorem stale_shadow_shown_witness:
  "shown_shadow (shadow_answered 0 (Inr (JObj [(''data'', JObj [(''thingId'', JStr ''a'')])]))
     (shadow_answered 1 (Inr (JObj [(''data'', JObj [(''thingId'', JStr ''b'')])]))
       (updateCurrentShadow ((updateCurrentShadow (demo_shadow_page\<lparr>sp_selected := JStr ''a''\<rparr>))
         \<lparr>sp_selected := JStr ''b''\<rparr>)))) = JObj [(''thingId'', JStr ''a'')]"
  using stale_shadow_shown [of "JStr ''a''" "JStr ''b''" demo_shadow_page "[(''thingId'', JStr ''a'')]"
      "[(''thingId'', JStr ''b'')]"]
  by (simp add: demo_shadow_page_def Let_def)

text \<open>Everything that may happen to the list of things, in any order.\<close>

inductive list_step :: "list_state \<Rightarrow> list_state \<Rightarrow> bool" where
  search: "list_step s (handleSearch editor s)"
| select: "list_step s (handleSelect editor g s)"
| to_page: "list_step s (handlePageIndexChange i s)"
| page_size: "list_step s (handlePageSizeChange n s)"
| clear: "list_step s (handleClear s)"
| refresh: "list_step s (list_refresh s)"
| event: "list_step s (list_on_event t type s)"
| answer: "list_step s (fetch_answered r s)"
| focus: "list_step s (s\<lparr>l_focused := b\<rparr>)"
| typed: "list_step s (s\<lparr>l_query := q\<rparr>)"

text \<open>
  What the view shows is consistent: a query that can be sent is never empty, an error never stands
  beside rows of an earlier answer, and the list is only reported empty when it is.
\<close>

definition list_inv :: "list_state \<Rightarrow> bool" where
  "list_inv s \<longleftrightarrow> l_params_query s \<noteq> [] \<and>
     (l_error s \<noteq> [] \<longrightarrow> l_list s = [] \<and> l_total s = 0 \<and> \<not> l_empty s) \<and> (l_empty s \<longrightarrow> l_total s = 0)"

lemma list_inv_frame [simp]:
  "list_inv (s\<lparr>l_query := q\<rparr>) = list_inv s" "list_inv (s\<lparr>l_focused := b\<rparr>) = list_inv s"
  "list_inv (s\<lparr>l_pageIndex := i\<rparr>) = list_inv s" "list_inv (s\<lparr>l_pageSize := i\<rparr>) = list_inv s"
  "list_inv (fetch_start s) = list_inv s"
  by (simp_all add: list_inv_def fetch_start_def)

lemma list_inv_search [simp]: "list_inv s \<Longrightarrow> list_inv (handleSearch editor s)"
  by (simp add: handleSearch_def Let_def) (simp add: list_inv_def fetch_start_def placeholder_def query_suggestions_def)

lemma list_inv_answered [simp]: "list_inv s \<Longrightarrow> list_inv (fetch_answered r s)"
  by (cases r) (auto simp: list_inv_def fetch_answered_def list_reset_def Let_def)

interpretation list_view: step_invariant "\<lambda>s. s = list_init" list_step list_inv
proof unfold_locales
  show "list_inv s" if "s = list_init" for s
    using that by (simp add: list_inv_def list_init_def placeholder_def query_suggestions_def)
  show "list_inv t" if "list_inv s" "list_step s t" for s t
    using that(2,1)
    by cases (auto simp: handleSelect_def Let_def handlePageIndexChange_def handlePageSizeChange_def
      list_refresh_def list_on_event_def, simp add: handleClear_def list_reset_def list_inv_def)
qed

text \<open>
  C33. However the user searches, pages, selects suggestions and clears, and whatever answers and
  events come in between and in whatever order, the list view sends no empty query, shows no error
  beside rows, and says the list is empty only when the total is zero. Every answer, of whatever
  request, ends the busy state and takes the place of what was shown.
\<close>

theorem list_view_consistent:
  assumes "reach (\<lambda>s. s = list_init) list_step s"
  shows "l_params_query s \<noteq> [] \<and>
    (l_error s \<noteq> [] \<longrightarrow> l_list s = [] \<and> l_total s = 0 \<and> \<not> l_empty s) \<and>
    (l_empty s \<longrightarrow> l_total s = 0) \<and>
    \<not> l_querying (fetch_answered r s) \<and>
    fetch_answered (Inl (rows, n)) (fetch_answered r s) = fetch_answered (Inl (rows, n)) s"
  using list_view.reach_inv [OF assms]
  by (simp add: list_inv_def fetch_answered_def list_reset_def Let_def split: sum.split)

theorem list_view_consistent_witness:
  "l_params_query (fetch_answered (Inl ([JNull], 1)) (handleSearch (Some ''  '') list_init)) \<noteq> []"
proof -
  have "reach (\<lambda>s. s = list_init) list_step list_init" by (rule reach.start) simp
  from reach.step [OF reach.step [OF this list_step.search] list_step.answer]
  have "reach (\<lambda>s. s = list_init) list_step
      (fetch_answered (Inl ([JNull], 1)) (handleSearch (Some ''  '') list_init))" .
  from list_view_consistent [OF this] show ?thesis by blast
qed

end
