(* ===== verification/Clients.thy ===== *)
theory Clients
  imports MqttForms ConnForm Things
begin

text \<open>
  The views of connections: the list of connections with its buttons (\<open>MqttClients.vue\<close>), the detail
  of the selected one (\<open>MqttClientDetail.vue\<close>), its subscriptions (\<open>Subcriptions.vue\<close>) and messages
  (\<open>MqttMessage.vue\<close>), the clients of the thing shown (\<open>MqttClientsOfThing.vue\<close>) and the shadow data
  with the form that sets the reported state (\<open>ShadowData.vue\<close>). The callbacks these views hand to the
  operations of connections are values of \<open>vcb\<close>.
\<close>

datatype vcb =
    VPublish
  | VSubscriptions string string
  | VSubscribeAll
  | VUnsubscribeAll

type_synonym vworld = "vcb mworld"

definition on_lay :: "(layout_state \<Rightarrow> layout_state) \<Rightarrow> 'cb world \<Rightarrow> 'cb world" where
  "on_lay f w = w\<lparr>store := (store w)\<lparr>layout := f (layout (store w))\<rparr>\<rparr>"

definition shared_connected :: "'cb world \<Rightarrow> shared option \<Rightarrow> bool" where
  "shared_connected w sh = (case sh of
     Some (SharedFull i c sr mr u t) \<Rightarrow> cl_connected (clients w c) | _ \<Rightarrow> False)"

definition shared_subs :: "'cb world \<Rightarrow> shared option \<Rightarrow> sub_map option" where
  "shared_subs w sh = (case sh of Some (SharedFull i c sr mr u t) \<Rightarrow> Some (subs_heap w sr) | _ \<Rightarrow> None)"

definition shared_messages :: "'cb world \<Rightarrow> shared option \<Rightarrow> js list" where
  "shared_messages w sh = (case sh of Some (SharedFull i c sr mr u t) \<Rightarrow> msgs_heap w mr | _ \<Rightarrow> [])"

definition subscriptions_of :: "'cb world \<Rightarrow> cref \<Rightarrow> js list" where
  "subscriptions_of w cr = (case opt_get (cfgs w cr) ''subscriptions'' of JArr xs \<Rightarrow> xs | _ \<Rightarrow> [])"

section \<open>The messages of the selected connection\<close>

text \<open>Whether a message passes the type and the topic filter; the last line is as in the source.\<close>

definition message_shown :: "string \<Rightarrow> string \<Rightarrow> js \<Rightarrow> bool" where
  "message_shown type filterTopic msg =
     (let out = truthy (opt_get msg ''out'') in
      if type = ''in'' \<and> out then False
      else if type = ''out'' \<and> \<not> out then False
      else if filterTopic = '''' then True
      else if out then False
      else matchTopicMethod (js_str (opt_get msg ''topic'')) filterTopic)"

definition shown_messages :: "string \<Rightarrow> string \<Rightarrow> 'cb world \<Rightarrow> js list" where
  "shown_messages type filterTopic w =
     (case selectedConn w of
        Some (_, sh) \<Rightarrow> filter (message_shown type filterTopic) (shared_messages w sh)
      | None \<Rightarrow> [])"

definition handleClearMessages :: "'cb world \<Rightarrow> 'cb world" where
  "handleClearMessages w = (case selectedConn w of Some (Some cr, _) \<Rightarrow> clearMessages cr w | _ \<Rightarrow> w)"

text \<open>Where the message panel is, and whether the global panel is visible.\<close>

definition switchTeleport :: "bool \<Rightarrow> bool \<Rightarrow> teleport \<times> bool" where
  "switchTeleport toGlobal hasConn =
     (if toGlobal then (TeleportG, True) else (if hasConn then TeleportD else TeleportG, False))"

section \<open>The subscriptions of the selected connection\<close>

record sub_item =
  si_id :: js
  si_name :: js
  si_topic :: js
  si_opts :: js
  si_keep :: js
  si_subscribed :: bool

definition sub_item_of :: "sub_map \<Rightarrow> js \<Rightarrow> sub_item" where
  "sub_item_of m x = \<lparr>si_id = opt_get x ''id'', si_name = opt_get x ''name'',
     si_topic = opt_get x ''topic'', si_opts = opt_get x ''opts'', si_keep = opt_get x ''keep'',
     si_subscribed = (olookup m (js_str (opt_get x ''topic'')) = Some True)\<rparr>"

text \<open>The list shown: the subscribed topics first, otherwise in the order of the configuration.\<close>

definition updateSubscriptions :: "'cb world \<Rightarrow> cref option \<Rightarrow> shared option \<Rightarrow> sub_item list" where
  "updateSubscriptions w config sh =
     (case config of
        Some cr \<Rightarrow> sort_key (\<lambda>s. if si_subscribed s then 0 else 1 :: nat)
          (map (sub_item_of (case shared_subs w sh of Some m \<Rightarrow> m | None \<Rightarrow> [])) (subscriptions_of w cr))
      | None \<Rightarrow> [])"

text \<open>The buttons of a subscription, and which of them are disabled.\<close>

definition sub_item_buttons :: "bool \<Rightarrow> sub_item \<Rightarrow> (string \<times> bool) list" where
  "sub_item_buttons conn_up s =
     [(if si_subscribed s then ''Unsubscribe'' else ''Subscribe'', \<not> conn_up), (''Filter'', False),
      (''Edit'', \<not> conn_up \<or> si_subscribed s), (''Delete'', truthy (si_keep s) \<or> si_subscribed s)]"

text \<open>The operations; the flag in the result says that the list is loading.\<close>

definition handleUnsubscribe :: "cref \<Rightarrow> sub_item \<Rightarrow> vworld \<Rightarrow> vworld \<times> bool" where
  "handleUnsubscribe cr s w =
     (if si_subscribed s then
        (unsubscribe cr (si_topic s) (Some (VSubscriptions ''Unsubscribe operation Failed'' ''Topic Unsubscribed'')) w, True)
      else (w, True))"

definition form_shows :: "'cb world \<Rightarrow> js \<Rightarrow> bool" where
  "form_shows w i \<longleftrightarrow> i = opt_get (sf_subscription (mqttSubsForm (layout (store w)))) ''id''"

definition handleSubscribe :: "cref \<Rightarrow> sub_item \<Rightarrow> vworld \<Rightarrow> vworld \<times> bool" where
  "handleSubscribe cr s w =
     (if \<not> si_subscribed s then
        (let w = (if form_shows w (si_id s) then on_lay hideMqttSubsForm w else w) in
         (subscribe cr (si_topic s) (si_opts s) False (Some (subscriptions_of w cr))
            (Some (VSubscriptions ''Subscribe operation Failed'' ''Topic Subscribed'')) w, True))
      else (w, False))"

definition handleEdit :: "bool \<Rightarrow> cref \<Rightarrow> js \<Rightarrow> 'cb world \<Rightarrow> 'cb world" where
  "handleEdit conn_up cr s w = (if conn_up then on_lay (showMqttSubsForm (Some cr) s) w else w)"

definition handleToggleFilter :: "string \<Rightarrow> string \<Rightarrow> string" where
  "handleToggleFilter filterTopic topic = (if filterTopic = topic then '''' else topic)"

text \<open>
  Deleting a subscription. \<open>removeTopic\<close> is called with the topic in the place of the configuration, so
  it looks for the delegate of \<open>undefined\<close>.
\<close>

definition handleDelete :: "cref \<Rightarrow> shared option \<Rightarrow> sub_item \<Rightarrow> vworld \<Rightarrow> vworld" where
  "handleDelete cr sh s w =
     (let w = (if form_shows w (si_id s) then on_lay hideMqttSubsForm w else w);
          w = (if shared_connected w sh \<and> si_subscribed s then unsubscribe cr (si_topic s) None w else w);
          subs = subscriptions_of w cr in
      case find_index (\<lambda>x. opt_get x ''id'' = si_id s) subs of
        None \<Rightarrow> w
      | Some i \<Rightarrow>
          (let w = set_field cr ''subscriptions'' (JArr (take i subs @ drop (Suc i) subs)) w;
               w = setConnConfig (conf_id w cr) cr w;
               w = (case getDelegateById JUndef None w of
                   (Some r, w) \<Rightarrow> removeTopic r JUndef w | (None, w) \<Rightarrow> w)
           in notify (notifyDone ''Delete Subscription'') w))"

definition conflict_note :: notification where
  "conflict_note = \<lparr>title = ''Conflict'', message = ''The subscription with same topic already exists'', ntype = ''''\<rparr>"

text \<open>
  Submitting the form of a subscription. An existing subscription is changed in place before its new
  topic is subscribed; the topic it had is then dropped.
\<close>

definition submit_existing :: "cref \<Rightarrow> js \<Rightarrow> vworld \<Rightarrow> vworld" where
  "submit_existing cr data w =
     (let subs = subscriptions_of w cr; get = opt_get data in
      case find_index (\<lambda>x. opt_get x ''id'' = get ''id'') subs of
        None \<Rightarrow> w
      | Some i \<Rightarrow>
          (let oldTopic = opt_get (subs ! i) ''topic'';
               x = put_js ''opts'' (subs_opts data) (put_js ''topic'' (get ''topic'')
                     (put_js ''name'' (get ''name'') (subs ! i)));
               w = set_field cr ''subscriptions'' (JArr (subs[i := x])) w;
               w = subscribe cr (get ''topic'') (subs_opts data) False (Some [x])
                     (Some (VSubscriptions ''Subscribe operation Failed'' ''Update subscription and subscribe it.'')) w
           in if get ''topic'' \<noteq> oldTopic then use_removeTopic cr oldTopic w else w))"

definition submit_new :: "cref \<Rightarrow> js \<Rightarrow> vworld \<Rightarrow> vworld" where
  "submit_new cr data w = (let get = opt_get data in
     subscribe cr (get ''topic'') (subs_opts data) False
       (Some [JObj [(''name'', get ''name''), (''keep'', JBool False), (''opts'', subs_opts data), (''topic'', get ''topic'')]])
       (Some (VSubscriptions ''Subscribe operation Failed'' ''Add subscription and subscribe it.'')) w)"

definition submitForm :: "cref \<Rightarrow> js \<Rightarrow> vworld \<Rightarrow> vworld" where
  "submitForm cr data w =
     (let i = opt_get data ''id'' in
      case List.find (with_topic (opt_get data ''topic'')) (subscriptions_of w cr) of
        Some same \<Rightarrow>
          if \<not> truthy i \<or> i \<noteq> opt_get same ''id'' then notify conflict_note w
          else submit_existing cr data (on_lay hideMqttSubsForm w)
      | None \<Rightarrow>
          (let w = on_lay hideMqttSubsForm w in
           if truthy i then submit_existing cr data w else submit_new cr data w))"

section \<open>The selected connection\<close>

definition baseInfo :: "js \<Rightarrow> js obj" where
  "baseInfo config =
     (let get = opt_get config in
      map (\<lambda>k. (k, get k)) [''userrole'', ''name'', ''clientId'', ''clean'', ''mqttVersion'', ''keepalive'',
        ''username'', ''password''] @
      [(''broker'', JStr (js_str (get ''protocol'') @ ''://'' @ js_str (get ''host'') @ '':'' @ js_str (get ''port'')))])"

text \<open>The counter and the buttons below the subscriptions, disabled while not connected.\<close>

definition subscription_stats :: "sub_map \<Rightarrow> js list \<Rightarrow> string" where
  "subscription_stats subs subscriptions =
     nat_str (length (getSubscribedSubs (Some subs))) @ '' / '' @ nat_str (length subscriptions)"

definition detail_buttons :: "bool \<Rightarrow> (string \<times> bool) list" where
  "detail_buttons conn_up = [(''Add'', \<not> conn_up), (''Subscribe All'', \<not> conn_up), (''Unsubscribe All'', \<not> conn_up)]"

definition handleCreateSubscription :: "'cb world \<Rightarrow> 'cb world" where
  "handleCreateSubscription w = (case selectedConn w of
     Some (cr, sh) \<Rightarrow> if shared_connected w sh then on_lay (showMqttSubsForm cr JNull) w else w
   | None \<Rightarrow> w)"

text \<open>Subscribing and unsubscribing everything, for a connection and its map of topics.\<close>

definition handleSubscribeAll :: "cref \<Rightarrow> sub_map \<Rightarrow> vworld \<Rightarrow> vworld" where
  "handleSubscribeAll cr subs w =
     (case subscribeAll (subscriptions_of w cr) subs of
        Inr (BulkSubscribe topic configs) \<Rightarrow> subscribe cr (JObj topic) JUndef True (Some configs) (Some VSubscribeAll) w
      | Inr (BulkWarn n) \<Rightarrow> notify n w
      | _ \<Rightarrow> w)"

definition handleUnsubscribeAll :: "cref \<Rightarrow> sub_map \<Rightarrow> vworld \<Rightarrow> vworld" where
  "handleUnsubscribeAll cr subs w =
     (case unsubscribeAll (Some subs) of
        BulkUnsubscribe topics \<Rightarrow> unsubscribe cr (JArr (map JStr topics)) (Some VUnsubscribeAll) w
      | BulkWarn n \<Rightarrow> notify n w
      | _ \<Rightarrow> w)"

text \<open>What the callbacks of these views do; those of a single subscription also end the loading.\<close>

definition run_view_call :: "vcb call \<Rightarrow> vworld \<Rightarrow> vworld" where
  "run_view_call call w =
     (case call of
        Some (VSubscriptions failed finished, err) \<Rightarrow>
          notify (case err of Some _ \<Rightarrow> notifyFail failed | None \<Rightarrow> notifyDone finished) w
      | Some (VSubscribeAll, err) \<Rightarrow> notify (subscribeAll_done (opt_text err)) w
      | Some (VUnsubscribeAll, err) \<Rightarrow> notify (unsubscribeAll_done (opt_text err)) w
      | _ \<Rightarrow> w)"

section \<open>The list of connections\<close>

definition connection_opts :: "bool \<Rightarrow> (string \<times> bool) list" where
  "connection_opts connected = [(''delete'', connected), (''edit'', connected)] @
     (if connected then [(''disconn'', False)] else [(''connect'', False)])"

definition show_form :: "js \<Rightarrow> js \<Rightarrow> 'cb world \<Rightarrow> string \<times> 'cb world" where
  "show_form i thingId w =
     (let (token, l) = showMqttConnForm (fresh_uuid w) i thingId (layout (store w));
          w = (if truthy thingId then next_uuid w else w)
      in (token, on_lay (\<lambda>_. l) w))"

definition handleOpt :: "string \<Rightarrow> 'cb world \<Rightarrow> 'cb world" where
  "handleOpt key w =
     (let current = currentConnId (mqtt (store w)) in
      if key = ''edit'' then snd (show_form current JNull w)
      else if key = ''delete'' then removeConnection current w
      else (case selectedConn w of
          Some (Some cr, _) \<Rightarrow>
            if key = ''connect'' then fst (use_connect cr '''' w)
            else if key = ''disconn'' then disconn cr w else w
        | _ \<Rightarrow> w))"

text \<open>Deleting a thing from a table, once the request is answered: its connections go as well.\<close>

definition table_deleteThing :: "js \<Rightarrow> js res \<Rightarrow> 'cb world \<Rightarrow> 'cb world" where
  "table_deleteThing thing ans w =
     (let i = opt_get thing ''thingId'' in
      if truthy i then
        (case delThing ans (app (store w)) of
           (st, ok, _) \<Rightarrow>
             let w = w\<lparr>store := (store w)\<lparr>app := st\<rparr>\<rparr> in
             if ok then notify (notifyDone (''Delete '' @ js_str i)) (removeConnectionsByClientId i w) else w)
      else w)"

definition handleCreateOrEditCancel :: "'cb world \<Rightarrow> 'cb world" where
  "handleCreateOrEditCancel w = on_lay hideMqttConnForm w"

text \<open>
  After the form was saved. The test \<open>if (isForCreate)\<close> is of the reference itself, which is always
  truthy, so an edited connection is treated like a new one.
\<close>

definition with_suggestions :: "cref \<Rightarrow> 'cb world \<Rightarrow> 'cb world" where
  "with_suggestions cr w =
     (let c = uuid_count w;
          subs = getSuggestedTopicsForThing (\<lambda>i. uuids w (c + i)) (opt_get (cfgs w cr) ''username'')
      in set_field cr ''subscriptions'' (json_clean (JArr subs)) (w\<lparr>uuid_count := c + length subs\<rparr>))"

definition handleCreateOrEditDone :: "cref \<Rightarrow> string \<Rightarrow> 'cb world \<Rightarrow> 'cb world" where
  "handleCreateOrEditDone cr connectedToken w =
     (let w = selectConnection cr w;
          w = (if opt_get (cfgs w cr) ''userrole'' = JStr ''thing''
               then setConnConfig (conf_id w cr) cr (with_suggestions cr w) else w);
          w = handleCreateOrEditCancel w
      in case selectedConn w of Some (Some c, _) \<Rightarrow> fst (use_connect c connectedToken w) | _ \<Rightarrow> w)"

section \<open>The clients of the thing shown\<close>

record thing_client =
  tc_config :: cref
  tc_connected :: bool
  tc_subs :: sub_map
  tc_subscriptions :: "js list"
  tc_messages :: "js list"
  tc_unread :: int

definition thing_client_of :: "'cb world \<Rightarrow> cref \<Rightarrow> thing_client" where
  "thing_client_of w cr =
     (let sh = olookup (delegateStates (mqtt (store w))) (js_str (conf_id w cr)) in
      \<lparr>tc_config = cr, tc_connected = shared_connected w sh,
       tc_subs = (case shared_subs w sh of Some m \<Rightarrow> m | None \<Rightarrow> []),
       tc_subscriptions = subscriptions_of w cr, tc_messages = shared_messages w sh,
       tc_unread = (case sh of Some (SharedFull i c sr mr u t) \<Rightarrow> u | _ \<Rightarrow> 0)\<rparr>)"

record thing_clients =
  th_token :: string
  th_activeName :: js
  th_clients :: "thing_client list"

text \<open>The buttons of a client, and which are disabled; the last shows the number of unread messages.\<close>

definition thing_client_buttons :: "thing_client \<Rightarrow> (string \<times> bool) list" where
  "thing_client_buttons c =
     [(if tc_connected c then ''Disconnect'' else ''Connect and Subscribe'', False),
      (''Subs All'', \<not> tc_connected c), (''Unsub All'', \<not> tc_connected c), (''Show in tool-panel'', False)]"

text \<open>The watcher: the clients, and which of them is unfolded; the first connected one is, at first.\<close>

definition thing_clients_watch :: "js \<Rightarrow> 'cb world \<Rightarrow> thing_clients \<Rightarrow> thing_clients" where
  "thing_clients_watch thingId w v =
     (let cs = map (thing_client_of w) (getConnConfigsByClientId thingId w);
          active = fold (\<lambda>c a. if a = JStr '''' \<and> tc_connected c then conf_id w (tc_config c) else a) cs (th_activeName v)
      in v\<lparr>th_clients := cs, th_activeName := active\<rparr>)"

definition handleConnectMqttClient :: "cref \<Rightarrow> thing_clients \<Rightarrow> 'cb world \<Rightarrow> thing_clients \<times> 'cb world" where
  "handleConnectMqttClient cr v w =
     (let token = genConnectedCallbackToken (fresh_uuid w)
      in (v\<lparr>th_token := token\<rparr>, fst (use_connect cr token (next_uuid w))))"

definition handleCreateMqttClient :: "js \<Rightarrow> thing_clients \<Rightarrow> 'cb world \<Rightarrow> thing_clients \<times> 'cb world" where
  "handleCreateMqttClient thingId v w =
     (let (token, w) = show_form JNull thingId w in (v\<lparr>th_token := token\<rparr>, w))"

definition handleShowSubscriptions :: "cref \<Rightarrow> 'cb world \<Rightarrow> 'cb world" where
  "handleShowSubscriptions cr w =
     (if shared_connected w (olookup (delegateStates (mqtt (store w))) (js_str (conf_id w cr)))
      then on_lay (showMqttSubsForm (Some cr) JUndef) w else w)"

text \<open>Showing a client in the tool panel, which is opened if it is not; \<open>visible\<close> is the global panel.\<close>

definition handleShowToolPanel :: "cref \<Rightarrow> bool \<Rightarrow> 'cb world \<Rightarrow> bool \<times> 'cb world" where
  "handleShowToolPanel cr visible w =
     (if activeToolKey (layout (store w)) \<noteq> ''mqtt'' then
        (let fr = use_switchActiveTool ''mqtt'' \<lparr>fr_layout = layout (store w), fr_ls = local_store (store w),
               fr_global_visible = visible\<rparr>;
             w = w\<lparr>store := (store w)\<lparr>layout := fr_layout fr, local_store := fr_ls fr\<rparr>\<rparr>
         in (fr_global_visible fr, selectConnection cr w))
      else (visible, selectConnection cr w))"

text \<open>
  The event that the client this view asked for is connected: it subscribes all topics kept for the
  thing, once.
\<close>

definition token_matches :: "js \<Rightarrow> string \<Rightarrow> thing_event \<Rightarrow> cref option" where
  "token_matches thingId token e =
     (case ev_about e of
        AboutConn cr t \<Rightarrow> if ev_thingId e = thingId \<and> t \<noteq> '''' \<and> t = token then Some cr else None
      | _ \<Rightarrow> None)"

definition thing_clients_event ::
  "js \<Rightarrow> thing_event \<Rightarrow> thing_clients \<Rightarrow> vworld \<Rightarrow> thing_clients \<times> vworld" where
  "thing_clients_event thingId e v w =
     (case token_matches thingId (th_token v) e of
        Some cr \<Rightarrow>
          if ev_type e = TSCE_MQTT then
            (let v = v\<lparr>th_token := ''''\<rparr>;
                 configs = filter (\<lambda>x. truthy (opt_get x ''keep'')) (subscriptions_of w cr) in
             case convertSubsConfigSubMap configs of
               Inl _ \<Rightarrow> (v, w)
             | Inr subMap \<Rightarrow> (v, subscribe cr (JObj subMap) JUndef True (Some configs) None w))
          else (v, w)
      | None \<Rightarrow> (v, w))"

section \<open>The shadow data\<close>

record shadow_data =
  sd_token :: string
  sd_selectedState :: js
  sd_viewer :: object_viewer
  sd_noDelta :: bool
  sd_publishShown :: bool
  sd_conn :: "cref option"
  sd_title :: string
  sd_topic :: string
  sd_payload :: string
  sd_paytype :: string

definition handleCompareState :: "js \<Rightarrow> shadow_data \<Rightarrow> shadow_data" where
  "handleCompareState shadow v = v\<lparr>sd_selectedState := opt_get shadow ''state'',
     sd_viewer := (sd_viewer v)\<lparr>ov_object := JNull, ov_title := ''both''\<rparr>\<rparr>"

definition handleCheckDelta :: "js \<Rightarrow> shadow_data \<Rightarrow> shadow_data \<times> js_error option" where
  "handleCheckDelta shadow v =
     (let v = v\<lparr>sd_selectedState := JNull\<rparr> in
      case diffState (opt_get shadow ''state'') of
        Inl e \<Rightarrow> (v, Some e)
      | Inr (hasDelta, delta) \<Rightarrow>
          (if hasDelta then v\<lparr>sd_viewer := viewObject delta ''Delta'' True (sd_viewer v)\<rparr>
           else v\<lparr>sd_noDelta := True\<rparr>, None))"

definition handleCloseViewers :: "shadow_data \<Rightarrow> shadow_data" where
  "handleCloseViewers v = v\<lparr>sd_selectedState := JNull, sd_viewer := handleCloseViewer (sd_viewer v)\<rparr>"

definition handleCloseMqttPublish :: "shadow_data \<Rightarrow> shadow_data" where
  "handleCloseMqttPublish v = v\<lparr>sd_publishShown := False, sd_conn := None, sd_title := '''', sd_topic := '''',
     sd_payload := '''', sd_paytype := ''''\<rparr>"

definition handleDoneMqttPublish :: "string option \<Rightarrow> shadow_data \<Rightarrow> shadow_data" where
  "handleDoneMqttPublish err v = (case err of None \<Rightarrow> handleCloseMqttPublish v | Some _ \<Rightarrow> v)"

definition showSetReportedForm :: "js \<Rightarrow> cref \<Rightarrow> shadow_data \<Rightarrow> 'cb world \<Rightarrow> shadow_data \<times> 'cb world" where
  "showSetReportedForm shadow cr v w =
     (let w = selectConnection cr w;
          payload = JObj [(''state'', JObj [(''reported'', JObj [])]),
            (''clientToken'', JStr (genClientToken (fresh_uuid w))), (''version'', JNum 0)]
      in (v\<lparr>sd_token := '''', sd_conn := Some cr, sd_title := ''Set Reported'',
           sd_topic := ''$iothub/things/'' @ js_str (opt_get shadow ''thingId'') @ ''/shadows/name/default/update'',
           sd_payload := text_of (json_pretty payload), sd_paytype := ''JSON'', sd_publishShown := True\<rparr>,
          next_uuid w))"

text \<open>What setting the reported state leads to: the form, or one of two questions.\<close>

datatype set_reported = ReportForm cref | AskConnect cref | AskCreate

definition conf_connected :: "'cb world \<Rightarrow> cref \<Rightarrow> bool" where
  "conf_connected w cr = shared_connected w (olookup (delegateStates (mqtt (store w))) (js_str (conf_id w cr)))"

definition handleSetReported :: "js \<Rightarrow> 'cb world \<Rightarrow> set_reported" where
  "handleSetReported shadow w =
     (case getConnConfigsByClientId (opt_get shadow ''thingId'') w of
        [] \<Rightarrow> AskCreate
      | c # cs \<Rightarrow> (case List.find (conf_connected w) (c # cs) of Some cr \<Rightarrow> ReportForm cr | None \<Rightarrow> AskConnect c))"

definition confirmed_create :: "js \<Rightarrow> shadow_data \<Rightarrow> 'cb world \<Rightarrow> shadow_data \<times> 'cb world" where
  "confirmed_create shadow v w =
     (let (token, w) = show_form JNull (opt_get shadow ''thingId'') w in (v\<lparr>sd_token := token\<rparr>, w))"

definition confirmed_connect :: "cref \<Rightarrow> shadow_data \<Rightarrow> 'cb world \<Rightarrow> shadow_data \<times> 'cb world" where
  "confirmed_connect cr v w =
     (let token = genConnectedCallbackToken (fresh_uuid w)
      in (v\<lparr>sd_token := token\<rparr>, fst (use_connect cr token (selectConnection cr (next_uuid w)))))"

definition shadow_data_event ::
  "js \<Rightarrow> thing_event \<Rightarrow> shadow_data \<Rightarrow> 'cb world \<Rightarrow> shadow_data \<times> 'cb world" where
  "shadow_data_event shadow e v w =
     (case token_matches (opt_get shadow ''thingId'') (sd_token v) e of
        Some cr \<Rightarrow> if ev_type e = TSCE_MQTT then showSetReportedForm shadow cr v w else (v, w)
      | None \<Rightarrow> (v, w))"


section \<open>Properties\<close>

lemma levels_inj: "split_on c s = split_on c t \<longleftrightarrow> s = t"
  by (metis join_split)

text \<open>
  The topic filter of the messages shows nothing that a wildcard subscription received: the
  filter is handed to the matcher in the place of the topic, so a received message (whose topic has
  no wildcard) is shown exactly if its topic is the filter itself.
\<close>

theorem message_filter_literal:
  assumes "opt_get msg ''topic'' = JStr t" and "\<not> truthy (opt_get msg ''out'')" and "ft \<noteq> ''''"
    and "''+'' \<notin> set (split_on CHR ''/'' t)" and "''#'' \<notin> set (split_on CHR ''/'' t)"
    and "\<not> str_includes t ''$share''"
  shows "message_shown ''all'' ft msg \<longleftrightarrow> ft = t"
proof -
  have "valid_filter (split_on CHR ''/'' t)"
    using assms(5) by (simp add: valid_filter_def) (meson in_set_butlastD nth_mem)
  with assms have "message_shown ''all'' ft msg \<longleftrightarrow> split_on CHR ''/'' ft = split_on CHR ''/'' t"
    by (simp add: message_shown_def Let_def matchTopicMethod_levels mqtt_match_literal)
  then show ?thesis by (simp add: levels_inj)
qed

theorem message_filter_literal_witness:
  "matchTopicMethod ''a/+'' ''a/b'' \<and>
   \<not> message_shown ''all'' ''a/+'' (JObj [(''topic'', JStr ''a/b'')])"
proof
  show "matchTopicMethod ''a/+'' ''a/b''"
    by (simp add: matchTopicMethod_def Let_def match_levels.simps)
  show "\<not> message_shown ''all'' ''a/+'' (JObj [(''topic'', JStr ''a/b'')])"
    using message_filter_literal [of "JObj [(''topic'', JStr ''a/b'')]" "''a/b''" "''a/+''"] by simp
qed

lemma use_connect_cfgs: "cfgs (fst (use_connect cr token w)) = cfgs w"
proof -
  obtain r v where g: "getDelegateById (conf_id w cr) (Some cr) w = (r, v)" by fastforce
  have "cfgs (fst (connect q cr token v)) = cfgs v" for q
    by (simp add: connect_def disconnect_def ask_def start_connect_def Let_def upd_d_def on_mqtt_def
      split: option.split sum.split prod.split)
  with getDelegateById_keeps [OF g] show ?thesis
    by (cases r) (simp_all add: use_connect_def g)
qed

lemma cfgs_setConnConfig: "truthy i \<Longrightarrow> cfgs (setConnConfig i cr w) = cfgs w"
  by (simp add: setConnConfig_def Let_def)

lemma cfgs_on_lay [simp]: "cfgs (on_lay f w) = cfgs w"
  by (simp add: on_lay_def)

text \<open>
  Editing a connection of a thing loses its subscriptions: whatever the form was opened for,
  after it is saved the subscriptions of the configuration are the suggested ones for the user
  name, and those the user had added are gone. The configuration of a server keeps its own.
\<close>

theorem saving_resets_subscriptions:
  assumes "cfgs w cr = JObj c" and "truthy (oget c ''id'')"
  shows "let w' = handleCreateOrEditDone cr token w in
    subscriptions_of w' cr = (if oget c ''userrole'' = JStr ''thing''
      then (case json_clean (JArr (getSuggestedTopicsForThing
              (\<lambda>i. uuids (selectConnection cr w) (uuid_count (selectConnection cr w) + i)) (oget c ''username''))) of
            JArr xs \<Rightarrow> xs)
      else subscriptions_of w cr)"
proof -
  let ?v = "selectConnection cr w"
  let ?w = "if opt_get (cfgs ?v cr) ''userrole'' = JStr ''thing''
    then setConnConfig (conf_id ?v cr) cr (with_suggestions cr ?v) else ?v"
  have v: "cfgs ?v cr = JObj c" using assms(1) by (simp add: selectConnection_keeps)
  have "cfgs (handleCreateOrEditDone cr token w) = cfgs ?w"
    by (simp add: handleCreateOrEditDone_def Let_def handleCreateOrEditCancel_def use_connect_cfgs
      split: option.split prod.split)
  moreover have "truthy (conf_id ?v cr)" using v assms(2) by (simp add: conf_id_def)
  ultimately show ?thesis
    using v assms(1)
    by (simp add: subscriptions_of_def cfgs_setConnConfig with_suggestions_def Let_def set_field_def dict_simps)
qed

definition demo_edited :: "unit world" where
  "demo_edited = set_field 0 ''subscriptions'' (JArr [JObj [(''topic'', JStr ''mine'')]]) demo_world"

theorem saving_resets_subscriptions_witness:
  "subscriptions_of demo_edited 0 = [JObj [(''topic'', JStr ''mine'')]] \<and>
   length (subscriptions_of (handleCreateOrEditDone 0 '''' demo_edited) 0) = length suggestedTopicsForThing \<and>
   length suggestedTopicsForThing > 1"
proof -
  obtain c where c: "cfgs demo_edited 0 = JObj c" "truthy (oget c ''id'')" "oget c ''userrole'' = JStr ''thing''"
      "oget c ''subscriptions'' = JArr [JObj [(''topic'', JStr ''mine'')]]"
    by (simp add: demo_edited_def set_field_def demo_world_def demo_conf_def)
  have "length suggestedTopicsForThing > 1"
    by (simp add: suggestedTopicsForThing_def suggestedSubTopics_def grouped_def sub_group_defs)
  with saving_resets_subscriptions [OF c(1,2), of "''''"] c show ?thesis
    by (simp add: Let_def subscriptions_of_def getSuggestedTopicsForThing_def)
qed

lemma conf_clientId: "c \<in> set (getConnConfigsByClientId i w) \<longleftrightarrow>
    c \<in> set (configs_of w) \<and> opt_get (cfgs w c) ''clientId'' = i"
  by (auto simp: getConnConfigsByClientId_def)

text \<open>
  Setting the reported state of a thing goes through a connected client of that thing whenever
  there is one; it asks to connect only if there are clients of the thing and none is connected, and
  to create one only if there is none.
\<close>

theorem set_reported_choice:
  "let mine = (\<lambda>c. c \<in> set (configs_of w) \<and> opt_get (cfgs w c) ''clientId'' = opt_get shadow ''thingId'') in
   (case handleSetReported shadow w of
      ReportForm cr \<Rightarrow> mine cr \<and> conf_connected w cr
    | AskConnect cr \<Rightarrow> mine cr \<and> (\<nexists>c. mine c \<and> conf_connected w c)
    | AskCreate \<Rightarrow> (\<nexists>c. mine c))"
proof (cases "getConnConfigsByClientId (opt_get shadow ''thingId'') w")
  case Nil
  with conf_clientId [of _ "opt_get shadow ''thingId''" w] show ?thesis
    by (auto simp: handleSetReported_def Let_def)
next
  case (Cons c cs)
  note mine = conf_clientId [of _ "opt_get shadow ''thingId''" w, unfolded Cons]
  show ?thesis
  proof (cases "List.find (conf_connected w) (c # cs)")
    case None
    then have "\<not> conf_connected w x" if "x \<in> set (c # cs)" for x using that by (simp only: find_None_iff) blast
    moreover have "handleSetReported shadow w = AskConnect c" by (simp only: handleSetReported_def Cons None list.case option.case)
    ultimately show ?thesis using mine by (simp add: Let_def) blast
  next
    case (Some cr)
    with find_SomeD [OF Some] mine Cons show ?thesis
      by (simp add: handleSetReported_def Let_def del: find.simps)
  qed
qed

lemma cfgs_plain [simp]: "cfgs (ask q p w) = cfgs w" "cfgs (notify n w) = cfgs w"
  by (simp_all add: ask_def notify_def)

lemma sub_keeps: "cfgs (sub r topic opts cb w) = cfgs w"
  by (simp add: sub_def split: option.split jsval.split)

lemma subscribe_keeps: "cfgs (subscribe cr topic opts multiple configs cb w) = cfgs w"
proof -
  obtain r v where g: "getDelegateById (conf_id w cr) (Some cr) w = (r, v)" by fastforce
  with getDelegateById_keeps [OF g] show ?thesis by (cases r) (simp_all add: subscribe_def sub_keeps)
qed

lemma removeTopic_keeps: "cfgs (use_removeTopic cr topic w) = cfgs w"
proof -
  obtain r v where g: "getDelegateById (conf_id w cr) None w = (r, v)" by fastforce
  with getDelegateById_keeps [OF g] show ?thesis
    by (cases r) (simp_all add: use_removeTopic_def removeTopic_def update_if_shown_def updateStore_def
      on_subs_def on_mqtt_def Let_def)
qed

lemma subscriptions_set_field:
  "is_obj (cfgs w cr) \<Longrightarrow> subscriptions_of (set_field cr ''subscriptions'' (JArr xs) w) cr = xs"
  by (auto simp: is_obj_def subscriptions_of_def set_field_def dict_simps)

lemma subscriptions_cong: "cfgs v = cfgs w \<Longrightarrow> subscriptions_of v cr = subscriptions_of w cr"
  by (simp add: subscriptions_of_def)

lemma submit_existing_distinct:
  assumes "distinct (map topic_of (subscriptions_of w cr))" and "is_obj (cfgs w cr)"
    and "\<And>n. find_index (\<lambda>x. opt_get x ''id'' = opt_get data ''id'') (subscriptions_of w cr) = Some n \<Longrightarrow>
      opt_get data ''topic'' \<notin> set (map topic_of (subscriptions_of w cr)) \<or>
      topic_of (subscriptions_of w cr ! n) = opt_get data ''topic''"
  shows "distinct (map topic_of (subscriptions_of (submit_existing cr data w) cr))"
proof (cases "find_index (\<lambda>x. opt_get x ''id'' = opt_get data ''id'') (subscriptions_of w cr)")
  case (Some n)
  let ?subs = "subscriptions_of w cr" and ?T = "opt_get data ''topic''"
  let ?x = "put_js ''opts'' (subs_opts data) (put_js ''topic'' ?T
    (put_js ''name'' (opt_get data ''name'') (?subs ! n)))"
  have n: "n < length ?subs" using Some by (simp add: find_index_Some)
  have "cfgs (submit_existing cr data w) = cfgs (set_field cr ''subscriptions'' (JArr (?subs[n := ?x])) w)"
    using Some by (simp add: submit_existing_def Let_def subscribe_keeps removeTopic_keeps)
  then have after: "subscriptions_of (submit_existing cr data w) cr = ?subs[n := ?x]"
    using subscriptions_set_field [OF assms(2), of "?subs[n := ?x]"] by (simp only: subscriptions_of_def)
  have "topic_of ?x = ?T \<or> topic_of ?x = topic_of (?subs ! n)"
    by (cases "?subs ! n") (simp_all add: put_js_def topic_of_def dict_simps)
  then have "topic_of ?x \<notin> set (map topic_of ?subs) \<or> topic_of ?x = map topic_of ?subs ! n"
    using assms(3) [OF Some] n by auto
  then have "distinct ((map topic_of ?subs)[n := topic_of ?x])"
  proof
    assume "topic_of ?x \<notin> set (map topic_of ?subs)"
    with assms(1) show ?thesis by (intro distinct_list_update) blast+
  next
    assume "topic_of ?x = map topic_of ?subs ! n"
    then show ?thesis using assms(1) by (simp only: list_update_id)
  qed
  then show ?thesis by (simp add: after map_update)
qed (use assms(1) in \<open>simp add: submit_existing_def Let_def\<close>)

text \<open>
  C40. The topics of the subscriptions of a connection stay distinct when the form of a subscription
  is submitted, also when the topic of an existing one is changed: a topic that another
  subscription has is refused.
\<close>

theorem topics_stay_distinct:
  assumes "distinct (map topic_of (subscriptions_of w cr))"
    and "distinct (map (\<lambda>x. opt_get x ''id'') (subscriptions_of w cr))" and "is_obj (cfgs w cr)"
  shows "distinct (map topic_of (subscriptions_of (submitForm cr data w) cr))"
proof -
  let ?subs = "subscriptions_of w cr" and ?T = "opt_get data ''topic''" and ?i = "opt_get data ''id''"
  have lay: "subscriptions_of (on_lay f w) cr = ?subs" for f by (rule subscriptions_cong) simp
  show ?thesis
  proof (cases "List.find (with_topic ?T) ?subs")
    case None
    then have "?T \<notin> set (map topic_of ?subs)" by (auto simp: find_None_iff with_topic_iff)
    then have "distinct (map topic_of (subscriptions_of (submit_existing cr data (on_lay hideMqttSubsForm w)) cr))"
      using assms(1,3) by (intro submit_existing_distinct) (simp_all only: lay cfgs_on_lay, blast?)
    moreover have "subscriptions_of (submit_new cr data (on_lay hideMqttSubsForm w)) cr = ?subs"
      by (rule subscriptions_cong) (simp add: submit_new_def Let_def subscribe_keeps)
    ultimately show ?thesis using None assms(1) by (simp add: submitForm_def Let_def)
  next
    case (Some same)
    then have same: "topic_of same = ?T" "same \<in> set ?subs"
      using find_SomeD [OF Some] by (simp_all add: with_topic_iff)
    show ?thesis
    proof (cases "\<not> truthy ?i \<or> ?i \<noteq> opt_get same ''id''")
      case True
      with Some assms(1) show ?thesis
        by (simp add: submitForm_def Let_def subscriptions_of_def)
    next
      case False
      have "topic_of (?subs ! n) = ?T" if "find_index (\<lambda>x. opt_get x ''id'' = ?i) ?subs = Some n" for n
      proof -
        have "opt_get (?subs ! n) ''id'' = opt_get same ''id''" "?subs ! n \<in> set ?subs"
          using that False by (auto simp: find_index_Some)
        then have "?subs ! n = same" using assms(2) same(2) by (auto simp: distinct_map dest: inj_onD)
        with same show ?thesis by simp
      qed
      then have "distinct (map topic_of (subscriptions_of (submit_existing cr data (on_lay hideMqttSubsForm w)) cr))"
        using assms(1,3) by (intro submit_existing_distinct) (simp_all only: lay cfgs_on_lay, blast?)
      moreover have "submitForm cr data w = submit_existing cr data (on_lay hideMqttSubsForm w)"
        using Some False by (auto simp: submitForm_def Let_def)
      ultimately show ?thesis by simp
    qed
  qed
qed

definition demo_editing :: vworld where
  "demo_editing = \<lparr>store = demo_store, cfgs = (\<lambda>_. JObj [(''id'', JStr ''c1''), (''subscriptions'', JArr
       [JObj [(''id'', JStr ''s1''), (''topic'', JStr ''a'')], JObj [(''id'', JStr ''s2''), (''topic'', JStr ''b'')]])]),
     next_cfg = 1, dlgts = (\<lambda>_. demo_delegate), next_dlgt = 0, clients = (\<lambda>_. demo_client), next_client = 0,
     subs_heap = (\<lambda>_. []), next_subs = 0, msgs_heap = (\<lambda>_. []), next_msgs = 0, registry = [], pend = [],
     requests = [], shown = [], events = [], uuids = (\<lambda>n. nat_str n), uuid_count = 0, clock = 5000,
     time_text = int_str, bufs = \<lparr>buf_from = (\<lambda>_ s. s), buf_text = (\<lambda>_ s. s)\<rparr>\<rparr>"

theorem topics_stay_distinct_witness:
  "distinct (map topic_of (subscriptions_of (submitForm 0
     (JObj [(''id'', JStr ''s1''), (''topic'', JStr ''b'')]) demo_editing) 0))"
  by (rule topics_stay_distinct) (simp_all add: demo_editing_def subscriptions_of_def topic_of_def)

end
