(* ===== verification/ConnPages.thy ===== *)
theory ConnPages
  imports EditorPages Clients
begin

text \<open>
  The templates of the panel of connections: the message editor with its dialogs (\<open>MqttPublish.vue\<close>,
  \<open>MetaForm.vue\<close>, \<open>PublishTopicSuggestions.vue\<close>), the form of a subscription
  (\<open>SubscriptionForm.vue\<close>), the list of subscriptions (\<open>Subcriptions.vue\<close>), the messages
  (\<open>MqttMessage.vue\<close>), the detail of the selected connection (\<open>MqttClientDetail.vue\<close>) and the list
  of connections (\<open>MqttClients.vue\<close>). A child is rendered inside the element of its component.
\<close>

section \<open>The message editor\<close>

datatype meta_msg = MetaClose | MetaSave | MetaPairs kv_msg | MetaField string js

definition meta_item :: "js obj \<Rightarrow> string \<Rightarrow> string \<Rightarrow> js obj \<Rightarrow> meta_msg node" where
  "meta_item form name key as = Element ''el-form-item'' [(''label'', JStr name), (''prop'', JStr key)] []
     [bound ''el-input'' as (oget form key) (MetaField key) []]"

definition meta_form_view :: "bool \<Rightarrow> js obj \<Rightarrow> kv_row list \<Rightarrow> meta_msg node list" where
  "meta_form_view visible form rows = [Element ''el-dialog'' [(''model-value'', JBool visible), (''title'', JStr ''Meta Form'')]
     [Emitted ''close'' (\<lambda>_. MetaClose)] [
     box ''el-form'' [
       Element ''KeyValueEditor'' [(''title'', JStr ''User Properties'')] []
         (map (map_node MetaPairs) (kv_view ''User Properties'' False rows)),
       meta_item form ''Content Type'' ''contentType'' [],
       Element ''el-form-item'' [(''label'', JStr ''Payload Format Indicator''), (''prop'', JStr ''payloadFormatIndicator'')] []
         [bound ''el-checkbox'' [] (oget form ''payloadFormatIndicator'') (MetaField ''payloadFormatIndicator'')
            [lit (if truthy (oget form ''payloadFormatIndicator'') then ''true'' else ''false'')]],
       meta_item form ''Message Expiry Interval(s)'' ''messageExpiryInterval'' [(''min'', JNum 0), (''type'', JStr ''number'')],
       meta_item form ''Topic Alias'' ''topicAlias'' [(''min'', JNum 1), (''type'', JStr ''number'')],
       meta_item form ''Response Topic'' ''responseTopic'' [(''placeholder'', JStr ''Response Topic''), (''type'', JStr ''text'')],
       meta_item form ''Correlation Data'' ''correlationData'' [(''placeholder'', JStr ''Correlation Data''), (''type'', JStr ''text'')],
       meta_item form ''Subscription Identifier'' ''subscriptionIdentifier'' [(''type'', JStr ''number'')]],
     box ''span'' [button [] MetaClose ''Cancel'', button [] MetaSave ''Save'']]]"

datatype suggestions_msg = PickSuggestion pub_suggestion | CloseSuggestions

definition suggestion_item :: "pub_suggestion \<Rightarrow> suggestions_msg node" where
  "suggestion_item g = Element ''div'' [] [Clicked (PickSuggestion g)] [
     box ''div'' [lit (pub_name g), box ''el-tag'' [lit (pub_payloadType g)]],
     box ''div'' [lit (pub_code g)]]"

definition suggestions_view :: "bool \<Rightarrow> js \<Rightarrow> suggestions_msg node list" where
  "suggestions_view visible config = [Element ''el-drawer''
     [(''model-value'', JBool visible), (''title'', JStr ''Suggested Topic Templates'')]
     [Emitted ''close'' (\<lambda>_. CloseSuggestions)]
     [box ''div'' (map suggestion_item (publish_suggestions config))]]"

datatype publish_msg =
    PayloadType js
  | PubQos js
  | PubRetain js
  | ToggleMeta
  | PubTopic js
  | TopicFocus
  | ToggleSuggestions
  | PubPayload js
  | JsonError js
  | Send
  | InMeta meta_msg
  | InSuggestions suggestions_msg

definition qos_options_view :: "'m node list" where
  "qos_options_view = map (\<lambda>(v, l). Element ''el-option'' [(''label'', JStr l), (''value'', JNum v)] []
     [box ''span'' [Say (JNum v)], box ''span'' [lit l]]) qosOptions"

definition publish_head :: "js \<Rightarrow> publish_form \<Rightarrow> publish_msg node" where
  "publish_head paytype f = box ''div'' [
     box ''span'' [lit ''Payload: ''],
     bound ''el-select'' [(''disabled'', JBool (truthy paytype))] (JStr (pf_type f)) PayloadType
       (map (\<lambda>type. Element ''el-option'' [(''value'', JStr type)] [] []) payloadOptions),
     box ''span'' [lit ''QoS: ''],
     bound ''el-select'' [] (pf_qos f) PubQos qos_options_view,
     bound ''el-checkbox'' [(''label'', JStr ''Retain'')] (pf_retain f) PubRetain [],
     Element ''el-tooltip'' [(''disabled'', JBool (pf_enable f)), (''content'', JStr ''Enabled only with MQTT 5.0'')] []
       [Element ''el-badge'' [(''is-dot'', JBool (pf_has f))] []
         [button [(''disabled'', JBool (\<not> pf_enable f)), (''active'', JBool (pf_metaShown f))] ToggleMeta ''Meta'']]]"

definition publish_topic :: "js \<Rightarrow> publish_form \<Rightarrow> publish_msg node list" where
  "publish_topic topic f =
     [Element ''el-input'' [(''model-value'', pf_topic f), (''disabled'', JBool (truthy topic)), (''placeholder'', JStr ''Topic'')]
        [Emitted ''update:modelValue'' PubTopic, Emitted ''focus'' (\<lambda>_. TopicFocus)] []] @
     (if \<not> truthy topic then [box ''div'' [button [(''disabled'', JBool False)] ToggleSuggestions ''Suggestions'']] else [])"

definition publish_editor :: "publish_form \<Rightarrow> publish_msg node" where
  "publish_editor f = box ''div'' [
     (if pf_lang f = ''json''
      then Element ''JSONEditor'' [(''model-value'', pf_payload f), (''has-error'', JBool (pf_jsonError f))]
        [Emitted ''update:modelValue'' PubPayload, Emitted ''update:has-error'' JsonError] []
      else bound ''el-input'' [(''type'', JStr ''textarea''), (''placeholder'', JStr ''Please input'')] (pf_payload f) PubPayload []),
     box ''div'' [Element ''el-button'' [(''disabled'', JBool (pf_lang f = ''json'' \<and> pf_jsonError f))] [Clicked Send] []]]"

definition publish_view ::
  "js \<Rightarrow> js \<Rightarrow> js \<Rightarrow> publish_form \<Rightarrow> js obj \<Rightarrow> kv_row list \<Rightarrow> publish_msg node list" where
  "publish_view config topic paytype f metaForm metaRows = [
     box ''div'' [box ''div'' (publish_head paytype f # publish_topic topic f), publish_editor f],
     Element ''MetaForm'' [(''visible'', JBool (pf_metaShown f)), (''model'', JObj (pf_props f))] []
       (map (map_node InMeta) (meta_form_view (pf_metaShown f) metaForm metaRows)),
     Element ''PublishTopicSuggestions'' [(''visible'', JBool (pf_tplsShown f)), (''conn-config'', config)] []
       (map (map_node InSuggestions) (suggestions_view (pf_tplsShown f) config))]"

section \<open>The form of a subscription\<close>

datatype subs_form_msg =
    HideSubsForm
  | SubmitSubsForm
  | SubsField string js
  | ToggleTopics
  | PickTopic "string \<times> string"

definition true_false_view :: "'m node list" where
  "true_false_view = [Element ''el-radio'' [(''label'', JBool True)] [] [lit ''true''],
     Element ''el-radio'' [(''label'', JBool False)] [] [lit ''false'']]"

definition trim_value :: "js \<Rightarrow> js" where
  "trim_value x = (case x of JStr s \<Rightarrow> JStr (trim s) | _ \<Rightarrow> x)"

text \<open>Alias and topic, which are locked for a subscription that is kept, with the card of suggestions.\<close>

definition subs_form_topic :: "js obj \<Rightarrow> bool \<Rightarrow> (string \<times> string) list \<Rightarrow> subs_form_msg node list" where
  "subs_form_topic form tplsVisible topics = (let keep = JBool (truthy (oget form ''keep'')) in [
     Element ''el-form-item'' [(''label'', JStr ''Alias''), (''prop'', JStr ''name'')] []
       [bound ''el-input'' [(''disabled'', keep)] (oget form ''name'') (\<lambda>x. SubsField ''name'' (trim_value x)) []],
     Element ''el-form-item'' [(''label'', JStr ''Topic''), (''prop'', JStr ''topic''), (''for-keep-subs'', keep)] [] (
       [bound ''el-input'' [(''disabled'', keep), (''type'', JStr ''textarea''), (''placeholder'', JStr ''$iothub/things/#'')]
          (oget form ''topic'') (\<lambda>x. SubsField ''topic'' (trim_value x)) [],
        box ''div'' [button [(''disabled'', keep)] ToggleTopics ''Suggestions'']] @
       (if tplsVisible then [box ''div'' (map (\<lambda>t. Element ''div'' [] [Clicked (PickTopic t)]
           [box ''el-tag'' [lit (fst t)], box ''span'' [lit (snd t)]]) topics)] else []))])"

definition subs_form_qos :: "js obj \<Rightarrow> subs_form_msg node" where
  "subs_form_qos form = Element ''el-form-item'' [(''label'', JStr ''QoS''), (''prop'', JStr ''qos'')] []
     [bound ''el-select'' [] (oget form ''qos'') (SubsField ''qos'') qos_options_view]"

definition subs_form_v5 :: "js obj \<Rightarrow> subs_form_msg node list" where
  "subs_form_v5 form = [
     Element ''el-form-item'' [(''label'', JStr ''Subscription Identifier''), (''prop'', JStr ''subscriptionIdentifier'')] []
       [bound ''el-input'' [(''type'', JStr ''number'')] (oget form ''subscriptionIdentifier'') (SubsField ''subscriptionIdentifier'') []],
     Element ''el-form-item'' [(''label'', JStr ''No Local flag''), (''prop'', JStr ''nl'')] []
       [bound ''el-radio-group'' [] (oget form ''nl'') (SubsField ''nl'') true_false_view],
     Element ''el-form-item'' [(''label'', JStr ''Retain as Published flag''), (''prop'', JStr ''rap'')] []
       [bound ''el-radio-group'' [] (oget form ''rap'') (SubsField ''rap'') true_false_view],
     Element ''el-form-item'' [(''label'', JStr ''Retain Handling''), (''prop'', JStr ''rh'')] []
       [bound ''el-select'' [] (oget form ''rh'') (SubsField ''rh'')
          (map (\<lambda>n. Element ''el-option'' [(''label'', JNum n), (''value'', JNum n)] [] []) [0, 1, 2])]]"

definition subs_form_view :: "bool \<Rightarrow> js \<Rightarrow> bool \<Rightarrow> js obj \<Rightarrow> bool \<Rightarrow> subs_form_msg node list" where
  "subs_form_view visible config isCreate form tplsVisible = [Element ''el-dialog''
     [(''model-value'', JBool visible), (''title'', JStr (if isCreate then ''Add Subcription'' else ''Edit Subcription''))]
     [Emitted ''close'' (\<lambda>_. HideSubsForm)] [
     box ''span'' [button [] HideSubsForm ''Cancel'', button [] SubmitSubsForm ''Subscribe''],
     box ''el-form'' (subs_form_topic form tplsVisible (subs_form_topics config) @ [subs_form_qos form] @
       (if opt_get config ''mqttVersion'' = JStr ''5.0'' then subs_form_v5 form else []))]]"

section \<open>The list of subscriptions\<close>

datatype subs_msg =
    Unsubscribe sub_item
  | Subscribe sub_item
  | ToggleFilter sub_item
  | EditSub sub_item
  | DeleteSub sub_item

definition sub_item_view :: "bool \<Rightarrow> string \<Rightarrow> sub_item \<Rightarrow> subs_msg node" where
  "sub_item_view up filterTopic s = Element ''div'' [(''subscribed-item'', JBool (si_subscribed s))] [] [
     box ''div'' ((if truthy (si_name s) then [box ''el-tag'' [Say (si_name s)]] else []) @ [box ''span'' [Say (si_topic s)]]),
     box ''div'' [
       if si_subscribed s then button [(''disabled'', JBool (\<not> up))] (Unsubscribe s) ''Unsubscribe''
       else button [(''disabled'', JBool (\<not> up))] (Subscribe s) ''Subscribe'',
       box ''div'' [
         Element ''el-tooltip'' [(''content'', JStr ''Click to read messages of this subscription only'')] []
           [Element ''el-button'' [(''type'', JStr (if JStr filterTopic = si_topic s then ''primary'' else '''')),
              (''plain'', JBool (JStr filterTopic \<noteq> si_topic s))] [Clicked (ToggleFilter s)] []],
         Element ''el-button'' [(''disabled'', JBool (\<not> up \<or> si_subscribed s))] [Clicked (EditSub s)] [],
         Element ''el-button'' [(''disabled'', JBool (truthy (si_keep s) \<or> si_subscribed s))] [Clicked (DeleteSub s)] []]]]"

definition subscriptions_view :: "bool \<Rightarrow> bool \<Rightarrow> string \<Rightarrow> sub_item list \<Rightarrow> subs_msg node list" where
  "subscriptions_view loading up filterTopic subs =
     [Element ''div'' [(''v-loading'', JBool loading)] [] (map (sub_item_view up filterTopic) subs)]"

section \<open>The messages\<close>

datatype messages_msg = MessageType js | ClearMessages | SwitchTeleport bool

definition typeOptions :: "(string \<times> string) list" where
  "typeOptions = [(''all'', ''All''), (''in'', ''Received''), (''out'', ''Published'')]"

definition message_view :: "js \<Rightarrow> 'm node" where
  "message_view msg = (let get = opt_get msg in
     Element ''div'' [(''class'', JStr (if truthy (get ''out'') then ''right'' else ''left''))] [] [
       box ''div'' [
         box ''div'' ([box ''span'' [lit ''Topic:''], box ''span'' [Say (get ''topic'')],
           box ''span'' [lit ''QoS:''], box ''span'' [Say (get ''qos'')]] @
           (if truthy (get ''retain'') then [box ''span'' [lit ''Retained'']] else [])),
         box ''div'' [lit (js_str (get ''payload''))]],
       box ''div'' [Say (get ''createAt'')]])"

definition messages_view :: "teleport \<Rightarrow> string \<Rightarrow> js list \<Rightarrow> messages_msg node list" where
  "messages_view tp type messages = (let isGlobal = (tp = TeleportG) in
     [Element ''Teleport'' [(''to'', JStr (teleport_selector tp))] [] [box ''div'' [
        if messages \<noteq> [] then box ''div'' (map message_view messages) else box ''div'' [],
        box ''div'' [bound ''el-radio-group'' [] (JStr type) MessageType (map (\<lambda>(v, l).
          Element ''el-radio'' [(''label'', JStr v), (''value'', JStr v)] [] [lit l]) typeOptions)],
        box ''div'' [Element ''el-button'' [] [Clicked ClearMessages] [],
          Element ''el-button'' [(''icon'', JStr (if isGlobal then ''Close'' else ''FullScreen''))]
            [Clicked (SwitchTeleport (\<not> isGlobal))] []]]]])"

section \<open>The selected connection\<close>

text \<open>
  The state of the panel: the world of the connections, and what the components of the panel keep
  for themselves.
\<close>

record client_page =
  pg_world :: vworld
  pg_subs :: "sub_item list"
  pg_loading :: bool
  pg_filter :: string
  pg_msgType :: string
  pg_teleport :: teleport
  pg_globalVisible :: bool
  pg_publish :: publish_form
  pg_meta :: "js obj"
  pg_metaRows :: "kv_row list"
  pg_form :: "js obj"
  pg_tpls :: bool
  pg_viewer :: object_viewer

datatype detail_msg =
    CreateSubscription
  | SubscribeEverything
  | UnsubscribeEverything
  | RequestAddConn
  | InPublish publish_msg
  | InSubs subs_msg
  | InMessages messages_msg
  | InSubsForm subs_form_msg

definition conf_value :: "'cb world \<Rightarrow> cref option \<Rightarrow> js" where
  "conf_value w cr = (case cr of Some c \<Rightarrow> cfgs w c | None \<Rightarrow> JUndef)"

definition conf_subscriptions :: "'cb world \<Rightarrow> cref option \<Rightarrow> js list" where
  "conf_subscriptions w cr = (case cr of Some c \<Rightarrow> subscriptions_of w c | None \<Rightarrow> [])"

definition subs_of_shared :: "'cb world \<Rightarrow> shared option \<Rightarrow> sub_map" where
  "subs_of_shared w sh = (case shared_subs w sh of Some m \<Rightarrow> m | None \<Rightarrow> [])"

definition detail_left :: "client_page \<Rightarrow> cref option \<Rightarrow> detail_msg node" where
  "detail_left p cr = box ''div'' [box ''div'' [], box ''div'' [
     Element ''MqttPublish'' [(''conn-config'', conf_value (pg_world p) cr)] [] (map (map_node InPublish)
       (publish_view (conf_value (pg_world p) cr) JUndef JUndef (pg_publish p) (pg_meta p) (pg_metaRows p)))]]"

definition detail_controls :: "bool \<Rightarrow> string \<Rightarrow> detail_msg node" where
  "detail_controls up stats = box ''div'' [
     Element ''el-button'' [(''disabled'', JBool True)] [] [box ''span'' [lit ''Subscription''], box ''span'' [lit stats]],
     button [(''disabled'', JBool (\<not> up))] CreateSubscription ''Add'',
     button [(''disabled'', JBool (\<not> up))] SubscribeEverything ''Subscribe All'',
     button [(''disabled'', JBool (\<not> up))] UnsubscribeEverything ''Unsubscribe All'']"

definition detail_right :: "client_page \<Rightarrow> cref option \<Rightarrow> shared option \<Rightarrow> detail_msg node" where
  "detail_right p cr sh = (let w = pg_world p; up = shared_connected w sh in box ''div'' [
     box ''div'' [Element ''Subcriptions'' [(''connected'', JBool up), (''filter-topic'', JStr (pg_filter p))] []
       (map (map_node InSubs) (subscriptions_view (pg_loading p) up (pg_filter p) (pg_subs p)))],
     detail_controls up (subscription_stats (subs_of_shared w sh) (conf_subscriptions w cr))])"

definition detail_view :: "client_page \<Rightarrow> detail_msg node list" where
  "detail_view p = (let w = pg_world p; fm = mqttSubsForm (layout (store w)) in [
     (case selectedConn w of
        Some (cr, sh) \<Rightarrow> box ''div'' [detail_left p cr, detail_right p cr sh]
      | None \<Rightarrow> box ''div'' [box ''el-empty'' [box ''p'' [lit ''There is no selectable connection in list.''],
          button [] RequestAddConn ''Add One'']]),
     Element ''MqttMessage'' [(''filter-topic'', JStr (pg_filter p))] [] (map (map_node InMessages)
       (messages_view (pg_teleport p) (pg_msgType p) (shown_messages (pg_msgType p) (pg_filter p) w))),
     box ''SubscriptionForm'' (map (map_node InSubsForm)
       (subs_form_view (sf_visible fm) (conf_value w (sf_connConfig fm)) (sf_subscription fm = JNull) (pg_form p) (pg_tpls p)))])"

section \<open>The list of connections\<close>

datatype clients_msg =
    NewConnection
  | CheckStats
  | SelectConn cref
  | Operate string
  | InSize size_msg
  | InDetail detail_msg
  | InViewer viewer_msg

text \<open>The operations offered for the selected connection: key, label, tip, and whether it is disabled.\<close>

definition opts :: "bool \<Rightarrow> (string \<times> string \<times> string \<times> bool) list" where
  "opts connected = [(''delete'', ''Delete'', ''Click to delete this client.'', connected),
     (''edit'', ''Edit'', ''Click to edit this client.'', connected)] @
     (if connected then [(''disconn'', ''Disconnect'', ''Click to disconnect this client.'', False)]
      else [(''connect'', ''Connect'', ''Click to connect this client.'', False)])"

definition opt_view :: "string \<times> string \<times> string \<times> bool \<Rightarrow> clients_msg node" where
  "opt_view = (\<lambda>(key, label, tip, disabled). Element ''el-tooltip'' [(''content'', JStr tip), (''disabled'', JBool disabled)] []
     [button [(''disabled'', JBool disabled)] (Operate key) label])"

definition conn_button :: "vworld \<Rightarrow> conn_view \<Rightarrow> clients_msg node" where
  "conn_button w v = (let isCurrent = (opt_get (cv_fields v) ''id'' = currentConnId (mqtt (store w))) in
     Element ''el-button'' [(''type'', JStr (if view_connected w v then ''success'' else '''')), (''plain'', JBool isCurrent),
         (''text'', JBool (\<not> isCurrent))] [Clicked (SelectConn (cv_config v))] [Say (opt_get (cv_fields v) ''name'')])"

definition clients_left :: "vworld \<Rightarrow> clients_msg node" where
  "clients_left w = box ''div'' [
     box ''div'' [box ''div'' [lit ''Connections''], box ''div'' [
       Element ''el-tooltip'' [(''content'', JStr ''Click to create a mqtt client'')] []
         [Element ''el-button'' [] [Clicked NewConnection] []],
       Element ''el-tooltip'' [(''content'', JStr ''Click to view stats of default Broker'')] []
         [Element ''el-button'' [] [Clicked CheckStats] []]]],
     box ''div'' (map (conn_button w) (connections w))]"

definition current_head :: "vworld \<Rightarrow> clients_msg node" where
  "current_head w = (case selectedConn w of
     Some (cr, sh) \<Rightarrow> (let get = opt_get (conf_value w cr); up = shared_connected w sh in box ''div'' [
       Element ''div'' [(''active'', JBool up)] [] [Say (get ''name''),
         Element ''el-tag'' [(''type'', JStr (if up then ''success'' else ''info''))] []
           [lit (if get ''userrole'' = JStr ''thing'' then ''Thing'' else ''Server'')]],
       box ''div'' (box ''SwitchSizeButton'' (map (map_node InSize) (size_button_view (isToolAreaMaxSize (layout (store w))))) #
         map opt_view (opts up))])
   | None \<Rightarrow> box ''div'' [box ''div'' [lit ''No Selected Connection'']])"

definition clients_view :: "client_page \<Rightarrow> clients_msg node list" where
  "clients_view p = (let w = pg_world p; m = mqtt (store w); v = pg_viewer p in [
     Element ''div'' [(''v-loading'', if connecting m
          then JObj [(''text'', JStr (if retryTimes m \<noteq> 0 then ''Retry: '' @ int_str (retryTimes m) else ''Connecting...''))]
          else JBool False)] []
       [clients_left w,
        box ''div'' [current_head w,
          Element ''MqttClientDetail'' [] [Emitted ''request-add-conn'' (\<lambda>_. NewConnection)]
            (map (map_node InDetail) (detail_view p))]],
     box ''ObjectViewer'' (map (map_node InViewer) (object_viewer_view (truthy (ov_object v)) (ov_title v) True
       (viewer_content True (ov_title v) (ov_object v) '''')))])"

section \<open>What can be done with the panel\<close>

lemma all_do_meta: "all_do b P (meta_form_view visible form rows) \<longleftrightarrow> \<not> visible \<or>
    P [MetaClose] \<and> P [MetaSave] \<and> all_do False (\<lambda>ms. P (map MetaPairs ms)) (kv_view ''User Properties'' False rows) \<and>
    (\<forall>s. P [MetaField ''contentType'' (JStr s)] \<and> P [MetaField ''responseTopic'' (JStr s)] \<and>
      P [MetaField ''correlationData'' (JStr s)]) \<and>
    (\<forall>v. P [MetaField ''payloadFormatIndicator'' (JBool v)]) \<and>
    (\<forall>x. admits Free x \<longrightarrow> P [MetaField ''messageExpiryInterval'' x] \<and> P [MetaField ''topicAlias'' x] \<and>
      P [MetaField ''subscriptionIdentifier'' x])"
  by (auto simp add: meta_form_view_def meta_item_def page_eval simp del: admits.simps)

lemma all_do_suggestions: "all_do b P (suggestions_view visible config) \<longleftrightarrow> \<not> visible \<or>
    P [CloseSuggestions] \<and> (\<forall>g\<in>set (publish_suggestions config). P [PickSuggestion g])"
  by (auto simp add: suggestions_view_def suggestion_item_def page_eval)

lemma all_do_subs: "all_do b P (subscriptions_view loading up ft subs) \<longleftrightarrow> b \<or> loading \<or> (\<forall>s\<in>set subs.
    P [ToggleFilter s] \<and> (up \<longrightarrow> (if si_subscribed s then P [Unsubscribe s] else P [Subscribe s])) \<and>
    (up \<and> \<not> si_subscribed s \<longrightarrow> P [EditSub s]) \<and> (\<not> truthy (si_keep s) \<and> \<not> si_subscribed s \<longrightarrow> P [DeleteSub s]))"
  by (auto simp add: subscriptions_view_def sub_item_view_def page_eval)

lemma all_do_publish_head: "all_do b P [publish_head paytype f] \<longleftrightarrow> b \<or>
   (\<not> truthy paytype \<longrightarrow> (\<forall>t\<in>set payloadOptions. P [PayloadType (JStr t)])) \<and>
   (\<forall>q\<in>{0,1,2}. P [PubQos (JNum q)]) \<and> (\<forall>v. P [PubRetain (JBool v)]) \<and> (pf_enable f \<longrightarrow> P [ToggleMeta])"
  by (auto simp add: publish_head_def page_eval qosOptions_def qos_options_view_def simp del: admits.simps)

lemma all_do_publish: "all_do b P (publish_view config topic paytype f form rows) \<longleftrightarrow>
   (b \<or> all_do False P [publish_head paytype f] \<and>
     (\<not> truthy topic \<longrightarrow> P [ToggleSuggestions] \<and> P [TopicFocus] \<and> (\<forall>s. P [PubTopic (JStr s)])) \<and>
     (\<forall>s. P [PubPayload (JStr s)]) \<and> (pf_lang f = ''json'' \<longrightarrow> (\<forall>v. P [JsonError (JBool v)])) \<and>
     (\<not> (pf_lang f = ''json'' \<and> pf_jsonError f) \<longrightarrow> P [Send])) \<and>
   all_do b (\<lambda>ms. P (map InMeta ms)) (meta_form_view (pf_metaShown f) form rows) \<and>
   all_do b (\<lambda>ms. P (map InSuggestions ms)) (suggestions_view (pf_tplsShown f) config)"
proof -
  have "all_do True P [publish_head paytype f]" by (simp add: all_do_publish_head)
  then show ?thesis
    by (cases b; cases "truthy topic"; cases "pf_lang f = ''json''")
      (auto simp add: publish_view_def page_eval publish_topic_def publish_editor_def heard_def simp del: admits.simps)
qed

lemma all_do_subs_form: "all_do b P (subs_form_view visible config isCreate form tpls) \<longleftrightarrow> \<not> visible \<or>
   P [HideSubsForm] \<and> P [SubmitSubsForm] \<and>
   (\<not> truthy (oget form ''keep'') \<longrightarrow> P [ToggleTopics] \<and>
     (\<forall>s. P [SubsField ''name'' (JStr (trim s))] \<and> P [SubsField ''topic'' (JStr (trim s))])) \<and>
   (tpls \<longrightarrow> (\<forall>t\<in>set (subs_form_topics config). P [PickTopic t])) \<and>
   (\<forall>q\<in>{0,1,2}. P [SubsField ''qos'' (JNum q)]) \<and>
   (opt_get config ''mqttVersion'' = JStr ''5.0'' \<longrightarrow>
     (\<forall>x. admits Free x \<longrightarrow> P [SubsField ''subscriptionIdentifier'' x]) \<and>
     (\<forall>v. P [SubsField ''nl'' (JBool v)] \<and> P [SubsField ''rap'' (JBool v)]) \<and> (\<forall>q\<in>{0,1,2}. P [SubsField ''rh'' (JNum q)]))"
  apply (simp add: subs_form_view_def subs_form_topic_def subs_form_qos_def subs_form_v5_def true_false_view_def
    trim_value_def qos_options_view_def qosOptions_def page_eval Let_def all_bool_eq  del: admits.simps)
  apply auto
  done

lemma all_do_messages: "all_do b P (messages_view tp type messages) \<longleftrightarrow> P [ClearMessages] \<and>
   P [SwitchTeleport (tp \<noteq> TeleportG)] \<and> (\<forall>t\<in>{''all'', ''in'', ''out''}. P [MessageType (JStr t)])"
  apply (auto simp add: messages_view_def message_view_def page_eval typeOptions_def Let_def simp del: admits.simps)
  done

lemma all_do_detail: "all_do b P (detail_view p) \<longleftrightarrow> (let w = pg_world p; fm = mqttSubsForm (layout (store w)) in
   (case selectedConn w of
      None \<Rightarrow> b \<or> P [RequestAddConn]
    | Some (cr, sh) \<Rightarrow>
        all_do b (\<lambda>ms. P (map InPublish ms)) (publish_view (conf_value w cr) JUndef JUndef (pg_publish p) (pg_meta p) (pg_metaRows p)) \<and>
        all_do b (\<lambda>ms. P (map InSubs ms)) (subscriptions_view (pg_loading p) (shared_connected w sh) (pg_filter p) (pg_subs p)) \<and>
        (b \<or> \<not> shared_connected w sh \<or> P [CreateSubscription] \<and> P [SubscribeEverything] \<and> P [UnsubscribeEverything])) \<and>
   all_do b (\<lambda>ms. P (map InMessages ms)) (messages_view (pg_teleport p) (pg_msgType p) (shown_messages (pg_msgType p) (pg_filter p) w)) \<and>
   all_do b (\<lambda>ms. P (map InSubsForm ms)) (subs_form_view (sf_visible fm) (conf_value w (sf_connConfig fm)) (sf_subscription fm = JNull) (pg_form p) (pg_tpls p)))"
  by (simp add: detail_view_def detail_left_def detail_right_def detail_controls_def page_eval Let_def split: option.split prod.split) blast

lemma all_do_clients: "all_do False P (clients_view p) \<longleftrightarrow> (let w = pg_world p; m = mqtt (store w) in
   (connecting m \<or> P [NewConnection] \<and> P [CheckStats] \<and> (\<forall>cr\<in>set (configs_of w). P [SelectConn cr]) \<and>
     (case selectedConn w of None \<Rightarrow> True | Some (cr, sh) \<Rightarrow> P [InSize ToggleSize] \<and>
        (\<forall>(key, label, tip, disabled)\<in>set (opts (shared_connected w sh)). disabled \<or> P [Operate key]))) \<and>
   all_do (connecting m) (\<lambda>ms. P (map InDetail ms)) (detail_view p) \<and>
   (truthy (ov_object (pg_viewer p)) \<longrightarrow> P [InViewer CloseView]))"
  by (cases "selectedConn (pg_world p)"; cases "connecting (mqtt (store (pg_world p)))")
    (simp_all add: clients_view_def clients_left_def current_head_def opt_view_def conn_button_def connections_def view_of_def object_viewer_view_def size_button_view_def page_eval Let_def split_beta)

end
