(* ===== verification/FramePages.thy ===== *)
theory FramePages
  imports ConnPages
begin

text \<open>
  The templates of the frame around the views: the bar on top with the form that adds a thing
  (\<open>TopNavBar.vue\<close>, \<open>AddThingForm.vue\<close>), the tool area with its tabs and the log of requests
  (\<open>ToolArea.vue\<close>, \<open>HttpLogs.vue\<close>, \<open>CodeSnippet.vue\<close>), the page itself (\<open>Layout.vue\<close>) and the page to
  log in (\<open>Login.vue\<close>); and what the user does with the bar.
\<close>

section \<open>Adding a thing\<close>

datatype add_msg = CloseAdding | AddField string js | ConfirmAdding

definition add_item :: "string \<Rightarrow> string \<Rightarrow> js obj \<Rightarrow> js obj \<Rightarrow> add_msg node" where
  "add_item name key as form = Element ''el-form-item'' [(''label'', JStr name), (''prop'', JStr key)] []
     [bound ''el-input'' as (oget form key) (AddField key) []]"

definition add_thing_view :: "js obj \<Rightarrow> add_msg node list" where
  "add_thing_view form = [Element ''el-dialog'' [(''model-value'', JBool True), (''title'', JStr ''Add Thing'')]
     [Emitted ''close'' (\<lambda>_. CloseAdding)] [
     box ''el-form'' [
       add_item ''Thing Id'' ''thingId'' [(''placeholder'', JStr ''it can contain number,letter, - and _'')] form,
       add_item ''Password'' ''password''
         [(''type'', JStr ''password''), (''placeholder'', JStr ''input or it will be automatically generated'')] form],
     box ''span'' [button [] CloseAdding ''Cancel'', button [] ConfirmAdding '' Confirm '']]]"

definition add_form_init :: "js obj" where
  "add_form_init = [(''thingId'', JStr ''''), (''password'', JStr '''')]"

definition add_rules_hold :: "js obj \<Rightarrow> bool" where
  "add_rules_hold form \<longleftrightarrow> oget form ''thingId'' \<noteq> JStr '''' \<and> \<not> nullish (oget form ''thingId'') \<and>
     thingId_validator (oget form ''thingId'') \<and> password_validator (oget form ''password'')"

section \<open>The bar on top\<close>

datatype nav_msg = LogOut | AskAdding | RefreshList | KickOut | RefreshShadow | InAdding add_msg

definition nav_button :: "nav_msg \<Rightarrow> string \<Rightarrow> string \<Rightarrow> nav_msg node" where
  "nav_button m icon name = Element ''div'' [] [Clicked m] [box ''el-icon'' [box icon []], lit name]"

definition nav_view :: "string \<Rightarrow> string \<Rightarrow> js \<Rightarrow> js \<Rightarrow> bool \<Rightarrow> js obj \<Rightarrow> nav_msg node list" where
  "nav_view a name thingId shadow isAdding form = (let isThing = (name = ''Thing'' \<and> truthy thingId) in [
     box ''div'' ([box ''div'' [
         box ''div'' [box ''el-icon'' [box ''ArrowLeftBold'' []], box ''span'' [lit ''T''], box ''span'' [lit ''I''],
           box ''span'' [lit ''O''], box ''el-icon'' [box ''ArrowRightBold'' []]],
         box ''div'' (map (\<lambda>l. box ''span'' [lit [l]]) ''playground'')]] @
       (if isThing then [box ''div'' [box ''span'' [Say thingId]]] else []) @
       [box ''div'' ([nav_button LogOut ''Avatar'' (if a \<noteq> '''' then ''Log Out'' else '''')] @
          (if name = ''List'' then [nav_button AskAdding ''CirclePlusFilled'' ''Add Thing'',
             nav_button RefreshList ''Refresh'' ''Refresh List''] else []) @
          (if isThing \<and> truthy (opt_get shadow ''connected'') then [nav_button KickOut ''Scissor'' ''Kick Out''] else []) @
          (if isThing then [nav_button RefreshShadow ''Refresh'' ''Refresh Shadow''] else []))]),
     box ''div'' (if isAdding then map (map_node InAdding) (add_thing_view form) else [])])"

section \<open>The tool area\<close>

datatype logs_msg = LogSize size_msg | LogPage js | ViewLog js string | InLogViewer viewer_msg

definition log_view :: "js \<Rightarrow> logs_msg node" where
  "log_view log = (let req = opt_get log ''req''; bad = truthy (opt_get log ''error'') in
     Element ''div'' [(''has-error'', JBool bad)] [] [
       box ''div'' [box ''code'' [Say (opt_get req ''method'')], box ''code'' [Say (opt_get req ''url'')], box ''code'' [Say (opt_get log ''time'')]],
       box ''div'' (
         (if opt_get req ''method'' \<in> {JStr ''post'', JStr ''put''} then [button [] (ViewLog (opt_get req ''data'') ''Request Body'') ''Req Body''] else []) @
         [button [(''type'', JStr (if bad then ''danger'' else ''success''))]
           (ViewLog (opt_get (opt_get log ''res'') ''data'') ''Response Data'') ''Res Data''] @
         (if bad then [button [] (ViewLog (opt_get log ''error'') ''Error Detail'') ''Err Detail''] else []))])"

definition logs_view :: "bool \<Rightarrow> nat \<Rightarrow> js list \<Rightarrow> object_viewer \<Rightarrow> logs_msg node list" where
  "logs_view isMax currentPage all_logs v = [box ''div'' [
     box ''div'' [box ''div'' [lit ''HTTP Request Logs''], box ''div'' [
       box ''SwitchSizeButton'' (map (map_node LogSize) (size_button_view isMax)),
       Element ''el-pagination'' [(''current-page'', JNum (int currentPage)), (''page-size'', JNum (int log_pageSize)),
         (''total'', JNum (int (length all_logs)))] [Emitted ''update:current-page'' LogPage] []]],
     if all_logs \<noteq> [] then box ''div'' (map log_view (log_page currentPage all_logs))
     else Element ''el-empty'' [(''description'', JStr ''No HTTP request logs'')] [] []],
   box ''ObjectViewer'' (map (map_node InLogViewer) (object_viewer_view (truthy (ov_object v)) (ov_title v) False
     (viewer_content True (ov_title v) (ov_object v) '''')))]"

definition code_snippet_view :: "'m node list" where
  "code_snippet_view = [box ''div'' [Element ''el-empty'' [(''description'', JStr ''Code Snippet'')] [] []]]"

datatype tool_msg = SwitchTool string | InClientsTool clients_msg | InLogs logs_msg

definition tool_tab :: "string \<Rightarrow> tool \<Rightarrow> tool_msg node" where
  "tool_tab active tool = Element ''div'' [(''active'', JBool (tool_key tool = active))] [Clicked (SwitchTool (tool_key tool))]
     [box ''el-icon'' [box (tool_icon tool) []], box ''span'' [lit (tool_name tool)]]"

definition tool_place :: "string \<Rightarrow> string \<Rightarrow> tool_msg node list \<Rightarrow> tool_msg node" where
  "tool_place active key ns = Element ''div'' [(''top'', JStr (if active = key then ''0%'' else ''200%''))] [] ns"

definition tool_area_view :: "layout_state \<Rightarrow> client_page \<Rightarrow> logs_msg node list \<Rightarrow> tool_msg node list" where
  "tool_area_view l p logs = (let active = activeToolKey l in
     [Element ''div'' [(''height'', JStr (activeToolHeight l))] [] [
       box ''div'' (map (tool_tab active) tools),
       box ''div'' [tool_place active ''mqtt'' (map (map_node InClientsTool) (clients_view p)),
         tool_place active ''logs'' (map (map_node InLogs) logs), tool_place active ''code'' code_snippet_view]]])"

section \<open>The page\<close>

datatype 'r page_msg = InRoute 'r | InBar nav_msg | InTools tool_msg

definition layout_view :: "string \<Rightarrow> 'r node list \<Rightarrow> nav_msg node list \<Rightarrow> tool_msg node list \<Rightarrow> 'r page_msg node list" where
  "layout_view route_name routed bar area = [box ''div'' [
     Element ''div'' [(''z-index'', JNum (route_zIndex route_name))] [] (map (map_node InRoute) routed),
     box ''div'' [box ''nav'' (map (map_node InBar) bar), box ''div'' (map (map_node InTools) area)]]]"

section \<open>Logging in\<close>

datatype login_msg = LoginField string js | Authorize

definition login_item :: "string \<Rightarrow> string \<Rightarrow> js obj \<Rightarrow> string \<Rightarrow> login_msg node" where
  "login_item name key as v = Element ''el-form-item'' [(''label'', JStr name), (''prop'', JStr key)] []
     [bound ''el-input'' as (JStr v) (LoginField key) []]"

definition login_view :: "bool \<Rightarrow> login_form \<Rightarrow> login_msg node list" where
  "login_view loading f = [box ''div'' [box ''div'' [], box ''dialog'' [
     Element ''el-form'' [(''v-loading'', JBool loading)] [] [
       login_item ''TIO Host'' ''host'' [] (lf_host f), login_item ''Username'' ''user'' [] (lf_user f),
       login_item ''Password'' ''pass'' [(''type'', JStr ''password'')] (lf_pass f),
       box ''el-form-item'' [button [] Authorize ''Authorize'']]]]]"

text \<open>
  What a field puts into the form. The host and the name are bound as numbers: \<open>number\<close> is what Vue's
  conversion makes of a text, as a text again.
\<close>

definition login_set :: "(string \<Rightarrow> string) \<Rightarrow> string \<Rightarrow> string \<Rightarrow> login_form \<Rightarrow> login_form" where
  "login_set number k s f =
     (if k = ''host'' then f\<lparr>lf_host := number s\<rparr> else if k = ''user'' then f\<lparr>lf_user := number s\<rparr>
      else if k = ''pass'' then f\<lparr>lf_pass := s\<rparr> else f)"

section \<open>Using the bar\<close>

record bar_page =
  bp_page :: page
  bp_nav :: nav_bar
  bp_add :: "js obj"
  bp_route :: string
  bp_thing :: js
  bp_shadow :: js
  bp_sent :: "http_request list"

definition bar_send :: "http_request \<Rightarrow> bar_page \<Rightarrow> bar_page" where
  "bar_send r b = b\<lparr>bp_sent := bp_sent b @ [r]\<rparr>"

fun add_perform :: "add_msg \<Rightarrow> bar_page \<Rightarrow> bar_page" where
  "add_perform CloseAdding b = b\<lparr>bp_nav := handleCloseDialogs (bp_nav b)\<rparr>"
| "add_perform (AddField k x) b = b\<lparr>bp_add := oput k x (bp_add b)\<rparr>"
| "add_perform ConfirmAdding b = (case handleConfirm_request (add_rules_hold (bp_add b)) (oget (bp_add b) ''thingId'')
     (oget (bp_add b) ''password'') of Some r \<Rightarrow> bar_send r b | None \<Rightarrow> b)"

text \<open>The form is mounted, empty, when it is shown; refreshing the shadow asks for it again.\<close>

fun nav_perform :: "nav_msg \<Rightarrow> bar_page \<Rightarrow> bar_page" where
  "nav_perform LogOut b = b\<lparr>bp_page := handleLogOut (bp_page b)\<rparr>"
| "nav_perform AskAdding b = b\<lparr>bp_nav := handleShowAddingForm (bp_nav b),
     bp_add := (if nb_isAdding (bp_nav b) then bp_add b else add_form_init)\<rparr>"
| "nav_perform RefreshList b = b\<lparr>bp_page := on_app requestUpdateShadowList (bp_page b)\<rparr>"
| "nav_perform KickOut b = bar_send (kickOutClient (bp_thing b)) b"
| "nav_perform RefreshShadow b = bar_send (getDefaultShadow (bp_thing b)) b"
| "nav_perform (InAdding m) b = add_perform m b"

definition bar_view :: "bar_page \<Rightarrow> nav_msg node list" where
  "bar_view b = nav_view (auth_of (bp_page b)) (bp_route b) (bp_thing b) (bp_shadow b) (nb_isAdding (bp_nav b)) (bp_add b)"

text \<open>
  The steps: uses of the bar, the answers (a thing that was added closes the form, a client that was
  kicked out makes the bar ask for the shadow), and another route, shadow or session.
\<close>

inductive bar_step :: "bar_page \<Rightarrow> bar_page \<Rightarrow> bool" where
  use: "does (bar_view b) ms \<Longrightarrow> bar_step b (fold nav_perform ms b)"
| added: "addThing ans (app (pg_store (bp_page b))) = (st, ok, again) \<Longrightarrow>
    bar_step b (b\<lparr>bp_page := on_app (\<lambda>_. st) (bp_page b), bp_nav := (if ok then handleCloseDialogs (bp_nav b) else bp_nav b)\<rparr>)"
| kicked_out: "bar_step b (bar_send (getDefaultShadow (bp_thing b)) b)"
| elsewhere: "bar_step b (b\<lparr>bp_page := p, bp_route := name, bp_thing := i, bp_shadow := shadow\<rparr>)"

definition bar_start :: "bar_page \<Rightarrow> bool" where
  "bar_start b \<longleftrightarrow> bp_nav b = \<lparr>nb_isAdding = False, nb_isSetting = False\<rparr> \<and> bp_add b = add_form_init \<and> bp_sent b = []"

section \<open>What can be done with the frame\<close>

lemma all_do_add: "all_do False P (add_thing_view form) \<longleftrightarrow> P [CloseAdding] \<and> P [ConfirmAdding] \<and>
    (\<forall>s. P [AddField ''thingId'' (JStr s)] \<and> P [AddField ''password'' (JStr s)])"
  by (auto simp: add_thing_view_def add_item_def page_eval)

lemma all_do_nav: "all_do False P (nav_view a name i shadow isAdding form) \<longleftrightarrow> (let isThing = (name = ''Thing'' \<and> truthy i) in
    P [LogOut] \<and> (name = ''List'' \<longrightarrow> P [AskAdding] \<and> P [RefreshList]) \<and>
    (isThing \<longrightarrow> P [RefreshShadow] \<and> (truthy (opt_get shadow ''connected'') \<longrightarrow> P [KickOut])) \<and>
    (isAdding \<longrightarrow> all_do False (\<lambda>ms. P (map InAdding ms)) (add_thing_view form)))"
  by (auto simp: nav_view_def nav_button_def page_eval Let_def)

lemma tab_of_tool:
  assumes "does (tool_area_view l p logs) ms" and "SwitchTool key \<in> set ms"
  shows "ms = [SwitchTool key] \<and> find_tool key \<noteq> None"
proof -
  let ?P = "\<lambda>ms. \<forall>key. SwitchTool key \<in> set ms \<longrightarrow> ms = [SwitchTool key] \<and> find_tool key \<noteq> None"
  have "(\<lambda>ms. ?P (map InClientsTool ms)) = (\<lambda>_. True)" and "(\<lambda>ms. ?P (map InLogs ms)) = (\<lambda>_. True)"
    by (auto simp: fun_eq_iff)
  moreover have "find_tool (tool_key t) \<noteq> None" if "t \<in> set tools" for t
    using that by (auto simp: find_tool_def find_None_iff)
  ultimately have "all_do False ?P (tool_area_view l p logs)"
    by (auto simp: all_do_True tool_area_view_def tool_tab_def tool_place_def code_snippet_view_def page_eval Let_def)
  from all_doD [OF this assms(1)] assms(2) show ?thesis by blast
qed

section \<open>The things that are added\<close>

definition text_add :: "js obj \<Rightarrow> bool" where
  "text_add form \<longleftrightarrow> (\<exists>i pw. oget form ''thingId'' = JStr i \<and> oget form ''password'' = JStr pw)"

definition well_named :: "http_request \<Rightarrow> bool" where
  "well_named r \<longleftrightarrow> rq_url r = ''api/v1/things'' \<longrightarrow> (\<exists>i pw. r = postThing (JObj [(''thingId'', JStr i), (''password'', JStr pw)]) \<and>
     i \<noteq> '''' \<and> list_all thing_id_char i \<and> list_all password_char pw)"

definition bar_inv :: "bar_page \<Rightarrow> bool" where
  "bar_inv b \<longleftrightarrow> text_add (bp_add b) \<and> list_all well_named (bp_sent b)"

fun bar_typed :: "nav_msg \<Rightarrow> bool" where
  "bar_typed (InAdding (AddField k x)) = (\<exists>s. x = JStr s)"
| "bar_typed _ = True"

lemma bar_uses_typed:
  assumes "does (bar_view b) ms"
  shows "list_all bar_typed ms"
proof -
  have "all_do False (list_all bar_typed) (bar_view b)"
    by (simp add: bar_view_def all_do_nav all_do_add Let_def)
  from all_doD [OF this assms] show ?thesis .
qed

lemma well_named_post: "i \<noteq> '''' \<Longrightarrow> list_all thing_id_char i \<Longrightarrow> list_all password_char pw \<Longrightarrow>
    well_named (postThing (JObj [(''thingId'', JStr i), (''password'', JStr pw)]))"
  unfolding well_named_def by blast

lemma confirmed_well_named:
  assumes "text_add form" and "handleConfirm_request (add_rules_hold form) (oget form ''thingId'') (oget form ''password'') = Some r"
  shows "well_named r"
  using assms by (auto simp: text_add_def handleConfirm_request_def add_rules_hold_def thingId_validator_def
    password_validator_def matches_class_def intro!: well_named_post split: if_splits)

lemma other_requests [simp]: "well_named (kickOutClient i)" "well_named (getDefaultShadow i)"
  by (simp_all add: well_named_def kickOutClient_def getDefaultShadow_def get_request_def)

lemma bar_inv_simps:
  "bar_inv (b\<lparr>bp_nav := n\<rparr>) = bar_inv b" "bar_inv (b\<lparr>bp_page := p\<rparr>) = bar_inv b"
  "bar_inv (bar_send r b) \<longleftrightarrow> bar_inv b \<and> well_named r"
  by (auto simp: bar_inv_def bar_send_def)

lemma bar_perform_inv:
  assumes "bar_inv b" and "bar_typed m"
  shows "bar_inv (nav_perform m b)"
proof (cases m)
  case (InAdding k)
  with assms show ?thesis
  proof (cases k)
    case ConfirmAdding
    with InAdding assms confirmed_well_named [of "bp_add b"] show ?thesis
      by (auto simp: bar_inv_simps bar_inv_def bar_send_def split: option.split)
  next
    case (AddField key x)
    with InAdding assms show ?thesis by (auto simp: bar_inv_def text_add_def dict_simps)
  qed (auto simp: bar_inv_simps)
next
  case AskAdding
  with assms show ?thesis by (auto simp: bar_inv_def text_add_def add_form_init_def)
qed (use assms in \<open>simp_all add: bar_inv_simps\<close>)

lemma bar_uses_inv: "bar_inv b \<Longrightarrow> list_all bar_typed ms \<Longrightarrow> bar_inv (fold nav_perform ms b)"
  by (induction ms arbitrary: b) (simp_all add: bar_perform_inv)

interpretation bar: step_invariant bar_start bar_step bar_inv
proof unfold_locales
  show "bar_inv b" if "bar_start b" for b
    using that by (simp add: bar_start_def bar_inv_def text_add_def add_form_init_def)
  show "bar_inv c" if "bar_inv b" and "bar_step b c" for b c
    using that(2,1)
  proof cases
    case (use ms)
    with that(1) bar_uses_inv bar_uses_typed show ?thesis by blast
  qed (simp_all add: bar_inv_def bar_send_def)
qed

text \<open>
  C36. A thing is only added with a well-formed name: whatever the user types into the form and presses
  in the bar, in any order with answers and changes of the route, a request that adds a thing has an
  id that is not empty, of letters, digits, minus and underscore, and a password of the characters
  that the rule of the form accepts.
\<close>

theorem added_things_well_named:
  assumes "reach bar_start bar_step b" and "postThing d \<in> set (bp_sent b)"
  shows "\<exists>i pw. d = JObj [(''thingId'', JStr i), (''password'', JStr pw)] \<and>
    i \<noteq> '''' \<and> list_all thing_id_char i \<and> list_all password_char pw"
proof -
  have "well_named (postThing d)" using bar.reach_inv [OF assms(1)] assms(2) by (auto simp: bar_inv_def list_all_iff)
  moreover have "rq_url (postThing d) = ''api/v1/things''" and "rq_data (postThing e) = Some e" for e
    by (simp_all add: postThing_def)
  ultimately show ?thesis unfolding well_named_def by (metis option.inject)
qed

definition demo_bar :: bar_page where
  "demo_bar = \<lparr>bp_page = Session.demo_page, bp_nav = \<lparr>nb_isAdding = False, nb_isSetting = False\<rparr>, bp_add = add_form_init,
     bp_route = ''List'', bp_thing = JUndef, bp_shadow = JObj [], bp_sent = []\<rparr>"

definition demo_adding :: bar_page where
  "demo_adding = fold nav_perform [InAdding ConfirmAdding] (fold nav_perform [InAdding (AddField ''thingId'' (JStr ''t1''))]
     (fold nav_perform [AskAdding] demo_bar))"

lemma demo_adding_reach: "reach bar_start bar_step demo_adding"
proof -
  have "reach bar_start bar_step demo_bar" by (rule reach.start) (simp add: bar_start_def demo_bar_def)
  moreover have "bar_step demo_bar (fold nav_perform [AskAdding] demo_bar)"
    by (rule bar_step.use) (simp add: does_iff bar_view_def all_do_nav demo_bar_def Let_def)
  moreover have "bar_step (fold nav_perform [AskAdding] demo_bar)
      (fold nav_perform [InAdding (AddField ''thingId'' (JStr ''t1''))] (fold nav_perform [AskAdding] demo_bar))"
    by (rule bar_step.use) (simp add: does_iff bar_view_def all_do_nav all_do_add demo_bar_def handleShowAddingForm_def Let_def)
  moreover have "bar_step (fold nav_perform [InAdding (AddField ''thingId'' (JStr ''t1''))] (fold nav_perform [AskAdding] demo_bar)) demo_adding"
    unfolding demo_adding_def
    by (rule bar_step.use) (simp add: does_iff bar_view_def all_do_nav all_do_add demo_bar_def handleShowAddingForm_def Let_def)
  ultimately show ?thesis by (blast intro: reach.step)
qed

theorem added_things_well_named_witness: "list_all thing_id_char ''t1''"
proof -
  have "bp_sent demo_adding = [postThing (JObj [(''thingId'', JStr ''t1''), (''password'', JStr '''')])]"
    by (simp add: demo_adding_def demo_bar_def handleShowAddingForm_def add_form_init_def dict_simps bar_send_def handleConfirm_request_def
      add_rules_hold_def nullish_def thingId_validator_def password_validator_def matches_class_def thing_id_char_def alnum_def Let_def)
  then have "postThing (JObj [(''thingId'', JStr ''t1''), (''password'', JStr '''')]) \<in> set (bp_sent demo_adding)" by simp
  from added_things_well_named [OF demo_adding_reach this] show ?thesis by auto
qed

end
