(* ===== verification/ListPages.thy ===== *)
theory ListPages
  imports EditorPages Clients
begin

text \<open>
  The templates of the list view (\<open>List.vue\<close>) with its query editor (\<open>SQLEditor.vue\<close>), the list with
  its pages (\<open>ThingsList.vue\<close>) and the two tables (\<open>StandardTable.vue\<close>, \<open>CustomTable.vue\<close>). The
  library renders the cells of a column for every row.
\<close>

section \<open>The tables\<close>

datatype table_msg =
    OpenRow js
  | ViewCell js string
  | ViewRow js
  | DeleteRow js delete_msg
  | InTableViewer viewer_msg

definition cell_view :: "string \<Rightarrow> 'm node list \<Rightarrow> 'm node" where
  "cell_view heading ns = Element ''el-table-column'' [(''label'', JStr heading)] [] ns"

definition shown_cell :: "cell \<Rightarrow> 'm node" where
  "shown_cell c = (case c of CellText s \<Rightarrow> lit s | CellValue v \<Rightarrow> Say v
     | CellBool v \<Rightarrow> box ''el-button'' [lit (if v then ''True'' else ''False'')] | CellView \<Rightarrow> lit ''View'')"

definition id_cell :: "js \<Rightarrow> table_msg node" where
  "id_cell row = cell_view ''Thing Id'' [Element ''el-button'' [] [Clicked (OpenRow row)] [Say (opt_get row ''thingId'')]]"

definition table_question :: string where
  "table_question = ''Are you sure to delete this Thing?''"

definition standard_row :: "(js \<Rightarrow> string) \<Rightarrow> js \<Rightarrow> table_msg node" where
  "standard_row fmt row = (let off = standard_operations_disabled row in box ''tr''
     ([id_cell row] @ map (\<lambda>(heading, c). cell_view heading [shown_cell c]) (tl (standard_cells fmt row)) @
      [cell_view ''Operations'' [button [(''disabled'', JBool off)] (ViewRow row) ''View Shadow'',
         Element ''DeleteButton'' [(''title'', JStr table_question), (''disabled'', JBool off)] []
           (map (map_node (DeleteRow row)) (delete_button_view table_question ''Yes'' ''No'' off))]]))"

definition table_viewer_view :: "object_viewer \<Rightarrow> table_msg node" where
  "table_viewer_view v = box ''ObjectViewer'' (map (map_node InTableViewer) (object_viewer_view (truthy (ov_object v))
     (ov_title v) (ov_tree v) (viewer_content True (ov_title v) (ov_object v) '''')))"

definition standard_table_view :: "(js \<Rightarrow> string) \<Rightarrow> js list \<Rightarrow> object_viewer \<Rightarrow> table_msg node list" where
  "standard_table_view fmt rows v = [box ''div'' [box ''el-table'' (map (standard_row fmt) rows)], table_viewer_view v]"

definition custom_column_cell :: "(js \<Rightarrow> string) \<Rightarrow> js \<Rightarrow> column \<Rightarrow> table_msg node" where
  "custom_column_cell fmt row c = cell_view (c_label c) (case custom_cell fmt row c of
     CellView \<Rightarrow> [button [] (ViewCell (opt_get row (c_prop c)) (c_label c)) ''View'']
   | CellValue v \<Rightarrow> [Element ''el-tooltip'' [(''content'', v)] [] [box ''div'' [Say v]]]
   | c \<Rightarrow> [shown_cell c])"

definition custom_row :: "(js \<Rightarrow> string) \<Rightarrow> bool \<Rightarrow> column list \<Rightarrow> js \<Rightarrow> table_msg node" where
  "custom_row fmt withId columns row = box ''tr''
     ((if withId then [id_cell row] else []) @ map (custom_column_cell fmt row) columns @
      [cell_view ''Operations'' (button [] (ViewRow row) ''View Shadow'' #
         (if withId then [Element ''DeleteButton'' [(''title'', JStr table_question)] []
           (map (map_node (DeleteRow row)) (delete_button_view table_question ''Yes'' ''No'' False))] else []))])"

definition custom_table_view ::
  "(js \<Rightarrow> string) \<Rightarrow> bool \<Rightarrow> column list \<Rightarrow> js list \<Rightarrow> object_viewer \<Rightarrow> table_msg node list" where
  "custom_table_view fmt withId columns rows v =
     [box ''div'' [box ''el-table'' (map (custom_row fmt withId columns) rows)], table_viewer_view v]"

section \<open>The list\<close>

datatype things_msg = ToPage js | SetPageSize js | InTable table_msg

definition things_list_view :: "(js \<Rightarrow> string) \<Rightarrow> bool \<Rightarrow> bool \<Rightarrow> js list \<Rightarrow> int \<Rightarrow> int \<Rightarrow> object_viewer \<Rightarrow> things_msg node list" where
  "things_list_view fmt isStandard withId items pageSize all_rows v = [box ''div'' [
     box ''div'' [if isStandard then Element ''StandardTable'' [] [] (map (map_node InTable) (standard_table_view fmt items v))
       else (case table_columns items withId of (withId, columns) \<Rightarrow>
         Element ''CustomTable'' [] [] (map (map_node InTable) (custom_table_view fmt withId columns items v)))],
     box ''div'' [Element ''el-pagination'' [(''total'', JNum all_rows), (''current-page'', JUndef), (''page-size'', JNum pageSize),
         (''page-sizes'', JArr [JNum 20, JNum 50, JNum 100, JNum 200])]
       [Emitted ''current-change'' ToPage, Emitted ''size-change'' SetPageSize] []]]]"

datatype list_msg =
    FocusEditor js
  | OpenQueryDoc
  | ResetQuery
  | RunQuery
  | HideSuggestions
  | PickSuggestion suggestion
  | InThings things_msg

definition suggestion_view :: "suggestion \<Rightarrow> list_msg node" where
  "suggestion_view g = Element ''div'' [] [ClickedStop (PickSuggestion g)]
     ([box ''el-tag'' [lit (sg_label g)]] @ (if sg_autoTrigger g then [box ''el-tag'' [lit ''AUTO'']] else []) @
      [box ''span'' [lit (sg_value g)]])"

definition search_view :: "list_state \<Rightarrow> list_msg node" where
  "search_view s = box ''div'' [
     box ''div'' [Element ''SQLEditor'' [(''model-value'', JStr (l_query s)), (''focused'', JBool (l_focused s))]
         [Emitted ''update:focused'' FocusEditor] [],
       Element ''el-button'' [(''icon'', JStr ''Link'')] [Clicked OpenQueryDoc] []],
     box ''div'' (if list_active s then [button [] ResetQuery ''RESET'', button [] RunQuery ''QUERY'']
       else [Element ''el-button'' [(''icon'', JStr ''Search'')] [Clicked RunQuery] []])]"

definition list_body :: "(js \<Rightarrow> string) \<Rightarrow> list_state \<Rightarrow> bool \<Rightarrow> object_viewer \<Rightarrow> list_msg node" where
  "list_body fmt s withId v =
     (if list_active s then box ''div'' [
        if l_focused s then Element ''div'' [] [Clicked HideSuggestions] (map suggestion_view query_suggestions)
        else box ''div'' (map (map_node InThings)
          (things_list_view fmt (l_isSelectAll s) withId (l_list s) (l_pageSize s) (l_total s) v))]
      else box ''div'' [
        if l_error s \<noteq> '''' then Element ''JSONEditor'' [(''mode'', JStr ''tree''), (''model-value'', JStr (l_error s)),
          (''read-only'', JBool True)] [] []
        else if l_empty s then Element ''el-empty''
          [(''description'', JStr ''The current query statement returns no Things'')] [] []
        else lit ''Type in or select the SQL statement to query Things''])"

definition list_view :: "(js \<Rightarrow> string) \<Rightarrow> list_state \<Rightarrow> bool \<Rightarrow> object_viewer \<Rightarrow> list_msg node list" where
  "list_view fmt s withId v = [box ''div'' [
     Element ''div'' [(''active'', JBool (list_active s)), (''v-loading'', JBool (l_querying s))] []
       [search_view s, list_body fmt s withId v]]]"

section \<open>What can be done with the list\<close>

lemma all_do_delete_button: "all_do b P (delete_button_view q y n disabled) \<longleftrightarrow> b \<or> disabled \<or> P [ConfirmDelete] \<and> P [CancelDelete]"
  by (auto simp: delete_button_view_def page_eval heard_def)
lemma all_do_cell: "all_do b P [cell_view heading ns] = all_do b P ns"
  by (simp add: cell_view_def page_eval)

lemma all_do_shown: "all_do b P [shown_cell c]"
  by (simp add: shown_cell_def page_eval split: cell.split)

lemma all_do_id_cell: "all_do b P [id_cell row] \<longleftrightarrow> b \<or> P [OpenRow row]"
  by (auto simp: id_cell_def all_do_cell page_eval)

lemma all_do_table_viewer: "all_do b P [table_viewer_view v] \<longleftrightarrow> (truthy (ov_object v) \<longrightarrow> P [InTableViewer CloseView])"
  by (auto simp: table_viewer_view_def object_viewer_view_def page_eval)

lemma all_do_standard: "all_do b P (standard_table_view fmt rows v) \<longleftrightarrow> (truthy (ov_object v) \<longrightarrow> P [InTableViewer CloseView]) \<and>
    (b \<or> (\<forall>row\<in>set rows. P [OpenRow row] \<and> (opt_get row ''thingId'' \<noteq> JUndef \<longrightarrow>
      P [ViewRow row] \<and> P [DeleteRow row ConfirmDelete] \<and> P [DeleteRow row CancelDelete])))"
proof -
  have "all_do b P [standard_row fmt row] \<longleftrightarrow> b \<or> P [OpenRow row] \<and> (opt_get row ''thingId'' \<noteq> JUndef \<longrightarrow>
      P [ViewRow row] \<and> P [DeleteRow row ConfirmDelete] \<and> P [DeleteRow row CancelDelete])" for row
    by (auto simp: standard_row_def standard_operations_disabled_def all_do_cell all_do_shown all_do_id_cell
      all_do_delete_button page_eval Let_def split_beta)
  then show ?thesis by (auto simp: standard_table_view_def all_do_table_viewer page_eval)
qed

lemma all_do_custom: "all_do b P (custom_table_view fmt withId cs rows v) \<longleftrightarrow>
    (truthy (ov_object v) \<longrightarrow> P [InTableViewer CloseView]) \<and> (b \<or> (\<forall>row\<in>set rows. P [ViewRow row] \<and>
      (\<forall>c\<in>set cs. c_type c = ''object'' \<longrightarrow> P [ViewCell (opt_get row (c_prop c)) (c_label c)]) \<and>
      (withId \<longrightarrow> P [OpenRow row] \<and> P [DeleteRow row ConfirmDelete] \<and> P [DeleteRow row CancelDelete])))"
proof -
  have cell: "all_do b P [custom_column_cell fmt row c] \<longleftrightarrow>
      b \<or> (c_type c = ''object'' \<longrightarrow> P [ViewCell (opt_get row (c_prop c)) (c_label c)])" for row c
    by (auto simp: custom_column_cell_def custom_cell_def all_do_cell all_do_shown page_eval Let_def)
  have "all_do b P [custom_row fmt withId cs row] \<longleftrightarrow> b \<or> P [ViewRow row] \<and>
      (\<forall>c\<in>set cs. c_type c = ''object'' \<longrightarrow> P [ViewCell (opt_get row (c_prop c)) (c_label c)]) \<and>
      (withId \<longrightarrow> P [OpenRow row] \<and> P [DeleteRow row ConfirmDelete] \<and> P [DeleteRow row CancelDelete])" for row
    by (auto simp: custom_row_def all_do_cell cell all_do_id_cell all_do_delete_button page_eval)
  then show ?thesis by (auto simp: custom_table_view_def all_do_table_viewer page_eval)
qed

lemma all_do_things: "all_do b P (things_list_view fmt isStandard withId items pageSize all_rows v) \<longleftrightarrow>
    (b \<or> (\<forall>n\<ge>1. P [ToPage (JNum n)]) \<and> (\<forall>n\<in>{20, 50, 100, 200}. P [SetPageSize (JNum n)])) \<and>
    all_do b (\<lambda>ms. P (map InTable ms)) (if isStandard then standard_table_view fmt items v
      else (case table_columns items withId of (i, cs) \<Rightarrow> custom_table_view fmt i cs items v))"
  by (auto simp: things_list_view_def page_eval heard_def split: prod.split)

text \<open>A click on a suggestion is stopped there, so it does not hide the suggestions.\<close>

lemma all_do_list: "all_do False P (list_view fmt s withId v) \<longleftrightarrow>
    (if list_active s \<and> \<not> l_focused s then all_do (l_querying s) (\<lambda>ms. P (map InThings ms))
        (things_list_view fmt (l_isSelectAll s) withId (l_list s) (l_pageSize s) (l_total s) v) else True) \<and>
    (\<not> l_querying s \<longrightarrow> P [FocusEditor (JBool True)] \<and> P [OpenQueryDoc] \<and> P [RunQuery] \<and> (list_active s \<longrightarrow> P [ResetQuery]) \<and>
      (l_focused s \<longrightarrow> P [HideSuggestions] \<and> (\<forall>g\<in>set query_suggestions. P [PickSuggestion g])))"
proof -
  have panel: "all_do b P [Element ''div'' [] [Clicked HideSuggestions] (map suggestion_view gs)] \<longleftrightarrow>
      b \<or> P [HideSuggestions] \<and> (\<forall>g\<in>set gs. P [PickSuggestion g])" for b gs
  proof (cases b)
    case False
    have "snd r" if "n \<in> set (map suggestion_view gs)" "r \<in> set (clicks False n)" for n r
      using that unfolding suggestion_view_def by (auto intro: stopped_clicks [rotated 2] simp: stops_def masked_def)
    with False show ?thesis
      by (subst all_do_around) (auto simp: suggestion_view_def page_eval)
  next
    case True
    have "all_clicks True P (Say v) \<and> all_inputs True P (Say v)" for v by (simp add: all_clicks_def all_inputs_def)
    with True show ?thesis
      by (auto simp: all_do_def all_inputs_Element all_clicks_Element suggestion_view_def page_eval
        emits_def Let_def)
  qed
  show ?thesis
    by (auto simp: list_view_def search_view_def list_body_def panel page_eval heard_def list_active_def)
qed

end
