(* ===== verification/UseMqttSteps.thy ===== *)
theory UseMqttSteps
  imports UseMqttProps
begin

text \<open>
  Every operation on connections is a sequence of steps of the delegates' state machine, so that
  what holds in every reachable world also holds after any of them.
\<close>

abbreviation reachable :: "'cb world \<Rightarrow> bool" where
  "reachable \<equiv> reach init dstep"

lemma reachable_step: "dstep w w' \<Longrightarrow> reachable w \<Longrightarrow> reachable w'"
  by (rule reach.step)

lemma reachable_winv: "reachable w \<Longrightarrow> winv w"
  by (rule delegates.reach_inv)

lemma reachable_other: "reachable w \<Longrightarrow> same_delegates w w' \<Longrightarrow> reachable w'"
  by (rule reachable_step) (rule dstep.other)

lemma reachable_getDelegateById:
  assumes "reachable w" and "getDelegateById i c w = (r, w')"
  shows "reachable w' \<and> (\<forall>q. r = Some q \<longrightarrow> q < next_dlgt w')"
proof (cases "olookup (registry w) (js_str i)")
  case (Some q)
  with assms registry_bound [OF reachable_winv [OF assms(1)]] show ?thesis
    by (auto simp: getDelegateById_def)
next
  case None
  show ?thesis
  proof (cases c)
    case (Some cr)
    obtain q v where v: "createDelegate cr w = (q, v)" by (cases "createDelegate cr w")
    then have "reachable v" using reachable_step [OF dstep.create [of w cr] assms(1)] by simp
    moreover have "q < next_dlgt v"
      using v by (auto simp: createDelegate_def new_delegate_def Let_def)
    ultimately show ?thesis using assms(2) None Some v by (auto simp: getDelegateById_def)
  qed (use assms None in \<open>simp add: getDelegateById_def\<close>)
qed

text \<open>The parts of the store and of the configurations that no delegate depends on.\<close>

lemma reachable_persist: "reachable w \<Longrightarrow> reachable (persist configs w)"
  by (erule reachable_other) (simp add: same_delegates_def persist_def updateConnConfigs_def setConnConfigs_def)

lemma reachable_set_field: "reachable w \<Longrightarrow> reachable (set_field cr k v w)"
  by (erule reachable_other) (simp add: same_delegates_def set_field_def)

lemma reachable_next_uuid: "reachable w \<Longrightarrow> reachable (next_uuid w)"
  by (erule reachable_other) (simp add: same_delegates_def next_uuid_def)

lemma reachable_uuid_count: "reachable w \<Longrightarrow> reachable (w\<lparr>uuid_count := n\<rparr>)"
  by (erule reachable_other) (simp add: same_delegates_def)

lemma reachable_new_conf: "reachable w \<Longrightarrow> reachable (snd (new_conf c w))"
  by (erule reachable_other) (simp add: same_delegates_def new_conf_def)

lemma reachable_currentConnId: "reachable w \<Longrightarrow> reachable (on_mqtt (\<lambda>m. m\<lparr>currentConnId := i\<rparr>) w)"
  by (erule reachable_other) (simp add: same_delegates_def on_mqtt_def)

text \<open>An operation through the delegate of a configuration is a step after finding the delegate.\<close>

lemma reachable_with_delegate:
  assumes "reachable w" and "\<And>r v. reachable v \<Longrightarrow> r < next_dlgt v \<Longrightarrow> reachable (f r v)"
  shows "reachable (case getDelegateById i c w of (Some r, v) \<Rightarrow> f r v | (None, v) \<Rightarrow> v)"
proof -
  obtain r v where g: "getDelegateById i c w = (r, v)" by fastforce
  with reachable_getDelegateById [OF assms(1) g] assms(2) show ?thesis by (cases r) auto
qed

lemma reachable_disconn: "reachable w \<Longrightarrow> reachable (disconn cr w)"
  unfolding disconn_def by (auto intro!: reachable_with_delegate intro: reachable_step dstep.cancel)

lemma reachable_setConnConfig: "reachable w \<Longrightarrow> reachable (setConnConfig i cr w)"
  unfolding setConnConfig_def Let_def
  by (auto intro!: reachable_persist reachable_disconn reachable_set_field reachable_next_uuid)

lemma next_read [simp]: "next_dlgt (read r w) = next_dlgt w"
  by (simp add: read_def)

lemma reachable_selectConnection: "reachable w \<Longrightarrow> reachable (selectConnection cr w)"
  unfolding selectConnection_def
  by (rule reachable_with_delegate)
    (auto intro!: reachable_currentConnId reachable_step [OF dstep.update] reachable_step [OF dstep.read])

lemma reachable_removeConnection:
  assumes "reachable w"
  shows "reachable (removeConnection i w)"
proof -
  have "reachable (case configs of c # _ \<Rightarrow> selectConnection c w
      | [] \<Rightarrow> on_mqtt (\<lambda>m. m\<lparr>currentConnId := JNull\<rparr>) w)" for configs
    using assms by (cases configs) (simp_all add: reachable_selectConnection reachable_currentConnId)
  then show ?thesis
    unfolding removeConnection_def Let_def
    by (intro reachable_with_delegate reachable_step [OF dstep.forget] reachable_persist)
      (auto intro: reachable_step dstep.destroy)
qed

lemma reachable_removeConnectionsByClientId:
  "reachable w \<Longrightarrow> reachable (removeConnectionsByClientId i w)"
  unfolding removeConnectionsByClientId_def
proof -
  have "reachable (fold (\<lambda>cr w. removeConnection (conf_id w cr) w) crs v)" if "reachable v" for crs v
    using that by (induction crs arbitrary: v) (simp_all add: reachable_removeConnection)
  then show "reachable w \<Longrightarrow>
    reachable (fold (\<lambda>cr w. removeConnection (conf_id w cr) w) (getConnConfigsByClientId i w) w)"
    by blast
qed

lemma reachable_use_connect: "reachable w \<Longrightarrow> reachable (fst (use_connect cr token w))"
proof -
  assume w: "reachable w"
  have "fst (use_connect cr token w) = (if connecting (mqtt (store w)) then w else
    (case getDelegateById (conf_id w cr) (Some cr) w of (Some r, v) \<Rightarrow> fst (connect r cr token v) | (None, v) \<Rightarrow> v))"
    by (simp add: use_connect_def split: prod.split option.split)
  then show ?thesis
    using w by (auto intro!: reachable_with_delegate intro: reachable_step dstep.connect)
qed

lemma reachable_publish: "reachable w \<Longrightarrow> reachable (fst (publish cr options cb w))"
proof -
  assume w: "reachable w"
  let ?get = "opt_get options"
  have "fst (publish cr options cb w) = (case getDelegateById (conf_id w cr) (Some cr) w of
      (Some r, v) \<Rightarrow> fst (pub r (?get ''topic'') (?get ''paytype'') (?get ''payload'')
        (JObj [(''qos'', ?get ''qos''), (''retain'', ?get ''retain''), (''properties'', ?get ''properties'')])
        (Some (UPublish cr (?get ''qos'') (?get ''retain'') cb)) v)
    | (None, v) \<Rightarrow> v)"
    by (simp add: publish_def Let_def split: prod.split option.split)
  then show ?thesis
    using w by (auto intro!: reachable_with_delegate intro: reachable_step dstep.pub)
qed

lemma reachable_requests:
  assumes "reachable w"
  shows "reachable (subscribe cr topic opts multiple configs cb w)"
    and "reachable (unsubscribe cr options cb w)"
    and "reachable (clearMessages cr w)"
    and "reachable (use_removeTopic cr topic w)"
  using assms unfolding subscribe_def unsubscribe_def clearMessages_def use_removeTopic_def Let_def
  by (auto intro!: reachable_with_delegate intro: reachable_step dstep.sub dstep.unsub dstep.clear dstep.remove)

lemma reachable_published: "reachable w \<Longrightarrow> reachable (published cr qos retain w)"
proof -
  assume w: "reachable w"
  let ?c = "JObj (oput ''pushProps'' (JObj [(''qos'', qos), (''retain'', retain)]) (spread (cfgs w cr) []))"
  obtain cr' v where v: "new_conf ?c w = (cr', v)" by (cases "new_conf ?c w")
  with reachable_new_conf [OF w, of ?c] have "reachable v" by simp
  then show ?thesis by (simp add: published_def v reachable_setConnConfig)
qed

lemma reachable_subscribed: "reachable w \<Longrightarrow> reachable (fst (subscribed cr topic opts multiple configs w))"
  unfolding subscribed_def Let_def
  by (auto split: sum.split list.split jsval.split prod.split
    intro!: reachable_setConnConfig reachable_set_field reachable_uuid_count)

lemma reachable_run_call: "reachable w \<Longrightarrow> reachable (fst (run_call call w))"
  by (auto simp: run_call_def reachable_published split: option.split ucb.split prod.split)
    (metis reachable_subscribed fst_conv)+

text \<open>
  Every operation on connections, and every callback it has registered, takes a reachable world
  to a reachable world, whatever its arguments: the invariants of the delegates hold throughout.
\<close>

theorem connection_operations_are_safe:
  assumes "reach init dstep w"
  shows "reach init dstep (setConnConfig i cr w) \<and> reach init dstep (selectConnection cr w) \<and>
    reach init dstep (removeConnection i w) \<and> reach init dstep (removeConnectionsByClientId i w) \<and>
    reach init dstep (disconn cr w) \<and> reach init dstep (fst (use_connect cr token w)) \<and>
    reach init dstep (fst (publish cr options cb w)) \<and>
    reach init dstep (subscribe cr topic opts multiple configs cb w) \<and>
    reach init dstep (unsubscribe cr options cb w) \<and> reach init dstep (clearMessages cr w) \<and>
    reach init dstep (use_removeTopic cr topic w) \<and> reach init dstep (fst (run_call call w))"
  using assms
  by (simp add: reachable_setConnConfig reachable_selectConnection reachable_removeConnection
    reachable_removeConnectionsByClientId reachable_disconn reachable_use_connect reachable_publish
    reachable_requests reachable_run_call)

theorem connection_operations_are_safe_witness:
  "reach init dstep (removeConnection (JStr ''c1'') demo_sub_world)"
proof -
  have "reach init dstep demo_sub_world"
    by (rule reach.start) (simp add: init_def demo_sub_world_def demo_store_def)
  then show ?thesis using connection_operations_are_safe by blast
qed

end
