(* ===== verification/ClientFrame.thy ===== *)
theory ClientFrame
  imports UseMqttSteps
begin

text \<open>
  What the delegates leave alone. The list of configurations, the ids of the configuration objects
  and the selected connection are changed by a few operations on connections only; every other
  operation and every event of the MQTT library \<open>keeps\<close> them. \<open>R\<close> bounds the configurations that
  callbacks registered in between refer to.
\<close>

definition ids_of :: "'cb world \<Rightarrow> js list" where
  "ids_of w = map (conf_id w) (configs_of w)"

definition known :: "'cb world \<Rightarrow> cref \<Rightarrow> bool" where
  "known w cr \<longleftrightarrow> cr < next_cfg w \<and> truthy (conf_id w cr)"

fun ucb_refs :: "'k ucb \<Rightarrow> cref set" where
  "ucb_refs (UPublish cr qos retain cb) = {cr}"
| "ucb_refs (USubscribe cr topic opts multiple configs cb) = {cr}"
| "ucb_refs (UUnsubscribe cb) = {}"

definition cb_refs :: "'k ucb option \<Rightarrow> cref set" where
  "cb_refs cb = (case cb of Some u \<Rightarrow> ucb_refs u | None \<Rightarrow> {})"

lemma cb_refs_simps [simp]: "cb_refs None = {}" "cb_refs (Some u) = ucb_refs u"
  by (simp_all add: cb_refs_def)

fun pending_refs :: "'k ucb pending \<Rightarrow> cref set" where
  "pending_refs (PEnd r ecb) = {}"
| "pending_refs (PPub r topic payload opts cb) = cb_refs cb"
| "pending_refs (PSub r topic cb) = cb_refs cb"
| "pending_refs (PSubMap r mp cb) = cb_refs cb"
| "pending_refs (PUnsub r topics cb) = cb_refs cb"

definition pend_refs :: "'k mworld \<Rightarrow> cref set" where
  "pend_refs w = (\<Union>p\<in>set (pend w). pending_refs p)"

definition current :: "'cb world \<Rightarrow> js" where
  "current w = currentConnId (mqtt (store w))"

definition keeps :: "cref set \<Rightarrow> 'k mworld \<Rightarrow> 'k mworld \<Rightarrow> bool" where
  "keeps R w w' \<longleftrightarrow> configs_of w' = configs_of w \<and> conf_id w' = conf_id w \<and> next_cfg w' = next_cfg w \<and>
     current w' = current w \<and> pend_refs w' \<subseteq> pend_refs w \<union> R"

named_theorems frame

lemma keeps_refl [frame]: "keeps R w w"
  by (simp add: keeps_def)

lemma keeps_trans: "keeps R w v \<Longrightarrow> keeps R v u \<Longrightarrow> keeps R w u"
  by (auto simp: keeps_def)

lemma keeps_mono: "keeps R w v \<Longrightarrow> R \<subseteq> S \<Longrightarrow> keeps S w v"
  by (auto simp: keeps_def)

lemma index_at_id: "index_at xs ''id'' = None"
proof -
  have "nat_str n \<noteq> ''id''" for n
  proof
    assume "nat_str n = ''id''"
    with nat_str_digits [of n] show False by (simp add: is_digit_def)
  qed
  then show ?thesis by (simp add: index_at_def find_None_iff)
qed

lemma known_is_obj: "known w cr \<Longrightarrow> is_obj (cfgs w cr)"
  by (cases "cfgs w cr") (auto simp: known_def conf_id_def is_obj_def opt_get_def index_at_id)

lemma keeps_known: "keeps R w v \<Longrightarrow> known v cr = known w cr"
  by (simp add: keeps_def known_def)

lemma keeps_ids: "keeps R w v \<Longrightarrow> ids_of v = ids_of w"
  by (simp add: keeps_def ids_of_def)

section \<open>Updates of the world\<close>

lemma keeps_fields:
  assumes "configs_of v = configs_of w" and "cfgs v = cfgs w" and "next_cfg v = next_cfg w"
    and "current v = current w" and "pend_refs v \<subseteq> pend_refs w \<union> R"
  shows "keeps R w v"
  using assms by (simp add: keeps_def conf_id_def fun_eq_iff)

lemmas view_defs = configs_of_def current_def pend_refs_def

lemma keeps_plain [frame]:
  "keeps R u w \<Longrightarrow> keeps R u (upd_d r f w)"
  "keeps R u w \<Longrightarrow> keeps R u (upd_c c g w)"
  "keeps R u w \<Longrightarrow> keeps R u (notify n w)"
  "keeps R u w \<Longrightarrow> keeps R u (dispatch_event e w)"
  "keeps R u w \<Longrightarrow> keeps R u (on_subs r h w)"
  "keeps R u w \<Longrightarrow> keeps R u (new_subs r w)"
  "keeps R u w \<Longrightarrow> keeps R u (new_msgs r w)"
  "keeps R u w \<Longrightarrow> keeps R u (next_uuid w)"
  "keeps R u w \<Longrightarrow> keeps R u (new_delegate conf w)"
  by (erule keeps_trans, rule keeps_fields;
      simp add: view_defs world_updates upd_c_def on_subs_def new_msgs_def next_uuid_def new_delegate_def Let_def)+

lemma keeps_registry [frame]: "keeps R u w \<Longrightarrow> keeps R u (w\<lparr>registry := g\<rparr>)"
  by (erule keeps_trans, rule keeps_fields) (simp_all add: view_defs)

lemma keeps_clients [frame]: "keeps R u w \<Longrightarrow> keeps R u (w\<lparr>clients := g, next_client := n\<rparr>)"
  by (erule keeps_trans, rule keeps_fields) (simp_all add: view_defs)

lemma keeps_messages [frame]: "keeps R u w \<Longrightarrow> keeps R u (w\<lparr>msgs_heap := g\<rparr>)"
  by (erule keeps_trans, rule keeps_fields) (simp_all add: view_defs)

lemma keeps_uuids [frame]: "keeps R u w \<Longrightarrow> keeps R u (w\<lparr>uuid_count := n\<rparr>)"
  by (erule keeps_trans, rule keeps_fields) (simp_all add: view_defs)

lemma keeps_on_mqtt [frame]:
  assumes "keeps R u w"
  shows "keeps R u (on_mqtt (updateDelegateStates p) w)" and "keeps R u (on_mqtt (setConnecting n) w)"
  by (rule keeps_trans [OF assms], rule keeps_fields;
      simp add: view_defs on_mqtt_def updateDelegateStates_def setConnecting_def split: states_payload.split)+

lemma keeps_ask: "keeps R u w \<Longrightarrow> pending_refs p \<subseteq> R \<Longrightarrow> keeps R u (ask q p w)"
  by (erule keeps_trans, rule keeps_fields) (auto simp: view_defs ask_def)

lemma keeps_drop_pending [frame]: "keeps R u w \<Longrightarrow> keeps R u (drop_pending i w)"
  by (erule keeps_trans, rule keeps_fields)
    (auto simp: view_defs drop_pending_def dest: in_set_takeD in_set_dropD)

lemma keeps_set_field [frame]:
  assumes "keeps R u w" and "k \<noteq> ''id''"
  shows "keeps R u (set_field cr k v w)"
proof -
  have "conf_id (set_field cr k v w) = conf_id w"
    using assms(2) by (auto simp: conf_id_def set_field_def fun_eq_iff dict_simps split: jsval.split)
  with assms(1) show ?thesis by (simp add: keeps_def set_field_def view_defs)
qed

section \<open>Operations and events of the delegates\<close>

lemma keeps_updateStore [frame]:
  "keeps R u w \<Longrightarrow> keeps R u (updateStore r w)" "keeps R u w \<Longrightarrow> keeps R u (update_if_shown r w)"
  by (simp_all add: updateStore_def update_if_shown_def frame)

lemma keeps_start_connect [frame]: "keeps R u w \<Longrightarrow> keeps R u (fst (start_connect r cr token w))"
  by (auto simp: start_connect_def Let_def frame split: sum.split prod.split)

lemma keeps_run_end_cb [frame]: "keeps R u w \<Longrightarrow> keeps R u (fst (run_end_cb r ecb err w))"
  by (cases "(r, ecb, err, w)" rule: run_end_cb.cases) (simp_all add: frame)

lemma keeps_disconnect [frame]: "keeps R u w \<Longrightarrow> keeps R u (fst (disconnect r ecb w))"
  by (simp add: disconnect_def frame keeps_ask split: option.split)

lemma keeps_end_done [frame]: "keeps R u w \<Longrightarrow> keeps R u (fst (end_done r ecb err w))"
  by (simp add: end_done_def Let_def frame split: option.split)

lemma keeps_delegate_ops [frame]:
  "keeps R u w \<Longrightarrow> keeps R u (destroy r w)" "keeps R u w \<Longrightarrow> keeps R u (cancel r w)"
  "keeps R u w \<Longrightarrow> keeps R u (fst (connect r cr token w))" "keeps R u w \<Longrightarrow> keeps R u (read r w)"
  "keeps R u w \<Longrightarrow> keeps R u (clear r w)" "keeps R u w \<Longrightarrow> keeps R u (removeTopic r topic w)"
  "keeps R u w \<Longrightarrow> keeps R u (thing_event_of w i t a)"
  by (simp_all add: destroy_def cancel_def connect_def read_def clear_def removeTopic_def thing_event_of_def frame)

lemma keeps_deleteDelegateById [frame]: "keeps R u w \<Longrightarrow> keeps R u (deleteDelegateById i w)"
  by (simp add: deleteDelegateById_def Let_def frame split: option.split)

lemma keeps_createDelegate [frame]: "keeps R u w \<Longrightarrow> keeps R u (snd (createDelegate cr w))"
  by (simp add: createDelegate_def Let_def frame)

lemma keeps_getDelegateById:
  "keeps R u w \<Longrightarrow> getDelegateById i c w = (r, v) \<Longrightarrow> keeps R u v"
  using keeps_createDelegate [of R u w]
  by (auto simp: getDelegateById_def split: option.splits prod.splits) (metis snd_conv)

lemma keeps_with_delegate [frame]:
  assumes "keeps R u w" and "\<And>r v. keeps R u v \<Longrightarrow> keeps R u (f r v)"
  shows "keeps R u (case getDelegateById i c w of (Some r, v) \<Rightarrow> f r v | (None, v) \<Rightarrow> v)"
proof -
  obtain r v where "getDelegateById i c w = (r, v)" by fastforce
  with keeps_getDelegateById [OF assms(1) this] assms(2) show ?thesis by (cases r) auto
qed

lemma keeps_push [frame]: "keeps R u w \<Longrightarrow> keeps R u (push r msg w)"
  by (simp add: push_def Let_def frame)

lemma keeps_events [frame]:
  assumes "keeps R u w"
  shows "keeps R u (onconnect r cr token w)" and "keeps R u (onreconnect r w)"
    and "keeps R u (onerror r err w)" and "keeps R u (onclose r reason w)" and "keeps R u (onend r w)"
    and "keeps R u (fst (onmessage r topic bytes qos retain properties w))"
    and "keeps R u (client_connect c w)" and "keeps R u (client_end c w)"
proof -
  have con: "keeps R u (onconnect q cr' t v)" if "keeps R u v" for q cr' t v
    using that by (simp add: onconnect_def Let_def frame)
  have en: "keeps R u (onend q v)" if "keeps R u v" for q v using that by (simp add: onend_def Let_def frame)
  show "keeps R u (onconnect r cr token w)" "keeps R u (onend r w)" using assms by (rule con en)+
  show "keeps R u (client_connect c w)" "keeps R u (client_end c w)"
    using assms by (simp_all add: client_connect_def client_end_def Let_def frame con en)
qed (use assms in \<open>auto simp: onreconnect_def onerror_def onclose_def onmessage_def Let_def frame
      split: option.split sum.split\<close>)

lemma keeps_answer [frame]: "keeps R u w \<Longrightarrow> keeps R u (fst (answer cb err n w))"
  by (simp add: answer_def frame split: option.split)

lemma keeps_called [frame]:
  assumes "keeps R u w"
  shows "keeps R u (fst (pub_done r topic payload opts cb err w))" and "keeps R u (fst (onsub r topic cb err granted w))"
    and "keeps R u (fst (onsubmap r mp cb err w))" and "keeps R u (fst (unsub_done r topics cb err w))"
  using assms
  by (auto simp: pub_done_def onsub_def onsubmap_def unsub_done_def Let_def frame
    split: option.split sum.split prod.split) (metis keeps_answer keeps_plain keeps_updateStore fst_conv)+

text \<open>The callback called is the one that was registered.\<close>

definition call_refs :: "'k ucb call \<Rightarrow> cref set" where
  "call_refs call = cb_refs (map_option fst call)"

lemma answer_refs: "answer cb err n w = (v, k) \<Longrightarrow> call_refs k \<subseteq> cb_refs cb"
  by (auto simp: answer_def call_refs_def split: option.splits)

lemma called_refs:
  "call_refs (fst (snd (pub_done r topic payload opts cb err w))) \<subseteq> cb_refs cb"
  "call_refs (snd (onsub r topic cb err granted w)) \<subseteq> cb_refs cb"
  "call_refs (fst (snd (onsubmap r mp cb err w))) \<subseteq> cb_refs cb"
  "call_refs (snd (unsub_done r topics cb err w)) \<subseteq> cb_refs cb"
  by (auto simp: pub_done_def onsub_def onsubmap_def unsub_done_def answer_def call_refs_def Let_def
    split: option.splits sum.splits)

section \<open>Operations on connections\<close>

lemma keeps_asking:
  assumes "keeps R u w" and "cb_refs cb \<subseteq> R"
  shows "keeps R u (fst (pub r topic paytype payload opts cb w))" and "keeps R u (sub r topic sopts cb w)"
    and "keeps R u (unsub r topics cb w)"
  using assms
  by (auto simp: pub_def sub_def unsub_def frame keeps_ask
    split: option.split sum.split bool.split jsval.split)

lemma keeps_connection_ops [frame]:
  assumes "keeps R u w"
  shows "keeps R u (disconn cr w)" and "keeps R u (fst (use_connect cr token w))"
    and "keeps R u (clearMessages cr w)" and "keeps R u (use_removeTopic cr topic w)"
    and "keeps R u (unsubscribe cr options cb w)"
proof -
  have "fst (use_connect cr token w) = (if connecting (mqtt (store w)) then w else
    (case getDelegateById (conf_id w cr) (Some cr) w of (Some r, v) \<Rightarrow> fst (connect r cr token v) | (None, v) \<Rightarrow> v))"
    by (simp add: use_connect_def split: prod.split option.split)
  with assms show "keeps R u (fst (use_connect cr token w))" by (simp add: frame)
qed (use assms in \<open>simp_all add: disconn_def clearMessages_def use_removeTopic_def unsubscribe_def Let_def
    frame keeps_asking\<close>)

lemma keeps_subscribe: "keeps R u w \<Longrightarrow> cr \<in> R \<Longrightarrow> keeps R u (subscribe cr topic opts multiple configs cb w)"
  unfolding subscribe_def by (rule keeps_with_delegate) (simp_all add: keeps_asking)

lemma keeps_publish:
  assumes "keeps R u w" and "cr \<in> R"
  shows "keeps R u (fst (publish cr options cb w))"
proof -
  let ?get = "opt_get options"
  have "fst (publish cr options cb w) = (case getDelegateById (conf_id w cr) (Some cr) w of
      (Some r, v) \<Rightarrow> fst (pub r (?get ''topic'') (?get ''paytype'') (?get ''payload'')
        (JObj [(''qos'', ?get ''qos''), (''retain'', ?get ''retain''), (''properties'', ?get ''properties'')])
        (Some (UPublish cr (?get ''qos'') (?get ''retain'') cb)) v)
    | (None, v) \<Rightarrow> v)"
    by (simp add: publish_def Let_def split: prod.split option.split)
  with assms show ?thesis by (simp only:) (rule keeps_with_delegate, simp_all add: keeps_asking)
qed

section \<open>The configurations\<close>

text \<open>
  The ids identify the configurations, every configuration that is listed or that a callback will
  use has an id, and the selected connection is one of those listed.
\<close>

definition client_inv :: "'k mworld \<Rightarrow> bool" where
  "client_inv w \<longleftrightarrow> distinct (ids_of w) \<and> (\<forall>cr\<in>set (configs_of w) \<union> pend_refs w. known w cr) \<and>
     (truthy (current w) \<longrightarrow> current w \<in> set (ids_of w))"

lemma client_inv_keeps:
  assumes "client_inv w" and "keeps R w v" and "\<And>cr. cr \<in> R \<Longrightarrow> known w cr"
  shows "client_inv v"
  using assms by (auto simp: client_inv_def keeps_def ids_of_def known_def)

lemma client_inv_frame: "client_inv w \<Longrightarrow> keeps {} w v \<Longrightarrow> client_inv v"
  by (erule client_inv_keeps) auto

lemma conf_id_persist [simp]:
  "conf_id (persist cs w) = conf_id w" "next_cfg (persist cs w) = next_cfg w"
  "current (persist cs w) = current w" "pend_refs (persist cs w) = pend_refs w" "configs_of (persist cs w) = cs"
  by (simp_all add: persist_def updateConnConfigs_def setConnConfigs_def conf_id_def fun_eq_iff view_defs)

lemma replace_frame:
  fixes w :: "'k mworld"
  defines "v c \<equiv> setConnConfig (conf_id w c) c w"
  assumes "known w cr"
  shows "ids_of (v cr) = ids_of w" and "conf_id (v cr) = conf_id w" and "next_cfg (v cr) = next_cfg w"
    and "current (v cr) = current w" and "pend_refs (v cr) = pend_refs w"
    and "set (configs_of (v cr)) \<subseteq> insert cr (set (configs_of w))"
proof -
  let ?configs = "case find_index (\<lambda>c. conf_id w c = conf_id w cr) (configs_of w) of
    Some n \<Rightarrow> (configs_of w)[n := cr] | None \<Rightarrow> configs_of w"
  have ids: "map (conf_id w) ?configs = ids_of w"
    by (auto simp: ids_of_def map_update find_index_Some list_update_same_conv split: option.split)
  have sub: "set ?configs \<subseteq> insert cr (set (configs_of w))"
    by (auto split: option.split dest: set_update_subset_insert [THEN subsetD])
  have v: "v cr = persist ?configs w" using assms(2) by (simp add: v_def setConnConfig_def known_def Let_def)
  show "ids_of (v cr) = ids_of w" "set (configs_of (v cr)) \<subseteq> insert cr (set (configs_of w))"
    unfolding v using ids sub by (simp_all add: ids_of_def)
  show "conf_id (v cr) = conf_id w" "next_cfg (v cr) = next_cfg w" "current (v cr) = current w" "pend_refs (v cr) = pend_refs w"
    unfolding v by simp_all
qed

lemma client_inv_replace:
  assumes "client_inv w" and "known w cr"
  shows "client_inv (setConnConfig (conf_id w cr) cr w)"
  using assms replace_frame [OF assms(2)] by (auto simp: client_inv_def known_def)

lemma conf_id_new:
  assumes "new_conf c w = (cr, v)"
  shows "cr = next_cfg w \<and> next_cfg v = Suc (next_cfg w) \<and> configs_of v = configs_of w \<and> current v = current w \<and>
    pend_refs v = pend_refs w \<and> conf_id v cr = opt_get c ''id'' \<and>
    (\<forall>x. x \<noteq> cr \<longrightarrow> conf_id v x = conf_id w x) \<and> cfgs v cr = c \<and>
    (\<forall>x. known w x \<longrightarrow> known v x \<and> conf_id v x = conf_id w x)"
  using assms by (auto simp: new_conf_def view_defs conf_id_def known_def)

lemma client_inv_new_conf:
  assumes "client_inv w" and "new_conf c w = (cr, v)"
  shows "client_inv v"
proof -
  note new = conf_id_new [OF assms(2)]
  have "ids_of v = ids_of w"
    using assms(1) new by (auto simp: client_inv_def ids_of_def)
  with assms(1) new show ?thesis by (auto simp: client_inv_def)
qed

text \<open>A new configuration gets an id of its own: the UUID library does not give one twice.\<close>

lemma client_inv_create:
  assumes "client_inv w" and "cr < next_cfg w" and "is_obj (cfgs w cr)" and "cr \<notin> set (configs_of w) \<union> pend_refs w"
    and "JStr (genConnectionId (fresh_uuid w)) \<notin> set (ids_of w)"
  shows "client_inv (setConnConfig JNull cr w) \<and> known (setConnConfig JNull cr w) cr \<and>
    conf_id (setConnConfig JNull cr w) cr \<in> set (ids_of (setConnConfig JNull cr w))"
proof -
  let ?i = "JStr (genConnectionId (fresh_uuid w))"
  let ?v = "set_field cr ''id'' ?i (next_uuid w)"
  have ids: "conf_id ?v x = (if x = cr then ?i else conf_id w x)" for x
    using assms(3) by (auto simp: conf_id_def set_field_def next_uuid_def is_obj_def dict_simps)
  have v: "configs_of ?v = configs_of w" "next_cfg ?v = next_cfg w" "current ?v = current w" "pend_refs ?v = pend_refs w"
    by (simp_all add: set_field_def next_uuid_def view_defs)
  have i: "truthy ?i" by (simp add: genConnectionId_def)
  have w: "setConnConfig JNull cr w = persist (configs_of w @ [cr]) (disconn cr ?v)"
    by (simp add: setConnConfig_def Let_def)
  have k: "keeps {} ?v (disconn cr ?v)" by (simp add: frame)
  have old: "conf_id ?v x = conf_id w x" if "x \<in> set (configs_of w) \<union> pend_refs w" for x
    using that assms(4) ids by auto
  have list: "ids_of (setConnConfig JNull cr w) = ids_of w @ [?i]"
    using k v old by (simp add: w ids_of_def keeps_def ids)
  have "known (setConnConfig JNull cr w) x" if "x = cr \<or> x \<in> set (configs_of w) \<union> pend_refs w" for x
    using that k v assms(1,2) i old [of x] by (auto simp: w known_def keeps_def ids client_inv_def)
  moreover have "pend_refs (setConnConfig JNull cr w) \<subseteq> pend_refs w" "current (setConnConfig JNull cr w) = current w"
    using k v by (auto simp: w keeps_def)
  moreover have "conf_id (setConnConfig JNull cr w) cr = ?i" using k ids by (simp add: w keeps_def)
  ultimately show ?thesis
    using assms(1,5) list by (auto simp: client_inv_def w)
qed

section \<open>Selecting and removing\<close>

lemma current_frame [simp]:
  fixes w :: "'k mworld"
  defines "v i \<equiv> on_mqtt (\<lambda>m. m\<lparr>currentConnId := i\<rparr>) w"
  shows "conf_id (v i) = conf_id w" and "next_cfg (v i) = next_cfg w" and "pend_refs (v i) = pend_refs w"
    and "configs_of (v i) = configs_of w" and "current (v i) = i"
  by (simp_all add: v_def on_mqtt_def conf_id_def view_defs fun_eq_iff)

lemma client_inv_current:
  "client_inv v \<Longrightarrow> truthy i \<longrightarrow> i \<in> set (ids_of v) \<Longrightarrow> client_inv (on_mqtt (\<lambda>m. m\<lparr>currentConnId := i\<rparr>) v)"
  by (simp add: client_inv_def ids_of_def known_def)

lemma client_inv_select:
  assumes "client_inv w" and "conf_id w cr \<in> set (ids_of w)"
  shows "client_inv (selectConnection cr w)"
proof -
  obtain r v where g: "getDelegateById (conf_id w cr) (Some cr) w = (r, v)" by fastforce
  have k: "keeps {} w v" by (rule keeps_getDelegateById [OF _ g]) (rule frame)
  then have v: "keeps {} w (updateStore q (read q v))" for q by (simp add: frame)
  have "conf_id v cr \<in> set (ids_of (updateStore q (read q v)))" for q
    using k keeps_ids [OF v] assms(2) by (simp add: keeps_def)
  then show ?thesis
    using client_inv_current [OF client_inv_frame [OF assms(1) v]] client_inv_frame [OF assms(1) k] g
    by (cases r) (simp_all add: selectConnection_def)
qed

lemma select_frame:
  "configs_of (selectConnection cr w) = configs_of w" "conf_id (selectConnection cr w) = conf_id w"
  "next_cfg (selectConnection cr w) = next_cfg w" "pend_refs (selectConnection cr w) \<subseteq> pend_refs w"
  "current (selectConnection cr w) = conf_id w cr"
proof -
  obtain r v where g: "getDelegateById (conf_id w cr) (Some cr) w = (r, v)" by fastforce
  have k: "keeps {} w v" by (rule keeps_getDelegateById [OF _ g]) (rule frame)
  then have v: "keeps {} w (updateStore q (read q v))" for q by (simp add: frame)
  show "conf_id (selectConnection cr w) = conf_id w" "next_cfg (selectConnection cr w) = next_cfg w"
    "pend_refs (selectConnection cr w) \<subseteq> pend_refs w"
    using g k v by (auto simp: selectConnection_def keeps_def split: option.split)
qed (simp_all add: selectConnection_keeps current_def)

lemma client_inv_fewer:
  assumes "client_inv w" and "set cs \<subseteq> set (configs_of w)" and "distinct (map (conf_id w) cs)"
    and "current w \<in> conf_id w ` set cs \<or> \<not> truthy (current w)"
  shows "client_inv (persist cs w)"
  using assms by (auto simp: client_inv_def ids_of_def known_def)

lemma splice1_sub: "set (splice1 i xs) \<subseteq> set xs" "distinct (map f xs) \<Longrightarrow> distinct (map f (splice1 i xs))"
proof -
  show "set (splice1 i xs) \<subseteq> set xs"
    by (auto simp: splice1_def dest: in_set_takeD in_set_dropD in_set_butlastD split: option.splits)
  have "distinct (take n ys @ drop (Suc n) ys)" if "distinct ys" for n and ys :: "'b list"
    using that set_take_disj_set_drop_if_distinct [of ys n "Suc n"] by simp
  from this [of "map f xs"] show "distinct (map f xs) \<Longrightarrow> distinct (map f (splice1 i xs))"
    by (auto simp: splice1_def take_map drop_map map_butlast distinct_butlast split: option.split)
qed

lemma client_inv_remove:
  assumes "client_inv w"
  shows "client_inv (removeConnection i w)"
proof -
  let ?cs = "splice1 (find_index (\<lambda>c. conf_id w c = i) (configs_of w)) (configs_of w)"
  let ?v = "case ?cs of c # _ \<Rightarrow> selectConnection c w | [] \<Rightarrow> on_mqtt (\<lambda>m. m\<lparr>currentConnId := JNull\<rparr>) w"
  have sub: "set ?cs \<subseteq> set (configs_of w)" "distinct (map (conf_id w) ?cs)"
    using splice1_sub(1) splice1_sub(2) [of "conf_id w"] assms by (simp_all add: client_inv_def ids_of_def)
  have "client_inv (persist ?cs ?v)"
  proof (cases ?cs)
    case Nil
    have "client_inv (on_mqtt (\<lambda>m. m\<lparr>currentConnId := JNull\<rparr>) w)" using assms by (rule client_inv_current) simp
    then show ?thesis using Nil by (simp only: list.case) (rule client_inv_fewer, auto)
  next
    case (Cons c cs)
    then have "client_inv (selectConnection c w)"
      using sub(1) assms by (intro client_inv_select) (auto simp: ids_of_def)
    then show ?thesis using Cons sub by (simp only: list.case) (rule client_inv_fewer, auto simp: select_frame)
  qed
  moreover have "keeps {} (persist ?cs ?v) (removeConnection i w)"
    by (simp add: removeConnection_def Let_def frame)
  ultimately show ?thesis by (rule client_inv_frame)
qed

lemma client_inv_removeConnectionsByClientId:
  "client_inv w \<Longrightarrow> client_inv (removeConnectionsByClientId i w)"
proof -
  have "client_inv v \<Longrightarrow> client_inv (fold (\<lambda>cr w. removeConnection (conf_id w cr) w) crs v)" for crs and v :: "'a mworld"
    by (induction crs arbitrary: v) (simp_all add: client_inv_remove)
  then show "client_inv w \<Longrightarrow> client_inv (removeConnectionsByClientId i w)"
    by (simp add: removeConnectionsByClientId_def)
qed

section \<open>The callbacks of the operations\<close>

lemma opt_get_spread: "is_obj x \<Longrightarrow> opt_get (JObj (oput k v (spread x []))) j = (if j = k then v else opt_get x j)"
  by (auto simp: is_obj_def dict_simps oget_spread)

lemma published_saves:
  assumes "client_inv w" and "known w cr"
  obtains v cr' where "published cr qos retain w = setConnConfig (conf_id v cr') cr' v" and "known v cr'"
    and "client_inv v" and "ids_of v = ids_of w" and "current v = current w"
proof -
  let ?c = "JObj (oput ''pushProps'' (JObj [(''qos'', qos), (''retain'', retain)]) (spread (cfgs w cr) []))"
  obtain cr' v where n: "new_conf ?c w = (cr', v)" by fastforce
  note new = conf_id_new [OF n]
  have "conf_id v cr' = opt_get ?c ''id''" using new by blast
  also have "\<dots> = conf_id w cr"
    by (simp only: opt_get_spread [OF known_is_obj [OF assms(2)]] conf_id_def) simp
  finally have id: "conf_id v cr' = conf_id w cr" .
  have "known v cr'" using id new assms(2) by (simp add: known_def)
  moreover have "conf_id v cr = conf_id w cr" using new assms(2) by simp
  moreover have "ids_of v = ids_of w" using assms(1) new by (auto simp: client_inv_def ids_of_def)
  ultimately show ?thesis
    using that [of v cr'] client_inv_new_conf [OF assms(1) n] id new n by (simp add: published_def)
qed

lemma client_inv_published:
  assumes "client_inv w" and "known w cr"
  shows "client_inv (published cr qos retain w)"
  by (rule published_saves [OF assms, of qos retain]) (simp add: client_inv_replace)

lemma client_inv_saved:
  assumes "client_inv w" and "known w cr" and "keeps {} w v"
  shows "client_inv (setConnConfig (conf_id v cr) cr v)"
  using client_inv_replace [OF client_inv_frame [OF assms(1,3)]] keeps_known [OF assms(3)] assms(2) by blast

lemma subscribed_saves:
  assumes "\<And>v. keeps {} w v \<Longrightarrow> Q v" and "\<And>v. keeps {} w v \<Longrightarrow> Q (setConnConfig (conf_id v cr) cr v)"
  shows "Q (fst (subscribed cr topic opts multiple configs w))"
proof -
  let ?w = "set_field cr ''subscriptions'' (js_or (opt_get (cfgs w cr) ''subscriptions'') (JArr [])) w"
  have w: "keeps {} w ?w" by (simp add: frame)
  show ?thesis
  proof (cases "topics_of multiple topic")
    case (Inl e)
    with assms(1) [OF w] show ?thesis by (simp add: subscribed_def)
  next
    case (Inr ts)
    show ?thesis
    proof (cases "ts = [] \<or> (\<nexists>xs. opt_get (cfgs ?w cr) ''subscriptions'' = JArr xs)")
      case True
      with assms(1) [OF w] assms(2) [OF w] Inr show ?thesis
        by (auto simp: subscribed_def Let_def split: list.split jsval.split)
    next
      case False
      then obtain t ts' xs where xs: "ts = t # ts'" "opt_get (cfgs ?w cr) ''subscriptions'' = JArr xs"
        by (cases ts) auto
      obtain xs' n where r: "record_topics (uuids ?w) (\<lambda>t. if multiple then opt_get topic (js_str t) else opts)
          configs (t # ts') (xs, uuid_count ?w) = (xs', n)" by fastforce
      let ?v = "set_field cr ''subscriptions'' (JArr xs') (?w\<lparr>uuid_count := n\<rparr>)"
      have "keeps {} w ?v" by (simp add: frame)
      from assms(2) [OF this] show ?thesis
        by (simp add: subscribed_def Inr xs r Let_def del: record_topics.simps)
    qed
  qed
qed

lemma client_inv_subscribed:
  assumes "client_inv w" and "known w cr"
  shows "client_inv (fst (subscribed cr topic opts multiple configs w))"
  by (rule subscribed_saves) (rule client_inv_frame [OF assms(1)], assumption, rule client_inv_saved [OF assms])

lemma client_inv_requests:
  assumes "client_inv w" and "known w cr"
  shows "client_inv (subscribe cr topic opts multiple configs cb w)" and "client_inv (fst (publish cr options cb w))"
proof -
  have "keeps {cr} w (subscribe cr topic opts multiple configs cb w)" "keeps {cr} w (fst (publish cr options cb w))"
    by (simp_all add: keeps_subscribe keeps_publish frame)
  then show "client_inv (subscribe cr topic opts multiple configs cb w)" "client_inv (fst (publish cr options cb w))"
    by (auto intro: client_inv_keeps [OF assms(1)] simp: assms(2))
qed

end
