(* ===== verification/App.thy ===== *)
theory App
  imports ClientFrame Clients
begin

text \<open>
  The client as a whole: the views, the connections they operate on, and the MQTT library, whose
  events and callbacks come in any order, as one state machine. What the views rely on is the
  interface \<open>connection_ops\<close>: every operation on connections keeps what is to be shown, given a
  configuration that has an id. The lemmas about the views are proved once against it; it is
  interpreted on the invariant of the configurations (\<open>ClientFrame\<close>) and on reachability in the
  state machine of the delegates (\<open>UseMqttSteps\<close>).
\<close>

section \<open>The steps\<close>

text \<open>What the MQTT library does by itself: events of a client, and the end of a client.\<close>

inductive mqtt_event :: "'cb world \<Rightarrow> 'cb world \<Rightarrow> bool" where
  flags: "c < next_client w \<Longrightarrow> mqtt_event w (upd_c c (set_flags b1 b2 b3 b4) w)"
| on_connect: "c < next_client w \<Longrightarrow> mqtt_event w (client_connect c w)"
| on_reconnect: "c < next_client w \<Longrightarrow> mqtt_event w (onreconnect (cl_dlgt (clients w c)) w)"
| on_error: "c < next_client w \<Longrightarrow> mqtt_event w (onerror (cl_dlgt (clients w c)) err w)"
| on_close: "c < next_client w \<Longrightarrow> mqtt_event w (onclose (cl_dlgt (clients w c)) reason w)"
| on_end: "c < next_client w \<Longrightarrow> mqtt_event w (client_end c w)"
| on_message: "c < next_client w \<Longrightarrow>
    mqtt_event w (fst (onmessage (cl_dlgt (clients w c)) topic bytes qos retain properties w))"
| end_called: "i < length (pend w) \<Longrightarrow> pend w ! i = PEnd r ecb \<Longrightarrow>
    mqtt_event w (fst (end_done r ecb err (drop_pending i w)))"

text \<open>
  The callbacks of a request: what the delegate does, and the callback of the connection it calls, which
  in turn calls that of the view.
\<close>

definition finish :: "vcb ucb call \<Rightarrow> vworld \<Rightarrow> vworld" where
  "finish call w = (case run_call call w of (v, k, _) \<Rightarrow> run_view_call k v)"

inductive answered :: "vworld \<Rightarrow> vcb ucb call \<Rightarrow> vworld \<Rightarrow> bool" where
  pub_called: "i < length (pend w) \<Longrightarrow> pend w ! i = PPub r topic payload opts cb \<Longrightarrow>
    pub_done r topic payload opts cb err (drop_pending i w) = (v, call, e) \<Longrightarrow> answered w call v"
| sub_called: "i < length (pend w) \<Longrightarrow> pend w ! i = PSub r topic cb \<Longrightarrow>
    onsub r topic cb err granted (drop_pending i w) = (v, call) \<Longrightarrow> answered w call v"
| submap_called: "i < length (pend w) \<Longrightarrow> pend w ! i = PSubMap r mp cb \<Longrightarrow>
    onsubmap r mp cb err (drop_pending i w) = (v, call, e) \<Longrightarrow> answered w call v"
| unsub_called: "i < length (pend w) \<Longrightarrow> pend w ! i = PUnsub r topics cb \<Longrightarrow>
    unsub_done r topics cb err (drop_pending i w) = (v, call) \<Longrightarrow> answered w call v"

text \<open>
  A configuration object that a view holds has an id, and a connection with this id is listed. (It
  need not be the object that is listed: publishing replaces that one.)
\<close>

definition usable :: "'cb world \<Rightarrow> cref \<Rightarrow> bool" where
  "usable w cr \<longleftrightarrow> known w cr \<and> conf_id w cr \<in> set (ids_of w)"

definition event_usable :: "'cb world \<Rightarrow> thing_event \<Rightarrow> bool" where
  "event_usable w e \<longleftrightarrow> (case ev_about e of AboutConn cr t \<Rightarrow> usable w cr | _ \<Rightarrow> True)"

text \<open>The form of a connection is saved: for a new one, the UUID library gives an id not in use.\<close>

definition save_ready :: "bool \<Rightarrow> conn_dialog \<Rightarrow> 'cb world \<Rightarrow> bool" where
  "save_ready forCreate d w \<longleftrightarrow> (if forCreate then JStr (genConnectionId (fresh_uuid w)) \<notin> set (ids_of w)
     else oget (cd_form d) ''id'' \<in> set (ids_of w))"

definition submit_connection :: "bool \<Rightarrow> bool \<Rightarrow> conn_dialog \<Rightarrow> 'cb world \<Rightarrow> 'cb world" where
  "submit_connection valid forCreate d w =
     (case handleConnect_save valid forCreate d w of
        (v, Some (Some cr, token)) \<Rightarrow> handleCreateOrEditDone cr token v
      | (v, _) \<Rightarrow> v)"

inductive view_step :: "vworld \<Rightarrow> vworld \<Rightarrow> bool" where
  opt: "view_step w (handleOpt key w)"
| select: "usable w cr \<Longrightarrow> view_step w (selectConnection cr w)"
| change_layout: "view_step w (on_lay f w)"
| token: "view_step w (next_uuid w)"
| cancel_form: "view_step w (handleCreateOrEditCancel w)"
| save: "save_ready forCreate d w \<Longrightarrow> view_step w (submit_connection valid forCreate d w)"
| delete_thing: "view_step w (table_deleteThing thing ans w)"
| things: "view_step w (w\<lparr>store := (store w)\<lparr>app := a\<rparr>\<rparr>)"
| subscribe_one: "usable w cr \<Longrightarrow> view_step w (fst (handleSubscribe cr s w))"
| unsubscribe_one: "usable w cr \<Longrightarrow> view_step w (fst (handleUnsubscribe cr s w))"
| edit_sub: "usable w cr \<Longrightarrow> view_step w (handleEdit up cr x w)"
| delete_sub: "usable w cr \<Longrightarrow> view_step w (handleDelete cr sh s w)"
| submit_sub: "usable w cr \<Longrightarrow> view_step w (submitForm cr data w)"
| create_sub: "view_step w (handleCreateSubscription w)"
| subscribe_all: "usable w cr \<Longrightarrow> view_step w (handleSubscribeAll cr subs w)"
| unsubscribe_all: "usable w cr \<Longrightarrow> view_step w (handleUnsubscribeAll cr subs w)"
| clear_messages: "view_step w (handleClearMessages w)"
| publish: "usable w cr \<Longrightarrow> view_step w (fst (send cb cr f w))"
| thing_connect: "usable w cr \<Longrightarrow> view_step w (snd (handleConnectMqttClient cr tv w))"
| thing_disconnect: "usable w cr \<Longrightarrow> view_step w (disconn cr w)"
| thing_create: "view_step w (snd (handleCreateMqttClient i tv w))"
| thing_subs: "usable w cr \<Longrightarrow> view_step w (handleShowSubscriptions cr w)"
| thing_panel: "usable w cr \<Longrightarrow> view_step w (snd (handleShowToolPanel cr visible w))"
| thing_event: "event_usable w e \<Longrightarrow> view_step w (snd (thing_clients_event i e tv w))"
| report: "usable w cr \<Longrightarrow> view_step w (snd (showSetReportedForm shadow cr sv w))"
| report_create: "view_step w (snd (confirmed_create shadow sv w))"
| report_connect: "usable w cr \<Longrightarrow> view_step w (snd (confirmed_connect cr sv w))"
| report_event: "event_usable w e \<Longrightarrow> view_step w (snd (shadow_data_event shadow e sv w))"

inductive app_step :: "vworld \<Rightarrow> vworld \<Rightarrow> bool" where
  load: "app_step w (load_delegates w)"
| event: "mqtt_event w v \<Longrightarrow> app_step w v"
| called: "answered w call v \<Longrightarrow> app_step w (finish call v)"
| view: "view_step w v \<Longrightarrow> app_step w v"

text \<open>A page load: the stored connections, which have distinct ids, and no delegates yet.\<close>

definition app_start :: "vworld \<Rightarrow> bool" where
  "app_start w \<longleftrightarrow>
     (\<exists>cs. mqtt_init (local_store (store w)) = Inr (Some cs, current w, delegateStates (mqtt (store w))) \<and>
        configs_of w = [0..<length cs] \<and> map (cfgs w) [0..<length cs] = cs \<and> next_cfg w = length cs \<and>
        distinct (map (\<lambda>c. opt_get c ''id'') cs) \<and> list_all (\<lambda>c. truthy (opt_get c ''id'')) cs) \<and>
     next_dlgt w = 0 \<and> next_client w = 0 \<and> registry w = [] \<and> pend w = [] \<and> requests w = [] \<and>
     retryTimes (mqtt (store w)) = 0"

section \<open>What the views leave alone\<close>

lemma keeps_layout [frame]: "keeps R u w \<Longrightarrow> keeps R u (on_lay f w)"
  by (erule keeps_trans, rule keeps_fields) (simp_all add: view_defs on_lay_def)

lemma keeps_parts [frame]:
  "keeps R u w \<Longrightarrow> keeps R u (w\<lparr>store := (store w)\<lparr>app := a\<rparr>\<rparr>)"
  "keeps R u w \<Longrightarrow> keeps R u (w\<lparr>store := (store w)\<lparr>layout := l, local_store := ls\<rparr>\<rparr>)"
  by (erule keeps_trans, rule keeps_fields; simp add: view_defs)+

lemma keeps_usable: "keeps R w v \<Longrightarrow> usable v cr = usable w cr"
  by (simp add: usable_def keeps_known keeps_ids) (simp add: keeps_def)

lemma known_frame: "keeps {} w v \<Longrightarrow> known w cr \<Longrightarrow> known v cr"
  and usable_frame: "keeps {} w v \<Longrightarrow> usable w cr \<Longrightarrow> usable v cr"
  by (simp_all add: keeps_known keeps_usable)

lemma usable_known: "usable w cr \<Longrightarrow> known w cr"
  by (simp add: usable_def)

lemma usable_select: "usable w cr \<Longrightarrow> usable (selectConnection cr w) cr" for w :: "'k mworld"
  by (simp add: usable_def known_def ids_of_def select_frame)

lemma save_usable:
  assumes "client_inv w" and "save_ready forCreate d w" and "handleConnect_save valid forCreate d w = (v, r)"
  shows "client_inv v \<and> (\<forall>cr t. r = Some (Some cr, t) \<longrightarrow> usable v cr)"
proof (cases "valid \<and> (\<exists>data. form_data (cd_form d) = Inr data)")
  case True
  then obtain data where data: "form_data (cd_form d) = Inr data" and valid by blast
  let ?now = "JStr (time_text w (clock w))"
  show ?thesis
  proof (cases forCreate)
    case True
    let ?c = "JObj (oput ''updateAt'' ?now (oput ''createAt'' ?now data))"
    obtain cr u where n: "new_conf ?c w = (cr, u)" by fastforce
    note new = conf_id_new [OF n] and inv = client_inv_new_conf [OF assms(1) n]
    have "ids_of u = ids_of w" using assms(1) new by (auto simp: client_inv_def ids_of_def)
    moreover have "fresh_uuid u = fresh_uuid w" using n by (auto simp: new_conf_def fresh_uuid_def)
    moreover have "is_obj (cfgs u cr)" unfolding is_obj_def using new by blast
    moreover have "cr \<notin> set (configs_of u) \<union> pend_refs u"
      using assms(1) new by (auto simp: client_inv_def known_def)
    ultimately have "client_inv (setConnConfig JNull cr u) \<and> usable (setConnConfig JNull cr u) cr"
      using client_inv_create [OF inv, of cr] new assms(2) True by (auto simp: save_ready_def usable_def)
    then show ?thesis using assms(3) True \<open>valid\<close> data n by (auto simp: handleConnect_save_def Let_def)
  next
    case False
    let ?i = "oget data ''id''"
    obtain cr u where n: "new_conf (JObj (oput ''updateAt'' ?now data)) w = (cr, u)" by fastforce
    note new = conf_id_new [OF n] and inv = client_inv_new_conf [OF assms(1) n]
    have i: "conf_id u cr = ?i" using new by (auto simp: dict_simps)
    have ids: "ids_of u = ids_of w" using assms(1) new by (auto simp: client_inv_def ids_of_def)
    have "usable (setConnConfig ?i cr u) cr \<and> client_inv (setConnConfig ?i cr u)" if "truthy ?i"
    proof -
      have k: "known u cr" using that new i by (simp add: known_def)
      have "?i \<in> set (ids_of w)"
        using assms(2) False form_data_members [OF data] by (simp add: save_ready_def)
      with k ids i replace_frame [OF k] client_inv_replace [OF inv k] show ?thesis
        by (simp add: usable_def known_def)
    qed
    then show ?thesis using assms(1,3) False \<open>valid\<close> data n by (auto simp: handleConnect_save_def Let_def split: if_splits)
  qed
next
  case False
  with assms(1,3) show ?thesis by (auto simp: handleConnect_save_def split: if_splits sum.splits)
qed

text \<open>A callback that is called was registered, so what it refers to has an id.\<close>

lemma answered_keeps:
  assumes "answered w call v"
  shows "keeps {} w v \<and> call_refs call \<subseteq> pend_refs w"
proof -
  have drop: "keeps {} w (drop_pending i w)" for i by (simp add: frame)
  have refs: "pending_refs p \<subseteq> pend_refs w" if "i < length (pend w)" "pend w ! i = p" for i p
    using that nth_mem by (fastforce simp: pend_refs_def)
  note ops = keeps_called [OF drop] and calls = called_refs
  from assms show ?thesis
  proof cases
    case (pub_called i r topic payload opts cb err e)
    with ops(1) [of r topic payload opts cb err i] calls(1) [of r topic payload opts cb err "drop_pending i w"]
      refs [of i] show ?thesis by auto
  next
    case (sub_called i r topic cb err granted)
    with ops(2) [of r topic cb err granted i] calls(2) [of r topic cb err granted "drop_pending i w"] refs [of i]
    show ?thesis by auto
  next
    case (submap_called i r mp cb err e)
    with ops(3) [of r mp cb err i] calls(3) [of r mp cb err "drop_pending i w"] refs [of i]
    show ?thesis by auto
  next
    case (unsub_called i r topics cb err)
    with ops(4) [of r topics cb err i] calls(4) [of r topics cb err "drop_pending i w"] refs [of i]
    show ?thesis by auto
  qed
qed

lemma answered_known:
  "answered w call v \<Longrightarrow> client_inv w \<Longrightarrow> c \<in> call_refs call \<Longrightarrow> known v c"
  using answered_keeps [of w call v] keeps_known [of "{}" w v c] by (auto simp: client_inv_def)

section \<open>The interface between the views and the connections\<close>

text \<open>
  \<open>P\<close> is what is to be shown of every world. The laws say which operations on connections keep it and
  what they ask for.
\<close>

locale connection_ops =
  fixes P :: "vworld \<Rightarrow> bool"
  assumes lay: "P w \<Longrightarrow> P (on_lay f w)"
    and things: "P w \<Longrightarrow> P (w\<lparr>store := (store w)\<lparr>app := a\<rparr>\<rparr>)"
    and tool_panel: "P w \<Longrightarrow> P (w\<lparr>store := (store w)\<lparr>layout := l, local_store := ls\<rparr>\<rparr>)"
    and note': "P w \<Longrightarrow> P (notify n w)"
    and uuid: "P w \<Longrightarrow> P (next_uuid w)" "P w \<Longrightarrow> P (w\<lparr>uuid_count := n'\<rparr>)"
    and conn: "P w \<Longrightarrow> P (fst (use_connect cr token w))" "P w \<Longrightarrow> P (disconn cr w)"
    and unsubs: "P w \<Longrightarrow> P (unsubscribe cr options ucb w)"
    and clears: "P w \<Longrightarrow> P (clearMessages cr w)"
    and drops: "P w \<Longrightarrow> P (use_removeTopic cr topic w)"
    and drops_unknown: "P w \<Longrightarrow> P (case getDelegateById JUndef None w of
          (Some r, v) \<Rightarrow> removeTopic r JUndef v | (None, v) \<Rightarrow> v)"
    and removes: "P w \<Longrightarrow> P (removeConnection i w)" "P w \<Longrightarrow> P (removeConnectionsByClientId i w)"
    and field: "P w \<Longrightarrow> k' \<noteq> ''id'' \<Longrightarrow> P (set_field cr k' x w)"
    and subs: "P w \<Longrightarrow> known w cr \<Longrightarrow> P (subscribe cr topic opts multiple configs scb w)"
    and pubs: "P w \<Longrightarrow> known w cr \<Longrightarrow> P (fst (publish cr options scb w))"
    and saves: "P w \<Longrightarrow> known w cr \<Longrightarrow> P (setConnConfig (conf_id w cr) cr w)"
    and selects: "P w \<Longrightarrow> usable w cr \<Longrightarrow> P (selectConnection cr w)"
    and calls: "P w \<Longrightarrow> (\<And>c. c \<in> call_refs call \<Longrightarrow> known w c) \<Longrightarrow> P (fst (run_call call w))"
    and saved: "P w \<Longrightarrow> save_ready forCreate d w \<Longrightarrow> P (fst (handleConnect_save valid forCreate d w))"
    and loads: "P w \<Longrightarrow> P (load_delegates w)"
    and events: "P w \<Longrightarrow> mqtt_event w v \<Longrightarrow> P v"
    and called: "P w \<Longrightarrow> answered w call v \<Longrightarrow> P v"
begin

lemmas basic = lay note' uuid conn unsubs clears drops removes field things

lemma choice: "P u \<Longrightarrow> P v \<Longrightarrow> P (if b then u else v)"
  by simp

lemma show_form: "P w \<Longrightarrow> P (snd (show_form i thingId w))"
  by (simp add: show_form_def Let_def basic split: prod.split)

lemma show_form_result: "P w \<Longrightarrow> show_form i thingId w = (token, v) \<Longrightarrow> P v"
  using show_form [of w i thingId] by simp

lemma list_of_connections:
  assumes "P w"
  shows "P (handleOpt key w)" and "P (handleCreateOrEditCancel w)" and "P (handleClearMessages w)"
    and "P (handleCreateSubscription w)" and "P (handleEdit up cr x w)" and "P (handleShowSubscriptions cr w)"
    and "P (table_deleteThing thing ans w)" and "P (snd (handleCreateMqttClient j tv w))"
    and "P (snd (confirmed_create shadow sv w))"
  using assms
  by (auto simp: handleOpt_def handleCreateOrEditCancel_def handleClearMessages_def handleCreateSubscription_def
    handleEdit_def handleShowSubscriptions_def table_deleteThing_def handleCreateMqttClient_def confirmed_create_def
    Let_def basic show_form split: option.split prod.split intro: show_form_result)

lemma connection_saved:
  assumes "P w" and "usable w cr"
  shows "P (handleCreateOrEditDone cr token w)"
proof -
  let ?w = "selectConnection cr w"
  have w: "P ?w" "usable ?w cr" using assms by (simp_all add: selects usable_select)
  have k: "keeps {} ?w (with_suggestions cr ?w)" and p: "P (with_suggestions cr ?w)"
    using w(1) by (simp_all add: with_suggestions_def Let_def frame field uuid)
  have known: "known (with_suggestions cr ?w) cr" using usable_known [OF w(2)] by (rule known_frame [OF k])
  have "conf_id (with_suggestions cr ?w) cr = conf_id ?w cr" using k by (simp add: keeps_def)
  then have "P (setConnConfig (conf_id ?w cr) cr (with_suggestions cr ?w))" using saves [OF p known] by simp
  with w(1) show ?thesis
    by (auto simp: handleCreateOrEditDone_def handleCreateOrEditCancel_def Let_def lay conn split: option.split prod.split)
qed

lemma subscriptions_view:
  assumes "P w" and "known w cr"
  shows "P (fst (handleSubscribe cr s w))" and "P (fst (handleUnsubscribe cr s w))" and "P (handleDelete cr sh s w)"
    and "P (handleSubscribeAll cr sm w)" and "P (handleUnsubscribeAll cr sm w)" and "P (submitForm cr data w)"
    and "P (fst (send scb cr f w))"
proof -
  have lay': "known (on_lay h v) cr = known v cr" for h and v :: vworld
    by (rule keeps_known [of "{}"]) (simp add: frame)
  show "P (fst (handleSubscribe cr s w))" "P (fst (handleUnsubscribe cr s w))"
    "P (handleSubscribeAll cr sm w)" "P (handleUnsubscribeAll cr sm w)" "P (fst (send scb cr f w))"
    using assms by (auto simp: handleSubscribe_def handleUnsubscribe_def handleSubscribeAll_def handleUnsubscribeAll_def
      send_def Let_def lay lay' subs unsubs note' pubs split: sum.split bulk.split)
  have existing: "P (submit_existing cr data v)" if "P v" "known v cr" for v
  proof -
    have "P (subscribe cr topic opts False configs cb (set_field cr ''subscriptions'' x v))" for topic opts configs cb x
    proof -
      have "known (set_field cr ''subscriptions'' x v) cr" using _ that(2) by (rule known_frame) (simp add: frame)
      with that(1) show ?thesis by (intro subs field) simp_all
    qed
    note both = choice [OF drops [OF this] this]
    show ?thesis
    proof (cases "find_index (\<lambda>x. opt_get x ''id'' = opt_get data ''id'') (subscriptions_of v cr)")
      case (Some i)
      show ?thesis by (simp only: submit_existing_def Let_def Some option.case) (rule both)
    qed (simp only: submit_existing_def Let_def option.case that)
  qed
  show "P (submitForm cr data w)"
    using assms by (auto simp: submitForm_def submit_new_def Let_def lay lay' note' existing subs split: option.split)
  let ?w = "if form_shows w (si_id s) then on_lay hideMqttSubsForm w else w"
  let ?v = "if shared_connected ?w sh \<and> si_subscribed s then unsubscribe cr (si_topic s) None ?w else ?w"
  have v: "P ?v" using assms(1) by (simp add: lay unsubs)
  have k: "keeps {} w ?v" by (simp add: frame)
  have "P (setConnConfig (conf_id v' cr) cr v')" if "v' = set_field cr ''subscriptions'' x ?v" for x v'
  proof -
    have "keeps {} w v'" using k that by (simp add: frame)
    then have "known v' cr" using assms(2) by (rule known_frame)
    with v that show ?thesis by (intro saves) (simp_all add: field)
  qed
  then show "P (handleDelete cr sh s w)"
    using v by (auto simp: handleDelete_def Let_def note' drops_unknown split: option.split)
qed

lemma thing_views:
  assumes "P w" and "usable w cr"
  shows "P (snd (handleConnectMqttClient cr tv w))" and "P (snd (handleShowToolPanel cr visible w))"
    and "P (snd (showSetReportedForm shadow cr sv w))" and "P (snd (confirmed_connect cr sv w))"
proof -
  have "usable (next_uuid w) cr" using _ assms(2) by (rule usable_frame) (simp add: frame)
  then show "P (snd (confirmed_connect cr sv w))"
    using assms(1) by (simp add: confirmed_connect_def Let_def conn selects uuid)
  have "usable (w\<lparr>store := (store w)\<lparr>layout := l, local_store := ls\<rparr>\<rparr>) cr" for l ls
    using _ assms(2) by (rule usable_frame) (simp add: frame)
  then show "P (snd (handleShowToolPanel cr visible w))"
    using assms by (simp add: handleShowToolPanel_def Let_def selects tool_panel)
qed (use assms in \<open>auto simp: handleConnectMqttClient_def showSetReportedForm_def
    Let_def conn uuid selects\<close>)

lemma views_of_events:
  assumes "P w" and "event_usable w e"
  shows "P (snd (thing_clients_event i e tv w))" and "P (snd (shadow_data_event shadow e sv w))"
proof -
  have "usable w cr" if "token_matches i' t e = Some cr" for i' t cr
    using that assms(2) by (auto simp: token_matches_def event_usable_def split: about.splits if_splits)
  with assms(1) show "P (snd (thing_clients_event i e tv w))" "P (snd (shadow_data_event shadow e sv w))"
    by (auto simp: thing_clients_event_def shadow_data_event_def Let_def thing_views subs usable_known
      split: option.split sum.split)
qed

lemma run_view_call_keeps: "P w \<Longrightarrow> P (run_view_call k w)"
  by (auto simp: run_view_call_def note' split: option.split vcb.split prod.split)

lemma finish_keeps:
  assumes "P w" and "\<And>c. c \<in> call_refs call \<Longrightarrow> known w c"
  shows "P (finish call w)"
proof -
  obtain v k e where "run_call call w = (v, k, e)" by (cases "run_call call w") auto
  with calls [OF assms, of call] show ?thesis by (simp add: finish_def run_view_call_keeps)
qed

lemma submit_keeps:
  assumes "P w" and "client_inv w" and "save_ready forCreate d w"
  shows "P (submit_connection valid forCreate d w)"
proof -
  obtain v r where v: "handleConnect_save valid forCreate d w = (v, r)" by fastforce
  have "P v" using saved [OF assms(1,3), of valid] v by simp
  with save_usable [OF assms(2,3) v] v show ?thesis
    by (auto simp: submit_connection_def connection_saved split: option.split)
qed

lemma view_step_keeps:
  assumes "view_step w v" and "client_inv w" and "P w"
  shows "P v"
  using assms
  by (cases rule: view_step.cases)
    (simp_all add: list_of_connections submit_keeps basic selects subscriptions_view usable_known thing_views views_of_events)

lemma app_step_keeps: "app_step w v \<Longrightarrow> client_inv w \<Longrightarrow> P w \<Longrightarrow> P v"
  by (cases rule: app_step.cases) (auto intro: loads events view_step_keeps finish_keeps called answered_known)

end

section \<open>The interface on the model\<close>

interpretation sim: connection_ops reachable
proof
  show "reachable w \<Longrightarrow> reachable (fst (handleConnect_save valid forCreate d w))" for w valid forCreate d
    by (auto simp: handleConnect_save_def Let_def split: sum.split prod.split
      intro!: reachable_setConnConfig) (metis reachable_new_conf snd_conv)+
  show "reachable w \<Longrightarrow> reachable (load_delegates w)" for w :: vworld
  proof -
    have "reachable w \<Longrightarrow> reachable (fold (\<lambda>cr w. snd (createDelegate cr w)) crs w)" for crs and w :: vworld
      by (induction crs arbitrary: w) (simp_all add: reachable_step [OF dstep.create])
    then show "reachable w \<Longrightarrow> reachable (load_delegates w)" by (simp add: load_delegates_def)
  qed
  show "reachable w \<Longrightarrow> mqtt_event w v \<Longrightarrow> reachable v" for w v :: vworld
    by (erule reachable_step [rotated], erule mqtt_event.cases) (simp_all add: dstep.intros)
  show "reachable w \<Longrightarrow> reachable (on_lay f w)" "reachable w \<Longrightarrow> reachable (notify n w)"
    "reachable w \<Longrightarrow> reachable (w\<lparr>store := (store w)\<lparr>app := a\<rparr>\<rparr>)"
    "reachable w \<Longrightarrow> reachable (w\<lparr>store := (store w)\<lparr>layout := l, local_store := ls\<rparr>\<rparr>)"
    for w :: vworld and f n a l ls
    by (erule reachable_other, simp add: same_delegates_def on_lay_def notify_def)+
  show "reachable w \<Longrightarrow> reachable (case getDelegateById JUndef None w of
      (Some r, v) \<Rightarrow> removeTopic r JUndef v | (None, v) \<Rightarrow> v)" for w :: vworld
    by (rule reachable_with_delegate) (simp_all add: reachable_step [OF dstep.remove])
  show "reachable w \<Longrightarrow> answered w call v \<Longrightarrow> reachable v" for w call v
    by (erule reachable_step [rotated], erule answered.cases)
      (metis fst_conv dstep.pub_called dstep.sub_called dstep.submap_called dstep.unsub_called)+
qed (auto intro: reachable_setConnConfig reachable_selectConnection
  reachable_removeConnection reachable_removeConnectionsByClientId reachable_disconn reachable_use_connect
  reachable_publish reachable_requests reachable_run_call reachable_set_field reachable_next_uuid reachable_uuid_count)

interpretation safe: connection_ops client_inv
proof
  show "client_inv w \<Longrightarrow> (\<And>c. c \<in> call_refs call \<Longrightarrow> known w c) \<Longrightarrow> client_inv (fst (run_call call w))" for w call
    by (auto simp: run_call_def call_refs_def client_inv_published split: option.split ucb.split prod.split)
      (metis client_inv_subscribed fst_conv)+
  show "client_inv w \<Longrightarrow> save_ready forCreate d w \<Longrightarrow> client_inv (fst (handleConnect_save valid forCreate d w))"
    for w :: vworld and valid forCreate d
    using save_usable [of w forCreate d valid] by (cases "handleConnect_save valid forCreate d w") auto
  show "client_inv w \<Longrightarrow> client_inv (load_delegates w)" for w :: vworld
  proof -
    have all: "keeps {} u w \<Longrightarrow> keeps {} u (fold (\<lambda>cr w. snd (createDelegate cr w)) crs w)" for crs and u w :: vworld
      by (induction crs arbitrary: w) (simp_all add: frame)
    show "client_inv w \<Longrightarrow> client_inv (load_delegates w)"
      by (erule client_inv_frame) (simp add: load_delegates_def all frame)
  qed
  show "client_inv w \<Longrightarrow> mqtt_event w v \<Longrightarrow> client_inv v" for w v :: vworld
    by (erule client_inv_frame, erule mqtt_event.cases) (simp_all add: frame)
  show "client_inv w \<Longrightarrow> answered w call v \<Longrightarrow> client_inv v" for w call v
    using answered_keeps [of w call v] by (auto intro: client_inv_frame)
qed ((erule client_inv_frame, (simp add: frame; fail)) |
  (simp add: client_inv_remove client_inv_removeConnectionsByClientId client_inv_select client_inv_replace
    client_inv_requests usable_def; fail))+

section \<open>Properties of the client as a whole\<close>

lemma shared_stubs_placeholders:
  "shared_stubs cs acc = Inr st \<Longrightarrow> list_all (\<lambda>(k, s). \<exists>i. s = SharedStub i \<and> js_str i = k) acc \<Longrightarrow>
    list_all (\<lambda>(k, s). \<exists>i. s = SharedStub i \<and> js_str i = k) st"
proof (induction cs arbitrary: acc)
  case (Cons c cs)
  then obtain i where i: "js_get c ''id'' = Inr i" "shared_stubs cs (oput (js_str i) (SharedStub i) acc) = Inr st"
    by (auto simp: res_bind_eq_Inr)
  have "list_all (\<lambda>(k, s). \<exists>i. s = SharedStub i \<and> js_str i = k) (oput (js_str i) (SharedStub i) acc)"
    using Cons.prems(2) by (induction acc) auto
  from Cons.IH [OF i(2) this] show ?case .
qed simp

lemma start_inv:
  assumes "app_start w"
  shows "client_inv w \<and> reachable w"
proof -
  obtain cs where cs: "mqtt_init (local_store (store w)) = Inr (Some cs, current w, delegateStates (mqtt (store w)))"
      "configs_of w = [0..<length cs]" "map (cfgs w) [0..<length cs] = cs" "next_cfg w = length cs"
      "distinct (map (\<lambda>c. opt_get c ''id'') cs)" "list_all (\<lambda>c. truthy (opt_get c ''id'')) cs"
    and empty: "next_dlgt w = 0" "next_client w = 0" "registry w = []" "pend w = []" "requests w = []"
      "retryTimes (mqtt (store w)) = 0"
    using assms by (auto simp: app_start_def)
  have "conf_id w = (\<lambda>c. opt_get c ''id'') \<circ> cfgs w" by (simp add: conf_id_def fun_eq_iff)
  then have ids: "ids_of w = map (\<lambda>c. opt_get c ''id'') cs"
    by (simp only: ids_of_def cs(2) list.map_comp [symmetric] cs(3))
  have "known w cr" if "cr < length cs" for cr
  proof -
    have "cfgs w cr = cs ! cr" using that cs(3) by (metis nth_map_upt add_0 diff_zero)
    with that cs(4,6) show ?thesis by (simp add: known_def conf_id_def list_all_length)
  qed
  moreover have "current w \<in> set (ids_of w) \<or> \<not> truthy (current w)"
      "list_all (\<lambda>(k, s). \<exists>i. s = SharedStub i \<and> js_str i = k) (delegateStates (mqtt (store w)))"
    using cs(1) shared_stubs_placeholders [of cs "[]"] ids
    by (auto simp: mqtt_init_def res_bind_eq_Inr opt_get_def split: jsval.splits list.splits if_splits)
  ultimately show ?thesis
    using cs(2,5) ids empty by (auto simp: client_inv_def init_def pend_refs_def intro!: reach.start)
qed

interpretation whole: step_invariant app_start app_step "\<lambda>w. client_inv w \<and> reachable w"
  by unfold_locales (use start_inv in \<open>auto intro: safe.app_step_keeps sim.app_step_keeps\<close>)

text \<open>
  C3. The client as a whole refines the state machine of the delegates: whatever the user does in the
  views and whatever events and callbacks the MQTT library delivers in between, every world is one
  the delegates can reach, so that their invariants hold. In particular no message has ever been
  published to a topic with a wildcard.
\<close>

theorem client_refines_delegates:
  assumes "reach app_start app_step w"
  shows "reach init dstep w \<and> winv w \<and>
    (\<forall>c topic p opts. RPublish c topic p opts \<in> set (requests w) \<longrightarrow> topic_wild topic = Inr False)"
proof -
  have "reachable w" using whole.reach_inv [OF assms] by blast
  moreover from this have "winv w" by (rule reachable_winv)
  moreover from this have "\<forall>q\<in>set (requests w). request_ok q" by (simp add: winv_parts)
  ultimately show ?thesis by fastforce
qed

lemma selected_listed:
  assumes inv: "client_inv w" and that: "selectedConn w = Some (c, sh)"
  shows "\<exists>cr. c = Some cr \<and> cr \<in> set (configs_of w) \<and> conf_id w cr = currentConnId (mqtt (store w))"
proof -
  have c: "c = getConnConfig (current w) w" "current w \<in> set (ids_of w)"
    using that inv by (auto simp: selectedConn_def Let_def client_inv_def current_def split: if_splits)
  then obtain cr where "getConnConfig (current w) w = Some cr"
    by (cases "getConnConfig (current w) w") (auto simp: getConnConfig_def find_None_iff ids_of_def)
  with c find_SomeD [of "\<lambda>cr. conf_id w cr = current w" "configs_of w"] show ?thesis
    by (auto simp: getConnConfig_def current_def)
qed

lemma listed_usable: "client_inv w \<Longrightarrow> cr \<in> set (configs_of w) \<Longrightarrow> usable w cr"
  by (simp add: usable_def client_inv_def ids_of_def)


text \<open>What the callbacks of a connection do to the list of configurations.\<close>

lemma run_call_ids:
  assumes "client_inv w" and "\<And>c. c \<in> call_refs call \<Longrightarrow> known w c"
  shows "ids_of (fst (run_call call w)) = ids_of w \<and> current (fst (run_call call w)) = current w"
proof -
  let ?same = "\<lambda>v. ids_of v = ids_of w \<and> current v = current w"
  have same: "?same v" if "keeps {} w v" for v
    using keeps_ids [OF that] that by (simp add: keeps_def)
  have saved: "?same (setConnConfig (conf_id v cr) cr v)" if "known w cr" "keeps {} w v" for cr v
    using same [OF that(2)] replace_frame [of v cr] keeps_known [OF that(2)] that(1) by simp
  have subs: "?same (fst (subscribed cr topic opts multiple configs w))" if "known w cr" for cr topic opts multiple configs
    by (rule subscribed_saves [where Q = ?same]) (rule same, assumption, rule saved [OF that])
  have pubs: "?same (published cr qos retain w)" if "known w cr" for cr qos retain
    by (rule published_saves [OF assms(1) that, of qos retain]) (simp add: replace_frame)
  show ?thesis
  proof (cases call)
    case (Some c)
    obtain u err where c: "c = (u, err)" by fastforce
    show ?thesis
    proof (cases u)
      case (USubscribe cr topic opts multiple configs cb)
      then have "known w cr" using assms(2) [of cr] Some c by (simp add: call_refs_def)
      from subs [OF this, of topic opts multiple configs] Some c USubscribe show ?thesis
        by (cases "subscribed cr topic opts multiple configs w") (auto simp: run_call_def split: option.split)
    next
      case (UPublish cr qos retain cb)
      then have "known w cr" using assms(2) [of cr] Some c by (simp add: call_refs_def)
      from pubs [OF this] Some c UPublish show ?thesis by (simp add: run_call_def split: option.split)
    qed (use Some c in \<open>simp add: run_call_def\<close>)
  qed (simp add: run_call_def)
qed

lemma run_view_call_keeps_ids: "keeps {} u w \<Longrightarrow> keeps {} u (run_view_call k w)"
  by (auto simp: run_view_call_def frame split: option.split vcb.split prod.split)

lemma finish_ids:
  assumes "client_inv w" and "\<And>c. c \<in> call_refs call \<Longrightarrow> known w c"
  shows "ids_of (finish call w) = ids_of w \<and> current (finish call w) = current w"
proof -
  obtain v k e where v: "run_call call w = (v, k, e)" by (cases "run_call call w") auto
  have "keeps {} v (run_view_call k v)" by (simp add: run_view_call_keeps_ids frame)
  from keeps_ids [OF this] this run_call_ids [OF assms, of call] v show ?thesis by (simp add: finish_def keeps_def)
qed


section \<open>A page that is loaded and connected\<close>

definition demo_page :: vworld where
  "demo_page = demo_editing\<lparr>cfgs := (\<lambda>_. demo_conf), store := demo_store\<lparr>
     mqtt := (mqtt demo_store)\<lparr>currentConnId := JStr ''c1'', delegateStates := [(''c1'', SharedStub (JStr ''c1''))]\<rparr>,
     local_store := storeConnections (JArr [demo_conf]) (local_store demo_store)\<rparr>\<rparr>"

definition demo_ready :: vworld where
  "demo_ready = load_delegates demo_page"

definition demo_connecting :: vworld where
  "demo_connecting = handleOpt ''connect'' demo_ready"

lemma demo_page_start: "app_start demo_page"
proof -
  have "restoreConnections (local_store (store demo_page)) = JArr [demo_conf]"
    using restore_stored [of "[demo_conf]" "local_store demo_store"]
    by (simp add: demo_page_def demo_conf_def wf_obj_def)
  then have "mqtt_init (local_store (store demo_page)) =
      Inr (Some [demo_conf], JStr ''c1'', [(''c1'', SharedStub (JStr ''c1''))])"
    by (simp add: mqtt_init_def demo_conf_def)
  then show ?thesis
    by (auto simp: app_start_def demo_page_def demo_editing_def demo_store_def current_def configs_of_def
      demo_conf_def intro!: exI [of _ "[demo_conf]"])
qed

lemma demo_ready_simps:
  "store demo_ready = store demo_page" "cfgs demo_ready = (\<lambda>_. demo_conf)" "registry demo_ready = [(''c1'', 0)]"
  "d_client (dlgts demo_ready 0) = None" "next_client demo_ready = 0"
  by (simp_all add: demo_ready_def load_delegates_def demo_page_def demo_store_def createDelegate_def
    deleteDelegateById_def new_delegate_def demo_editing_def demo_conf_def Let_def)

lemma demo_ready_selected:
  "current demo_ready = JStr ''c1''" "configs_of demo_ready = [0]" "conf_id demo_ready 0 = JStr ''c1''"
  "connecting (mqtt (store demo_ready)) = False"
  by (simp_all add: demo_ready_simps current_def demo_page_def demo_store_def configs_of_def conf_id_def demo_conf_def)

lemma demo_connecting_eq: "demo_connecting = fst (connect 0 0 '''' demo_ready)"
  using demo_ready_selected
  by (simp add: demo_connecting_def handleOpt_def selectedConn_def getConnConfig_def use_connect_def current_def
    getDelegateById_def demo_ready_simps Let_def)

lemma demo_connecting_client: "next_client demo_connecting = 1"
proof -
  obtain url options where "createClient (autoResub (mqtt (store demo_page)))
      (clock demo_ready div 1000 * 1000) demo_conf = Inr (url, options)" using demo_createClient by blast
  then show ?thesis
    by (simp add: demo_connecting_eq connect_def disconnect_def start_connect_def demo_ready_simps Let_def upd_d_def
      on_mqtt_def setConnecting_def)
qed

lemma demo_connecting_keeps: "keeps {} demo_ready demo_connecting"
  by (simp add: demo_connecting_eq frame)

lemma demo_connecting_reach: "reach app_start app_step demo_connecting"
proof -
  have "reach app_start app_step demo_page" by (rule reach.start) (rule demo_page_start)
  then have "reach app_start app_step demo_ready" unfolding demo_ready_def by (rule reach.step) (rule app_step.load)
  then show ?thesis
    unfolding demo_connecting_def by (rule reach.step) (rule app_step.view, rule view_step.opt)
qed

theorem client_refines_delegates_witness: "winv demo_connecting"
  using client_refines_delegates [OF demo_connecting_reach] by simp



lemma demo_ready_reach: "reach app_start app_step demo_ready"
proof -
  have "app_step demo_page demo_ready" unfolding demo_ready_def by (rule app_step.load)
  with demo_page_start show ?thesis by (rule reach.step [OF reach.start])
qed

end
