(* ===== verification/ListSteps.thy ===== *)
theory ListSteps
  imports ListPages App
begin

text \<open>
  Using the list view: what each message of its templates does, the steps of the view, and what holds
  of it. The rows whose deletion was confirmed are kept until the answer to the request.
\<close>

section \<open>What the messages do\<close>

record list_page =
  lp_world :: vworld
  lp_state :: list_state
  lp_editor :: "string option"
  lp_withId :: bool
  lp_viewer :: object_viewer
  lp_deleting :: "js list"
  lp_route :: "string option"

text \<open>Which table is mounted; another one starts without a viewer. The editor follows the query.\<close>

definition table_shown :: "list_state \<Rightarrow> bool option" where
  "table_shown s = (if list_active s \<and> \<not> l_focused s then Some (l_isSelectAll s) else None)"

definition with_list :: "(list_state \<Rightarrow> list_state) \<Rightarrow> list_page \<Rightarrow> list_page" where
  "with_list f p = (let s = lp_state p; t = f s; same = (table_shown t = table_shown s) in
     p\<lparr>lp_state := t, lp_editor := editor_follows (l_query s) (l_query t) (lp_editor p),
       lp_withId := (if same then fst (table_columns (l_list t) (lp_withId p)) else True),
       lp_viewer := (if same then lp_viewer p else viewer_closed)\<rparr>)"

definition open_row :: "js \<Rightarrow> list_page \<Rightarrow> list_page" where
  "open_row row p = (let w = lp_world p; v = \<lparr>sp_selected = JUndef, sp_app = app (store w), sp_asked = []\<rparr>;
     (route, v) = (if l_isSelectAll (lp_state p) then standard_viewThing row v else custom_viewThing row v)
     in p\<lparr>lp_world := w\<lparr>store := (store w)\<lparr>app := sp_app v\<rparr>\<rparr>,
       lp_route := (case route of None \<Rightarrow> lp_route p | Some r \<Rightarrow> Some r)\<rparr>)"

fun table_perform :: "table_msg \<Rightarrow> list_page \<Rightarrow> list_page" where
  "table_perform (OpenRow row) p = open_row row p"
| "table_perform (ViewCell v label) p = p\<lparr>lp_viewer := viewObject v label False (lp_viewer p)\<rparr>"
| "table_perform (ViewRow row) p = p\<lparr>lp_viewer := viewObject row ''Raw Data'' True (lp_viewer p)\<rparr>"
| "table_perform (DeleteRow row ConfirmDelete) p =
     (if truthy (opt_get row ''thingId'') then p\<lparr>lp_deleting := lp_deleting p @ [row]\<rparr> else p)"
| "table_perform (DeleteRow row CancelDelete) p = p"
| "table_perform (InTableViewer CloseView) p = p\<lparr>lp_viewer := handleCloseViewer (lp_viewer p)\<rparr>"
| "table_perform (InTableViewer (Compare b)) p = p"

text \<open>The page component emits numbers only.\<close>

definition page_number :: "js \<Rightarrow> int" where
  "page_number x = (case x of JNum n \<Rightarrow> n | _ \<Rightarrow> 1)"

fun list_perform :: "list_msg \<Rightarrow> list_page \<Rightarrow> list_page" where
  "list_perform (FocusEditor x) p = with_list (\<lambda>s. s\<lparr>l_focused := truthy x\<rparr>) p"
| "list_perform OpenQueryDoc p = p"
| "list_perform ResetQuery p = with_list handleClear p"
| "list_perform RunQuery p = with_list (handleSearch (lp_editor p)) p"
| "list_perform HideSuggestions p = with_list (\<lambda>s. s\<lparr>l_focused := False\<rparr>) p"
| "list_perform (PickSuggestion g) p = with_list (handleSelect (lp_editor p) g) p"
| "list_perform (InThings (ToPage x)) p = with_list (handlePageIndexChange (page_number x)) p"
| "list_perform (InThings (SetPageSize x)) p = with_list (handlePageSizeChange (page_number x)) p"
| "list_perform (InThings (InTable m)) p = table_perform m p"

section \<open>Steps\<close>

definition delete_answered :: "nat \<Rightarrow> js res \<Rightarrow> list_page \<Rightarrow> list_page" where
  "delete_answered i ans p = p\<lparr>lp_world := table_deleteThing (lp_deleting p ! i) ans (lp_world p),
     lp_deleting := take i (lp_deleting p) @ drop (Suc i) (lp_deleting p)\<rparr>"

inductive list_page_step :: "list_page \<Rightarrow> list_page \<Rightarrow> bool" where
  use: "does (list_view fmt (lp_state p) (lp_withId p) (lp_viewer p)) ms \<Longrightarrow> list_page_step p (fold list_perform ms p)"
| editor_ready: "lp_editor p = None \<Longrightarrow> list_page_step p (p\<lparr>lp_editor := Some (trim (l_query (lp_state p)))\<rparr>)"
| typed: "lp_editor p = Some s \<Longrightarrow> list_page_step p (p\<lparr>lp_editor := Some t\<rparr>)"
| answered: "list_page_step p (with_list (fetch_answered ans) p)"
| deleted: "i < length (lp_deleting p) \<Longrightarrow> list_page_step p (delete_answered i ans p)"
| tag_changed: "list_page_step p (with_list list_refresh p)"
| thing_event: "list_page_step p (with_list (list_on_event t type) p)"
| elsewhere: "app_step (lp_world p) w \<Longrightarrow> list_page_step p (p\<lparr>lp_world := w\<rparr>)"

definition list_page_start :: "list_page \<Rightarrow> bool" where
  "list_page_start p \<longleftrightarrow> reach app_start app_step (lp_world p) \<and> lp_state p = list_init \<and> lp_editor p = None \<and>
     lp_withId p \<and> lp_viewer p = viewer_closed \<and> lp_deleting p = [] \<and> lp_route p = None"

section \<open>The list view refines the list and the client\<close>

definition list_moves :: "list_page \<Rightarrow> list_page \<Rightarrow> bool" where
  "list_moves p q \<longleftrightarrow> (lp_state q = lp_state p \<or> list_step (lp_state p) (lp_state q)) \<and>
     (lp_world q = lp_world p \<or> view_step (lp_world p) (lp_world q))"

lemma list_moves_same [simp]: "list_moves p p"
  by (simp add: list_moves_def)

lemma with_list_simps [simp]: "lp_state (with_list f p) = f (lp_state p)" "lp_world (with_list f p) = lp_world p"
  by (simp_all add: with_list_def Let_def)

lemma open_row_moves: "list_moves p (open_row row p)"
  by (simp add: open_row_def list_moves_def Let_def view_step.things split: prod.split)

lemma table_moves: "list_moves p (table_perform m p)"
proof (cases "(m, p)" rule: table_perform.cases)
  case (1 row q)
  then show ?thesis by (simp add: open_row_moves)
qed (simp_all add: list_moves_def)

lemma list_perform_moves: "list_moves p (list_perform m p)"
proof (cases "(m, p)" rule: list_perform.cases)
  case (9 k q)
  then show ?thesis by (simp add: table_moves)
qed (simp_all add: list_moves_def list_step.intros)

lemma list_uses_move: "list_step\<^sup>*\<^sup>* (lp_state p) (lp_state (fold list_perform ms p))"
proof (induction ms arbitrary: p)
  case (Cons m ms)
  have "list_step\<^sup>*\<^sup>* (lp_state p) (lp_state (list_perform m p))"
    using list_perform_moves [of p m] by (auto simp: list_moves_def)
  with Cons [of "list_perform m p"] show ?case by simp
qed simp

lemma client_uses_move: "app_step\<^sup>*\<^sup>* (lp_world p) (lp_world (fold list_perform ms p))"
proof (induction ms arbitrary: p)
  case (Cons m ms)
  have "app_step\<^sup>*\<^sup>* (lp_world p) (lp_world (list_perform m p))"
    using list_perform_moves [of p m] by (auto simp: list_moves_def intro: app_step.view)
  with Cons [of "list_perform m p"] show ?case by simp
qed simp

interpretation list_sim: safe_simulation list_page_start list_page_step "\<lambda>s. s = list_init" list_step lp_state list_inv
proof unfold_locales
  show "reach (\<lambda>s. s = list_init) list_step (lp_state p)" if "list_page_start p" for p
    using that by (simp add: list_page_start_def reach.start)
  show "list_step\<^sup>*\<^sup>* (lp_state p) (lp_state q)" if "list_page_step p q" for p q
    using that by cases (auto simp: list_uses_move delete_answered_def intro: list_step.intros)
qed

lemma list_page_step_moves:
  assumes "list_page_step p q"
  shows "app_step\<^sup>*\<^sup>* (lp_world p) (lp_world q)"
  using assms
proof cases
  case (deleted i ans)
  have "view_step (lp_world p) (table_deleteThing (lp_deleting p ! i) ans (lp_world p))" by (rule view_step.delete_thing)
  with deleted show ?thesis by (auto simp: delete_answered_def intro: app_step.view)
qed (auto simp: client_uses_move)

interpretation client_sim: safe_simulation list_page_start list_page_step app_start app_step lp_world "\<lambda>w. client_inv w \<and> reachable w"
  by unfold_locales (auto simp: list_page_start_def list_page_step_moves)


section \<open>The suggestions\<close>

lemma suggestion_alone:
  assumes "does (list_view fmt s withId v) ms" and "PickSuggestion g \<in> set ms"
  shows "ms = [PickSuggestion g] \<and> l_focused s"
proof -
  let ?P = "\<lambda>ms. PickSuggestion g \<in> set ms \<longrightarrow> ms = [PickSuggestion g] \<and> l_focused s"
  have "(\<lambda>ms. ?P (map InThings ms)) = (\<lambda>_. True)" by (auto simp: fun_eq_iff)
  then have "all_do False ?P (list_view fmt s withId v)"
    by (auto simp: all_do_list) (simp add: all_do_def all_clicks_def all_inputs_def)
  from all_doD [OF this assms(1)] assms(2) show ?thesis by blast
qed

text \<open>
  Picking a suggestion that is to be completed by hand puts it into the query and leaves the
  suggestions open while nothing is listed: the click does not reach the panel around the
  suggestion, whose listener would hide them.
\<close>

theorem suggestions_stay_open:
  assumes "does (list_view fmt (lp_state p) (lp_withId p) (lp_viewer p)) ms" and "PickSuggestion g \<in> set ms"
    and "\<not> sg_autoTrigger g" and "l_total (lp_state p) = 0"
  shows "lp_state (fold list_perform ms p) = (lp_state p)\<lparr>l_query := sg_value g\<rparr> \<and>
    l_focused (lp_state (fold list_perform ms p))"
  using suggestion_alone [OF assms(1,2)] assms(3,4) by (simp add: handleSelect_def)

text \<open>
  What is typed survives a reset and a suggestion that equal the query already: the watcher of the
  editor sees no change, so the search that the suggestion triggers runs what was typed instead.
\<close>

lemma typed_survives:
  assumes "lp_editor p = Some t" and "l_query (lp_state p) = placeholder" and "trim (trim t) \<noteq> ''''"
  shows "lp_editor (list_perform ResetQuery p) = Some t"
    and "l_params_query (lp_state (list_perform (PickSuggestion (query_suggestions ! 0)) p)) = trim (trim t)"
proof -
  show "lp_editor (list_perform ResetQuery p) = Some t"
    using assms by (simp add: with_list_def Let_def handleClear_def list_reset_def editor_follows_def)
  have "sg_autoTrigger (query_suggestions ! 0)" "sg_value (query_suggestions ! 0) = placeholder"
    by (simp_all add: query_suggestions_def placeholder_def)
  then show "l_params_query (lp_state (list_perform (PickSuggestion (query_suggestions ! 0)) p)) = trim (trim t)"
    using assms by (simp add: handleSelect_def editor_follows_def handleSearch_def fetch_start_def Let_def)
qed

section \<open>Deleting\<close>


section \<open>A list in use\<close>

definition demo_list :: list_page where
  "demo_list = \<lparr>lp_world = demo_ready, lp_state = list_init, lp_editor = None, lp_withId = True, lp_viewer = viewer_closed,
     lp_deleting = [], lp_route = None\<rparr>"

definition demo_focused :: list_page where
  "demo_focused = list_perform (FocusEditor (JBool True)) demo_list"

lemma demo_list_idle: "\<not> l_querying (lp_state demo_list)" "\<not> l_querying (lp_state demo_focused)" "l_focused (lp_state demo_focused)"
    "l_total (lp_state demo_focused) = 0"
  by (simp_all add: demo_focused_def demo_list_def list_init_def)

lemma demo_focused_reach: "reach list_page_start list_page_step demo_focused"
proof -
  have "reach list_page_start list_page_step demo_list"
    by (intro reach.start) (simp add: list_page_start_def demo_list_def demo_ready_reach)
  moreover have "does (list_view (\<lambda>_. '''') (lp_state demo_list) (lp_withId demo_list) (lp_viewer demo_list)) [FocusEditor (JBool True)]"
    using demo_list_idle by (simp add: does_iff all_do_list)
  then have "list_page_step demo_list (fold list_perform [FocusEditor (JBool True)] demo_list)" by (rule list_page_step.use)
  ultimately show ?thesis by (auto simp: demo_focused_def intro: reach.step)
qed


theorem suggestions_stay_open_witness:
  "l_focused (lp_state (fold list_perform [PickSuggestion (query_suggestions ! 7)] demo_focused))"
proof -
  let ?g = "query_suggestions ! 7"
  have g: "?g \<in> set query_suggestions" "\<not> sg_autoTrigger ?g" by (simp_all add: query_suggestions_def)
  then have "does (list_view (\<lambda>_. '''') (lp_state demo_focused) (lp_withId demo_focused) (lp_viewer demo_focused)) [PickSuggestion ?g]"
    using demo_list_idle by (auto simp: does_iff all_do_list)
  from suggestions_stay_open [OF this _ g(2) demo_list_idle(4)] show ?thesis by auto
qed

end
