(* ===== verification/ThingPages.thy ===== *)
theory ThingPages
  imports ConnPages
begin

text \<open>
  The templates of the detail view of a thing (\<open>Thing.vue\<close>): its MQTT clients
  (\<open>MqttClientsOfThing.vue\<close>), the tags of its shadow (\<open>ShadowTags.vue\<close>), the shadow itself with the
  viewers and the dialog that sets the reported state (\<open>ShadowData.vue\<close>,
  \<open>MqttPublishForThingView.vue\<close>), and the form that sends an HTTP request (\<open>HttpPoster.vue\<close>).
\<close>

section \<open>The clients of the thing\<close>

datatype thing_clients_msg =
    Unfold js
  | DisconnectClient cref
  | ConnectClient cref
  | SubscribeAllOf cref sub_map
  | UnsubscribeAllOf cref sub_map
  | ShowToolPanel cref
  | CreateClient

text \<open>The content of an item; the library shows it for the unfolded item only.\<close>

definition thing_client_content :: "thing_client \<Rightarrow> thing_clients_msg node" where
  "thing_client_content c = (let up = tc_connected c in box ''div'' [
     if up then button [] (DisconnectClient (tc_config c)) ''Disconnect''
     else button [] (ConnectClient (tc_config c)) ''Connect and Subscribe'',
     Element ''el-button'' [(''disabled'', JBool True)] [] [box ''span'' [lit ''Subscription''],
       box ''span'' [lit (subscription_stats (tc_subs c) (tc_subscriptions c))]],
     button [(''disabled'', JBool (\<not> up))] (SubscribeAllOf (tc_config c) (tc_subs c)) ''Subs All'',
     button [(''disabled'', JBool (\<not> up))] (UnsubscribeAllOf (tc_config c) (tc_subs c)) ''Unsub All'',
     Element ''el-badge'' [(''value'', JNum (tc_unread c)), (''max'', JNum 999), (''hidden'', JBool (tc_unread c = 0))] []
       [button [] (ShowToolPanel (tc_config c)) ''Show in tool-panel'']])"

definition thing_client_item :: "'cb world \<Rightarrow> js \<Rightarrow> thing_client \<Rightarrow> thing_clients_msg node" where
  "thing_client_item w activeName c = (let conf = cfgs w (tc_config c); i = opt_get conf ''id'' in
     Element ''el-collapse-item'' [(''name'', i)] [] ([
       Element ''div'' [(''connected'', JBool (tc_connected c))] [] [box ''el-icon'' [box ''SwitchButton'' []],
         Element ''el-tooltip'' [(''content'', opt_get conf ''name'')] [] [box ''span'' [Say (opt_get conf ''name'')]]]] @
       (if activeName = i then [thing_client_content c] else [])))"

definition thing_clients_view :: "'cb world \<Rightarrow> thing_clients \<Rightarrow> thing_clients_msg node list" where
  "thing_clients_view w v = [box ''div'' [box ''div'' [lit ''MQTT Clients of Thing''],
     if th_clients v \<noteq> [] then bound ''el-collapse'' [(''accordion'', JBool True)] (th_activeName v) Unfold
       (map (thing_client_item w (th_activeName v)) (th_clients v))
     else Element ''el-tooltip'' [(''content'', JStr (''Click to create and connect a mqtt client for this thing, '' @
         ''and subscribe all suggested topics.''))] [] [button [] CreateClient ''Create Client'']]]"

section \<open>The tags\<close>

datatype tags_msg = ViewTags | AskTags | CloseTag tag | ViewTag tag | InTagViewer viewer_msg

definition tag_view :: "tag \<Rightarrow> tags_msg node" where
  "tag_view t = Element ''el-tag''
     [(''type'', JStr (if tag_type t = ''warning'' then '''' else tag_type t)), (''closable'', JBool True)]
     [Emitted ''close'' (\<lambda>_. CloseTag t)] [
     box ''div'' [lit (tag_key t)],
     box ''div'' [if tag_type t = ''warning'' then button [] (ViewTag t) ''[Object]'' else box ''span'' [Say (tag_value t)]]]"

definition tags_view :: "js \<Rightarrow> tag list \<Rightarrow> object_viewer \<Rightarrow> tags_msg node list" where
  "tags_view data tags v = [box ''el-card'' [
     box ''div'' [box ''span'' [lit ''Shadow Tags '', box ''el-tag''
         [lit ''Tag color show as blue while the value is not a string, or as gray.'']],
       box ''div'' ((if truthy data then [button [] ViewTags ''View Raw''] else []) @ [button [] AskTags ''Set Tags''])],
     if tags \<noteq> [] then box ''div'' (map tag_view tags)
     else box ''div'' [box ''p'' [lit ''No tags right now.''], button [] AskTags ''Add Some Now'']],
   box ''ObjectViewer'' (map (map_node InTagViewer) (object_viewer_view (truthy (ov_object v)) (ov_title v) True
     (viewer_content True (ov_title v) (ov_object v) '''')))]"

section \<open>The shadow\<close>

datatype report_msg = CloseReport | InReport publish_msg

definition report_view ::
  "js \<Rightarrow> shadow_data \<Rightarrow> publish_form \<Rightarrow> js obj \<Rightarrow> kv_row list \<Rightarrow> report_msg node list" where
  "report_view config v f metaForm metaRows = [Element ''el-dialog''
     [(''model-value'', JBool (sd_publishShown v)), (''title'', JStr (sd_title v))] [Emitted ''close'' (\<lambda>_. CloseReport)]
     [box ''div'' [Element ''MqttPublish'' [(''conn-config'', config), (''topic'', JStr (sd_topic v)),
        (''payload'', JStr (sd_payload v)), (''paytype'', JStr (sd_paytype v))] []
        (map (map_node InReport) (publish_view config (JStr (sd_topic v)) (JStr (sd_paytype v)) f metaForm metaRows))]]]"

datatype shadow_msg =
    TreeMode js
  | CompareState
  | CheckDelta
  | CallApi string
  | SetReported
  | InObject viewer_msg
  | InState viewer_msg
  | InReportForm report_msg

definition shadow_head :: "bool \<Rightarrow> shadow_msg node" where
  "shadow_head tree = box ''div'' [box ''span'' [lit ''Shadow Data ''], box ''div'' [
     bound ''el-switch'' [(''active-text'', JStr ''Tree''), (''inactive-text'', JStr ''Text'')] (JBool tree) TreeMode [],
     box ''el-divider'' [], button [] CompareState ''Compare State'', button [] CheckDelta ''Check Delta'',
     box ''el-divider'' [], button [] (CallApi ''desire'') ''Set Desired'', button [] SetReported ''Set Reported'']]"

definition shadow_data_view :: "bool \<Rightarrow> js \<Rightarrow> shadow_data \<Rightarrow> state_viewer \<Rightarrow> shadow_msg node list" where
  "shadow_data_view tree shadow v sv = (let ov = sd_viewer v in [
     box ''el-card'' [shadow_head tree, box ''div'' [Element ''JSONEditor'' [(''mode'', JStr (if tree then ''tree'' else ''text'')),
       (''model-value'', opt_text (json_stringify shadow)), (''read-only'', JBool True)] [] []]],
     box ''ObjectViewer'' (map (map_node InObject) (object_viewer_view (truthy (ov_object ov)) (ov_title ov) (ov_tree ov)
       (viewer_content True (ov_title ov) (ov_object ov) ''''))),
     box ''StateViewer'' (map (map_node InState) (state_viewer_view (truthy (sd_selectedState v)) (ov_title ov) sv))])"

section \<open>The form of an HTTP request\<close>

datatype poster_msg =
    ClosePoster
  | SubmitPoster
  | OpenDoc
  | PosterField string js
  | PosterHeaders kv_msg
  | PosterBody js
  | PosterError js

definition poster_item :: "js obj \<Rightarrow> js obj \<Rightarrow> string \<Rightarrow> string \<Rightarrow> poster_msg node" where
  "poster_item form as name key = Element ''el-form-item'' [(''label'', JStr name), (''prop'', JStr key)] []
     [bound ''el-input'' as (oget form key) (PosterField key) []]"

definition method_options :: "'m node list" where
  "method_options = map (\<lambda>(l, v). Element ''el-option'' [(''label'', JStr l), (''value'', JStr v)] [] [])
     [(''POST'', ''post''), (''GET'', ''get''), (''PUT'', ''put''), (''DELETE'', ''delete'')]"

definition poster_fields :: "js \<Rightarrow> poster \<Rightarrow> kv_row list \<Rightarrow> bool \<Rightarrow> poster_msg node list" where
  "poster_fields payload p rows jsonError = (let form = po_form p; given = truthy payload; off = [(''disabled'', JBool True)] in [
     poster_item form off ''API'' ''api'',
     Element ''el-icon'' [] [Clicked OpenDoc] [box ''Link'' []],
     Element ''el-form-item'' [(''label'', JStr ''METHOD''), (''prop'', JStr ''method'')] []
       [bound ''el-select'' off (oget form ''method'') (PosterField ''method'') method_options],
     poster_item form off ''Url'' ''url'',
     poster_item form [(''disabled'', JBool given)] ''Thing Id'' ''id'',
     box ''el-col'' (map (\<lambda>param. poster_item form [] (ap_label param) (ap_key param)) (po_params p)),
     Element ''el-form-item'' [(''label'', JStr ''Headers''), (''prop'', JStr ''headers'')] []
       [Element ''KeyValueEditor'' [(''title'', JStr ''''), (''disabled'', JBool given)] []
          (map (map_node PosterHeaders) (kv_view '''' given rows))],
     Element ''el-form-item'' [(''label'', JStr ''Body''), (''prop'', JStr ''body'')] []
       [Element ''JSONEditor'' [(''model-value'', oget form ''body''), (''has-error'', JBool jsonError), (''read-only'', JBool given)]
          [Emitted ''update:modelValue'' PosterBody, Emitted ''update:has-error'' PosterError] []]])"

definition poster_view :: "string \<Rightarrow> js \<Rightarrow> poster \<Rightarrow> kv_row list \<Rightarrow> bool \<Rightarrow> poster_msg node list" where
  "poster_view code payload p rows jsonError = [Element ''el-drawer'' [(''model-value'', JBool (code \<noteq> '''')),
     (''title'', JStr (case po_api p of Some a \<Rightarrow> api_name a | None \<Rightarrow> ''HTTP Poster''))] [Emitted ''close'' (\<lambda>_. ClosePoster)] [
     box ''div'' [button [(''disabled'', JBool jsonError), (''loading'', JBool (po_submitting p))] SubmitPoster ''Submit''],
     Element ''el-form'' [(''v-loading'', if po_submitting p then JObj [(''text'', JStr ''Submitting...'')] else JBool False)] []
       (poster_fields payload p rows jsonError),
     Element ''el-card'' [(''header'', JStr ''Response''), (''is-error'', JBool (po_isError p))] []
       [Element ''JSONEditor'' [(''model-value'', JStr (po_result p)), (''read-only'', JBool True), (''mode'', JStr ''tree'')] [] []]]]"

section \<open>The detail view\<close>

record thing_page =
  tp_world :: vworld
  tp_thingId :: js
  tp_shadow :: js
  tp_thing :: "js obj"
  tp_shownPass :: "string \<Rightarrow> bool"
  tp_clients :: thing_clients
  tp_tags :: "tag list"
  tp_tagViewer :: object_viewer
  tp_tree :: bool
  tp_data :: shadow_data
  tp_state :: state_viewer
  tp_report :: publish_form
  tp_meta :: "js obj"
  tp_metaRows :: "kv_row list"
  tp_code :: string
  tp_payload :: js
  tp_poster :: poster
  tp_rows :: "kv_row list"
  tp_jsonError :: bool
  tp_globalVisible :: bool
  tp_asked :: "set_reported option"
  tp_sent :: "poster_request list"
  tp_fromList :: bool
  tp_route :: "back_target option"

datatype thing_msg =
    BackToList
  | RequestMethod
  | ReloadThing
  | InFields "string \<times> pass_msg"
  | InClients thing_clients_msg
  | InTags tags_msg
  | InShadow shadow_msg
  | InPoster poster_msg

definition thing_left :: "(js \<Rightarrow> string \<Rightarrow> string) \<Rightarrow> thing_page \<Rightarrow> thing_msg node" where
  "thing_left fmt p = box ''div'' [
     box ''div'' [button [] BackToList ''Back to List''],
     box ''div'' [
       box ''KeyValueDisplayer'' (map (map_node InFields) (displayer_view fmt (tp_shownPass p) (tp_thing p) metaFields)),
       button [] RequestMethod ''Request Direct Method'',
       button [] ReloadThing (''Reload Thing'' @ [CHR 0x27] @ ''s Data''),
       box ''MqttClients'' (map (map_node InClients) (thing_clients_view (tp_world p) (tp_clients p)))]]"

definition thing_right :: "(js \<Rightarrow> string \<Rightarrow> string) \<Rightarrow> thing_page \<Rightarrow> thing_msg node" where
  "thing_right fmt p = box ''div'' [
     Element ''ShadowProps'' [(''shadow'', tp_shadow p)] [] (shadow_props_view fmt (tp_shadow p)),
     Element ''ShadowTags'' [(''data'', opt_get (tp_shadow p) ''tags'')] []
       (map (map_node InTags) (tags_view (opt_get (tp_shadow p) ''tags'') (tp_tags p) (tp_tagViewer p))),
     box ''ShadowData'' (map (map_node InShadow) (shadow_data_view (tp_tree p) (tp_shadow p) (tp_data p) (tp_state p) @
       map (map_node InReportForm) (report_view (conf_value (tp_world p) (sd_conn (tp_data p))) (tp_data p)
         (tp_report p) (tp_meta p) (tp_metaRows p))))]"

definition thing_view :: "(js \<Rightarrow> string \<Rightarrow> string) \<Rightarrow> thing_page \<Rightarrow> thing_msg node list" where
  "thing_view fmt p = [box ''div'' [thing_left fmt p, thing_right fmt p],
     Element ''HttpPoster'' [(''code'', JStr (tp_code p)), (''thing-id'', tp_thingId p), (''payload'', tp_payload p)] []
       (map (map_node InPoster) (poster_view (tp_code p) (tp_payload p) (tp_poster p) (tp_rows p) (tp_jsonError p)))]"

section \<open>What can be done with the view\<close>

lemma all_do_object_viewer: "all_do b P (object_viewer_view visible type asTree content) \<longleftrightarrow> (visible \<longrightarrow> P [CloseView])"
  by (auto simp: object_viewer_view_def page_eval)

lemma all_do_state_viewer: "all_do b P (state_viewer_view visible type v) \<longleftrightarrow>
    (visible \<longrightarrow> P [CloseView] \<and> (type \<noteq> ''both'' \<longrightarrow> P [Compare (\<not> sv_comparing v)]))"
  by (auto simp: state_viewer_view_def page_eval)

lemma all_do_tags: "all_do False P (tags_view data tags v) \<longleftrightarrow> P [AskTags] \<and> (truthy data \<longrightarrow> P [ViewTags]) \<and>
    (\<forall>t\<in>set tags. P [CloseTag t] \<and> (tag_type t = ''warning'' \<longrightarrow> P [ViewTag t])) \<and>
    (truthy (ov_object v) \<longrightarrow> P [InTagViewer CloseView])"
proof -
  have "all_do False P [tag_view t] \<longleftrightarrow> P [CloseTag t] \<and> (tag_type t = ''warning'' \<longrightarrow> P [ViewTag t])" for t
    by (auto simp: tag_view_def page_eval)
  then show ?thesis by (auto simp: tags_view_def page_eval all_do_object_viewer)
qed

lemma all_do_shadow_data: "all_do False P (shadow_data_view tree shadow v sv) \<longleftrightarrow> (\<forall>x. P [TreeMode (JBool x)]) \<and>
    P [CompareState] \<and> P [CheckDelta] \<and> P [CallApi ''desire''] \<and> P [SetReported] \<and>
    (truthy (ov_object (sd_viewer v)) \<longrightarrow> P [InObject CloseView]) \<and>
    (truthy (sd_selectedState v) \<longrightarrow> P [InState CloseView] \<and>
      (ov_title (sd_viewer v) \<noteq> ''both'' \<longrightarrow> P [InState (Compare (\<not> sv_comparing sv))]))"
  by (auto simp: shadow_data_view_def shadow_head_def page_eval all_do_object_viewer all_do_state_viewer Let_def simp del: admits.simps)

lemma all_do_report: "all_do b P (report_view config v f form rows) \<longleftrightarrow> (sd_publishShown v \<longrightarrow> P [CloseReport] \<and>
    all_do False (\<lambda>ms. P (map InReport ms)) (publish_view config (JStr (sd_topic v)) (JStr (sd_paytype v)) f form rows))"
  by (auto simp: report_view_def page_eval)

lemma all_do_poster_fields: "all_do b P (poster_fields payload p rows err) \<longleftrightarrow> b \<or> P [OpenDoc] \<and>
    (\<forall>s. \<forall>q\<in>set (po_params p). P [PosterField (ap_key q) (JStr s)]) \<and>
    (\<not> truthy payload \<longrightarrow> (\<forall>s. P [PosterField ''id'' (JStr s)] \<and> P [PosterBody (JStr s)]) \<and> (\<forall>e. P [PosterError (JBool e)]) \<and>
      all_do False (\<lambda>ms. P (map PosterHeaders ms)) (kv_view '''' False rows))"
  by (cases b; cases "truthy payload")
    (auto simp add: poster_fields_def poster_item_def page_eval Let_def all_do_kv heard_def method_options_def simp del: admits.simps)

lemma all_do_poster: "all_do b P (poster_view code payload p rows err) \<longleftrightarrow> (code \<noteq> '''' \<longrightarrow> P [ClosePoster] \<and>
    (\<not> err \<and> \<not> po_submitting p \<longrightarrow> P [SubmitPoster]) \<and> all_do (po_submitting p) P (poster_fields payload p rows err))"
  by (auto simp: poster_view_def page_eval)

lemma all_do_thing_clients: "all_do False P (thing_clients_view w v) \<longleftrightarrow>
    (if th_clients v = [] then P [CreateClient]
     else (\<forall>i\<in>insert (JStr '''') ((\<lambda>c. conf_id w (tc_config c)) ` set (th_clients v)). P [Unfold i]) \<and>
       (\<forall>c\<in>set (th_clients v). conf_id w (tc_config c) = th_activeName v \<longrightarrow> P [ShowToolPanel (tc_config c)] \<and>
         (if tc_connected c then P [DisconnectClient (tc_config c)] \<and> P [SubscribeAllOf (tc_config c) (tc_subs c)] \<and>
            P [UnsubscribeAllOf (tc_config c) (tc_subs c)] else P [ConnectClient (tc_config c)])))"
proof -
  have names: "values_of ''el-collapse-item'' ''name'' (map (thing_client_item w a) cs) = map (\<lambda>c. conf_id w (tc_config c)) cs"
    for a cs
    by (induction cs) (auto simp: values_of_def thing_client_item_def Let_def conf_id_def)
  have item: "all_do False P [thing_client_item w a c] \<longleftrightarrow> (conf_id w (tc_config c) = a \<longrightarrow> P [ShowToolPanel (tc_config c)] \<and>
      (if tc_connected c then P [DisconnectClient (tc_config c)] \<and> P [SubscribeAllOf (tc_config c) (tc_subs c)] \<and>
        P [UnsubscribeAllOf (tc_config c) (tc_subs c)] else P [ConnectClient (tc_config c)]))" for a c
    by (auto simp: thing_client_item_def thing_client_content_def Let_def conf_id_def page_eval)
  show ?thesis
    by (auto simp: thing_clients_view_def template all_emits_def control_events_def dead_def masked_def floats_def
      library_controls_def names item)
qed

lemma all_do_fields: "all_do b P (displayer_view fmt vis data fs) \<longleftrightarrow> b \<or>
    (\<forall>f\<in>set fs. f_type f = ''password'' \<longrightarrow> P [(f_key f, ShowPass (\<not> vis (f_key f)))])"
proof -
  have "all_do b P [field_view fmt vis data f] \<longleftrightarrow>
      b \<or> (f_type f = ''password'' \<longrightarrow> P [(f_key f, ShowPass (\<not> vis (f_key f)))])" for f
    by (auto simp: field_view_def pass_item_view_def time_item_view_def page_eval Let_def)
  then show ?thesis by (auto simp: displayer_view_def page_eval)
qed

lemma all_do_shadow_props: "all_do b P (shadow_props_view fmt shadow)"
  by (simp add: shadow_props_view_def alert_view_def page_eval Let_def)

lemma all_do_thing: "all_do False P (thing_view fmt p) \<longleftrightarrow>
    P [BackToList] \<and> P [RequestMethod] \<and> P [ReloadThing] \<and>
    all_do False (\<lambda>ms. P (map InFields ms)) (displayer_view fmt (tp_shownPass p) (tp_thing p) metaFields) \<and>
    all_do False (\<lambda>ms. P (map InClients ms)) (thing_clients_view (tp_world p) (tp_clients p)) \<and>
    all_do False (\<lambda>ms. P (map InTags ms)) (tags_view (opt_get (tp_shadow p) ''tags'') (tp_tags p) (tp_tagViewer p)) \<and>
    all_do False (\<lambda>ms. P (map InShadow ms)) (shadow_data_view (tp_tree p) (tp_shadow p) (tp_data p) (tp_state p)) \<and>
    all_do False (\<lambda>ms. P (map InShadow (map InReportForm ms))) (report_view (conf_value (tp_world p) (sd_conn (tp_data p)))
       (tp_data p) (tp_report p) (tp_meta p) (tp_metaRows p)) \<and>
    all_do False (\<lambda>ms. P (map InPoster ms)) (poster_view (tp_code p) (tp_payload p) (tp_poster p) (tp_rows p) (tp_jsonError p))"
  by (auto simp: thing_view_def thing_left_def thing_right_def page_eval all_do_shadow_props simp del: map_map list.map_comp)

end
