(* ===== verification/PanelSteps.thy ===== *)
theory PanelSteps
  imports ConnPages App
begin

text \<open>
  Using the panel of connections: what each message of its templates does, and the steps of the
  panel. A step is what the user can do with the rendered panel, a watcher of one of its
  components, the answer to a request of the panel, or a step of the client elsewhere. Watchers may
  run at any time, since what they watch changes for many reasons.
\<close>

section \<open>What the messages do\<close>

definition on_world :: "(vworld \<Rightarrow> vworld) \<Rightarrow> client_page \<Rightarrow> client_page" where
  "on_world f p = p\<lparr>pg_world := f (pg_world p)\<rparr>"

definition on_publish :: "(publish_form \<Rightarrow> publish_form) \<Rightarrow> client_page \<Rightarrow> client_page" where
  "on_publish f p = p\<lparr>pg_publish := f (pg_publish p)\<rparr>"

text \<open>Opening the form of MQTT 5 properties; its pair editor loads the pairs when it is mounted.\<close>

definition meta_opened :: "client_page \<Rightarrow> client_page" where
  "meta_opened p = (let f = pg_publish p; form = meta_form_watch (pf_metaShown f) (JObj (pf_props f)) (pg_meta p) in
     p\<lparr>pg_meta := form, pg_metaRows := (if pf_metaShown f \<and> pg_metaRows p = []
        then kv_watch (oget form ''userProperties'') JUndef [] else pg_metaRows p)\<rparr>)"

fun meta_perform :: "meta_msg \<Rightarrow> client_page \<Rightarrow> client_page" where
  "meta_perform MetaClose p = on_publish (\<lambda>f. f\<lparr>pf_metaShown := False\<rparr>) p"
| "meta_perform MetaSave p = on_publish (\<lambda>f. res_or (handleSaveMeta (pg_meta p) f) f) p"
| "meta_perform (MetaField k x) p = p\<lparr>pg_meta := oput k x (pg_meta p)\<rparr>"
| "meta_perform (MetaPairs m) p = (case kv_perform m (pg_metaRows p) of
     (rows, vs) \<Rightarrow> p\<lparr>pg_metaRows := rows, pg_meta := fold (oput ''userProperties'') vs (pg_meta p)\<rparr>)"

fun suggestions_perform :: "js \<Rightarrow> suggestions_msg \<Rightarrow> client_page \<Rightarrow> client_page" where
  "suggestions_perform config (PickSuggestion g) p =
     (let w = pg_world p; (topic, paytype, payload) = suggestions_handleSelect config (clock w) (fresh_uuid w) g
      in on_publish (publish_handleSelectTopic topic paytype payload) (on_world next_uuid p))"
| "suggestions_perform config CloseSuggestions p = on_publish (\<lambda>f. f\<lparr>pf_tplsShown := False\<rparr>) p"

fun publish_perform :: "cref option \<Rightarrow> publish_msg \<Rightarrow> client_page \<Rightarrow> client_page" where
  "publish_perform cr (PayloadType x) p = on_publish (\<lambda>f. publish_watch_type (f\<lparr>pf_type := js_str x\<rparr>)) p"
| "publish_perform cr (PubQos x) p = on_publish (\<lambda>f. f\<lparr>pf_qos := x\<rparr>) p"
| "publish_perform cr (PubRetain x) p = on_publish (\<lambda>f. f\<lparr>pf_retain := x\<rparr>) p"
| "publish_perform cr ToggleMeta p = meta_opened (on_publish toggleMetaFormVisable p)"
| "publish_perform cr (PubTopic x) p = on_publish (\<lambda>f. f\<lparr>pf_topic := x\<rparr>) p"
| "publish_perform cr TopicFocus p = p"
| "publish_perform cr ToggleSuggestions p = on_publish publish_toggleTpls p"
| "publish_perform cr (PubPayload x) p = on_publish (\<lambda>f. f\<lparr>pf_payload := x\<rparr>) p"
| "publish_perform cr (JsonError x) p = on_publish (\<lambda>f. f\<lparr>pf_jsonError := truthy x\<rparr>) p"
| "publish_perform cr Send p = (case cr of
     Some c \<Rightarrow> on_world (\<lambda>w. fst (send VPublish c (pg_publish p) w)) p | None \<Rightarrow> p)"
| "publish_perform cr (InMeta m) p = meta_perform m p"
| "publish_perform cr (InSuggestions m) p = suggestions_perform (conf_value (pg_world p) cr) m p"

text \<open>The rules of the form of a subscription.\<close>

definition subs_rules_hold :: "js obj \<Rightarrow> bool" where
  "subs_rules_hold form \<longleftrightarrow> (case oget form ''name'' of JStr s \<Rightarrow> length s \<le> 20 | _ \<Rightarrow> True) \<and>
     oget form ''topic'' \<noteq> JStr '''' \<and> \<not> nullish (oget form ''topic'') \<and> \<not> nullish (oget form ''qos'')"

definition submit_conflict :: "cref \<Rightarrow> js \<Rightarrow> 'cb world \<Rightarrow> bool" where
  "submit_conflict cr data w = (case List.find (with_topic (opt_get data ''topic'')) (subscriptions_of w cr) of
     Some same \<Rightarrow> \<not> truthy (opt_get data ''id'') \<or> opt_get data ''id'' \<noteq> opt_get same ''id'' | None \<Rightarrow> False)"

text \<open>
  The form can be used while no connection is selected; submitting it then reaches no list of
  subscriptions.
\<close>

fun subs_form_perform :: "cref option \<Rightarrow> subs_form_msg \<Rightarrow> client_page \<Rightarrow> client_page" where
  "subs_form_perform cr HideSubsForm p = on_world (on_lay hideMqttSubsForm) p"
| "subs_form_perform cr SubmitSubsForm p = (case cr of
     Some c \<Rightarrow> if subs_rules_hold (pg_form p)
       then (let data = subs_form_submit (pg_form p) in p\<lparr>pg_world := submitForm c data (pg_world p),
         pg_loading := pg_loading p \<or> \<not> submit_conflict c data (pg_world p)\<rparr>)
       else p
   | None \<Rightarrow> p)"
| "subs_form_perform cr (SubsField k x) p = p\<lparr>pg_form := oput k x (pg_form p)\<rparr>"
| "subs_form_perform cr ToggleTopics p = p\<lparr>pg_tpls := \<not> pg_tpls p\<rparr>"
| "subs_form_perform cr (PickTopic t) p = p\<lparr>pg_tpls := False, pg_form := subs_form_select t (pg_form p)\<rparr>"

definition loading_with :: "vworld \<times> bool \<Rightarrow> client_page \<Rightarrow> client_page" where
  "loading_with r p = p\<lparr>pg_world := fst r, pg_loading := pg_loading p \<or> snd r\<rparr>"

text \<open>The entry of the list, as an object.\<close>

definition sub_js :: "sub_item \<Rightarrow> js" where
  "sub_js s = JObj [(''id'', si_id s), (''name'', si_name s), (''topic'', si_topic s), (''opts'', si_opts s),
     (''keep'', si_keep s), (''subscribed'', JBool (si_subscribed s))]"

definition delete_sub :: "cref \<Rightarrow> shared option \<Rightarrow> sub_item \<Rightarrow> client_page \<Rightarrow> client_page" where
  "delete_sub cr sh s p = (let w = handleDelete cr sh s (pg_world p) in
     p\<lparr>pg_world := w, pg_subs := (if list_ex (\<lambda>x. opt_get x ''id'' = si_id s) (subscriptions_of (pg_world p) cr)
        then updateSubscriptions w (Some cr) sh else pg_subs p)\<rparr>)"

fun subs_perform :: "cref \<Rightarrow> shared option \<Rightarrow> subs_msg \<Rightarrow> client_page \<Rightarrow> client_page" where
  "subs_perform cr sh (Unsubscribe s) p = loading_with (handleUnsubscribe cr s (pg_world p)) p"
| "subs_perform cr sh (Subscribe s) p = loading_with (handleSubscribe cr s (pg_world p)) p"
| "subs_perform cr sh (ToggleFilter s) p = p\<lparr>pg_filter := handleToggleFilter (pg_filter p) (js_str (si_topic s))\<rparr>"
| "subs_perform cr sh (EditSub s) p = on_world (handleEdit (shared_connected (pg_world p) sh) cr (sub_js s)) p"
| "subs_perform cr sh (DeleteSub s) p = delete_sub cr sh s p"

fun messages_perform :: "messages_msg \<Rightarrow> client_page \<Rightarrow> client_page" where
  "messages_perform (MessageType x) p = p\<lparr>pg_msgType := js_str x\<rparr>"
| "messages_perform ClearMessages p = on_world handleClearMessages p"
| "messages_perform (SwitchTeleport toGlobal) p =
     (case switchTeleport toGlobal (selectedConn (pg_world p) \<noteq> None) of
        (tp, visible) \<Rightarrow> p\<lparr>pg_teleport := tp, pg_globalVisible := visible\<rparr>)"

text \<open>
  The operations below act on the selected connection; where there is none, the template has no
  element for them.
\<close>

definition with_selected :: "(cref \<Rightarrow> shared option \<Rightarrow> client_page \<Rightarrow> client_page) \<Rightarrow> client_page \<Rightarrow> client_page" where
  "with_selected f p = (case selectedConn (pg_world p) of Some (Some cr, sh) \<Rightarrow> f cr sh p | _ \<Rightarrow> p)"

definition selected_ref :: "'cb world \<Rightarrow> cref option" where
  "selected_ref w = (case selectedConn w of Some (cr, _) \<Rightarrow> cr | None \<Rightarrow> None)"

definition new_connection :: "client_page \<Rightarrow> client_page" where
  "new_connection = on_world (\<lambda>w. snd (show_form JNull JNull w))"

fun detail_perform :: "detail_msg \<Rightarrow> client_page \<Rightarrow> client_page" where
  "detail_perform CreateSubscription p = on_world handleCreateSubscription p"
| "detail_perform SubscribeEverything p =
     with_selected (\<lambda>cr sh. on_world (\<lambda>w. handleSubscribeAll cr (subs_of_shared w sh) w)) p"
| "detail_perform UnsubscribeEverything p =
     with_selected (\<lambda>cr sh. on_world (\<lambda>w. handleUnsubscribeAll cr (subs_of_shared w sh) w)) p"
| "detail_perform RequestAddConn p = new_connection p"
| "detail_perform (InPublish m) p = publish_perform (selected_ref (pg_world p)) m p"
| "detail_perform (InSubs m) p = with_selected (\<lambda>cr sh. subs_perform cr sh m) p"
| "detail_perform (InMessages m) p = messages_perform m p"
| "detail_perform (InSubsForm m) p = subs_form_perform (selected_ref (pg_world p)) m p"

text \<open>Asking for the statistics of the broker only sends a request; its answer is a step of its own.\<close>

fun clients_perform :: "clients_msg \<Rightarrow> client_page \<Rightarrow> client_page" where
  "clients_perform NewConnection p = new_connection p"
| "clients_perform CheckStats p = p"
| "clients_perform (SelectConn cr) p = on_world (selectConnection cr) p"
| "clients_perform (Operate key) p = on_world (handleOpt key) p"
| "clients_perform (InSize ToggleSize) p = on_world (on_lay toggleToolAreaSize) p"
| "clients_perform (InDetail m) p = detail_perform m p"
| "clients_perform (InViewer CloseView) p = p\<lparr>pg_viewer := handleCloseViewer (pg_viewer p)\<rparr>"
| "clients_perform (InViewer (Compare b)) p = p"

section \<open>Steps\<close>

definition watch_subs :: "client_page \<Rightarrow> client_page" where
  "watch_subs p = (case selectedConn (pg_world p) of
     Some (cr, sh) \<Rightarrow> p\<lparr>pg_subs := updateSubscriptions (pg_world p) cr sh\<rparr> | None \<Rightarrow> p)"

definition watch_form :: "client_page \<Rightarrow> client_page" where
  "watch_form p = (let fm = mqttSubsForm (layout (store (pg_world p)))
     in p\<lparr>pg_form := subs_form_watch (sf_visible fm) (sf_subscription fm) (pg_form p)\<rparr>)"

definition watch_publish :: "js \<Rightarrow> client_page \<Rightarrow> client_page" where
  "watch_publish oldId p = (let config = conf_value (pg_world p) (selected_ref (pg_world p))
     in on_publish (\<lambda>f. res_or (publish_watch_conn config oldId f) f) p)"

text \<open>
  The watcher of the messages is deep: it also runs when a message arrives or is sent, and puts the
  filter by direction back to all.
\<close>

definition watch_messages :: "client_page \<Rightarrow> client_page" where
  "watch_messages p = p\<lparr>pg_msgType := ''all''\<rparr>"

inductive panel_step :: "client_page \<Rightarrow> client_page \<Rightarrow> bool" where
  use: "does (clients_view p) ms \<Longrightarrow> panel_step p (fold clients_perform ms p)"
| show_subs: "panel_step p (watch_subs p)"
| fill_form: "panel_step p (watch_form p)"
| fill_publish: "panel_step p (watch_publish oldId p)"
| other_selected: "panel_step p (messages_perform (SwitchTeleport False) p)"
| messages_changed: "panel_step p (watch_messages p)"
| answered_subs: "panel_step p (watch_subs (p\<lparr>pg_loading := False\<rparr>))"
| stats: "panel_step p (p\<lparr>pg_viewer := viewObject data ''Embeded MQTT Broker Stats'' False (pg_viewer p)\<rparr>)"
| elsewhere: "app_step (pg_world p) w \<Longrightarrow> panel_step p (p\<lparr>pg_world := w\<rparr>)"

definition panel_start :: "client_page \<Rightarrow> bool" where
  "panel_start p \<longleftrightarrow> app_start (pg_world p) \<and> \<not> pg_tpls p \<and> \<not> pg_loading p \<and> pg_subs p = [] \<and> pg_form p = subs_form_init \<and>
     pg_metaRows p = [] \<and> pg_filter p = '''' \<and> pg_msgType p = ''all'' \<and> pg_publish p = publish_form_init"

section \<open>The panel refines the client\<close>

text \<open>The only references a message of the panel carries are those of the buttons of the list.\<close>

lemma panel_refs:
  assumes "does (clients_view p) ms" and "SelectConn cr \<in> set ms"
  shows "ms = [SelectConn cr] \<and> cr \<in> set (configs_of (pg_world p))"
proof -
  let ?P = "\<lambda>ms. \<forall>cr. SelectConn cr \<in> set ms \<longrightarrow> ms = [SelectConn cr] \<and> cr \<in> set (configs_of (pg_world p))"
  have "(\<lambda>ms. ?P (map InDetail ms)) = (\<lambda>_. True)" by (auto simp: fun_eq_iff)
  then have "all_do False ?P (clients_view p)"
    by (auto simp: all_do_clients Let_def all_do_True split: option.split)
  from all_doD [OF this assms(1)] assms(2) show ?thesis by blast
qed

text \<open>What a message does to the world is nothing or a step of the views.\<close>

definition world_step :: "client_page \<Rightarrow> client_page \<Rightarrow> bool" where
  "world_step p q \<longleftrightarrow> pg_world q = pg_world p \<or> view_step (pg_world p) (pg_world q)"

lemma world_same: "pg_world q = pg_world p \<Longrightarrow> world_step p q"
  by (simp add: world_step_def)

lemma world_same_simps [simp]:
  "pg_world (on_publish f p) = pg_world p" "pg_world (on_world g p) = g (pg_world p)"
  "pg_world (meta_opened p) = pg_world p" "pg_world (loading_with r p) = fst r"
  "pg_world (watch_form p) = pg_world p" "pg_world (watch_subs p) = pg_world p"
  "pg_world (watch_publish i p) = pg_world p" "pg_world (watch_messages p) = pg_world p"
  by (simp_all add: on_publish_def on_world_def meta_opened_def loading_with_def watch_form_def watch_subs_def
    watch_publish_def watch_messages_def Let_def split: option.split)

lemma meta_world: "pg_world (meta_perform m p) = pg_world p"
  by (cases m) (auto split: prod.split)

lemma publish_world:
  assumes "\<And>c. cr = Some c \<Longrightarrow> usable (pg_world p) c"
  shows "world_step p (publish_perform cr m p)"
proof (cases m)
  case Send
  with assms view_step.publish show ?thesis by (cases cr) (auto simp: world_step_def)
next
  case (InSuggestions s)
  then show ?thesis by (cases s) (auto simp: world_step_def Let_def split_beta intro: view_step.token)
qed (auto simp: world_step_def meta_world)

lemma subs_form_world:
  assumes "\<And>c. cr = Some c \<Longrightarrow> usable (pg_world p) c"
  shows "world_step p (subs_form_perform cr m p)"
  using assms by (cases m; cases cr) (auto simp: world_step_def Let_def intro: view_step.change_layout view_step.submit_sub)

lemma subs_world: "usable (pg_world p) cr \<Longrightarrow> world_step p (subs_perform cr sh m p)"
  by (cases m) (auto simp: world_step_def delete_sub_def Let_def intro: view_step.unsubscribe_one view_step.subscribe_one
    view_step.edit_sub view_step.delete_sub)

lemma messages_world: "world_step p (messages_perform m p)"
  by (cases m) (auto simp: world_step_def split: prod.split intro: view_step.clear_messages)

lemma new_connection_world: "world_step p (new_connection p)"
  by (simp add: world_step_def new_connection_def show_form_def Let_def view_step.change_layout split: prod.split)

lemma selected_usable: "client_inv w \<Longrightarrow> selectedConn w = Some (Some cr, sh) \<Longrightarrow> usable w cr"
  using selected_listed [of w "Some cr" sh] listed_usable by blast

lemma with_selected_world:
  assumes "client_inv (pg_world p)" and "\<And>cr sh. usable (pg_world p) cr \<Longrightarrow> world_step p (f cr sh p)"
  shows "world_step p (with_selected f p)"
  using assms(2) selected_usable [OF assms(1)] by (auto simp: with_selected_def world_same split: option.split prod.split)

lemma detail_world:
  assumes "client_inv (pg_world p)"
  shows "world_step p (detail_perform m p)"
proof (cases m)
  case (InPublish pm)
  then show ?thesis
    using publish_world [of "selected_ref (pg_world p)" p pm] selected_usable [OF assms]
    by (auto simp: selected_ref_def split: option.splits prod.splits)
next
  case (InSubsForm sm)
  then show ?thesis
    using subs_form_world [of "selected_ref (pg_world p)" p sm] selected_usable [OF assms]
    by (auto simp: selected_ref_def split: option.splits prod.splits)
next
  case CreateSubscription
  then show ?thesis by (simp add: world_step_def view_step.create_sub)
qed (auto intro!: with_selected_world [OF assms] simp: new_connection_world messages_world subs_world,
  auto simp: world_step_def intro: view_step.subscribe_all view_step.unsubscribe_all)

lemma clients_world:
  assumes "client_inv (pg_world p)" and "\<And>cr. m = SelectConn cr \<Longrightarrow> cr \<in> set (configs_of (pg_world p))"
  shows "world_step p (clients_perform m p)"
proof (cases m)
  case (SelectConn cr)
  with assms listed_usable show ?thesis by (auto simp: world_step_def intro: view_step.select)
next
  case (InSize s)
  then show ?thesis by (cases s) (simp add: world_step_def view_step.change_layout)
next
  case (InViewer v)
  then show ?thesis by (cases v) (simp_all add: world_same)
qed (auto simp: detail_world [OF assms(1)] new_connection_world world_same, auto simp: world_step_def view_step.opt)

lemma world_step_app: "world_step p q \<Longrightarrow> app_step\<^sup>*\<^sup>* (pg_world p) (pg_world q)"
  by (auto simp: world_step_def intro: app_step.view)

lemma uses_world:
  assumes "reach app_start app_step (pg_world p)"
    and "\<And>cr. SelectConn cr \<in> set ms \<Longrightarrow> ms = [SelectConn cr] \<and> cr \<in> set (configs_of (pg_world p))"
  shows "app_step\<^sup>*\<^sup>* (pg_world p) (pg_world (fold clients_perform ms p))"
  using assms
proof (induction ms arbitrary: p)
  case (Cons m ms)
  have inv: "client_inv (pg_world p)" using whole.reach_inv [OF Cons.prems(1)] by blast
  have "world_step p (clients_perform m p)" using Cons.prems(2) by (intro clients_world inv) auto
  then have *: "app_step\<^sup>*\<^sup>* (pg_world p) (pg_world (clients_perform m p))" by (rule world_step_app)
  then have "reach app_start app_step (pg_world (clients_perform m p))" using Cons.prems(1) by (rule steps_reach)
  moreover have "SelectConn cr \<notin> set ms" for cr using Cons.prems(2) [of cr] by auto
  ultimately show ?case using Cons.IH [of "clients_perform m p"] * by simp
qed simp

lemma panel_step_moves:
  assumes "panel_step p q" and "reach app_start app_step (pg_world p)"
  shows "app_step\<^sup>*\<^sup>* (pg_world p) (pg_world q)"
  using assms(1)
proof cases
  case (use ms)
  with uses_world [OF assms(2)] panel_refs show ?thesis by blast
next
  case other_selected
  with world_step_app [OF messages_world] show ?thesis by blast
qed auto

interpretation panel_sim: safe_simulation panel_start panel_step app_start app_step pg_world "\<lambda>w. client_inv w \<and> reachable w"
  by unfold_locales (auto simp: panel_start_def reach.start panel_step_moves)


end
