(* ===== verification/ThingSteps.thy ===== *)
theory ThingSteps
  imports ThingPages PanelSteps
begin

text \<open>
  Using the detail view of a thing: what each message of its templates does, and the steps of the
  view, which are uses of the rendered view, watchers, answers and confirmations, and what happens
  elsewhere. The requests that the form for HTTP requests sends are collected in the state.
\<close>

section \<open>What the messages do\<close>

definition in_world :: "(vworld \<Rightarrow> vworld) \<Rightarrow> thing_page \<Rightarrow> thing_page" where
  "in_world f p = p\<lparr>tp_world := f (tp_world p)\<rparr>"

definition with_clients :: "(thing_clients \<Rightarrow> vworld \<Rightarrow> thing_clients \<times> vworld) \<Rightarrow> thing_page \<Rightarrow> thing_page" where
  "with_clients f p = (case f (tp_clients p) (tp_world p) of (v, w) \<Rightarrow> p\<lparr>tp_clients := v, tp_world := w\<rparr>)"

definition with_data :: "(shadow_data \<Rightarrow> vworld \<Rightarrow> shadow_data \<times> vworld) \<Rightarrow> thing_page \<Rightarrow> thing_page" where
  "with_data f p = (case f (tp_data p) (tp_world p) of (v, w) \<Rightarrow> p\<lparr>tp_data := v, tp_world := w\<rparr>)"

fun thing_clients_perform :: "thing_clients_msg \<Rightarrow> thing_page \<Rightarrow> thing_page" where
  "thing_clients_perform (Unfold x) p = p\<lparr>tp_clients := (tp_clients p)\<lparr>th_activeName := x\<rparr>\<rparr>"
| "thing_clients_perform (DisconnectClient cr) p = in_world (disconn cr) p"
| "thing_clients_perform (ConnectClient cr) p = with_clients (handleConnectMqttClient cr) p"
| "thing_clients_perform (SubscribeAllOf cr subs) p = in_world (handleSubscribeAll cr subs) p"
| "thing_clients_perform (UnsubscribeAllOf cr subs) p = in_world (handleUnsubscribeAll cr subs) p"
| "thing_clients_perform (ShowToolPanel cr) p =
     (case handleShowToolPanel cr (tp_globalVisible p) (tp_world p) of
        (visible, w) \<Rightarrow> p\<lparr>tp_globalVisible := visible, tp_world := w\<rparr>)"
| "thing_clients_perform CreateClient p = with_clients (handleCreateMqttClient (tp_thingId p)) p"

text \<open>
  Opening the form for a request, or closing it with the empty code. Its watcher runs when the code
  or the payload changes; a payload is a new object each time. Its pair editor loads the headers
  when it is mounted.
\<close>

definition open_poster :: "string \<Rightarrow> js \<Rightarrow> thing_page \<Rightarrow> thing_page" where
  "open_poster code payload p =
     (if code = tp_code p \<and> payload = tp_payload p \<and> \<not> truthy payload then p
      else (let w = tp_world p;
                poster = poster_props code (tp_thingId p) payload (fresh_uuid w) (tp_poster p)
            in p\<lparr>tp_code := code, tp_payload := payload, tp_poster := poster,
              tp_world := (if po_api poster \<noteq> None \<and> \<not> truthy payload then next_uuid w else w),
              tp_rows := (if tp_rows p = [] then kv_watch (oget (po_form poster) ''headers'') JUndef [] else tp_rows p)\<rparr>))"

fun tags_perform :: "tags_msg \<Rightarrow> thing_page \<Rightarrow> thing_page" where
  "tags_perform ViewTags p =
     p\<lparr>tp_tagViewer := viewObject (opt_get (tp_shadow p) ''tags'') ''Tags Raw'' False (tp_tagViewer p)\<rparr>"
| "tags_perform AskTags p = open_poster ''tags'' JNull p"
| "tags_perform (CloseTag t) p = open_poster ''tags'' (close_tag t) p"
| "tags_perform (ViewTag t) p =
     p\<lparr>tp_tagViewer := viewObject (tag_value t) (tag_key t @ '' Tag'') False (tp_tagViewer p)\<rparr>"
| "tags_perform (InTagViewer CloseView) p = p\<lparr>tp_tagViewer := handleCloseViewer (tp_tagViewer p)\<rparr>"
| "tags_perform (InTagViewer (Compare b)) p = p"

text \<open>The dialog that publishes the reported state uses the message editor of the panel.\<close>

definition report_panel :: "thing_page \<Rightarrow> client_page" where
  "report_panel p = \<lparr>pg_world = tp_world p, pg_subs = [], pg_loading = False, pg_filter = '''', pg_msgType = ''all'',
     pg_teleport = TeleportG, pg_globalVisible = True, pg_publish = tp_report p, pg_meta = tp_meta p,
     pg_metaRows = tp_metaRows p, pg_form = [], pg_tpls = False, pg_viewer = viewer_closed\<rparr>"

definition report_back :: "client_page \<Rightarrow> thing_page \<Rightarrow> thing_page" where
  "report_back q p = p\<lparr>tp_world := pg_world q, tp_report := pg_publish q, tp_meta := pg_meta q, tp_metaRows := pg_metaRows q\<rparr>"

definition set_data :: "(shadow_data \<Rightarrow> shadow_data) \<Rightarrow> thing_page \<Rightarrow> thing_page" where
  "set_data f p = p\<lparr>tp_data := f (tp_data p)\<rparr>"

definition ask_reported :: "thing_page \<Rightarrow> thing_page" where
  "ask_reported p = (case handleSetReported (tp_shadow p) (tp_world p) of
     ReportForm cr \<Rightarrow> with_data (showSetReportedForm (tp_shadow p) cr) p
   | question \<Rightarrow> p\<lparr>tp_asked := Some question\<rparr>)"

fun shadow_perform :: "shadow_msg \<Rightarrow> thing_page \<Rightarrow> thing_page" where
  "shadow_perform (TreeMode x) p = p\<lparr>tp_tree := truthy x\<rparr>"
| "shadow_perform CompareState p = set_data (handleCompareState (tp_shadow p)) p"
| "shadow_perform CheckDelta p = set_data (\<lambda>v. fst (handleCheckDelta (tp_shadow p) v)) p"
| "shadow_perform (CallApi code) p = open_poster code JNull p"
| "shadow_perform SetReported p = ask_reported p"
| "shadow_perform (InObject CloseView) p = set_data handleCloseViewers p"
| "shadow_perform (InObject (Compare b)) p = p"
| "shadow_perform (InState CloseView) p = set_data handleCloseViewers p"
| "shadow_perform (InState (Compare b)) p = p\<lparr>tp_state := state_viewer_compare b (tp_state p)\<rparr>"
| "shadow_perform (InReportForm CloseReport) p = set_data handleCloseMqttPublish p"
| "shadow_perform (InReportForm (InReport m)) p =
     report_back (publish_perform (sd_conn (tp_data p)) m (report_panel p)) p"

text \<open>The form component checks the fields it shows; a rule of a field that is not shown has no effect.\<close>

definition poster_fields_shown :: "poster \<Rightarrow> string list" where
  "poster_fields_shown p = [''api'', ''method'', ''url'', ''id''] @ map ap_key (po_params p) @ [''headers'', ''body'']"

definition poster_valid :: "poster \<Rightarrow> bool" where
  "poster_valid p \<longleftrightarrow> list_all (\<lambda>k. k \<in> set (po_required p) \<longrightarrow> oget (po_form p) k \<noteq> JStr '''' \<and> \<not> nullish (oget (po_form p) k))
     (poster_fields_shown p)"

definition edit_poster :: "string \<Rightarrow> js \<Rightarrow> thing_page \<Rightarrow> thing_page" where
  "edit_poster k x p = p\<lparr>tp_poster := poster_edit k x (tp_poster p)\<rparr>"

fun poster_perform :: "poster_msg \<Rightarrow> thing_page \<Rightarrow> thing_page" where
  "poster_perform ClosePoster p = open_poster '''' (tp_payload p) p"
| "poster_perform SubmitPoster p = (case poster_submit (Inl (poster_valid (tp_poster p))) (tp_poster p) of
     (q, r) \<Rightarrow> p\<lparr>tp_poster := q, tp_sent := tp_sent p @ (case r of Some x \<Rightarrow> [x] | None \<Rightarrow> [])\<rparr>)"
| "poster_perform OpenDoc p = p"
| "poster_perform (PosterField k x) p = edit_poster k x p"
| "poster_perform (PosterHeaders m) p = (case kv_perform m (tp_rows p) of
     (rows, vs) \<Rightarrow> fold (edit_poster ''headers'') vs (p\<lparr>tp_rows := rows\<rparr>))"
| "poster_perform (PosterBody x) p = edit_poster ''body'' x p"
| "poster_perform (PosterError x) p = p\<lparr>tp_jsonError := truthy x\<rparr>"

fun thing_perform :: "thing_msg \<Rightarrow> thing_page \<Rightarrow> thing_page" where
  "thing_perform BackToList p = p\<lparr>tp_route := Some (if tp_fromList p then RouterBack else RouterReplace ''/''),
     tp_shadow := JObj []\<rparr>"
| "thing_perform RequestMethod p = open_poster ''invoke'' JNull p"
| "thing_perform ReloadThing p = p"
| "thing_perform (InFields (k, ShowPass b)) p = p\<lparr>tp_shownPass := (tp_shownPass p)(k := b)\<rparr>"
| "thing_perform (InClients m) p = thing_clients_perform m p"
| "thing_perform (InTags m) p = tags_perform m p"
| "thing_perform (InShadow m) p = shadow_perform m p"
| "thing_perform (InPoster m) p = poster_perform m p"

section \<open>Steps\<close>

text \<open>The watchers that run before the view is rendered.\<close>

definition watched :: "thing_page \<Rightarrow> thing_page" where
  "watched p = p\<lparr>tp_clients := thing_clients_watch (tp_thingId p) (tp_world p) (tp_clients p),
     tp_tags := tags_watch (opt_get (tp_shadow p) ''tags'') (tp_tags p),
     tp_state := state_viewer_watch (truthy (sd_selectedState (tp_data p))) (ov_title (sd_viewer (tp_data p)))
       (sd_selectedState (tp_data p)) (tp_state p)\<rparr>"

definition fill_report :: "js \<Rightarrow> thing_page \<Rightarrow> thing_page" where
  "fill_report oldId p = (let v = tp_data p; f = publish_watch_payload (sd_paytype v) (JStr (sd_payload v))
       (publish_watch_topic (JStr (sd_topic v)) (tp_report p)); config = conf_value (tp_world p) (sd_conn v)
     in p\<lparr>tp_report := res_or (publish_watch_conn config oldId f) f\<rparr>)"

text \<open>
  The dialog for the reported state and the questions are modal, so the connection they are about is
  still listed when they are used.
\<close>

definition report_ready :: "thing_page \<Rightarrow> bool" where
  "report_ready p \<longleftrightarrow> (case sd_conn (tp_data p) of Some cr \<Rightarrow> usable (tp_world p) cr | None \<Rightarrow> True)"

inductive thing_step :: "thing_page \<Rightarrow> thing_page \<Rightarrow> bool" where
  use: "does (thing_view fmt (watched p)) ms \<Longrightarrow> report_ready p \<Longrightarrow> thing_step p (fold thing_perform ms (watched p))"
| fill: "thing_step p (fill_report oldId p)"
| confirm_connect: "tp_asked p = Some (AskConnect cr) \<Longrightarrow> usable (tp_world p) cr \<Longrightarrow>
    thing_step p (with_data (confirmed_connect cr) (p\<lparr>tp_asked := None\<rparr>))"
| confirm_create: "tp_asked p = Some AskCreate \<Longrightarrow>
    thing_step p (with_data (confirmed_create (tp_shadow p)) (p\<lparr>tp_asked := None\<rparr>))"
| refuse: "thing_step p (p\<lparr>tp_asked := None\<rparr>)"
| reported: "thing_step p (set_data (handleDoneMqttPublish err) p)"
| client_event: "event_usable (tp_world p) e \<Longrightarrow> thing_step p (with_clients (thing_clients_event (tp_thingId p) e) p)"
| data_event: "event_usable (tp_world p) e \<Longrightarrow> thing_step p (with_data (shadow_data_event (tp_shadow p) e) p)"
| poster_answer: "poster_answered ans i now rq (tp_poster p) = (q, evs, ok) \<Longrightarrow> thing_step p (p\<lparr>tp_poster := q\<rparr>)"
| thing_answer: "thing_step p (p\<lparr>tp_thing := getBasicInfo ans (tp_thing p)\<rparr>)"
| shadow_answer: "thing_step p (p\<lparr>tp_shadow := shadow\<rparr>)"
| elsewhere: "app_step (tp_world p) w \<Longrightarrow> thing_step p (p\<lparr>tp_world := w\<rparr>)"

section \<open>The detail view refines the client\<close>

fun refs_of :: "thing_msg \<Rightarrow> cref set" where
  "refs_of (InClients m) = (case m of
     DisconnectClient cr \<Rightarrow> {cr} | ConnectClient cr \<Rightarrow> {cr} | SubscribeAllOf cr subs \<Rightarrow> {cr}
   | UnsubscribeAllOf cr subs \<Rightarrow> {cr} | ShowToolPanel cr \<Rightarrow> {cr} | _ \<Rightarrow> {})"
| "refs_of _ = {}"

text \<open>Several messages at once come from the pair editors only, which leave the connections alone.\<close>

fun neutral :: "thing_msg \<Rightarrow> bool" where
  "neutral (InPoster (PosterHeaders m)) = True"
| "neutral (InShadow (InReportForm (InReport (InMeta (MetaPairs m))))) = True"
| "neutral _ = False"

definition single_or_neutral :: "cref set \<Rightarrow> thing_msg list \<Rightarrow> bool" where
  "single_or_neutral S ms \<longleftrightarrow> (case ms of [m] \<Rightarrow> refs_of m \<subseteq> S | _ \<Rightarrow> list_all neutral ms)"

lemma single_or_neutral_simps [simp]:
  "single_or_neutral S [m] \<longleftrightarrow> refs_of m \<subseteq> S" "single_or_neutral S [m, n] \<longleftrightarrow> neutral m \<and> neutral n"
  by (simp_all add: single_or_neutral_def)

lemma several_neutral: "single_or_neutral S ms \<Longrightarrow> \<nexists>m. ms = [m] \<Longrightarrow> list_all neutral ms"
  by (auto simp: single_or_neutral_def split: list.splits)

lemma thing_uses:
  assumes "does (thing_view fmt p) ms"
  shows "single_or_neutral (tc_config ` set (th_clients (tp_clients p))) ms"
proof -
  have publish: "all_do b (\<lambda>ms. single_or_neutral S (map InShadow (map InReportForm (map InReport ms))))
      (publish_view config topic paytype f form rows)" for S b config topic paytype f form rows
    by (simp add: all_do_publish all_do_publish_head all_do_meta all_do_suggestions all_do_kv)
  show ?thesis
    using assms
    by (rule all_doD [rotated]) (auto simp: all_do_thing all_do_fields all_do_thing_clients all_do_tags all_do_shadow_data
      all_do_report all_do_poster all_do_poster_fields all_do_kv publish simp del: map_map list.map_comp)
qed

definition view_moves :: "vworld \<Rightarrow> vworld \<Rightarrow> bool" where
  "view_moves w v \<longleftrightarrow> v = w \<or> view_step w v"

lemma view_moves_same [simp]: "view_moves w w"
  by (simp add: view_moves_def)

lemma thing_clients_world:
  assumes "\<And>cr. cr \<in> refs_of (InClients m) \<Longrightarrow> usable (tp_world p) cr"
  shows "view_moves (tp_world p) (tp_world (thing_clients_perform m p))"
proof (cases m)
  case (ConnectClient cr)
  with assms view_step.thing_connect [of "tp_world p" cr "tp_clients p"] show ?thesis
    by (simp add: view_moves_def with_clients_def split_beta)
next
  case (ShowToolPanel cr)
  with assms view_step.thing_panel [of "tp_world p" cr "tp_globalVisible p"] show ?thesis
    by (simp add: view_moves_def split_beta)
next
  case CreateClient
  with view_step.thing_create [of "tp_world p" "tp_thingId p" "tp_clients p"] show ?thesis
    by (simp add: view_moves_def with_clients_def split_beta)
qed (use assms in \<open>auto simp: view_moves_def in_world_def
  intro: view_step.thing_disconnect view_step.subscribe_all view_step.unsubscribe_all\<close>)

lemma open_poster_world: "view_moves (tp_world p) (tp_world (open_poster code payload p))"
  by (simp add: open_poster_def Let_def view_moves_def view_step.token)

lemma tags_world: "view_moves (tp_world p) (tp_world (tags_perform m p))"
  by (cases "(m, p)" rule: tags_perform.cases) (simp_all add: open_poster_world)

lemma set_data_world [simp]: "tp_world (set_data f p) = tp_world p"
  by (simp add: set_data_def)

lemma report_choice:
  assumes "client_inv w" and "handleSetReported shadow w = ReportForm cr"
  shows "usable w cr"
proof -
  have "cr \<in> set (getConnConfigsByClientId (opt_get shadow ''thingId'') w)"
    using assms(2) by (auto simp: handleSetReported_def split: list.splits option.splits if_splits dest: find_SomeD)
  then have "cr \<in> set (configs_of w)" by (simp add: conf_clientId)
  with assms(1) show ?thesis by (rule listed_usable)
qed

lemma shadow_world:
  assumes "client_inv (tp_world p)" and "report_ready p"
  shows "view_moves (tp_world p) (tp_world (shadow_perform m p))"
proof (cases "(m, p)" rule: shadow_perform.cases)
  case (5 q)
  then show ?thesis
    using view_step.report [OF report_choice [OF assms(1)], of "tp_shadow p" _ "tp_shadow p" "tp_data p"]
    by (auto simp: ask_reported_def with_data_def view_moves_def split_beta split: set_reported.split)
next
  case (11 pm q)
  have "world_step (report_panel p) (publish_perform (sd_conn (tp_data p)) pm (report_panel p))"
    using assms(2) by (intro publish_world) (simp add: report_ready_def report_panel_def)
  with 11 show ?thesis by (simp add: report_back_def world_step_def view_moves_def report_panel_def)
qed (auto simp: open_poster_world)

lemma edit_poster_world [simp]: "tp_world (edit_poster k x p) = tp_world p"
  by (simp add: edit_poster_def)

lemma edit_posters_world [simp]: "tp_world (fold (edit_poster k) xs p) = tp_world p"
  by (induction xs arbitrary: p) simp_all

lemma poster_world: "view_moves (tp_world p) (tp_world (poster_perform m p))"
  by (cases m) (auto simp: open_poster_world split: prod.split)

lemma thing_world:
  assumes "client_inv (tp_world p)" and "report_ready p" and "\<And>cr. cr \<in> refs_of m \<Longrightarrow> usable (tp_world p) cr"
  shows "view_moves (tp_world p) (tp_world (thing_perform m p))"
proof (cases "(m, p)" rule: thing_perform.cases)
  case (5 k q)
  with assms(3) thing_clients_world [of k p] show ?thesis by (simp del: refs_of.simps)
qed (use assms in \<open>auto simp: tags_world shadow_world poster_world open_poster_world\<close>)

lemma neutral_world: "neutral m \<Longrightarrow> tp_world (thing_perform m p) = tp_world p"
  by (cases m rule: neutral.cases) (auto simp: report_back_def report_panel_def meta_world split: prod.split)

lemma neutrals_world: "list_all neutral ms \<Longrightarrow> tp_world (fold thing_perform ms p) = tp_world p"
  by (induction ms arbitrary: p) (auto simp: neutral_world)

lemma view_moves_app: "view_moves w v \<Longrightarrow> app_step\<^sup>*\<^sup>* w v"
  by (auto simp: view_moves_def intro: app_step.view)

lemma watched_simps [simp]: "tp_world (watched p) = tp_world p" "report_ready (watched p) = report_ready p"
  by (simp_all add: watched_def report_ready_def split: option.split)

lemma watched_usable:
  assumes "client_inv (tp_world p)" and "cr \<in> tc_config ` set (th_clients (tp_clients (watched p)))"
  shows "usable (tp_world p) cr"
proof -
  have "cr \<in> set (configs_of (tp_world p))"
    using assms(2) by (auto simp: watched_def thing_clients_watch_def Let_def thing_client_of_def conf_clientId)
  with assms(1) show ?thesis by (rule listed_usable)
qed

lemma thing_use_moves:
  assumes "client_inv (tp_world p)" and "does (thing_view fmt (watched p)) ms" and "report_ready p"
  shows "view_moves (tp_world p) (tp_world (fold thing_perform ms (watched p)))"
proof -
  let ?q = "watched p"
  note uses = thing_uses [OF assms(2)]
  show ?thesis
  proof (cases "\<exists>m. ms = [m]")
    case True
    then obtain m where m: "ms = [m]" ..
    have "view_moves (tp_world ?q) (tp_world (thing_perform m ?q))"
      using assms uses watched_usable [OF assms(1)] m by (intro thing_world) (simp_all del: refs_of.simps, blast)
    with m show ?thesis by simp
  next
    case False
    with uses have "list_all neutral ms" by (rule several_neutral)
    then show ?thesis by (simp add: neutrals_world)
  qed
qed

lemma with_data_world: "tp_world (with_data f p) = snd (f (tp_data p) (tp_world p))"
  and with_clients_world: "tp_world (with_clients g p) = snd (g (tp_clients p) (tp_world p))"
  by (simp_all add: with_data_def with_clients_def split_beta)

lemma thing_step_moves:
  assumes "thing_step p q" and "reach app_start app_step (tp_world p)"
  shows "app_step\<^sup>*\<^sup>* (tp_world p) (tp_world q)"
proof -
  have inv: "client_inv (tp_world p)" using whole.reach_inv [OF assms(2)] by blast
  have app: "app_step\<^sup>*\<^sup>* (tp_world p) (tp_world q)" if "view_step (tp_world p) (tp_world q)"
    using that by (auto intro: app_step.view)
  from assms(1) show ?thesis
  proof cases
    case (use fmt ms)
    with thing_use_moves [OF inv] view_moves_app show ?thesis by blast
  next
    case (confirm_connect cr)
    then show ?thesis by (intro app) (simp add: with_data_world view_step.report_connect)
  next
    case confirm_create
    then show ?thesis by (intro app) (simp add: with_data_world view_step.report_create)
  next
    case (client_event e)
    then show ?thesis by (intro app) (simp add: with_clients_world view_step.thing_event)
  next
    case (data_event e)
    then show ?thesis by (intro app) (simp add: with_data_world view_step.report_event)
  qed (simp_all add: fill_report_def Let_def r_into_rtranclp)
qed

definition thing_start :: "thing_page \<Rightarrow> bool" where
  "thing_start p \<longleftrightarrow> reach app_start app_step (tp_world p) \<and> tp_poster p = poster_init \<and> tp_code p = '''' \<and>
     tp_payload p = JNull \<and> tp_sent p = [] \<and> tp_tags p = [] \<and> tp_tagViewer p = viewer_closed \<and> tp_thing p = [] \<and>
     tp_asked p = None \<and> tp_rows p = [] \<and> tp_report p = publish_form_init \<and> \<not> sd_publishShown (tp_data p) \<and>
     sd_conn (tp_data p) = None \<and> th_clients (tp_clients p) = [] \<and> th_activeName (tp_clients p) = JStr '''' \<and>
     tp_route p = None"

interpretation thing_sim: safe_simulation thing_start thing_step app_start app_step tp_world "\<lambda>w. client_inv w \<and> reachable w"
  by unfold_locales (auto simp: thing_start_def thing_step_moves)


end
