(* ===== verification/PanelProps.thy ===== *)
theory PanelProps
  imports PanelSteps
begin

text \<open>
  What the panel of connections lets the user do: which operations on subscriptions it offers and
  when, that a step of it can be told from the rendered page alone, and that a subscription that is
  kept stays locked in its form as long as the card of suggestions is closed.
\<close>

section \<open>The operations offered\<close>

lemma map_eq_single: "map f xs = [y] \<longleftrightarrow> (\<exists>x. xs = [x] \<and> f x = y)"
  by (auto simp: map_eq_Cons_conv)

lemma all_do_other: "(\<And>ms. P ms) \<Longrightarrow> all_do b P ns"
  by (simp add: all_do_def all_clicks_def all_inputs_def)

text \<open>
  C7. The panel offers the operations on a subscription exactly as follows: only while no connection is
  being made and no operation is running, for the subscriptions listed of the selected connection;
  subscribing, unsubscribing and editing only while it is connected; unsubscribing what is
  subscribed, and subscribing, editing and deleting only what is not; deleting never what is kept.
\<close>

theorem panel_offers_subscriptions:
  "does (clients_view p) [InDetail (InSubs m)] \<longleftrightarrow>
    \<not> connecting (mqtt (store (pg_world p))) \<and> \<not> pg_loading p \<and>
    (\<exists>cr sh. selectedConn (pg_world p) = Some (cr, sh) \<and>
      (let up = shared_connected (pg_world p) sh in case m of
         Unsubscribe s \<Rightarrow> s \<in> set (pg_subs p) \<and> up \<and> si_subscribed s
       | Subscribe s \<Rightarrow> s \<in> set (pg_subs p) \<and> up \<and> \<not> si_subscribed s
       | ToggleFilter s \<Rightarrow> s \<in> set (pg_subs p)
       | EditSub s \<Rightarrow> s \<in> set (pg_subs p) \<and> up \<and> \<not> si_subscribed s
       | DeleteSub s \<Rightarrow> s \<in> set (pg_subs p) \<and> \<not> truthy (si_keep s) \<and> \<not> si_subscribed s))"
proof -
  let ?P = "\<lambda>ms. ms \<noteq> [InDetail (InSubs m)]"
  have inner: "(\<lambda>ms. ?P (map InDetail (map InSubs ms))) = (\<lambda>ms. ms \<noteq> [m])" by (auto simp: fun_eq_iff map_eq_single)
  have other: "all_do b (\<lambda>ms. ?P (map InDetail (map InPublish ms))) ns1"
      "all_do b (\<lambda>ms. ?P (map InDetail (map InMessages ms))) ns2"
      "all_do b (\<lambda>ms. ?P (map InDetail (map InSubsForm ms))) ns3" for b ns1 ns2 ns3
    by (rule all_do_other; auto simp: map_eq_single)+
  have "all_do False ?P (clients_view p) \<longleftrightarrow> (case selectedConn (pg_world p) of None \<Rightarrow> True | Some (cr, sh) \<Rightarrow>
      all_do (connecting (mqtt (store (pg_world p)))) (\<lambda>ms. ms \<noteq> [m])
        (subscriptions_view (pg_loading p) (shared_connected (pg_world p) sh) (pg_filter p) (pg_subs p)))"
    by (simp add: all_do_clients all_do_detail inner other Let_def split_beta del: map_map split: option.split)
  then show ?thesis
    by (cases m) (auto simp: does_iff all_do_subs Let_def split: option.split)
qed

section \<open>A subscription that is kept\<close>

lemma form_same_simps [simp]:
  "pg_form (on_publish f p) = pg_form p" "pg_form (on_world g p) = pg_form p" "pg_form (meta_opened p) = pg_form p"
  "pg_form (loading_with r p) = pg_form p" "pg_form (new_connection p) = pg_form p"
  by (simp_all add: on_publish_def on_world_def meta_opened_def loading_with_def new_connection_def Let_def)

lemma form_same_perform [simp]:
  "pg_form (meta_perform mm p) = pg_form p" "pg_form (suggestions_perform c sm p) = pg_form p"
  "pg_form (messages_perform gm p) = pg_form p" "pg_form (subs_perform cr sh um p) = pg_form p"
proof -
  show "pg_form (meta_perform mm p) = pg_form p" by (cases mm) (simp_all split: prod.split)
  show "pg_form (suggestions_perform c sm p) = pg_form p" by (cases sm) (simp_all add: Let_def split_beta)
  show "pg_form (messages_perform gm p) = pg_form p" by (cases gm) (simp_all split: prod.split)
  show "pg_form (subs_perform cr sh um p) = pg_form p" by (cases um) (simp_all add: delete_sub_def Let_def)
qed

lemma form_same_publish [simp]: "pg_form (publish_perform cr m p) = pg_form p"
  by (cases m) (auto split: option.split)

text \<open>Only the fields of the form and the card of suggestions change the form of a subscription.\<close>

fun form_message :: "clients_msg \<Rightarrow> subs_form_msg option" where
  "form_message (InDetail (InSubsForm m)) = Some m"
| "form_message _ = None"

definition edits :: "string list \<Rightarrow> clients_msg \<Rightarrow> bool" where
  "edits ks m = (case form_message m of
     Some (SubsField k x) \<Rightarrow> k \<in> set ks | Some (PickTopic t) \<Rightarrow> False | _ \<Rightarrow> True)"

lemma form_of_perform:
  assumes "edits ks m" and "k \<notin> set ks"
  shows "oget (pg_form (clients_perform m p)) k = oget (pg_form p) k"
proof (cases "form_message m")
  case None
  then have "pg_form (clients_perform m p) = pg_form p"
  proof (cases m)
    case (InDetail d)
    with None show ?thesis by (cases d) (auto simp: with_selected_def split: option.split)
  next
    case (InSize s)
    then show ?thesis by (cases s) simp
  next
    case (InViewer v)
    then show ?thesis by (cases v) simp_all
  qed simp_all
  then show ?thesis by simp
next
  case (Some fm)
  then have m: "m = InDetail (InSubsForm fm)" by (cases m rule: form_message.cases) auto
  with assms Some show ?thesis by (cases fm) (auto simp: edits_def Let_def dict_simps split: option.split)
qed

lemma form_of_uses:
  assumes "list_all (edits ks) ms" and "k \<notin> set ks"
  shows "oget (pg_form (fold clients_perform ms p)) k = oget (pg_form p) k"
  using assms(1) by (induction ms arbitrary: p) (auto simp: form_of_perform [OF _ assms(2)])

lemma locked_edits:
  assumes "does (clients_view p) ms" and "truthy (oget (pg_form p) ''keep'')" and "\<not> pg_tpls p"
  shows "list_all (edits [''qos'', ''subscriptionIdentifier'', ''nl'', ''rap'', ''rh'']) ms"
proof -
  let ?P = "\<lambda>ms. list_all (edits [''qos'', ''subscriptionIdentifier'', ''nl'', ''rap'', ''rh'']) ms"
  have other: "all_do b (\<lambda>ms. ?P (map InDetail (map InPublish ms))) ns1"
      "all_do b (\<lambda>ms. ?P (map InDetail (map InMessages ms))) ns2"
      "all_do b (\<lambda>ms. ?P (map InDetail (map InSubs ms))) ns3" for b ns1 ns2 ns3
    by (rule all_do_other; auto simp: list_all_iff edits_def)+
  have "all_do False ?P (clients_view p)"
    using assms(2,3) by (simp add: all_do_clients all_do_detail other all_do_subs_form Let_def split_beta edits_def
      del: map_map split: option.split)
  from all_doD [OF this assms(1)] show ?thesis .
qed

text \<open>
  C8. Alias and topic of a subscription that is kept cannot be changed in its form: as long as the card
  of suggestions is closed, whatever the user does with the panel leaves them, the identifier and
  the lock itself as they are. (Nothing closes the card when the form is closed, so it may still be
  open when the form is opened again for a subscription that is kept: \<open>card_breaks_lock\<close>.)
\<close>

theorem kept_subscription_locked:
  assumes "does (clients_view p) ms" and "truthy (oget (pg_form p) ''keep'')" and "\<not> pg_tpls p"
    and "k \<in> {''id'', ''name'', ''topic'', ''keep''}"
  shows "oget (pg_form (fold clients_perform ms p)) k = oget (pg_form p) k"
  using form_of_uses [OF locked_edits [OF assms(1-3)], of k p] assms(4) by auto

lemma form_offers: "does (clients_view p) [InDetail (InSubsForm m)] \<longleftrightarrow> (let w = pg_world p; fm = mqttSubsForm (layout (store w)) in
    \<not> all_do (connecting (mqtt (store w))) (\<lambda>ms. ms \<noteq> [m]) (subs_form_view (sf_visible fm)
      (conf_value w (sf_connConfig fm)) (sf_subscription fm = JNull) (pg_form p) (pg_tpls p)))"
proof -
  let ?P = "\<lambda>ms. ms \<noteq> [InDetail (InSubsForm m)]"
  have inner: "(\<lambda>ms. ?P (map InDetail (map InSubsForm ms))) = (\<lambda>ms. ms \<noteq> [m])"
    by (auto simp: fun_eq_iff map_eq_single)
  have other: "all_do b (\<lambda>ms. ?P (map InDetail (map InPublish ms))) ns1"
      "all_do b (\<lambda>ms. ?P (map InDetail (map InMessages ms))) ns2"
      "all_do b (\<lambda>ms. ?P (map InDetail (map InSubs ms))) ns3" for b ns1 ns2 ns3
    by (rule all_do_other; auto simp: map_eq_single)+
  show ?thesis
    by (simp add: does_iff all_do_clients all_do_detail inner other Let_def split_beta del: map_map split: option.split)
qed

text \<open>
  The card of suggestions stays open when the form is closed, and picking one of them changes the
  alias and the topic, locked or not.
\<close>

lemma card_breaks_lock:
  assumes "sf_visible (mqttSubsForm (layout (store (pg_world p))))" and "pg_tpls p"
    and "t \<in> set (subs_form_topics (conf_value (pg_world p) (sf_connConfig (mqttSubsForm (layout (store (pg_world p)))))))"
  shows "does (clients_view p) [InDetail (InSubsForm (PickTopic t))]"
    and "oget (pg_form (clients_perform (InDetail (InSubsForm (PickTopic t))) p)) ''topic'' = JStr (snd t)"
    and "pg_tpls (clients_perform (InDetail (InSubsForm HideSubsForm)) p)"
  using assms by (auto simp: form_offers all_do_subs_form Let_def subs_form_select_def dict_simps on_world_def)

section \<open>A panel in use\<close>

definition demo_panel :: client_page where
  "demo_panel = \<lparr>pg_world = demo_page, pg_subs = [], pg_loading = False, pg_filter = '''', pg_msgType = ''all'',
     pg_teleport = TeleportG, pg_globalVisible = True, pg_publish = publish_form_init, pg_meta = [], pg_metaRows = [],
     pg_form = subs_form_init, pg_tpls = False, pg_viewer = viewer_closed\<rparr>"

definition demo_used :: client_page where
  "demo_used = clients_perform (Operate ''connect'') (demo_panel\<lparr>pg_world := demo_ready\<rparr>)"

lemma demo_ready_conn: "selectedConn demo_ready = Some (Some 0, Some (SharedStub (JStr ''c1'')))"
  using demo_ready_selected
  by (simp add: selectedConn_def Let_def current_def getConnConfig_def demo_ready_simps demo_page_def)

lemma demo_panel_start: "panel_start demo_panel"
  by (simp add: panel_start_def demo_panel_def demo_page_start)

lemma demo_panel_loads: "panel_step demo_panel (demo_panel\<lparr>pg_world := demo_ready\<rparr>)"
proof (rule panel_step.elsewhere)
  show "app_step (pg_world demo_panel) demo_ready"
    unfolding demo_ready_def by (simp add: demo_panel_def app_step.load)
qed

lemma demo_panel_connects: "panel_step (demo_panel\<lparr>pg_world := demo_ready\<rparr>) demo_used"
proof -
  let ?p = "demo_panel\<lparr>pg_world := demo_ready\<rparr>"
  have "panel_step ?p (fold clients_perform [Operate ''connect''] ?p)"
  proof (rule panel_step.use)
    show "does (clients_view ?p) [Operate ''connect'']"
      using demo_ready_selected(4) demo_ready_conn
      by (simp add: does_iff all_do_clients Let_def shared_connected_def opts_def)
  qed
  then show ?thesis by (simp add: demo_used_def)
qed

lemma demo_used_reach: "reach panel_start panel_step demo_used"
proof -
  have "reach panel_start panel_step demo_panel" using demo_panel_start by (rule reach.start)
  then have "reach panel_start panel_step (demo_panel\<lparr>pg_world := demo_ready\<rparr>)" using demo_panel_loads by (rule reach.step)
  then show ?thesis using demo_panel_connects by (rule reach.step)
qed


definition demo_locked :: client_page where
  "demo_locked = demo_panel\<lparr>pg_world := on_lay (showMqttSubsForm (Some 0) (JObj [])) demo_ready,
     pg_form := [(''keep'', JBool True), (''topic'', JStr ''a''), (''qos'', JNum 0)]\<rparr>"

theorem kept_subscription_locked_witness:
  "oget (pg_form (fold clients_perform [InDetail (InSubsForm (SubsField ''qos'' (JNum 1)))] demo_locked)) ''topic'' = JStr ''a''"
proof -
  have "does (clients_view demo_locked) [InDetail (InSubsForm (SubsField ''qos'' (JNum 1)))]"
    by (simp add: form_offers all_do_subs_form demo_locked_def demo_panel_def on_lay_def showMqttSubsForm_def)
  from kept_subscription_locked [OF this, of "''topic''"] show ?thesis by (simp add: demo_locked_def demo_panel_def)
qed

end
