(* ===== verification/ThingProps.thy ===== *)
theory ThingProps
  imports ThingSteps PanelProps
begin

text \<open>
  What the detail view of a thing guarantees of the requests it sends: while the form for a request
  is open to remove a tag, the request it sends is the one that removes this tag.
\<close>

section \<open>The form of a request while a tag is removed\<close>

definition tags_url :: "js \<Rightarrow> string" where
  "tags_url i = ''/api/v1/things/'' @ param_or [(''id'', i)] ''id'' @ ''/shadows/tags''"

definition removing :: "thing_page \<Rightarrow> bool" where
  "removing p \<longleftrightarrow> tp_code p = ''tags'' \<and> truthy (tp_payload p)"

definition poster_ready :: "thing_page \<Rightarrow> bool" where
  "poster_ready p \<longleftrightarrow> set (po_required (tp_poster p)) \<subseteq> {''method'', ''url'', ''id'', ''name''} \<and>
     (removing p \<longrightarrow> po_params (tp_poster p) = [] \<and>
        oget (po_form (tp_poster p)) ''method'' = JStr ''put'' \<and> oget (po_form (tp_poster p)) ''id'' = tp_thingId p \<and>
        oget (po_form (tp_poster p)) ''url'' = JStr (tags_url (tp_thingId p)) \<and>
        oget (po_form (tp_poster p)) ''body'' = opt_text (json_indented 4 (tp_payload p)))"

text \<open>What the form depends on; most messages leave it alone.\<close>

definition posting :: "thing_page \<Rightarrow> string \<times> js \<times> js obj \<times> api_param list \<times> string list \<times> js" where
  "posting p = (tp_code p, tp_payload p, po_form (tp_poster p), po_params (tp_poster p), po_required (tp_poster p), tp_thingId p)"

lemma poster_ready_cong: "posting q = posting p \<Longrightarrow> poster_ready q = poster_ready p"
  by (simp add: posting_def poster_ready_def removing_def)

lemma param_required: "set (po_required (poster_param a p)) \<subseteq> insert (ap_key a) (set (po_required p))"
  by (auto simp: poster_param_def)

lemma params_required: "set (po_required (fold poster_param as p)) \<subseteq> set (po_required p) \<union> ap_key ` set as"
proof (induction as arbitrary: p)
  case (Cons a as)
  from Cons.IH [of "poster_param a p"] param_required [of a p] show ?case by auto
qed simp

lemma api_keys: "list_all (\<lambda>(k, a). set (map ap_key (api_params a)) \<subseteq> {''name''}) shadowApis"
  by (simp add: shadowApis_def)

lemma props_required: "set (po_required (poster_props code i payload uuid p)) \<subseteq> insert ''name'' (set (po_required p))"
proof (cases "olookup shadowApis code")
  case (Some a)
  then have "(code, a) \<in> set shadowApis" by (simp add: olookup_def map_of_SomeD)
  with api_keys have keys: "ap_key ` set (api_params a) \<subseteq> {''name''}" by (fastforce simp: list_all_iff)
  with Some show ?thesis
    unfolding poster_props_def Let_def by simp (rule order_trans [OF params_required], use keys in auto)
qed (auto simp: poster_props_def)

lemma tags_api: "olookup shadowApis ''tags'' = Some \<lparr>api_name = ''Set Tags'', api_method = ''put'',
      api_url = ''/api/v1/things/{id}/shadows/tags'', api_link = ''/docs/#/shadows/set-tags'',
      api_params = [],
      api_urlResolver = (\<lambda>params. ''/api/v1/things/'' @ param_or params ''id'' @ ''/shadows/tags''),
      api_payloadResolver = (\<lambda>uuid. JObj [(''tags'', JObj []), (''version'', JNum 0)])\<rparr>"
  by (simp add: shadowApis_def olookup_def)

lemma tags_props:
  assumes "truthy payload"
  shows "let q = poster_props ''tags'' i payload uuid p in po_params q = [] \<and> oget (po_form q) ''method'' = JStr ''put'' \<and>
    oget (po_form q) ''id'' = i \<and> oget (po_form q) ''url'' = JStr (tags_url i) \<and>
    oget (po_form q) ''body'' = opt_text (json_indented 4 payload)"
  using assms by (simp add: poster_props_def tags_api Let_def dict_simps tags_url_def param_or_def js_or_def)

lemma open_ready:
  assumes "poster_ready p"
  shows "poster_ready (open_poster code payload p)"
proof (cases "code = tp_code p \<and> payload = tp_payload p \<and> \<not> truthy payload")
  case True
  then have "open_poster code payload p = p" unfolding open_poster_def by (rule if_P)
  with assms show ?thesis by simp
next
  case False
  let ?q = "poster_props code (tp_thingId p) payload (fresh_uuid (tp_world p)) (tp_poster p)"
  have "set (po_required ?q) \<subseteq> {''method'', ''url'', ''id'', ''name''}"
    using props_required [of code "tp_thingId p" payload "fresh_uuid (tp_world p)" "tp_poster p"] assms
    by (auto simp: poster_ready_def)
  with False tags_props [of payload "tp_thingId p" "fresh_uuid (tp_world p)" "tp_poster p"] show ?thesis
    by (auto simp: open_poster_def Let_def poster_ready_def removing_def)
qed


section \<open>What the view does to the form\<close>

lemma keeps_ready: "posting q = posting p \<Longrightarrow> poster_ready p \<Longrightarrow> poster_ready q"
  using poster_ready_cong by blast

lemma tags_posting:
  assumes "m \<noteq> AskTags" and "\<forall>t. m \<noteq> CloseTag t"
  shows "posting (tags_perform m p) = posting p"
proof (cases m)
  case (InTagViewer v)
  then show ?thesis by (cases v) (simp_all add: posting_def)
qed (use assms in \<open>simp_all add: posting_def\<close>)

lemma tags_ready: "poster_ready p \<Longrightarrow> poster_ready (tags_perform m p)"
  by (cases "m = AskTags \<or> (\<exists>t. m = CloseTag t)") (auto simp: open_ready keeps_ready [OF tags_posting])

lemma clients_ready: "poster_ready p \<Longrightarrow> poster_ready (thing_clients_perform m p)"
  by (erule keeps_ready [rotated], cases m) (auto simp: posting_def in_world_def with_clients_def split: prod.split)

lemma shadow_posting: "\<forall>code. m \<noteq> CallApi code \<Longrightarrow> posting (shadow_perform m p) = posting p"
  by (cases "(m, p)" rule: shadow_perform.cases)
    (auto simp: posting_def set_data_def ask_reported_def with_data_def report_back_def split: set_reported.split prod.split)

lemma shadow_ready: "poster_ready p \<Longrightarrow> poster_ready (shadow_perform m p)"
  by (cases "\<exists>code. m = CallApi code") (auto simp: open_ready keeps_ready [OF shadow_posting])

text \<open>The messages that change what the form for the request holds.\<close>

fun poster_edits :: "thing_msg \<Rightarrow> bool" where
  "poster_edits (InPoster (PosterField k x)) = True"
| "poster_edits (InPoster (PosterHeaders m)) = True"
| "poster_edits (InPoster (PosterBody x)) = True"
| "poster_edits _ = False"

lemma submit_posting: "posting (poster_perform SubmitPoster p) = posting p"
  by (auto simp: posting_def poster_submit_def split: sum.split bool.split)

lemma poster_perform_ready:
  assumes "poster_ready p" and "\<not> poster_edits (InPoster m)"
  shows "poster_ready (poster_perform m p)"
proof (cases m)
  case SubmitPoster
  with assms(1) keeps_ready [OF submit_posting] show ?thesis by (simp del: poster_perform.simps)
next
  case (PosterError x)
  then have "posting (poster_perform m p) = posting p" by (simp add: posting_def)
  with assms(1) keeps_ready show ?thesis by blast
qed (use assms in \<open>simp_all add: open_ready\<close>)

lemma perform_ready:
  assumes "poster_ready p" and "\<not> poster_edits m"
  shows "poster_ready (thing_perform m p)"
proof (cases "(m, p)" rule: thing_perform.cases)
  case (1 q)
  then have "posting (thing_perform m p) = posting p" by (simp add: posting_def)
  with assms(1) keeps_ready show ?thesis by blast
next
  case (4 k b q)
  then have "posting (thing_perform m p) = posting p" by (simp add: posting_def)
  with assms(1) keeps_ready show ?thesis by blast
qed (use assms in \<open>simp_all add: open_ready tags_ready clients_ready shadow_ready poster_perform_ready\<close>)

text \<open>Changes are not offered while a tag is removed, and elsewhere they do no harm.\<close>

lemma removing_edits:
  assumes "does (thing_view fmt p) ms" and "removing p" and "poster_ready p"
  shows "list_all (\<lambda>m. \<not> poster_edits m) ms"
proof -
  let ?P = "list_all (\<lambda>m. \<not> poster_edits m)"
  have other: "all_do b (\<lambda>ms. ?P (map InFields ms)) ns1" "all_do b (\<lambda>ms. ?P (map InClients ms)) ns2"
      "all_do b (\<lambda>ms. ?P (map InTags ms)) ns3" "all_do b (\<lambda>ms. ?P (map InShadow ms)) ns4"
      "all_do b (\<lambda>ms. ?P (map InShadow (map InReportForm ms))) ns5" for b ns1 ns2 ns3 ns4 ns5
    by (rule all_do_other; simp add: list_all_iff)+
  have "all_do False ?P (thing_view fmt p)"
    using assms(2,3) by (simp add: all_do_thing other all_do_poster all_do_poster_fields removing_def poster_ready_def
      del: map_map list.map_comp)
  from all_doD [OF this assms(1)] show ?thesis .
qed

lemma edits_posting:
  "tp_code (fold (edit_poster k) vs p) = tp_code p" "tp_payload (fold (edit_poster k) vs p) = tp_payload p"
  "po_required (tp_poster (fold (edit_poster k) vs p)) = po_required (tp_poster p)"
  by (induction vs arbitrary: p) (simp_all add: edit_poster_def poster_edit_def poster_form_watch_def)

lemma edit_keeps:
  assumes "poster_edits m" and "\<not> removing p" and "poster_ready p"
  shows "\<not> removing (thing_perform m p) \<and> poster_ready (thing_perform m p)"
  using assms
  by (cases m rule: poster_edits.cases) (auto simp: removing_def poster_ready_def edits_posting
      edit_poster_def poster_edit_def poster_form_watch_def split: prod.split)


lemma neutral_keeps:
  assumes "neutral m" and "\<not> removing p" and "poster_ready p"
  shows "\<not> removing (thing_perform m p) \<and> poster_ready (thing_perform m p)"
proof (cases "poster_edits m")
  case True
  with assms edit_keeps show ?thesis by blast
next
  case False
  with assms(1) obtain k where m: "m = InShadow (InReportForm (InReport (InMeta (MetaPairs k))))"
    by (cases m rule: neutral.cases) auto
  then have "posting (thing_perform m p) = posting p" by (simp add: shadow_posting del: shadow_perform.simps)
  then have "removing (thing_perform m p) = removing p" by (simp add: posting_def removing_def)
  with assms(2) perform_ready [OF assms(3) False] show ?thesis by blast
qed

lemma neutrals_keep:
  assumes "list_all neutral ms" and "\<not> removing p" and "poster_ready p"
  shows "poster_ready (fold thing_perform ms p)"
  using assms by (induction ms arbitrary: p) (simp_all add: neutral_keeps)

lemma quiets_keep:
  assumes "list_all (\<lambda>m. \<not> poster_edits m) ms" and "poster_ready p"
  shows "poster_ready (fold thing_perform ms p)"
  using assms by (induction ms arbitrary: p) (simp_all add: perform_ready)

lemma use_ready:
  assumes "does (thing_view fmt p) ms" and "poster_ready p"
  shows "poster_ready (fold thing_perform ms p)"
proof (cases "removing p")
  case True
  from quiets_keep [OF removing_edits [OF assms(1) True assms(2)] assms(2)] show ?thesis .
next
  case False
  show ?thesis
  proof (cases "\<exists>m. ms = [m]")
    case True
    then obtain m where m: "ms = [m]" ..
    have "poster_ready (thing_perform m p)"
    proof (cases "poster_edits m")
      case True
      from edit_keeps [OF True False assms(2)] show ?thesis by (rule conjunct2)
    next
      case False
      from perform_ready [OF assms(2) False] show ?thesis .
    qed
    with m show ?thesis by simp
  next
    case other: False
    with thing_uses [OF assms(1)] have "list_all neutral ms" by (rule several_neutral)
    then show ?thesis using False assms(2) by (rule neutrals_keep)
  qed
qed

lemma thing_step_ready:
  assumes "thing_step p q" and "poster_ready p"
  shows "poster_ready q"
  using assms(1)
proof cases
  case (use fmt ms)
  have "posting (watched p) = posting p" by (simp add: posting_def watched_def)
  with assms(2) have "poster_ready (watched p)" using keeps_ready by blast
  with use use_ready show ?thesis by blast
next
  case (poster_answer ans i now rq r evs ok)
  then have "po_form r = po_form (tp_poster p) \<and> po_params r = po_params (tp_poster p) \<and> po_required r = po_required (tp_poster p)"
    by (auto simp: poster_answered_def poster_failed_def split: sum.splits)
  with poster_answer assms(2) show ?thesis by (simp add: poster_ready_def removing_def)
qed (use assms(2) in \<open>simp_all add: poster_ready_def removing_def fill_report_def Let_def with_data_def with_clients_def
  set_data_def split_beta\<close>)

lemma ready_reach: "reach thing_start thing_step p \<Longrightarrow> poster_ready p"
proof (induction rule: reach.induct)
  case (start p)
  then show ?case by (simp add: thing_start_def poster_ready_def removing_def poster_init_def)
qed (rule thing_step_ready)

text \<open>
  C9. Removing a tag of a shadow: once the user has closed a tag, and as long as the form is open for
  it, the request that it sends when submitted is a PUT on the tags of the thing whose body sets
  exactly this tag to null, whatever the form was used for before and whatever happened since.
\<close>

theorem tag_removal_request:
  assumes "reach thing_start thing_step p" and "tp_code p = ''tags''" and "tp_payload p = close_tag t"
    and "tp_thingId p = JStr i" and "i \<noteq> ''''"
  shows "tp_sent (thing_perform (InPoster SubmitPoster) p) = tp_sent p @ [
    \<lparr>pr_url = JStr (''/api/v1/things/'' @ i @ ''/shadows/tags''), pr_method = JStr ''put'',
     pr_headers = oget (po_form (tp_poster p)) ''headers'',
     pr_data = opt_text (json_indented 4 (JObj [(''tags'', JObj [(tag_key t, JNull)]), (''version'', JNum 0)]))\<rparr>]"
proof -
  have "removing p" using assms(2,3) by (simp add: removing_def close_tag_def)
  with ready_reach [OF assms(1)] have form: "po_params (tp_poster p) = []"
      "oget (po_form (tp_poster p)) ''method'' = JStr ''put''" "oget (po_form (tp_poster p)) ''id'' = tp_thingId p"
      "oget (po_form (tp_poster p)) ''url'' = JStr (tags_url (tp_thingId p))"
      "oget (po_form (tp_poster p)) ''body'' = opt_text (json_indented 4 (tp_payload p))"
      "set (po_required (tp_poster p)) \<subseteq> {''method'', ''url'', ''id'', ''name''}"
    by (auto simp: poster_ready_def)
  have url: "tags_url (tp_thingId p) = ''/api/v1/things/'' @ i @ ''/shadows/tags''"
    using assms(4,5) by (simp add: tags_url_def param_or_def oget_def olookup_def js_or_def)
  have "''api'' \<notin> set (po_required (tp_poster p))" "''headers'' \<notin> set (po_required (tp_poster p))"
      "''body'' \<notin> set (po_required (tp_poster p))"
    using form(6) by auto
  then have "poster_valid (tp_poster p)"
    using form assms(4,5) url by (simp add: poster_valid_def poster_fields_shown_def nullish_def)
  with form url assms(3) show ?thesis by (simp add: poster_submit_def close_tag_def)
qed


section \<open>A thing in use\<close>

definition demo_thing :: thing_page where
  "demo_thing = \<lparr>tp_world = demo_ready, tp_thingId = JStr ''t1'', tp_shadow = JObj [], tp_thing = [], tp_shownPass = (\<lambda>_. False),
     tp_clients = \<lparr>th_token = '''', th_activeName = JStr '''', th_clients = []\<rparr>, tp_tags = [], tp_tagViewer = viewer_closed,
     tp_tree = False, tp_data = \<lparr>sd_token = '''', sd_selectedState = JNull, sd_viewer = viewer_closed, sd_noDelta = False,
       sd_publishShown = False, sd_conn = None, sd_title = '''', sd_topic = '''', sd_payload = '''', sd_paytype = ''''\<rparr>,
     tp_state = \<lparr>sv_comparing = False, sv_content1 = '''', sv_content2 = ''''\<rparr>, tp_report = publish_form_init,
     tp_meta = [], tp_metaRows = [], tp_code = '''', tp_payload = JNull, tp_poster = poster_init, tp_rows = [],
     tp_jsonError = False, tp_globalVisible = True, tp_asked = None, tp_sent = [], tp_fromList = True, tp_route = None\<rparr>"

definition demo_tag :: tag where
  "demo_tag = \<lparr>tag_key = ''site'', tag_type = ''info'', tag_value = JStr ''A''\<rparr>"

definition demo_tagged :: thing_page where
  "demo_tagged = demo_thing\<lparr>tp_shadow := JObj [(''tags'', JObj [(''site'', JStr ''A'')])]\<rparr>"

definition demo_removing :: thing_page where
  "demo_removing = thing_perform (InTags (CloseTag demo_tag)) (watched demo_tagged)"

lemma demo_tagged_reach: "reach thing_start thing_step demo_tagged"
proof -
  have "thing_start demo_thing" by (simp add: thing_start_def demo_thing_def demo_ready_reach)
  moreover have "thing_step demo_thing demo_tagged" unfolding demo_tagged_def by (rule thing_step.shadow_answer)
  ultimately show ?thesis by (rule reach.step [OF reach.start])
qed


lemma demo_tags: "tags_watch (opt_get (tp_shadow demo_tagged) ''tags'') [] = [demo_tag]"
  by (simp add: demo_tagged_def tags_watch_def demo_tag_def convertDataTypeToTagType_def okeys_def js_or_def)

lemma demo_removing_reach: "reach thing_start thing_step demo_removing"
proof -
  let ?q = "watched demo_tagged"
  have "tp_tags ?q = [demo_tag]" using demo_tags by (simp add: watched_def demo_tagged_def demo_thing_def)
  then have "does (thing_view (\<lambda>_ _. '''') ?q) [InTags (CloseTag demo_tag)]"
    by (auto simp: does_iff all_do_thing all_do_tags)
  moreover have "report_ready demo_tagged" by (simp add: report_ready_def demo_tagged_def demo_thing_def)
  ultimately have "thing_step demo_tagged (fold thing_perform [InTags (CloseTag demo_tag)] ?q)"
    by (rule thing_step.use)
  with demo_tagged_reach show ?thesis by (auto simp: demo_removing_def intro: reach.step)
qed

theorem tag_removal_request_witness:
  "map pr_url (tp_sent (thing_perform (InPoster SubmitPoster) demo_removing)) = [JStr ''/api/v1/things/t1/shadows/tags'']"
proof -
  have "\<not> (''tags'' = tp_code (watched demo_tagged))" by (simp add: watched_def demo_tagged_def demo_thing_def)
  then have q: "tp_code demo_removing = ''tags''" "tp_payload demo_removing = close_tag demo_tag"
      "tp_thingId demo_removing = JStr ''t1''" "tp_sent demo_removing = []"
    by (simp_all add: demo_removing_def open_poster_def Let_def) (simp_all add: watched_def demo_tagged_def demo_thing_def)
  from tag_removal_request [OF demo_removing_reach q(1,2,3)] q(4) show ?thesis by simp
qed

end
