(* ===== verification/WholePage.thy ===== *)
theory WholePage
  imports ListSteps ThingProps
begin

text \<open>
  The page with its views together: the panel of connections is always there, the list view stays
  mounted, and the detail view of a thing is mounted in it while its route is shown. They share the
  store and the connections. What is proved of one view, with everything else happening around it in
  any way, holds while the others are used.
\<close>

section \<open>The views together\<close>

record whole_page =
  wh_panel :: client_page
  wh_list :: list_page
  wh_thing :: "thing_page option"

text \<open>The world that all views see.\<close>

definition wh_world :: "whole_page \<Rightarrow> vworld" where
  "wh_world s = pg_world (wh_panel s)"

definition wh_shared :: "whole_page \<Rightarrow> bool" where
  "wh_shared s \<longleftrightarrow> lp_world (wh_list s) = wh_world s \<and> (\<forall>t. wh_thing s = Some t \<longrightarrow> tp_world t = wh_world s)"

text \<open>A view changes the world for the others.\<close>

definition panel_world :: "vworld \<Rightarrow> client_page \<Rightarrow> client_page" where
  "panel_world w p = p\<lparr>pg_world := w\<rparr>"

definition list_world :: "vworld \<Rightarrow> list_page \<Rightarrow> list_page" where
  "list_world w l = l\<lparr>lp_world := w\<rparr>"

definition thing_world_set :: "vworld \<Rightarrow> thing_page \<Rightarrow> thing_page" where
  "thing_world_set w t = t\<lparr>tp_world := w\<rparr>"

inductive whole_step :: "whole_page \<Rightarrow> whole_page \<Rightarrow> bool" where
  panel: "panel_step (wh_panel s) p \<Longrightarrow> whole_step s (s\<lparr>wh_panel := p, wh_list := list_world (pg_world p) (wh_list s),
    wh_thing := map_option (thing_world_set (pg_world p)) (wh_thing s)\<rparr>)"
| list: "list_page_step (wh_list s) l \<Longrightarrow> whole_step s (s\<lparr>wh_panel := panel_world (lp_world l) (wh_panel s), wh_list := l,
    wh_thing := map_option (thing_world_set (lp_world l)) (wh_thing s)\<rparr>)"
| thing: "wh_thing s = Some t \<Longrightarrow> thing_step t u \<Longrightarrow> whole_step s (s\<lparr>wh_panel := panel_world (tp_world u) (wh_panel s),
    wh_list := list_world (tp_world u) (wh_list s), wh_thing := Some u\<rparr>)"
| open_thing_view: "thing_start t \<Longrightarrow> tp_world t = wh_world s \<Longrightarrow> whole_step s (s\<lparr>wh_thing := Some t\<rparr>)"
| leave: "whole_step s (s\<lparr>wh_thing := None\<rparr>)"

definition whole_start :: "whole_page \<Rightarrow> bool" where
  "whole_start s \<longleftrightarrow> panel_start (wh_panel s) \<and> list_page_start (wh_list s) \<and> wh_thing s = None \<and> wh_shared s"

section \<open>Each view in the page behaves as it does alone\<close>

text \<open>What happens elsewhere is among the steps of each view.\<close>

lemma panel_elsewhere:
  "app_step\<^sup>*\<^sup>* (pg_world p) w \<Longrightarrow> reach panel_start panel_step p \<Longrightarrow> reach panel_start panel_step (panel_world w p)"
proof (induction rule: rtranclp_induct)
  case (step u v)
  then have "panel_step (panel_world u p) (panel_world v p)"
    using panel_step.elsewhere [of "panel_world u p" v] by (simp add: panel_world_def)
  with step show ?case by (auto intro: reach.step)
qed (simp add: panel_world_def)

lemma list_elsewhere:
  "app_step\<^sup>*\<^sup>* (lp_world l) w \<Longrightarrow> reach list_page_start list_page_step l \<Longrightarrow> reach list_page_start list_page_step (list_world w l)"
proof (induction rule: rtranclp_induct)
  case (step u v)
  then have "list_page_step (list_world u l) (list_world v l)"
    using list_page_step.elsewhere [of "list_world u l" v] by (simp add: list_world_def)
  with step show ?case by (auto intro: reach.step)
qed (simp add: list_world_def)

lemma thing_elsewhere:
  "app_step\<^sup>*\<^sup>* (tp_world t) w \<Longrightarrow> reach thing_start thing_step t \<Longrightarrow> reach thing_start thing_step (thing_world_set w t)"
proof (induction rule: rtranclp_induct)
  case (step u v)
  then have "thing_step (thing_world_set u t) (thing_world_set v t)"
    using thing_step.elsewhere [of "thing_world_set u t" v] by (simp add: thing_world_set_def)
  with step show ?case by (auto intro: reach.step)
qed (simp add: thing_world_set_def)

definition whole_inv :: "whole_page \<Rightarrow> bool" where
  "whole_inv s \<longleftrightarrow> wh_shared s \<and> reach panel_start panel_step (wh_panel s) \<and>
     reach list_page_start list_page_step (wh_list s) \<and> (\<forall>t. wh_thing s = Some t \<longrightarrow> reach thing_start thing_step t)"

lemma worlds [simp]:
  "pg_world (panel_world w p) = w" "lp_world (list_world w l) = w" "tp_world (thing_world_set w t) = w"
  by (simp_all add: panel_world_def list_world_def thing_world_set_def)

interpretation views: step_invariant whole_start whole_step whole_inv
proof unfold_locales
  show "whole_inv s" if "whole_start s" for s
    using that by (auto simp: whole_start_def whole_inv_def intro: reach.start)
  show "whole_inv r" if "whole_inv s" and "whole_step s r" for s r
    using that(2,1)
  proof cases
    case (panel p)
    with that(1) have "app_step\<^sup>*\<^sup>* (wh_world s) (pg_world p)"
      using panel_sim.reach_moves by (auto simp: whole_inv_def wh_world_def)
    with panel that(1) show ?thesis
      by (auto simp: whole_inv_def wh_shared_def wh_world_def intro!: list_elsewhere thing_elsewhere intro: reach.step)
  next
    case (list l)
    with that(1) have "app_step\<^sup>*\<^sup>* (wh_world s) (lp_world l)"
      using client_sim.reach_moves [of "wh_list s" l] by (auto simp: whole_inv_def wh_shared_def)
    with list that(1) show ?thesis
      by (auto simp: whole_inv_def wh_shared_def wh_world_def intro!: panel_elsewhere thing_elsewhere intro: reach.step)
  next
    case (thing t u)
    with that(1) have "app_step\<^sup>*\<^sup>* (wh_world s) (tp_world u)"
      using thing_sim.reach_moves [of t u] by (auto simp: whole_inv_def wh_shared_def)
    with thing that(1) show ?thesis
      by (auto simp: whole_inv_def wh_shared_def wh_world_def intro!: panel_elsewhere list_elsewhere intro: reach.step)
  qed (auto simp: whole_inv_def wh_shared_def wh_world_def intro: reach.start)
qed


section \<open>A page in use\<close>

definition demo_whole :: whole_page where
  "demo_whole = \<lparr>wh_panel = demo_panel, wh_list = demo_list\<lparr>lp_world := pg_world demo_panel\<rparr>, wh_thing = None\<rparr>"

lemma demo_whole_start: "whole_start demo_whole"
proof -
  have "reach app_start app_step (pg_world demo_panel)"
    by (rule reach.start) (simp add: demo_panel_def demo_page_start)
  then show ?thesis
    by (simp add: demo_whole_def whole_start_def wh_shared_def wh_world_def list_page_start_def demo_list_def demo_panel_start)
qed


end
